(* ===== verification/Goway_Prelude.thy ===== *)
theory Goway_Prelude
  imports Main "HOL-Library.Word" "HOL-Library.Sublist" "HOL-Library.Char_ord"
    "HOL-Library.List_Lexorder" "HOL-Library.Multiset"
begin

text \<open>
  Shared vocabulary of the development.  A Go \<^verbatim>\<open>string\<close> is a byte sequence and is a
  \<^typ>\<open>string\<close> here, a list of 8-bit characters.  The part of the Go standard library the
  sources use on strings and on \<^verbatim>\<open>http.Header\<close> is written out below.  Case mapping and white
  space are those of ASCII; bytes from 128 up are left alone by \<^verbatim>\<open>ToLower\<close>, \<^verbatim>\<open>ToUpper\<close> and
  \<^verbatim>\<open>TrimSpace\<close>.  A fallible call returns a sum whose left side is the error.
\<close>

section \<open>Errors and results\<close>

text \<open>The sources tell one error from the others, \<^verbatim>\<open>context.DeadlineExceeded\<close>.\<close>

datatype go_error = DeadlineExceeded | Failure string

type_synonym 'a result = "go_error + 'a"

text \<open>A call whose error is returned at once.\<close>

definition Result_bind :: "'a result \<Rightarrow> ('a \<Rightarrow> 'b result) \<Rightarrow> 'b result" where
  "Result_bind x f = (case x of Inl e \<Rightarrow> Inl e | Inr a \<Rightarrow> f a)"

lemma Result_bind_iff: "Result_bind x f = Inr y \<longleftrightarrow> (\<exists>a. x = Inr a \<and> f a = Inr y)"
  by (cases x) (simp_all add: Result_bind_def)

lemma Result_bind_simps [simp]: "Result_bind (Inl e) f = Inl e" "Result_bind (Inr a) f = f a"
  by (simp_all add: Result_bind_def)

named_theorems go_str \<open>facts on the modelled string functions\<close>
named_theorems hdr \<open>facts on header maps\<close>

section \<open>Bytes\<close>

definition byte :: "char \<Rightarrow> nat" where
  "byte c = of_char c"

definition is_digit :: "char \<Rightarrow> bool" where
  "is_digit c = (48 \<le> byte c \<and> byte c \<le> 57)"

definition is_upper :: "char \<Rightarrow> bool" where
  "is_upper c = (65 \<le> byte c \<and> byte c \<le> 90)"

definition is_lower :: "char \<Rightarrow> bool" where
  "is_lower c = (97 \<le> byte c \<and> byte c \<le> 122)"

definition lower_char :: "char \<Rightarrow> char" where
  "lower_char c = (if is_upper c then char_of (byte c + 32) else c)"

definition upper_char :: "char \<Rightarrow> char" where
  "upper_char c = (if is_lower c then char_of (byte c - 32) else c)"

definition is_space :: "char \<Rightarrow> bool" where
  "is_space c = (byte c = 32 \<or> (9 \<le> byte c \<and> byte c \<le> 13))"

section \<open>The strings package\<close>

definition ToLower :: "string \<Rightarrow> string" where
  "ToLower s = map lower_char s"

definition ToUpper :: "string \<Rightarrow> string" where
  "ToUpper s = map upper_char s"

definition EqualFold :: "string \<Rightarrow> string \<Rightarrow> bool" where
  "EqualFold a b = (ToLower a = ToLower b)"

definition TrimSpace :: "string \<Rightarrow> string" where
  "TrimSpace s = rev (dropWhile is_space (rev (dropWhile is_space s)))"

fun split_on :: "char \<Rightarrow> string \<Rightarrow> string list" where
  "split_on c [] = [[]]"
| "split_on c (x # xs) =
     (if x = c then [] # split_on c xs
      else (case split_on c xs of [] \<Rightarrow> [[x]] | y # ys \<Rightarrow> (x # y) # ys))"

fun join :: "string \<Rightarrow> string list \<Rightarrow> string" where
  "join sep [] = []"
| "join sep [x] = x"
| "join sep (x # y # ys) = x @ sep @ join sep (y # ys)"

fun index_byte :: "char \<Rightarrow> string \<Rightarrow> nat option" where
  "index_byte c [] = None"
| "index_byte c (x # xs) = (if x = c then Some 0 else map_option Suc (index_byte c xs))"

definition last_index_byte :: "char \<Rightarrow> string \<Rightarrow> nat option" where
  "last_index_byte c s = map_option (\<lambda>i. length s - 1 - i) (index_byte c (rev s))"

definition TrimPrefix :: "string \<Rightarrow> string \<Rightarrow> string" where
  "TrimPrefix s p = (if prefix p s then drop (length p) s else s)"

definition TrimSuffix :: "string \<Rightarrow> string \<Rightarrow> string" where
  "TrimSuffix s p = (if suffix p s then take (length s - length p) s else s)"

definition TrimRight :: "string \<Rightarrow> char \<Rightarrow> string" where
  "TrimRight s c = rev (dropWhile (\<lambda>x. x = c) (rev s))"

section \<open>Integers\<close>

text \<open>Integer division truncates towards zero; \<^verbatim>\<open>wrap64\<close> is the value of a 64-bit signed result.\<close>

definition go_div :: "int \<Rightarrow> int \<Rightarrow> int" where
  "go_div a b = sgn a * sgn b * (\<bar>a\<bar> div \<bar>b\<bar>)"

definition wrap64 :: "int \<Rightarrow> int" where
  "wrap64 i = (i + 2 ^ 63) mod 2 ^ 64 - 2 ^ 63"

section \<open>HTTP header maps\<close>

text \<open>
  \<^verbatim>\<open>http.Header\<close> maps a canonical key to its values.  \<^verbatim>\<open>CanonicalHeaderKey\<close> upper-cases the first
  letter and every letter after a hyphen and lower-cases the others; a key with a byte outside the
  token alphabet of RFC 7230 is returned unchanged.
\<close>

type_synonym header = "string \<Rightarrow> string list option"

definition valid_header_byte :: "char \<Rightarrow> bool" where
  "valid_header_byte c =
     (is_digit c \<or> is_upper c \<or> is_lower c \<or>
      byte c \<in> {33, 35, 36, 37, 38, 39, 42, 43, 45, 46, 94, 95, 96, 124, 126})"

fun canon_from :: "bool \<Rightarrow> string \<Rightarrow> string" where
  "canon_from up [] = []"
| "canon_from up (c # cs) =
     (if up then upper_char c else lower_char c) # canon_from (c = CHR ''-'') cs"

definition CanonicalHeaderKey :: "string \<Rightarrow> string" where
  "CanonicalHeaderKey k = (if list_all valid_header_byte k then canon_from True k else k)"

definition hdr_get :: "header \<Rightarrow> string \<Rightarrow> string" where
  "hdr_get h k = (case h (CanonicalHeaderKey k) of Some (v # _) \<Rightarrow> v | _ \<Rightarrow> [])"

definition hdr_set :: "header \<Rightarrow> string \<Rightarrow> string \<Rightarrow> header" where
  "hdr_set h k v = h(CanonicalHeaderKey k \<mapsto> [v])"

definition hdr_add :: "header \<Rightarrow> string \<Rightarrow> string \<Rightarrow> header" where
  "hdr_add h k v =
     h(CanonicalHeaderKey k \<mapsto> (case h (CanonicalHeaderKey k) of None \<Rightarrow> [] | Some vs \<Rightarrow> vs) @ [v])"

definition hdr_del :: "header \<Rightarrow> string \<Rightarrow> header" where
  "hdr_del h k = h(CanonicalHeaderKey k := None)"

section \<open>Facts\<close>

lemma byte_lt: "byte c < 256"
  by (simp add: byte_def)

lemma byte_inject: "byte c = byte d \<longleftrightarrow> c = d"
  by (simp add: byte_def)

lemma byte_char_of: "n < 256 \<Longrightarrow> byte (char_of n) = n"
  by (simp add: byte_def)

lemma byte_upper_char: "byte (upper_char c) = (if is_lower c then byte c - 32 else byte c)"
  using byte_lt[of c] by (simp add: upper_char_def byte_char_of)

lemma byte_lower_char: "byte (lower_char c) = (if is_upper c then byte c + 32 else byte c)"
  by (simp add: lower_char_def byte_char_of is_upper_def)

lemma lower_char_idem [simp]: "lower_char (lower_char c) = lower_char c"
  by (simp add: byte_inject[symmetric] byte_lower_char is_upper_def)

lemma upper_char_idem [simp]: "upper_char (upper_char c) = upper_char c"
  by (auto simp: byte_inject[symmetric] byte_upper_char is_lower_def)

lemma upper_lower_char [simp]: "upper_char (lower_char c) = upper_char c"
  by (auto simp: byte_inject[symmetric] byte_upper_char byte_lower_char is_lower_def is_upper_def)

lemma lower_upper_char [simp]: "lower_char (upper_char c) = lower_char c"
  by (auto simp: byte_inject[symmetric] byte_upper_char byte_lower_char is_lower_def is_upper_def)

lemma ToLower_idem [simp]: "ToLower (ToLower s) = ToLower s"
  by (simp add: ToLower_def)

lemma ToUpper_idem [simp]: "ToUpper (ToUpper s) = ToUpper s"
  by (simp add: ToUpper_def)

lemma is_upper_upper_char: "is_lower c \<Longrightarrow> is_upper (upper_char c)"
  by (auto simp: is_upper_def is_lower_def byte_upper_char)

lemma is_lower_lower_char: "is_upper c \<Longrightarrow> is_lower (lower_char c)"
  by (auto simp: is_upper_def is_lower_def byte_lower_char)

lemma valid_header_byte_case [simp]:
  "valid_header_byte (upper_char c) = valid_header_byte c"
  "valid_header_byte (lower_char c) = valid_header_byte c"
proof -
  show "valid_header_byte (upper_char c) = valid_header_byte c"
    using is_upper_upper_char[of c] unfolding valid_header_byte_def
    by (cases "is_lower c") (simp_all add: upper_char_def)
  show "valid_header_byte (lower_char c) = valid_header_byte c"
    using is_lower_lower_char[of c] unfolding valid_header_byte_def
    by (cases "is_upper c") (simp_all add: lower_char_def)
qed

lemma byte_hyphen: "byte (CHR ''-'') = 45"
  by (simp add: byte_def)

lemma hyphen_case [simp]:
  "upper_char c = CHR ''-'' \<longleftrightarrow> c = CHR ''-''"
  "lower_char c = CHR ''-'' \<longleftrightarrow> c = CHR ''-''"
  by (auto simp: byte_inject[symmetric] byte_upper_char byte_lower_char is_lower_def is_upper_def
      byte_hyphen)

lemma canon_from_valid: "list_all valid_header_byte (canon_from up k) = list_all valid_header_byte k"
  by (induction up k rule: canon_from.induct) auto

lemma canon_from_idem: "canon_from up (canon_from up k) = canon_from up k"
  by (induction up k rule: canon_from.induct) auto

lemma canon_from_lower: "canon_from up (ToLower k) = canon_from up k"
  by (induction up k rule: canon_from.induct) (auto simp: ToLower_def)

lemma CanonicalHeaderKey_idem [simp, hdr]:
  "CanonicalHeaderKey (CanonicalHeaderKey k) = CanonicalHeaderKey k"
  by (simp add: CanonicalHeaderKey_def canon_from_valid canon_from_idem)

lemma hdr_get_set [simp, hdr]:
  "hdr_get (hdr_set h k v) k' =
     (if CanonicalHeaderKey k = CanonicalHeaderKey k' then v else hdr_get h k')"
  by (simp add: hdr_get_def hdr_set_def)

lemma dropWhile_idem: "dropWhile P (dropWhile P s) = dropWhile P s"
  by (induction s) auto

lemma TrimSpace_hd: "TrimSpace s \<noteq> [] \<Longrightarrow> \<not> is_space (hd (TrimSpace s)) \<and> \<not> is_space (last (TrimSpace s))"
proof -
  assume a: "TrimSpace s \<noteq> []"
  let ?m = "dropWhile is_space s"
  have p: "prefix (TrimSpace s) ?m"
    unfolding TrimSpace_def by (metis suffix_dropWhile suffix_to_prefix rev_rev_ident)
  then obtain zs where z: "?m = TrimSpace s @ zs" by (auto simp: prefix_def)
  then have "?m \<noteq> []" using a by (metis append_is_Nil_conv)
  moreover have "hd (TrimSpace s) = hd ?m" using z a by simp
  ultimately have "\<not> is_space (hd (TrimSpace s))" using hd_dropWhile[of is_space s] by simp
  moreover have "\<not> is_space (last (TrimSpace s))"
    using a hd_dropWhile[of is_space "rev ?m"] by (simp add: TrimSpace_def last_rev)
  ultimately show ?thesis ..
qed

lemma split_on_nonempty [simp]: "split_on c s \<noteq> []"
  by (induction c s rule: split_on.induct) (auto split: list.splits)

lemma split_on_no_sep: "x \<in> set (split_on c s) \<Longrightarrow> c \<notin> set x"
  by (induction c s arbitrary: x rule: split_on.induct) (auto split: list.splits if_splits)

lemma join_split_on: "join [c] (split_on c s) = s"
proof (induction c s rule: split_on.induct)
  case (2 c x xs)
  obtain y ys where "split_on c xs = y # ys" using split_on_nonempty[of c xs] by (meson neq_Nil_conv)
  then show ?case using 2 by (cases ys) auto
qed simp

lemma index_byte_append: "c \<notin> set a \<Longrightarrow> index_byte c (a @ c # b) = Some (length a)"
  by (induction a) auto

lemma last_index_byte_append: "c \<notin> set b \<Longrightarrow> last_index_byte c (a @ c # b) = Some (length a)"
  using index_byte_append[of c "rev b" "rev a"] by (simp add: last_index_byte_def)

lemma index_byte_None: "index_byte c a = None \<longleftrightarrow> c \<notin> set a"
  by (induction a) auto

lemma last_index_byte_None: "c \<notin> set a \<Longrightarrow> last_index_byte c a = None"
  by (simp add: last_index_byte_def index_byte_None)

lemma split_on_atom: "c \<notin> set x \<Longrightarrow> split_on c x = [x]"
  by (induction x) auto

lemma split_on_append: "c \<notin> set x \<Longrightarrow> split_on c (x @ c # s) = x # split_on c s"
  by (induction x) auto

lemma split_on_join:
  "list_all (\<lambda>x. c \<notin> set x) xs \<Longrightarrow> xs \<noteq> [] \<Longrightarrow> split_on c (join [c] xs) = xs"
  by (induction "[c]" xs rule: join.induct) (auto simp: split_on_atom split_on_append)

end
