(* ===== verification/Singleflight.thy ===== *)
theory Singleflight
  imports Goway_Prelude
begin

text \<open>
  The single-flight group of the recovery chain (\<^verbatim>\<open>internal/routing/recovery.go\<close>, \<^verbatim>\<open>do\<close>) under
  every interleaving of its callers.  A caller is a program counter; a step of the system is one
  atomic action of one caller: the first critical section, the return of \<^verbatim>\<open>fn\<close>, \<^verbatim>\<open>wg.Done\<close>, the
  second critical section, or the wake-up of a waiter.  What \<^verbatim>\<open>fn\<close> returns is chosen by the step.
\<close>

section \<open>State and steps\<close>

datatype pc =
    Enter string
  | Waiting string nat
  | Running string nat
  | Storing string nat
  | Deleting string nat
  | Returned string "string result"

record sf_state =
  inflight :: "string \<Rightarrow> nat option"
  call_val :: "nat \<Rightarrow> string result option"
  wg_done :: "nat \<Rightarrow> bool"
  call_key :: "nat \<Rightarrow> string"
  next_call :: nat
  pcs :: "pc list"

definition set_pc :: "nat \<Rightarrow> pc \<Rightarrow> sf_state \<Rightarrow> sf_state" where
  "set_pc i p s = s\<lparr> pcs := (pcs s)[i := p] \<rparr>"

text \<open>\<^verbatim>\<open>sf_do i v s\<close> runs the next action of caller \<open>i\<close>; \<open>v\<close> is what \<^verbatim>\<open>fn\<close> returns if that is the
  action.  It is \<^verbatim>\<open>None\<close> when the caller has returned or has to wait.\<close>

definition sf_do :: "nat \<Rightarrow> string result \<Rightarrow> sf_state \<Rightarrow> sf_state option" where
  "sf_do i v s =
     (if i \<ge> length (pcs s) then None else
      case pcs s ! i of
        Enter key \<Rightarrow>
          (case inflight s key of
             Some c \<Rightarrow> Some (set_pc i (Waiting key c) s)
           | None \<Rightarrow>
               (let c = next_call s in
                Some (set_pc i (Running key c)
                  (s\<lparr> inflight := (inflight s)(key \<mapsto> c), call_key := (call_key s)(c := key),
                      next_call := Suc c \<rparr>))))
      | Waiting key c \<Rightarrow>
          (if wg_done s c
           then (case call_val s c of Some r \<Rightarrow> Some (set_pc i (Returned key r) s) | None \<Rightarrow> None)
           else None)
      | Running key c \<Rightarrow>
          Some (set_pc i (Storing key c) (s\<lparr> call_val := (call_val s)(c \<mapsto> v) \<rparr>))
      | Storing key c \<Rightarrow>
          Some (set_pc i (Deleting key c) (s\<lparr> wg_done := (wg_done s)(c := True) \<rparr>))
      | Deleting key c \<Rightarrow>
          (case call_val s c of
             Some r \<Rightarrow> Some (set_pc i (Returned key r) (s\<lparr> inflight := (inflight s)(key := None) \<rparr>))
           | None \<Rightarrow> None)
      | Returned key r \<Rightarrow> None)"

definition sf_init :: "string list \<Rightarrow> sf_state" where
  "sf_init keys = \<lparr> inflight = (\<lambda>_. None), call_val = (\<lambda>_. None), wg_done = (\<lambda>_. False),
     call_key = (\<lambda>_. []), next_call = 0, pcs = map Enter keys \<rparr>"

inductive sf_reach :: "string list \<Rightarrow> sf_state \<Rightarrow> bool" for keys where
  init: "sf_reach keys (sf_init keys)"
| step: "sf_reach keys s \<Longrightarrow> sf_do i v s = Some t \<Longrightarrow> sf_reach keys t"

section \<open>Invariant\<close>

text \<open>\<open>leads p = Some (key, c)\<close>: the caller is the one that runs call \<open>c\<close>.\<close>

fun leads :: "pc \<Rightarrow> (string \<times> nat) option" where
  "leads (Running k c) = Some (k, c)"
| "leads (Storing k c) = Some (k, c)"
| "leads (Deleting k c) = Some (k, c)"
| "leads _ = None"

definition leaders :: "sf_state \<Rightarrow> (string \<times> nat) option list" where
  "leaders s = map leads (pcs s)"

text \<open>What holds of a caller at each of its program points.\<close>

fun pc_ok :: "sf_state \<Rightarrow> pc \<Rightarrow> bool" where
  "pc_ok s (Enter k) = True"
| "pc_ok s (Waiting k c) = (c < next_call s \<and> call_key s c = k)"
| "pc_ok s (Running k c) = (call_val s c = None)"
| "pc_ok s (Storing k c) = (call_val s c \<noteq> None)"
| "pc_ok s (Deleting k c) = wg_done s c"
| "pc_ok s (Returned k r) = (\<exists>c < next_call s. call_key s c = k \<and> call_val s c = Some r)"

text \<open>A leader's call is the one in flight for its key.\<close>
definition inv_leader :: "sf_state \<Rightarrow> bool" where
  "inv_leader s = (\<forall>k c. Some (k, c) \<in> set (leaders s) \<longrightarrow> inflight s k = Some c)"

text \<open>A call has one leader.\<close>
definition inv_unique :: "sf_state \<Rightarrow> bool" where
  "inv_unique s = (\<forall>i < length (leaders s). \<forall>j < length (leaders s).
     leaders s ! i = leaders s ! j \<longrightarrow> leaders s ! i \<noteq> None \<longrightarrow> i = j)"

definition inv_calls :: "sf_state \<Rightarrow> bool" where
  "inv_calls s = (\<forall>c. (wg_done s c \<longrightarrow> call_val s c \<noteq> None) \<and>
     (c \<ge> next_call s \<longrightarrow> call_val s c = None \<and> \<not> wg_done s c))"

definition inv_inflight :: "sf_state \<Rightarrow> bool" where
  "inv_inflight s = (\<forall>k c. inflight s k = Some c \<longrightarrow> c < next_call s \<and> call_key s c = k)"

text \<open>A call that is not done has a leader.\<close>
definition inv_pending :: "sf_state \<Rightarrow> bool" where
  "inv_pending s = (\<forall>c < next_call s. wg_done s c \<or> Some (call_key s c, c) \<in> set (leaders s))"

definition sf_inv :: "sf_state \<Rightarrow> bool" where
  "sf_inv s = (inv_leader s \<and> inv_unique s \<and> inv_calls s \<and> inv_inflight s \<and> inv_pending s \<and>
     list_all (pc_ok s) (pcs s))"

lemmas sf_inv_defs = sf_inv_def inv_leader_def inv_unique_def inv_calls_def inv_inflight_def
  inv_pending_def

lemma sf_inv_init: "sf_inv (sf_init keys)"
  by (auto simp: sf_inv_defs sf_init_def leaders_def list_all_iff)

lemma leaders_set_pc: "leaders (set_pc i p s) = (leaders s)[i := leads p]"
  by (simp add: leaders_def set_pc_def map_update)

lemma leaders_nth: "i < length (pcs s) \<Longrightarrow> leaders s ! i = leads (pcs s ! i)"
  by (simp add: leaders_def)

lemma leaders_same:
  "i < length (pcs s) \<Longrightarrow> leads p = leads (pcs s ! i) \<Longrightarrow> leaders (set_pc i p s) = leaders s"
  by (metis leaders_nth leaders_set_pc list_update_id)

lemma leader_mem: "i < length (pcs s) \<Longrightarrow> leads (pcs s ! i) = Some x \<Longrightarrow> Some x \<in> set (leaders s)"
  unfolding leaders_def by (metis image_eqI list.set_map nth_mem)

lemma set_pc_simps [simp]:
  "inflight (set_pc i p s) = inflight s" "call_val (set_pc i p s) = call_val s"
  "wg_done (set_pc i p s) = wg_done s" "call_key (set_pc i p s) = call_key s"
  "next_call (set_pc i p s) = next_call s" "pcs (set_pc i p s) = (pcs s)[i := p]"
  by (simp_all add: set_pc_def)

lemma leaders_fields [simp]:
  "leaders (s\<lparr> inflight := a \<rparr>) = leaders s" "leaders (s\<lparr> call_val := b \<rparr>) = leaders s"
  "leaders (s\<lparr> wg_done := d \<rparr>) = leaders s" "leaders (s\<lparr> call_key := e \<rparr>) = leaders s"
  "leaders (s\<lparr> next_call := n \<rparr>) = leaders s"
  by (simp_all add: leaders_def)

lemma list_all_update:
  "list_all P xs \<Longrightarrow> P p \<Longrightarrow> list_all P (xs[i := p])"
  by (auto simp: list_all_iff dest!: set_update_subset_insert[THEN subsetD])

lemma pc_ok_cong:
  assumes "call_val t = call_val s" "wg_done t = wg_done s" "call_key t = call_key s" "next_call t = next_call s"
  shows "pc_ok t = pc_ok s"
proof
  fix p show "pc_ok t p = pc_ok s p" using assms by (cases p) simp_all
qed

lemma sf_inv_set_pc:
  assumes "sf_inv s" "i < length (pcs s)" "leads p = leads (pcs s ! i)" "pc_ok s p"
  shows "sf_inv (set_pc i p s)"
  using assms leaders_same[OF assms(2,3)] pc_ok_cong[of "set_pc i p s" s]
  by (simp add: sf_inv_defs list_all_update)

lemma sf_inv_leaderD:
  assumes "sf_inv s" "i < length (pcs s)" "leads (pcs s ! i) = Some (k, c)"
  shows "inflight s k = Some c" "c < next_call s" "call_key s c = k"
  using assms leader_mem[OF assms(2,3)] unfolding sf_inv_defs by blast+

lemma sf_inv_uniqueD:
  assumes "sf_inv s" "i < length (pcs s)" "j < length (pcs s)"
    and "leads (pcs s ! i) = Some (k, c)" "leads (pcs s ! j) = Some (k', c')" "k = k' \<or> c = c'"
  shows "i = j"
proof -
  note a = sf_inv_leaderD[OF assms(1,2,4)] and b = sf_inv_leaderD[OF assms(1,3,5)]
  have "k = k'" using assms(6) a(3) b(3) by metis
  moreover from this have "c = c'" using a(1) b(1) by simp
  ultimately have e: "leaders s ! i = leaders s ! j" "leaders s ! i \<noteq> None"
    using assms(2-5) by (simp_all add: leaders_nth)
  have "inv_unique s" using assms(1) by (simp add: sf_inv_def)
  then show ?thesis
    using e assms(2,3) unfolding inv_unique_def by (metis leaders_def length_map)
qed

lemma sf_inv_pc: "sf_inv s \<Longrightarrow> i < length (pcs s) \<Longrightarrow> pc_ok s (pcs s ! i)"
  by (simp add: sf_inv_def list_all_length)

lemma sf_inv_finish:
  assumes "sf_inv s" "i < length (pcs s)" "pcs s ! i = Running k c"
  shows "sf_inv (set_pc i (Storing k c) (s\<lparr> call_val := (call_val s)(c \<mapsto> v) \<rparr>))" (is "sf_inv ?t")
proof -
  have ld: "leads (pcs s ! i) = Some (k, c)" using assms(3) by simp
  have "pc_ok ?t (pcs ?t ! j)" if j: "j < length (pcs s)" for j
  proof (cases "j = i")
    case False
    have r: "c' \<noteq> c" if "pcs s ! j = Running k' c'" for k' c'
      using sf_inv_uniqueD[OF assms(1) j assms(2) _ ld] that False by auto
    have n: "call_val s c = None" using sf_inv_pc[OF assms(1,2)] assms(3) by simp
    show ?thesis
      using sf_inv_pc[OF assms(1) j] r n False by (cases "pcs s ! j") auto
  qed (use j in simp)
  moreover have "leaders ?t = leaders s"
    using leaders_same[of i "s\<lparr> call_val := (call_val s)(c \<mapsto> v) \<rparr>" "Storing k c"] assms by simp
  ultimately show ?thesis
    using assms(1) sf_inv_leaderD(2)[OF assms(1,2) ld]
    by (auto simp: sf_inv_defs list_all_length)
qed

lemma sf_inv_done:
  assumes "sf_inv s" "i < length (pcs s)" "pcs s ! i = Storing k c"
  shows "sf_inv (set_pc i (Deleting k c) (s\<lparr> wg_done := (wg_done s)(c := True) \<rparr>))" (is "sf_inv ?t")
proof -
  have ld: "leads (pcs s ! i) = Some (k, c)" using assms(3) by simp
  have "pc_ok ?t (pcs ?t ! j)" if j: "j < length (pcs s)" for j
    using sf_inv_pc[OF assms(1) j] j by (cases "j = i"; cases "pcs s ! j") auto
  moreover have "leaders ?t = leaders s"
    using leaders_same[of i "s\<lparr> wg_done := (wg_done s)(c := True) \<rparr>" "Deleting k c"] assms by simp
  moreover have "call_val s c \<noteq> None" using sf_inv_pc[OF assms(1,2)] assms(3) by simp
  ultimately show ?thesis
    using assms(1) sf_inv_leaderD(2)[OF assms(1,2) ld]
    by (auto simp: sf_inv_defs list_all_length)
qed

lemma mem_leaders_update:
  assumes "i < length (pcs s)"
  shows "Some x \<in> set ((leaders s)[i := y]) \<longleftrightarrow>
     y = Some x \<or> (\<exists>j < length (pcs s). j \<noteq> i \<and> leads (pcs s ! j) = Some x)"
  using assms by (auto simp: in_set_conv_nth nth_list_update leaders_def) 

lemma mem_leaders: "Some x \<in> set (leaders s) \<longleftrightarrow> (\<exists>j < length (pcs s). leads (pcs s ! j) = Some x)"
  unfolding leaders_def by (auto simp: in_set_conv_nth simp del: set_map)

lemma sf_inv_delete:
  assumes "sf_inv s" "i < length (pcs s)" "pcs s ! i = Deleting k c" "call_val s c = Some r"
  shows "sf_inv (set_pc i (Returned k r) (s\<lparr> inflight := (inflight s)(k := None) \<rparr>))" (is "sf_inv ?t")
proof -
  have ld: "leads (pcs s ! i) = Some (k, c)" using assms(3) by simp
  note L = sf_inv_leaderD[OF assms(1,2) ld]
  have lt: "leaders ?t = (leaders s)[i := None]" by (simp add: leaders_set_pc)
  have a: "inv_leader ?t" unfolding inv_leader_def
  proof (intro allI impI)
    fix k' c' assume "Some (k', c') \<in> set (leaders ?t)"
    then obtain j where j: "j < length (pcs s)" "j \<noteq> i" "leads (pcs s ! j) = Some (k', c')"
      using lt mem_leaders_update[OF assms(2)] by auto
    then have "k' \<noteq> k" using sf_inv_uniqueD[OF assms(1) j(1) assms(2) j(3) ld] by auto
    then show "inflight ?t k' = Some c'" using sf_inv_leaderD(1)[OF assms(1) j(1,3)] by simp
  qed
  have b: "inv_unique ?t"
    using assms(1,2) lt unfolding sf_inv_def inv_unique_def
    by (auto simp: nth_list_update leaders_def split: if_splits)
  have c: "inv_pending ?t" unfolding inv_pending_def
  proof (intro allI impI)
    fix d assume d: "d < next_call ?t"
    show "wg_done ?t d \<or> Some (call_key ?t d, d) \<in> set (leaders ?t)"
    proof (cases "d = c")
      case True
      then show ?thesis using sf_inv_pc[OF assms(1,2)] assms(3) by simp
    next
      case False
      have "wg_done s d \<or> Some (call_key s d, d) \<in> set (leaders s)"
        using assms(1) d by (simp add: sf_inv_def inv_pending_def)
      moreover have "Some (call_key s d, d) \<in> set ((leaders s)[i := None])"
        if "Some (call_key s d, d) \<in> set (leaders s)"
        using that False ld mem_leaders mem_leaders_update[OF assms(2)] by fastforce
      ultimately show ?thesis using lt by auto
    qed
  qed
  have "list_all (pc_ok s) ((pcs s)[i := Returned k r])"
    using assms(1,4) L by (intro list_all_update) (auto simp: sf_inv_def)
  then have d: "list_all (pc_ok ?t) (pcs ?t)" using pc_ok_cong[of ?t s] by simp
  show ?thesis
    using a b c d assms(1) by (simp add: sf_inv_def inv_calls_def inv_inflight_def)
qed

lemma sf_inv_lead:
  assumes "sf_inv s" "i < length (pcs s)" "pcs s ! i = Enter key" "inflight s key = None"
    and "n = next_call s"
  shows "sf_inv (set_pc i (Running key n) (s\<lparr> inflight := (inflight s)(key \<mapsto> n),
           call_key := (call_key s)(n := key), next_call := Suc n \<rparr>))" (is "sf_inv ?t")
proof -
  have lt: "leaders ?t = (leaders s)[i := Some (key, n)]" by (simp add: leaders_set_pc)
  have len: "length (leaders s) = length (pcs s)" by (simp add: leaders_def)
  have old: "k' \<noteq> key \<and> c' < n" if "j < length (pcs s)" "leads (pcs s ! j) = Some (k', c')" for j k' c'
    using sf_inv_leaderD[OF assms(1) that] assms(4,5) by auto
  have a: "inv_leader ?t" unfolding inv_leader_def
  proof (intro allI impI)
    fix k' c' assume "Some (k', c') \<in> set (leaders ?t)"
    then consider "k' = key \<and> c' = n" | j where "j < length (pcs s)" "leads (pcs s ! j) = Some (k', c')"
      using lt mem_leaders_update[OF assms(2)] by auto
    then show "inflight ?t k' = Some c'"
      by cases (use old sf_inv_leaderD(1)[OF assms(1)] in auto)
  qed
  have b: "inv_unique ?t"
    unfolding inv_unique_def lt
  proof (intro allI impI)
    fix x y assume "x < length ((leaders s)[i := Some (key, n)])" "y < length ((leaders s)[i := Some (key, n)])"
      "(leaders s)[i := Some (key, n)] ! x = (leaders s)[i := Some (key, n)] ! y"
      "(leaders s)[i := Some (key, n)] ! x \<noteq> None"
    then show "x = y"
      using old[of x key n] old[of y key n] assms(1,2) len unfolding sf_inv_def inv_unique_def
      by (auto simp: nth_list_update leaders_nth split: if_splits)
  qed
  have c: "inv_pending ?t" unfolding inv_pending_def
  proof (intro allI impI)
    fix d assume d: "d < next_call ?t"
    have "Some (call_key s d, d) \<in> set ((leaders s)[i := Some (key, n)])"
      if "Some (call_key s d, d) \<in> set (leaders s)"
      using that assms(3) mem_leaders mem_leaders_update[OF assms(2)] by fastforce
    moreover have "Some (key, n) \<in> set ((leaders s)[i := Some (key, n)])"
      using assms(2) len by (simp add: set_update_memI)
    moreover have "wg_done s d \<or> Some (call_key s d, d) \<in> set (leaders s)" if "d \<noteq> n"
      using that d assms(1,5) by (simp add: sf_inv_def inv_pending_def)
    ultimately show "wg_done ?t d \<or> Some (call_key ?t d, d) \<in> set (leaders ?t)"
      using lt by (cases "d = n") auto
  qed
  have "pc_ok ?t p" if "pc_ok s p" for p
    using that assms(5) by (cases p) (auto simp: less_Suc_eq, metis nat_neq_iff)
  moreover have "call_val s n = None" using assms(1,5) by (simp add: sf_inv_def inv_calls_def)
  ultimately have d: "list_all (pc_ok ?t) (pcs ?t)"
    using assms(1) by (auto simp: sf_inv_def intro!: list_all_update elim: list.pred_mono_strong)
  show ?thesis
    using a b c d assms(1,5) by (auto simp: sf_inv_def inv_calls_def inv_inflight_def less_Suc_eq)
qed

lemma sf_inv_step:
  assumes "sf_inv s" "sf_do i v s = Some t"
  shows "sf_inv t"
proof -
  have i: "i < length (pcs s)" using assms(2) by (auto simp: sf_do_def split: if_splits)
  show ?thesis
  proof (cases "pcs s ! i")
    case (Enter key)
    show ?thesis
    proof (cases "inflight s key")
      case None
      then show ?thesis
        using assms i Enter sf_inv_lead[OF assms(1) i Enter None refl] by (simp add: sf_do_def Let_def)
    next
      case (Some c)
      then have "pc_ok s (Waiting key c)"
        using assms(1) by (simp add: sf_inv_def inv_inflight_def)
      then show ?thesis
        using assms i Enter Some sf_inv_set_pc[OF assms(1) i, of "Waiting key c"] by (simp add: sf_do_def)
    qed
  next
    case (Waiting key c)
    then obtain r where r: "call_val s c = Some r" "t = set_pc i (Returned key r) s"
      using assms(2) i by (auto simp: sf_do_def split: if_splits option.splits)
    then have "pc_ok s (Returned key r)" using sf_inv_pc[OF assms(1) i] Waiting by auto
    then show ?thesis using r sf_inv_set_pc[OF assms(1) i, of "Returned key r"] Waiting by simp
  next
    case (Running key c)
    then show ?thesis using assms(2) i sf_inv_finish[OF assms(1) i Running, of v] by (simp add: sf_do_def)
  next
    case (Storing key c)
    then show ?thesis using assms(2) i sf_inv_done[OF assms(1) i Storing] by (simp add: sf_do_def)
  next
    case (Deleting key c)
    then obtain r where r: "call_val s c = Some r"
      using assms(2) i by (auto simp: sf_do_def split: option.splits)
    then show ?thesis
      using assms(2) i Deleting sf_inv_delete[OF assms(1) i Deleting r] by (simp add: sf_do_def)
  next
    case (Returned key r)
    then show ?thesis using assms(2) i by (simp add: sf_do_def)
  qed
qed

lemma sf_reach_inv: "sf_reach keys s \<Longrightarrow> sf_inv s"
  by (induction rule: sf_reach.induct) (auto intro: sf_inv_init sf_inv_step)

section \<open>What callers can rely on\<close>

definition pc_key :: "pc \<Rightarrow> string" where
  "pc_key p = (case p of Enter k \<Rightarrow> k | Waiting k _ \<Rightarrow> k | Running k _ \<Rightarrow> k | Storing k _ \<Rightarrow> k
     | Deleting k _ \<Rightarrow> k | Returned k _ \<Rightarrow> k)"

lemma sf_do_keys: "sf_do i v s = Some t \<Longrightarrow> map pc_key (pcs t) = map pc_key (pcs s)"
  by (auto simp: sf_do_def Let_def set_pc_def pc_key_def map_update list_update_same_conv
      split: if_splits pc.splits option.splits)

lemma sf_reach_keys: "sf_reach keys s \<Longrightarrow> map pc_key (pcs s) = keys"
proof (induction rule: sf_reach.induct)
  case init
  then show ?case by (simp add: sf_init_def pc_key_def comp_def)
qed (simp add: sf_do_keys)

text \<open>
  C13: Concurrent misses are coalesced.  In every interleaving at most one caller of a key is between
  the two critical sections of \<^verbatim>\<open>do\<close>, that is, at most one history lookup per query id is running.
\<close>
theorem sf_one_leader_per_key:
  assumes "sf_reach keys s"
    and "i < length (pcs s)" and "j < length (pcs s)"
    and "leads (pcs s ! i) = Some (k, c)" and "leads (pcs s ! j) = Some (k, d)"
  shows "i = j \<and> c = d"
  using sf_inv_uniqueD[OF sf_reach_inv[OF assms(1)] assms(2-5)] assms(4,5) by auto

text \<open>
  A caller that returns has the result of a completed run of \<^verbatim>\<open>fn\<close> for its own key, whether it
  ran \<^verbatim>\<open>fn\<close> itself or waited for another caller.
\<close>
theorem sf_returned_value:
  assumes "sf_reach keys s" and "i < length keys" and "pcs s ! i = Returned k r"
  shows "k = keys ! i \<and> (\<exists>c < next_call s. call_key s c = keys ! i \<and> call_val s c = Some r)"
proof -
  have l: "i < length (pcs s)" using sf_reach_keys[OF assms(1)] assms(2) by auto
  have "pc_key (pcs s ! i) = keys ! i"
    using sf_reach_keys[OF assms(1)] l by (metis nth_map)
  then show ?thesis
    using sf_inv_pc[OF sf_reach_inv[OF assms(1)] l] assms(3) by (auto simp: pc_key_def)
qed

fun pc_rank :: "pc \<Rightarrow> nat" where
  "pc_rank (Enter _) = 4"
| "pc_rank (Running _ _) = 3"
| "pc_rank (Storing _ _) = 2"
| "pc_rank (Deleting _ _) = 1"
| "pc_rank (Waiting _ _) = 1"
| "pc_rank (Returned _ _) = 0"

definition sf_rank :: "sf_state \<Rightarrow> nat" where
  "sf_rank s = sum_list (map pc_rank (pcs s))"

lemma sum_list_update_less:
  fixes xs :: "nat list"
  shows "i < length xs \<Longrightarrow> x < xs ! i \<Longrightarrow> sum_list (xs[i := x]) < sum_list xs"
  by (induction xs arbitrary: i) (auto split: nat.splits)

lemma sf_rank_set_pc:
  "pcs s' = pcs s \<Longrightarrow> i < length (pcs s) \<Longrightarrow> pc_rank p < pc_rank (pcs s ! i) \<Longrightarrow>
    sf_rank (set_pc i p s') < sf_rank s"
  using sum_list_update_less[of i "map pc_rank (pcs s)" "pc_rank p"]
  by (simp add: sf_rank_def set_pc_def map_update)

lemma sf_do_rank: "sf_do i v s = Some t \<Longrightarrow> sf_rank t < sf_rank s"
  by (auto simp: sf_do_def Let_def split: if_splits pc.splits option.splits intro!: sf_rank_set_pc)

lemma leader_enabled:
  assumes "sf_inv s" "i < length (pcs s)" "leads (pcs s ! i) = Some x"
  shows "sf_do i v s \<noteq> None"
proof (cases "pcs s ! i")
  case (Deleting k c)
  then have "call_val s c \<noteq> None"
    using sf_inv_pc[OF assms(1,2)] assms(1) by (auto simp: sf_inv_def inv_calls_def)
  then show ?thesis using assms(2) Deleting by (auto simp: sf_do_def)
qed (use assms in \<open>auto simp: sf_do_def\<close>)

lemma sf_enabled:
  assumes "sf_inv s" "i < length (pcs s)" "\<And>k r. pcs s ! i \<noteq> Returned k r"
  shows "\<exists>j v. sf_do j v s \<noteq> None"
proof (cases "leads (pcs s ! i)")
  case (Some x)
  then show ?thesis using leader_enabled[OF assms(1,2)] by blast
next
  case None
  then consider (Enter) k where "pcs s ! i = Enter k" | (Waiting) k c where "pcs s ! i = Waiting k c"
    using assms(3) by (cases "pcs s ! i") auto
  then show ?thesis
  proof cases
  case (Enter k)
  then have "sf_do i (Inr []) s \<noteq> None"
    using assms(2) by (auto simp: sf_do_def Let_def split: option.splits)
  then show ?thesis by blast
next
  case (Waiting k c)
  then have c: "c < next_call s" using sf_inv_pc[OF assms(1,2)] by simp
  show ?thesis
  proof (cases "wg_done s c")
    case True
    then have "call_val s c \<noteq> None" using assms(1) by (simp add: sf_inv_def inv_calls_def)
    then have "sf_do i (Inr []) s \<noteq> None" using assms(2) Waiting True by (auto simp: sf_do_def)
    then show ?thesis by blast
  next
    case False
    then obtain j where "j < length (pcs s)" "leads (pcs s ! j) = Some (call_key s c, c)"
      using assms(1) c mem_leaders by (auto simp: sf_inv_def inv_pending_def)
    then show ?thesis using leader_enabled[OF assms(1)] by blast
  qed
  qed
qed

text \<open>
  C14: No caller hangs.  Every action brings the group closer to the end, and when no action is
  possible every caller has returned; so every schedule of \<open>n\<close> callers ends, after at most \<open>4 n\<close>
  actions, with all of them returned, provided \<^verbatim>\<open>fn\<close> returns.
\<close>
theorem sf_no_deadlock:
  assumes "sf_reach keys s"
  shows "(\<forall>i v t. sf_do i v s = Some t \<longrightarrow> sf_rank t < sf_rank s) \<and>
    ((\<forall>i v. sf_do i v s = None) \<longrightarrow> (\<forall>i < length keys. \<exists>r. pcs s ! i = Returned (keys ! i) r)) \<and>
    sf_rank s \<le> 4 * length keys"
proof (intro conjI allI impI)
  have len: "length (pcs s) = length keys" using sf_reach_keys[OF assms] by (metis length_map)
  fix i assume "\<forall>i v. sf_do i v s = None" "i < length keys"
  then obtain k r where "pcs s ! i = Returned k r"
    using sf_enabled[OF sf_reach_inv[OF assms], of i] len by metis
  moreover have "pc_key (pcs s ! i) = keys ! i"
    using sf_reach_keys[OF assms] len \<open>i < length keys\<close> by (metis nth_map)
  ultimately show "\<exists>r. pcs s ! i = Returned (keys ! i) r" by (simp add: pc_key_def)
next
  have "pc_rank p \<le> 4" for p by (cases p) simp_all
  then have "sum_list (map pc_rank ps) \<le> 4 * length ps" for ps
    by (induction ps) (simp_all add: add_mono)
  then show "sf_rank s \<le> 4 * length keys"
    using sf_reach_keys[OF assms] unfolding sf_rank_def by (metis length_map)
qed (rule sf_do_rank)

section \<open>A run of two callers\<close>

fun sf_run :: "(nat \<times> string result) list \<Rightarrow> sf_state \<Rightarrow> sf_state option" where
  "sf_run [] s = Some s"
| "sf_run ((i, v) # xs) s = Option.bind (sf_do i v s) (sf_run xs)"

lemma sf_run_reach: "sf_reach keys s \<Longrightarrow> sf_run xs s = Some t \<Longrightarrow> sf_reach keys t"
  by (induction xs s rule: sf_run.induct) (auto simp: bind_eq_Some_conv intro: sf_reach.step)

definition two_callers :: "nat \<Rightarrow> sf_state" where
  "two_callers n = the (sf_run (take n
     [(0, Inr []), (1, Inr []), (0, Inr ''http://b''), (0, Inr []), (1, Inr []), (0, Inr [])])
     (sf_init [''q'', ''q'']))"

lemma two_callers_run:
  "pcs (two_callers 2) = [Running ''q'' 0, Waiting ''q'' 0]"
  "pcs (two_callers 6) = [Returned ''q'' (Inr ''http://b''), Returned ''q'' (Inr ''http://b'')]"
  by (simp_all add: two_callers_def sf_init_def sf_do_def Let_def set_pc_def)

lemma two_callers_reach:
  "sf_reach [''q'', ''q''] (two_callers 2)" "sf_reach [''q'', ''q''] (two_callers 6)"
  by (rule sf_run_reach[OF sf_reach.init, where xs = "[(0, Inr []), (1, Inr [])]"],
      simp add: two_callers_def sf_init_def sf_do_def Let_def set_pc_def,
      rule sf_run_reach[OF sf_reach.init, where xs = "[(0, Inr []), (1, Inr []),
        (0, Inr ''http://b''), (0, Inr []), (1, Inr []), (0, Inr [])]"],
      simp add: two_callers_def sf_init_def sf_do_def Let_def set_pc_def)

theorem sf_one_leader_per_key_witness:
  "leads (pcs (two_callers 2) ! 0) = Some (''q'', 0) \<and> (0 :: nat) = 0 \<and> (0 :: nat) = 0"
  using sf_one_leader_per_key[OF two_callers_reach(1), of 0 0 "''q''" 0 0]
  by (simp add: two_callers_run)

theorem sf_returned_value_witness:
  "\<exists>c < next_call (two_callers 6). call_key (two_callers 6) c = ''q'' \<and>
     call_val (two_callers 6) c = Some (Inr ''http://b'')"
  using sf_returned_value[OF two_callers_reach(2), of 1 "''q''" "Inr ''http://b''"]
  by (simp add: two_callers_run)

theorem sf_no_deadlock_witness:
  "sf_rank (two_callers 6) \<le> 8"
  using sf_no_deadlock[OF two_callers_reach(2)] by simp

end
