(* ===== verification/Selectors.thy ===== *)
theory Selectors
  imports Goway_Prelude
begin

text \<open>
  The request a router sees, the messages of the external routing service and the two transports
  that ask it for a routing group (\<^verbatim>\<open>internal/routing/external_http.go\<close>, \<^verbatim>\<open>external_grpc.go\<close> and
  the \<^verbatim>\<open>RouteInput\<close> part of \<^verbatim>\<open>router.go\<close>).  The network is a parameter: a call is a function of the
  message and of a state \<open>'w\<close> of the world, and returns an answer and the next state.  Durations
  (the call timeouts) are not modelled; a timeout is one of the errors a call may answer.
\<close>

section \<open>RouteInput\<close>

text \<open>\<^verbatim>\<open>ri_Parameters = None\<close> is the nil map.  The keys of \<^verbatim>\<open>ri_headers\<close> are canonical, as
  \<^verbatim>\<open>net/http\<close> delivers them.\<close>

record RouteInput =
  ri_Method :: string
  ri_RequestURI :: string
  ri_QueryString :: string
  ri_RemoteAddr :: string
  ri_RemoteHost :: string
  ri_RemoteUser :: string
  ri_Body :: string
  ri_Parameters :: "(string \<Rightarrow> string list option) option"
  ri_headers :: header

definition Header :: "RouteInput \<Rightarrow> string \<Rightarrow> string" where
  "Header r name = hdr_get (ri_headers r) name"

text \<open>The fields of \<^verbatim>\<open>*http.Request\<close> that the gateway reads.\<close>

record http_request =
  rq_Method :: string
  rq_RequestURI :: string
  rq_RawQuery :: string
  rq_RemoteAddr :: string
  rq_Host :: string
  rq_TLS :: bool
  rq_Header :: header
  rq_Form :: "(string \<Rightarrow> string list option) option"
  rq_Path :: string
  rq_cookies :: "(string \<times> string) list"
  rq_body :: "string result"

definition NewRouteInput :: "http_request \<Rightarrow> string \<Rightarrow> RouteInput" where
  "NewRouteInput req body = \<lparr>
     ri_Method = rq_Method req,
     ri_RequestURI = rq_RequestURI req,
     ri_QueryString = rq_RawQuery req,
     ri_RemoteAddr = rq_RemoteAddr req,
     ri_RemoteHost = rq_Host req,
     ri_RemoteUser = hdr_get (rq_Header req) ''X-Trino-User'',
     ri_Body = body,
     ri_Parameters = rq_Form req,
     ri_headers = rq_Header req \<rparr>"

section \<open>Configuration of the external router\<close>

record ExternalConfig =
  ec_URL :: string
  ec_GRPCAddr :: string
  ec_ExcludeHeaders :: "string list"

definition buildExcludeSet :: "string list \<Rightarrow> string \<Rightarrow> bool" where
  "buildExcludeSet hs k = (k \<in> set (map CanonicalHeaderKey hs))"

definition nilIfEmpty :: "string \<Rightarrow> string option" where
  "nilIfEmpty s = (if s = [] then None else Some s)"

section \<open>HTTP transport\<close>

record trinoQueryProperties =
  qp_Body :: string
  qp_QueryType :: string
  qp_ResourceGroupQueryType :: string
  qp_DefaultCatalog :: "string option"
  qp_DefaultSchema :: "string option"
  qp_Catalogs :: "string list"
  qp_Schemas :: "string list"
  qp_CatalogSchemas :: "string list"
  qp_Tables :: "string list"
  qp_IsNewQuerySubmission :: bool
  qp_IsQueryParsingSuccessful :: bool
  qp_ErrorMessage :: "string option"

record trinoRequestUser =
  tu_User :: string
  tu_UserInfo :: "string option"

record routingGroupExternalBody =
  eb_TrinoQueryProperties :: "trinoQueryProperties option"
  eb_TrinoRequestUser :: "trinoRequestUser option"
  eb_ContentType :: string
  eb_RemoteUser :: "string option"
  eb_Method :: string
  eb_RequestURI :: string
  eb_QueryString :: "string option"
  eb_RemoteAddr :: "string option"
  eb_RemoteHost :: "string option"
  eb_Parameters :: "string \<Rightarrow> string list option"

text \<open>A map of response headers is an association list, in the order a \<^verbatim>\<open>range\<close> over the Go map
  visits it; \<^verbatim>\<open>None\<close> is the nil map.\<close>

record externalRouterResponse =
  er_RoutingGroup :: "string option"
  er_Errors :: "string list"
  er_ExternalHeaders :: "(string \<times> string) list option"

definition parser_unavailable :: string where
  "parser_unavailable = ''trino-parser not available in Go v1''"

definition buildExternalBody :: "RouteInput \<Rightarrow> routingGroupExternalBody" where
  "buildExternalBody req =
     (let catalog = Header req ''X-Trino-Catalog'';
          schema = Header req ''X-Trino-Schema'';
          qp = \<lparr> qp_Body = ri_Body req, qp_QueryType = [], qp_ResourceGroupQueryType = [],
                 qp_DefaultCatalog = nilIfEmpty catalog, qp_DefaultSchema = nilIfEmpty schema,
                 qp_Catalogs = [], qp_Schemas = [], qp_CatalogSchemas = [], qp_Tables = [],
                 qp_IsNewQuerySubmission = (ri_Method req = ''POST''),
                 qp_IsQueryParsingSuccessful = False,
                 qp_ErrorMessage = Some parser_unavailable \<rparr>;
          u = Header req ''X-Trino-User'';
          rtu = (if u \<noteq> [] then Some \<lparr> tu_User = u, tu_UserInfo = None \<rparr> else None)
      in \<lparr> eb_TrinoQueryProperties = Some qp, eb_TrinoRequestUser = rtu,
           eb_ContentType = ''application/json'',
           eb_RemoteUser = nilIfEmpty (ri_RemoteUser req),
           eb_Method = ri_Method req, eb_RequestURI = ri_RequestURI req,
           eb_QueryString = nilIfEmpty (ri_QueryString req),
           eb_RemoteAddr = nilIfEmpty (ri_RemoteAddr req),
           eb_RemoteHost = nilIfEmpty (ri_RemoteHost req),
           eb_Parameters = (case ri_Parameters req of None \<Rightarrow> (\<lambda>_. None) | Some p \<Rightarrow> p) \<rparr>)"

text \<open>Inbound headers are added to the outgoing ones, key by key, unless excluded.\<close>

definition forward_headers :: "(string \<Rightarrow> bool) \<Rightarrow> header \<Rightarrow> header \<Rightarrow> header" where
  "forward_headers excluded inbound base = (\<lambda>k.
     case inbound k of
       None \<Rightarrow> base k
     | Some vv \<Rightarrow>
         if excluded (CanonicalHeaderKey k) \<or> vv = [] then base k
         else Some ((case base k of None \<Rightarrow> [] | Some b \<Rightarrow> b) @ vv))"

text \<open>
  The client's \<^verbatim>\<open>Do\<close> answers a status and a body; \<open>decode\<close> stands for decoding the body's JSON into
  \<^typ>\<open>externalRouterResponse\<close>.
\<close>

type_synonym selection = "string \<times> (string \<times> string) list \<times> string list"

record 'w http_selector_ops =
  hs_Do :: "string \<Rightarrow> routingGroupExternalBody \<Rightarrow> header \<Rightarrow> 'w \<Rightarrow> (nat \<times> string) result \<times> 'w"
  hs_decode :: "string \<Rightarrow> externalRouterResponse result"

definition http_request_headers :: "ExternalConfig \<Rightarrow> RouteInput \<Rightarrow> header" where
  "http_request_headers cfg req =
     (let excluded = (\<lambda>k. buildExcludeSet (ec_ExcludeHeaders cfg) k \<or> k = ''Content-Length'')
      in forward_headers excluded (ri_headers req)
           (hdr_set (\<lambda>_. None) ''Content-Type'' ''application/json; charset=utf-8''))"

definition http_selectGroup ::
  "'w http_selector_ops \<Rightarrow> ExternalConfig \<Rightarrow> RouteInput \<Rightarrow> 'w \<Rightarrow> selection result \<times> 'w" where
  "http_selectGroup ops cfg req w =
     (if ec_URL cfg = [] then (Inr ([], [], []), w)
      else (case hs_Do ops (ec_URL cfg) (buildExternalBody req) (http_request_headers cfg req) w of
          (Inl e, w') \<Rightarrow> (Inl e, w')
        | (Inr (status, body), w') \<Rightarrow>
            if status \<noteq> 200 then (Inl (Failure ''routing: http: non-200 status''), w')
            else (case hs_decode ops body of
                Inl e \<Rightarrow> (Inl e, w')
              | Inr r \<Rightarrow>
                  (Inr (case er_RoutingGroup r of None \<Rightarrow> [] | Some g \<Rightarrow> g,
                        case er_ExternalHeaders r of None \<Rightarrow> [] | Some h \<Rightarrow> h,
                        er_Errors r), w'))))"

section \<open>gRPC transport\<close>

text \<open>The messages of the \<^verbatim>\<open>TrinoGatewayRouter\<close> service, shared with the routing service.\<close>

record pb_TrinoQueryProperties =
  pq_Body :: string
  pq_QueryType :: string
  pq_ResourceGroupQueryType :: string
  pq_DefaultCatalog :: string
  pq_DefaultSchema :: string
  pq_Catalogs :: "string list"
  pq_Schemas :: "string list"
  pq_CatalogSchemas :: "string list"
  pq_Tables :: "string list"
  pq_IsNewQuerySubmission :: bool
  pq_IsQueryParsingSuccessful :: bool
  pq_ErrorMessage :: string

record pb_RouteRequest =
  pr_TrinoQueryProperties :: "pb_TrinoQueryProperties option"
  pr_User :: "string option"
  pr_ContentType :: string
  pr_RemoteUser :: string
  pr_Method :: string
  pr_RequestUri :: string
  pr_QueryString :: string
  pr_RemoteAddr :: string
  pr_RemoteHost :: string
  pr_ParameterMap :: "string \<Rightarrow> string option"
  pr_TrinoSource :: string
  pr_ClientTags :: "string list"

record pb_RouteResponse =
  ps_RoutingGroup :: string
  ps_ExternalHeaders :: "(string \<times> string) list option"
  ps_Errors :: "string list"

definition splitClientTags :: "string \<Rightarrow> string list" where
  "splitClientTags h =
     (if h = [] then []
      else filter (\<lambda>t. t \<noteq> []) (map TrimSpace (split_on (CHR '','') h)))"

definition buildProtoRequest :: "RouteInput \<Rightarrow> pb_RouteRequest" where
  "buildProtoRequest req = \<lparr>
     pr_TrinoQueryProperties = Some \<lparr>
        pq_Body = ri_Body req, pq_QueryType = [], pq_ResourceGroupQueryType = [],
        pq_DefaultCatalog = Header req ''X-Trino-Catalog'',
        pq_DefaultSchema = Header req ''X-Trino-Schema'',
        pq_Catalogs = [], pq_Schemas = [], pq_CatalogSchemas = [], pq_Tables = [],
        pq_IsNewQuerySubmission = (ri_Method req = ''POST''),
        pq_IsQueryParsingSuccessful = False,
        pq_ErrorMessage = parser_unavailable \<rparr>,
     pr_User = Some (Header req ''X-Trino-User''),
     pr_ContentType = ''application/json'',
     pr_RemoteUser = ri_RemoteUser req,
     pr_Method = ri_Method req,
     pr_RequestUri = ri_RequestURI req,
     pr_QueryString = ri_QueryString req,
     pr_RemoteAddr = ri_RemoteAddr req,
     pr_RemoteHost = ri_RemoteHost req,
     pr_ParameterMap = (\<lambda>k. case ri_Parameters req of None \<Rightarrow> None
                             | Some p \<Rightarrow> map_option (join '','') (p k)),
     pr_TrinoSource = Header req ''X-Trino-Source'',
     pr_ClientTags = splitClientTags (Header req ''X-Trino-Client-Tags'') \<rparr>"

definition grpc_selectGroup ::
  "(pb_RouteRequest \<Rightarrow> 'w \<Rightarrow> pb_RouteResponse result \<times> 'w) \<Rightarrow> RouteInput \<Rightarrow> 'w
    \<Rightarrow> selection result \<times> 'w" where
  "grpc_selectGroup client req w =
     (case client (buildProtoRequest req) w of
        (Inl e, w') \<Rightarrow> (Inl e, w')
      | (Inr r, w') \<Rightarrow>
          (Inr (ps_RoutingGroup r,
                case ps_ExternalHeaders r of None \<Rightarrow> [] | Some h \<Rightarrow> h,
                ps_Errors r), w'))"

end
