(* ===== verification/Routing.thy ===== *)
theory Routing
  imports Selectors
begin

text \<open>
  The router of the gateway: the query cache (\<^verbatim>\<open>internal/routing/cache.go\<close>), the recovery chain
  (\<^verbatim>\<open>recovery.go\<close>, its single-flight group apart) and \<^verbatim>\<open>Router\<close> (\<^verbatim>\<open>router.go\<close>).  What the router
  calls outside the repository is a record of operations: the LRU library on a cache state \<open>'c\<close>, and
  the history table, the backend table, the probe client and the external routing service on a
  state \<open>'w\<close> of the world, which any call may change.  Logging is left out; the metrics recorder is
  the list of the events recorded so far.
\<close>

section \<open>Types\<close>

record ActiveBackend =
  ab_Name :: string
  ab_URL :: string
  ab_RoutingGroup :: string

datatype outcome = OutcomeOK | OutcomeFallback | OutcomeKillQuery | OutcomeError

record RouteResult =
  rr_BackendURL :: string
  rr_RoutingGroup :: string
  rr_ExternalHeaders :: "(string \<times> string) list"
  rr_Errors :: "string list"
  rr_Outcome :: outcome

datatype transport = TransportHTTP | TransportGRPC
datatype router_outcome = RouterOutcomeOK | RouterOutcomeTimeout | RouterOutcomeError
datatype cache_event = CacheEventHit | CacheEventMiss
datatype recovery_step = RecoveryStepHistory | RecoveryStepProbe | RecoveryStepDefault

datatype router_metric =
    RouterCall transport router_outcome
  | CacheEvent cache_event
  | RecoveryStep recovery_step
  | KillQueryRoute

record RoutingConfig =
  rc_DefaultGroup :: string
  rc_External :: ExternalConfig

record ('c, 'w) router_ops =
  lru_New :: "nat \<Rightarrow> 'c result"
  lru_Get :: "'c \<Rightarrow> string \<Rightarrow> string option \<times> 'c"
  lru_Add :: "'c \<Rightarrow> string \<Rightarrow> string \<Rightarrow> 'c"
  lru_Remove :: "'c \<Rightarrow> string \<Rightarrow> 'c"
  op_dial :: "string \<Rightarrow> unit result"
  op_LookupByQueryID :: "string \<Rightarrow> 'w \<Rightarrow> string result \<times> 'w"
  op_ListActive :: "'w \<Rightarrow> ActiveBackend list result \<times> 'w"
  op_Head :: "string \<Rightarrow> 'w \<Rightarrow> nat result \<times> 'w"
  op_completion :: "ActiveBackend list \<Rightarrow> 'w \<Rightarrow> ActiveBackend list"
  op_http :: "'w http_selector_ops"
  op_grpc :: "pb_RouteRequest \<Rightarrow> 'w \<Rightarrow> pb_RouteResponse result \<times> 'w"

record 'c router =
  rt_cfg :: RoutingConfig
  rt_cache :: 'c
  rt_metrics :: "router_metric list"

definition record_metric :: "router_metric \<Rightarrow> 'c router \<Rightarrow> 'c router" where
  "record_metric m r = r\<lparr> rt_metrics := rt_metrics r @ [m] \<rparr>"

section \<open>Query cache\<close>

definition defaultCacheSize :: nat where
  "defaultCacheSize = 4096"

definition newQueryCache :: "('c, 'w) router_ops \<Rightarrow> int \<Rightarrow> 'c result" where
  "newQueryCache ops sz = lru_New ops (if sz \<le> 0 then defaultCacheSize else nat sz)"

definition cache_get :: "('c, 'w) router_ops \<Rightarrow> string \<Rightarrow> 'c \<Rightarrow> string option \<times> 'c" where
  "cache_get ops queryID c = lru_Get ops c queryID"

definition cache_set :: "('c, 'w) router_ops \<Rightarrow> string \<Rightarrow> string \<Rightarrow> 'c \<Rightarrow> 'c" where
  "cache_set ops queryID backendURL c = lru_Add ops c queryID backendURL"

definition cache_remove :: "('c, 'w) router_ops \<Rightarrow> string \<Rightarrow> 'c \<Rightarrow> 'c" where
  "cache_remove ops queryID c = lru_Remove ops c queryID"

definition New :: "('c, 'w) router_ops \<Rightarrow> RoutingConfig \<Rightarrow> 'c router result" where
  "New ops cfg =
     (case newQueryCache ops (int defaultCacheSize) of
        Inl e \<Rightarrow> Inl e
      | Inr c \<Rightarrow>
          (case (if ec_GRPCAddr (rc_External cfg) = [] then Inr ()
                 else op_dial ops (ec_GRPCAddr (rc_External cfg))) of
             Inl e \<Rightarrow> Inl e
           | Inr _ \<Rightarrow> Inr \<lparr> rt_cfg = cfg, rt_cache = c, rt_metrics = [] \<rparr>))"

definition WriteCache ::
  "('c, 'w) router_ops \<Rightarrow> string \<Rightarrow> string \<Rightarrow> 'c router \<Rightarrow> 'c router" where
  "WriteCache ops queryID backendURL r =
     r\<lparr> rt_cache := cache_set ops queryID backendURL (rt_cache r) \<rparr>"

section \<open>Recovery chain\<close>

definition probeOne :: "('c, 'w) router_ops \<Rightarrow> string \<Rightarrow> string \<Rightarrow> 'w \<Rightarrow> bool \<times> 'w" where
  "probeOne ops baseURL queryID w =
     (case op_Head ops (baseURL @ ''/v1/query/'' @ queryID) w of
        (Inl _, w') \<Rightarrow> (False, w')
      | (Inr status, w') \<Rightarrow> (status = 200, w'))"

text \<open>
  The probes run concurrently and send on a channel as they finish.  \<open>probe_all\<close> visits the backends
  in the order \<open>op_completion\<close> of their completion and returns what the channel carries.
\<close>

fun probe_all ::
  "('c, 'w) router_ops \<Rightarrow> string \<Rightarrow> ActiveBackend list \<Rightarrow> 'w \<Rightarrow> string list \<times> 'w" where
  "probe_all ops queryID [] w = ([], w)"
| "probe_all ops queryID (b # bs) w =
     (let (ok, w1) = probeOne ops (ab_URL b) queryID w;
          (urls, w2) = probe_all ops queryID bs w1
      in (if ok then ab_URL b # urls else urls, w2))"

definition headProbeFanOut ::
  "('c, 'w) router_ops \<Rightarrow> string \<Rightarrow> ActiveBackend list \<Rightarrow> 'w \<Rightarrow> string \<times> 'w" where
  "headProbeFanOut ops queryID backends w =
     (let (ch, w') = probe_all ops queryID (op_completion ops backends w) w
      in (case filter (\<lambda>u. u \<noteq> []) ch of [] \<Rightarrow> [] | u # _ \<Rightarrow> u, w'))"

definition recoverBackend ::
  "('c, 'w) router_ops \<Rightarrow> string \<Rightarrow> 'c router \<Rightarrow> 'w \<Rightarrow> string \<times> 'c router \<times> 'w" where
  "recoverBackend ops queryID r w =
     (let (res, w1) = op_LookupByQueryID ops queryID w;
          url = (case res of Inl _ \<Rightarrow> [] | Inr u \<Rightarrow> u)
      in if url \<noteq> [] then (url, record_metric (RecoveryStep RecoveryStepHistory) r, w1)
         else (case op_ListActive ops w1 of
             (Inl _, w2) \<Rightarrow> ([], r, w2)
           | (Inr [], w2) \<Rightarrow> ([], r, w2)
           | (Inr (b # bs), w2) \<Rightarrow>
               (let (u, w3) = headProbeFanOut ops queryID (b # bs) w2
                in if u \<noteq> [] then (u, record_metric (RecoveryStep RecoveryStepProbe) r, w3)
                   else (ab_URL b, record_metric (RecoveryStep RecoveryStepDefault) r, w3))))"

section \<open>Query ids\<close>

text \<open>
  \<^verbatim>\<open>killQueryRE\<close> is \<^verbatim>\<open>(?i)KILL\s+QUERY\s+'([0-9]+_[0-9]+_[0-9]+_\w+)'\<close>.  No two neighbouring parts
  of the expression share a character, so the leftmost match is the first position at which the
  greedy scan below succeeds.  Under \<^verbatim>\<open>(?i)\<close> the letter K also matches the Kelvin sign (bytes E2 84
  AA) and \<^verbatim>\<open>\w\<close> also matches that sign and the long s (bytes C5 BF); \<^verbatim>\<open>\s\<close> is tab, line feed, form
  feed, carriage return and space.
\<close>

definition kelvin :: string where
  "kelvin = [CHR 0xE2, CHR 0x84, CHR 0xAA]"

definition long_s :: string where
  "long_s = [CHR 0xC5, CHR 0xBF]"

definition re_space :: "char \<Rightarrow> bool" where
  "re_space c = (byte c \<in> {9, 10, 12, 13, 32})"

definition re_word :: "char \<Rightarrow> bool" where
  "re_word c = (is_digit c \<or> is_upper c \<or> is_lower c \<or> c = CHR ''_'')"

fun eat_lit :: "string \<Rightarrow> string \<Rightarrow> string option" where
  "eat_lit [] s = Some s"
| "eat_lit (p # ps) [] = None"
| "eat_lit (p # ps) (c # cs) = (if upper_char c = p then eat_lit ps cs else None)"

definition eat_K :: "string \<Rightarrow> string option" where
  "eat_K s = (if prefix kelvin s then Some (drop 3 s) else eat_lit ''K'' s)"

definition eat_spaces :: "string \<Rightarrow> string option" where
  "eat_spaces s = (case s of c # cs \<Rightarrow> if re_space c then Some (dropWhile re_space cs) else None
                           | [] \<Rightarrow> None)"

definition eat_digits_us :: "string \<Rightarrow> (string \<times> string) option" where
  "eat_digits_us s =
     (let d = takeWhile is_digit s; rest = dropWhile is_digit s
      in if d \<noteq> [] \<and> rest \<noteq> [] \<and> hd rest = CHR ''_'' then Some (d @ ''_'', tl rest) else None)"

fun take_word :: "string \<Rightarrow> string" where
  "take_word [] = []"
| "take_word (c # cs) =
     (if re_word c then c # take_word cs
      else if prefix long_s (c # cs) then long_s @ take_word (drop 1 cs)
      else if prefix kelvin (c # cs) then kelvin @ take_word (drop 2 cs)
      else [])"

definition quote_char :: char where
  "quote_char = CHR 0x27"

definition kill_id_at :: "string \<Rightarrow> string option" where
  "kill_id_at s =
     (case eat_digits_us s of None \<Rightarrow> None | Some (a, s1) \<Rightarrow>
       (case eat_digits_us s1 of None \<Rightarrow> None | Some (b, s2) \<Rightarrow>
         (case eat_digits_us s2 of None \<Rightarrow> None | Some (c, s3) \<Rightarrow>
            (let w = take_word s3; rest = drop (length w) s3
             in if w \<noteq> [] \<and> rest \<noteq> [] \<and> hd rest = quote_char
                then Some (a @ b @ c @ w) else None))))"

definition kill_match_at :: "string \<Rightarrow> string option" where
  "kill_match_at s =
     Option.bind (eat_K s) (\<lambda>s1. Option.bind (eat_lit ''ILL'' s1) (\<lambda>s2.
     Option.bind (eat_spaces s2) (\<lambda>s3. Option.bind (eat_lit ''QUERY'' s3) (\<lambda>s4.
     Option.bind (eat_spaces s4) (\<lambda>s5. Option.bind (eat_lit [quote_char] s5) kill_id_at)))))"

fun extractKillQueryID :: "string \<Rightarrow> string" where
  "extractKillQueryID [] = []"
| "extractKillQueryID (c # cs) =
     (case kill_match_at (c # cs) of Some q \<Rightarrow> q | None \<Rightarrow> extractKillQueryID cs)"

definition queryPrefix :: string where
  "queryPrefix = ''/v1/query/''"

definition extractQueryID :: "RouteInput \<Rightarrow> string" where
  "extractQueryID req =
     (let uri = ri_RequestURI req in
      if length uri > length queryPrefix \<and> take (length queryPrefix) uri = queryPrefix
      then takeWhile (\<lambda>c. c \<noteq> CHR ''/'' \<and> c \<noteq> CHR ''?'') (drop (length queryPrefix) uri)
      else [])"

section \<open>Route\<close>

definition routerOutcome :: "'a result \<Rightarrow> router_outcome" where
  "routerOutcome res = (case res of Inr _ \<Rightarrow> RouterOutcomeOK
     | Inl DeadlineExceeded \<Rightarrow> RouterOutcomeTimeout
     | Inl (Failure _) \<Rightarrow> RouterOutcomeError)"

definition filterExcludedHeaders ::
  "RoutingConfig \<Rightarrow> (string \<times> string) list \<Rightarrow> (string \<times> string) list" where
  "filterExcludedHeaders cfg headers =
     (let ex = ec_ExcludeHeaders (rc_External cfg) in
      if ex = [] then headers
      else filter (\<lambda>(k, v). \<not> buildExcludeSet ex (CanonicalHeaderKey k)) headers)"

text \<open>The result of \<^verbatim>\<open>callExternal\<close> on an error has the empty grp, no headers and no messages.\<close>

definition http_call ::
  "('c, 'w) router_ops \<Rightarrow> RouteInput \<Rightarrow> 'c router \<Rightarrow> 'w \<Rightarrow> selection result \<times> 'c router \<times> 'w" where
  "http_call ops req r w =
     (let (res, w') = http_selectGroup (op_http ops) (rc_External (rt_cfg r)) req w;
          r' = record_metric (RouterCall TransportHTTP (routerOutcome res)) r
      in (map_sum id (\<lambda>(g, h, e). (g, filterExcludedHeaders (rt_cfg r) h, e)) res, r', w'))"

definition callExternal ::
  "('c, 'w) router_ops \<Rightarrow> RouteInput \<Rightarrow> 'c router \<Rightarrow> 'w \<Rightarrow> selection result \<times> 'c router \<times> 'w" where
  "callExternal ops req r w =
     (if ec_GRPCAddr (rc_External (rt_cfg r)) \<noteq> [] then
        (let (res, w1) = grpc_selectGroup (op_grpc ops) req w;
             r1 = record_metric (RouterCall TransportGRPC (routerOutcome res)) r
         in (case res of
               Inr (g, h, e) \<Rightarrow> (Inr (g, filterExcludedHeaders (rt_cfg r) h, e), r1, w1)
             | Inl _ \<Rightarrow> http_call ops req r1 w1))
      else http_call ops req r w)"

definition resolveGroup ::
  "('c, 'w) router_ops \<Rightarrow> string \<Rightarrow> 'w \<Rightarrow> string result \<times> 'w" where
  "resolveGroup ops grp w =
     (case op_ListActive ops w of
        (Inl e, w') \<Rightarrow> (Inl e, w')
      | (Inr backends, w') \<Rightarrow>
          (Inr (case find (\<lambda>b. ab_RoutingGroup b = grp) backends of
                  None \<Rightarrow> [] | Some b \<Rightarrow> ab_URL b), w'))"

definition firstActiveBackend :: "('c, 'w) router_ops \<Rightarrow> 'w \<Rightarrow> string result \<times> 'w" where
  "firstActiveBackend ops w =
     (case op_ListActive ops w of
        (Inl e, w') \<Rightarrow> (Inl e, w')
      | (Inr backends, w') \<Rightarrow> (Inr (case backends of [] \<Rightarrow> [] | b # _ \<Rightarrow> ab_URL b), w'))"

text \<open>Steps 3 to 5 of \<^verbatim>\<open>Route\<close>: the external router, the group and the fallbacks.\<close>

definition route_by_group ::
  "('c, 'w) router_ops \<Rightarrow> RouteInput \<Rightarrow> 'c router \<Rightarrow> 'w \<Rightarrow> RouteResult \<times> 'c router \<times> 'w" where
  "route_by_group ops req r w =
     (let (res, r1, w1) = callExternal ops req r w;
          (g0, extHeaders, errs) = (case res of Inl _ \<Rightarrow> ([], [], []) | Inr sel \<Rightarrow> sel);
          grp = (if g0 = [] then rc_DefaultGroup (rt_cfg r1) else g0);
          outcome = (if g0 = [] then OutcomeFallback else OutcomeOK);
          (found, w2) = resolveGroup ops grp w1;
          backendURL = (case found of Inl _ \<Rightarrow> [] | Inr u \<Rightarrow> u)
      in if backendURL \<noteq> []
         then (\<lparr> rr_BackendURL = backendURL, rr_RoutingGroup = grp,
                 rr_ExternalHeaders = extHeaders, rr_Errors = errs, rr_Outcome = outcome \<rparr>, r1, w2)
         else
           (let queryID = extractQueryID req;
                (url, r2, w3) = (if queryID \<noteq> [] then recoverBackend ops queryID r1 w2
                                 else ([], r1, w2))
            in if url \<noteq> []
               then (\<lparr> rr_BackendURL = url, rr_RoutingGroup = [], rr_ExternalHeaders = extHeaders,
                       rr_Errors = errs, rr_Outcome = OutcomeFallback \<rparr>, r2, w3)
               else
                 (let (fa, w4) = firstActiveBackend ops w3
                  in (\<lparr> rr_BackendURL = (case fa of Inl _ \<Rightarrow> [] | Inr u \<Rightarrow> u),
                        rr_RoutingGroup = grp, rr_ExternalHeaders = extHeaders,
                        rr_Errors = errs, rr_Outcome = OutcomeFallback \<rparr>, r2, w4))))"

definition route_cached ::
  "('c, 'w) router_ops \<Rightarrow> RouteInput \<Rightarrow> 'c router \<Rightarrow> 'w \<Rightarrow> RouteResult \<times> 'c router \<times> 'w" where
  "route_cached ops req r w =
     (let queryID = extractQueryID req in
      if queryID = [] then route_by_group ops req r w
      else
        (let (hit, c) = cache_get ops queryID (rt_cache r); r1 = r\<lparr> rt_cache := c \<rparr>
         in case hit of
              Some url \<Rightarrow>
                (\<lparr> rr_BackendURL = url, rr_RoutingGroup = [], rr_ExternalHeaders = [],
                   rr_Errors = [], rr_Outcome = OutcomeOK \<rparr>,
                 record_metric (CacheEvent CacheEventHit) r1, w)
            | None \<Rightarrow> route_by_group ops req (record_metric (CacheEvent CacheEventMiss) r1) w))"

definition Route ::
  "('c, 'w) router_ops \<Rightarrow> RouteInput \<Rightarrow> 'c router \<Rightarrow> 'w \<Rightarrow> RouteResult \<times> 'c router \<times> 'w" where
  "Route ops req r w =
     (let queryID = extractKillQueryID (ri_Body req);
          (url, r1, w1) = (if queryID \<noteq> [] then recoverBackend ops queryID r w else ([], r, w))
      in if url \<noteq> []
         then (\<lparr> rr_BackendURL = url, rr_RoutingGroup = [], rr_ExternalHeaders = [],
                 rr_Errors = [], rr_Outcome = OutcomeKillQuery \<rparr>,
               record_metric KillQueryRoute r1, w1)
         else route_cached ops req r1 w1)"

section \<open>The cache contract\<close>

text \<open>
  What the router relies on of the LRU library, on the operations of \<^verbatim>\<open>queryCache\<close>: \<open>contents\<close> is the
  mapping a cache holds.  A lookup answers the mapping and keeps it, a store is seen by the next
  lookup of its key and may only evict other keys.
\<close>

locale query_cache =
  fixes ops :: "('c, 'w) router_ops"
    and contents :: "'c \<Rightarrow> string \<Rightarrow> string option"
    and ok :: "'c \<Rightarrow> bool"
  assumes get_answer: "ok c \<Longrightarrow> fst (cache_get ops q c) = contents c q"
    and get_keeps: "ok c \<Longrightarrow> contents (snd (cache_get ops q c)) = contents c"
    and get_ok: "ok c \<Longrightarrow> ok (snd (cache_get ops q c))"
    and set_same: "ok c \<Longrightarrow> contents (cache_set ops q u c) q = Some u"
    and set_other: "ok c \<Longrightarrow> p \<noteq> q \<Longrightarrow>
          contents (cache_set ops q u c) p = contents c p \<or> contents (cache_set ops q u c) p = None"
    and set_ok: "ok c \<Longrightarrow> ok (cache_set ops q u c)"
begin

lemma get_after_set:
  "ok c \<Longrightarrow> fst (cache_get ops q (cache_set ops q u c)) = Some u"
  by (simp add: get_answer set_same set_ok)

lemma set_never_invents:
  assumes "ok c" "contents (cache_set ops q u c) p = Some v"
  shows "(p = q \<and> v = u) \<or> contents c p = Some v"
  using assms set_same[of c q u] set_other[of c p q u] by (cases "p = q") auto

lemma hit_by_contents:
  assumes "ok c"
  shows "cache_get ops q c = (contents c q, snd (cache_get ops q c))"
  using get_answer[OF assms, of q] by (metis prod.collapse)

end

section \<open>Facts on the helpers\<close>

lemma record_metric_simps [simp]:
  "rt_cfg (record_metric m r) = rt_cfg r"
  "rt_cache (record_metric m r) = rt_cache r"
  "rt_metrics (record_metric m r) = rt_metrics r @ [m]"
  by (simp_all add: record_metric_def)

lemma http_call_cfg: "http_call ops req r w = (res, r', w') \<Longrightarrow> rt_cfg r' = rt_cfg r"
  by (auto simp: http_call_def Let_def split: prod.splits)

lemma callExternal_cfg: "callExternal ops req r w = (res, r', w') \<Longrightarrow> rt_cfg r' = rt_cfg r"
  by (auto simp: callExternal_def http_call_def Let_def split: if_splits prod.splits sum.splits)

lemma callExternal_cache: "callExternal ops req r w = (res, r', w') \<Longrightarrow> rt_cache r' = rt_cache r"
  by (auto simp: callExternal_def http_call_def Let_def split: if_splits prod.splits sum.splits)

lemma filterExcludedHeaders_sound:
  assumes "(k, v) \<in> set (filterExcludedHeaders cfg hs)"
  shows "\<not> buildExcludeSet (ec_ExcludeHeaders (rc_External cfg)) (CanonicalHeaderKey k)"
    "(k, v) \<in> set hs"
  using assms by (auto simp: filterExcludedHeaders_def Let_def buildExcludeSet_def split: if_splits)

lemma callExternal_filtered:
  assumes "callExternal ops req r w = (Inr (g, h, e), r', w')"
  shows "\<exists>h0. h = filterExcludedHeaders (rt_cfg r) h0"
  using assms by (auto simp: callExternal_def http_call_def Let_def map_sum_def
      split: if_splits prod.splits sum.splits)

lemma probe_all_sound:
  "u \<in> set (fst (probe_all ops q bs w)) \<Longrightarrow> \<exists>b \<in> set bs. ab_URL b = u"
  by (induction ops q bs w rule: probe_all.induct)
     (auto simp: Let_def split: prod.splits if_splits)

lemma headProbeFanOut_sound:
  assumes "headProbeFanOut ops q bs w = (u, w')" "u \<noteq> []"
    and "set (op_completion ops bs w) \<subseteq> set bs"
  shows "\<exists>b \<in> set bs. ab_URL b = u"
proof -
  obtain ch where ch: "probe_all ops q (op_completion ops bs w) w = (ch, w')"
    and u: "(case filter (\<lambda>u. u \<noteq> []) ch of [] \<Rightarrow> [] | x # _ \<Rightarrow> x) = u"
    using assms(1) by (auto simp: headProbeFanOut_def split: prod.splits)
  have "u \<in> set (filter (\<lambda>u. u \<noteq> []) ch)"
    using u assms(2) by (cases "filter (\<lambda>u. u \<noteq> []) ch") simp_all
  then show ?thesis
    using probe_all_sound[of u ops q "op_completion ops bs w" w] ch assms(3) by auto
qed

section \<open>Where a backend comes from\<close>

definition history_backend :: "('c, 'w) router_ops \<Rightarrow> string \<Rightarrow> string \<Rightarrow> bool" where
  "history_backend ops q u = (\<exists>w. fst (op_LookupByQueryID ops q w) = Inr u)"

definition active_backend :: "('c, 'w) router_ops \<Rightarrow> string \<Rightarrow> bool" where
  "active_backend ops u = (\<exists>w bs b. fst (op_ListActive ops w) = Inr bs \<and> b \<in> set bs \<and> ab_URL b = u)"

definition each_probe_completes :: "('c, 'w) router_ops \<Rightarrow> bool" where
  "each_probe_completes ops = (\<forall>bs w. mset (op_completion ops bs w) = mset bs)"

lemma each_probe_completes_set:
  "each_probe_completes ops \<Longrightarrow> set (op_completion ops bs w) = set bs"
  unfolding each_probe_completes_def by (metis set_mset_mset)

lemma active_backendI:
  "op_ListActive ops w = (Inr bs, w') \<Longrightarrow> b \<in> set bs \<Longrightarrow> active_backend ops (ab_URL b)"
  unfolding active_backend_def by (metis fst_conv)

lemma history_backendI: "op_LookupByQueryID ops q w = (Inr u, w') \<Longrightarrow> history_backend ops q u"
  unfolding history_backend_def by (metis fst_conv)

lemma recoverBackend_source:
  assumes "recoverBackend ops q r w = (u, r', w')" "u \<noteq> []" "each_probe_completes ops"
  shows "history_backend ops q u \<or> active_backend ops u"
proof -
  obtain res w1 where h: "op_LookupByQueryID ops q w = (res, w1)" by fastforce
  show ?thesis
  proof (cases "res = Inr u")
    case True
    then show ?thesis using h history_backendI by metis
  next
    case False
    then have "(case res of Inl _ \<Rightarrow> [] | Inr v \<Rightarrow> v) = []"
      using assms(1,2) h by (auto simp: recoverBackend_def split: sum.splits if_splits)
    then obtain b bs w2 u3 w3 where l: "op_ListActive ops w1 = (Inr (b # bs), w2)"
      and p: "headProbeFanOut ops q (b # bs) w2 = (u3, w3)"
      and u: "u = (if u3 \<noteq> [] then u3 else ab_URL b)"
      using assms(1,2) h
      by (auto simp: recoverBackend_def split: prod.splits sum.splits list.splits if_splits)
    have "\<exists>x \<in> set (b # bs). ab_URL x = u"
      using headProbeFanOut_sound[OF p] u each_probe_completes_set[OF assms(3)]
      by (cases "u3 = []") auto
    then show ?thesis using active_backendI[OF l] by blast
  qed
qed

lemma resolveGroup_source:
  "resolveGroup ops g w = (Inr u, w') \<Longrightarrow> u \<noteq> [] \<Longrightarrow> active_backend ops u"
  by (auto simp: resolveGroup_def find_Some_iff intro!: active_backendI
      split: prod.splits sum.splits option.splits)

lemma firstActiveBackend_source:
  "firstActiveBackend ops w = (Inr u, w') \<Longrightarrow> u \<noteq> [] \<Longrightarrow> active_backend ops u"
  by (auto simp: firstActiveBackend_def intro!: active_backendI
      split: prod.splits sum.splits list.splits)

lemma route_by_group_source:
  assumes "route_by_group ops req r w = (res, r', w')" "rr_BackendURL res \<noteq> []"
    and "each_probe_completes ops"
  shows "history_backend ops (extractQueryID req) (rr_BackendURL res) \<or>
         active_backend ops (rr_BackendURL res)"
  using assms(1,2)
  by (auto simp: route_by_group_def Let_def split: prod.splits if_splits sum.splits
      dest: resolveGroup_source firstActiveBackend_source recoverBackend_source[OF _ _ assms(3)])

text \<open>
  C11: The router never invents a backend.  A backend URL that \<^verbatim>\<open>Route\<close> selects is either what the
  history answered for the query id in the statement or in the path, or the cache entry of the
  query id in the path, or the URL of a backend that the backend table listed as active during the
  call, whatever the external router, the table and the network answer and however they change.
\<close>
theorem Route_backend_source:
  assumes "each_probe_completes ops"
    and "Route ops req r w = (res, r', w')"
    and "rr_BackendURL res \<noteq> []"
  shows "history_backend ops (extractKillQueryID (ri_Body req)) (rr_BackendURL res)
       \<or> history_backend ops (extractQueryID req) (rr_BackendURL res)
       \<or> active_backend ops (rr_BackendURL res)
       \<or> fst (cache_get ops (extractQueryID req) (rt_cache r)) = Some (rr_BackendURL res)"
proof -
  obtain url r1 w1 where k: "(if extractKillQueryID (ri_Body req) \<noteq> []
      then recoverBackend ops (extractKillQueryID (ri_Body req)) r w else ([], r, w)) = (url, r1, w1)"
    by (metis prod_cases3)
  have c: "rt_cache r1 = rt_cache r"
    using k by (auto simp: recoverBackend_def record_metric_def Let_def
        split: if_splits prod.splits sum.splits list.splits)
  show ?thesis
  proof (cases "url = []")
    case False
    then show ?thesis
      using assms(2) k
      by (auto simp: Route_def Let_def split: if_splits
          dest: recoverBackend_source[OF _ False assms(1)])
  next
    case True
    then have "route_cached ops req r1 w1 = (res, r', w')"
      using assms(2) k by (simp add: Route_def Let_def)
    then show ?thesis
      using c
      by (auto simp: route_cached_def Let_def split: if_splits prod.splits option.splits
          dest: route_by_group_source[OF _ assms(3,1)])
  qed
qed

section \<open>Decisions of the router\<close>

lemma cache_get_ops_pair: "cache_get ops q c = (fst (cache_get ops q c), snd (cache_get ops q c))"
  by simp

lemma route_cached_hit:
  assumes "extractQueryID req \<noteq> []" "fst (cache_get ops (extractQueryID req) (rt_cache r)) = Some u"
  shows "fst (route_cached ops req r w) = \<lparr> rr_BackendURL = u, rr_RoutingGroup = [],
           rr_ExternalHeaders = [], rr_Errors = [], rr_Outcome = OutcomeOK \<rparr>"
    "snd (snd (route_cached ops req r w)) = w"
  using assms by (auto simp: route_cached_def Let_def split: prod.splits option.splits)

text \<open>
  C1: Routing is sticky.  Once the proxy has stored the backend of a query with \<^verbatim>\<open>WriteCache\<close>, a
  request for \<^verbatim>\<open>/v1/query/<id>\<close> that carries no KILL statement is sent to that backend, with outcome
  ok, without asking the history, the backend table, the probes or the external router (the world
  is not touched).  The hypothesis is the contract of the LRU library.
\<close>
theorem Route_sticky_after_WriteCache:
  assumes "query_cache ops contents ok" and "ok (rt_cache r)"
    and "extractQueryID req = q" and "q \<noteq> []"
    and "extractKillQueryID (ri_Body req) = []"
  shows "fst (Route ops req (WriteCache ops q u r) w) = \<lparr> rr_BackendURL = u, rr_RoutingGroup = [],
           rr_ExternalHeaders = [], rr_Errors = [], rr_Outcome = OutcomeOK \<rparr>
       \<and> snd (snd (Route ops req (WriteCache ops q u r) w)) = w"
proof -
  have "fst (cache_get ops q (rt_cache (WriteCache ops q u r))) = Some u"
    using query_cache.get_after_set[OF assms(1,2)] by (simp add: WriteCache_def)
  then show ?thesis
    using route_cached_hit[of req ops "WriteCache ops q u r" u w] assms(3-5)
    by (simp add: Route_def)
qed

text \<open>
  A KILL QUERY statement goes to the backend the history names for the query to kill, whatever
  the cache and the external router would answer, and only the history is asked.
\<close>
theorem Route_kill_query:
  assumes "extractKillQueryID (ri_Body req) = q" and "q \<noteq> []"
    and "op_LookupByQueryID ops q w = (Inr u, w1)" and "u \<noteq> []"
  shows "Route ops req r w =
    (\<lparr> rr_BackendURL = u, rr_RoutingGroup = [], rr_ExternalHeaders = [], rr_Errors = [],
       rr_Outcome = OutcomeKillQuery \<rparr>,
     r\<lparr> rt_metrics := rt_metrics r @ [RecoveryStep RecoveryStepHistory, KillQueryRoute] \<rparr>, w1)"
  using assms by (simp add: Route_def recoverBackend_def record_metric_def)

text \<open>
  When the external router names a group with an active backend, the request goes to the first
  active backend of that group, and the result carries the group, the router's messages and its
  headers.
\<close>
theorem Route_external_group:
  assumes "extractKillQueryID (ri_Body req) = []" and "extractQueryID req = []"
    and "callExternal ops req r w = (Inr (g, h, e), r1, w1)" and "g \<noteq> []"
    and "op_ListActive ops w1 = (Inr (pre @ b # post), w2)"
    and "\<forall>x \<in> set pre. ab_RoutingGroup x \<noteq> g" and "ab_RoutingGroup b = g" and "ab_URL b \<noteq> []"
  shows "Route ops req r w =
    (\<lparr> rr_BackendURL = ab_URL b, rr_RoutingGroup = g, rr_ExternalHeaders = h, rr_Errors = e,
       rr_Outcome = OutcomeOK \<rparr>, r1, w2)"
proof -
  have "find (\<lambda>x. ab_RoutingGroup x = g) (pre @ b # post) = Some b"
    using assms(6,7) by (induction pre) auto
  then show ?thesis
    using assms by (simp add: Route_def route_cached_def route_by_group_def resolveGroup_def)
qed

text \<open>
  The external router is never a point of failure.  If every transport fails, the request goes
  to the first active backend of the default group, with outcome fallback, no injected headers and
  no error messages.
\<close>
theorem Route_external_failure:
  assumes "extractKillQueryID (ri_Body req) = []" and "extractQueryID req = []"
    and "callExternal ops req r w = (Inl err, r1, w1)"
    and "op_ListActive ops w1 = (Inr bs, w2)"
    and "find (\<lambda>b. ab_RoutingGroup b = rc_DefaultGroup (rt_cfg r)) bs = Some b" and "ab_URL b \<noteq> []"
  shows "Route ops req r w =
    (\<lparr> rr_BackendURL = ab_URL b, rr_RoutingGroup = rc_DefaultGroup (rt_cfg r),
       rr_ExternalHeaders = [], rr_Errors = [], rr_Outcome = OutcomeFallback \<rparr>, r1, w2)"
  using assms callExternal_cfg[OF assms(3)]
  by (simp add: Route_def route_cached_def route_by_group_def resolveGroup_def)

lemma recoverBackend_keeps:
  assumes "recoverBackend ops q r w = (u, r', w')"
  shows "rt_cache r' = rt_cache r" "rt_cfg r' = rt_cfg r"
  using assms
  by (auto simp: recoverBackend_def Let_def split: if_splits prod.splits sum.splits list.splits)

lemma Route_cases:
  obtains (kill) u where "u \<noteq> []" "fst (Route ops req r w) = \<lparr> rr_BackendURL = u,
      rr_RoutingGroup = [], rr_ExternalHeaders = [], rr_Errors = [], rr_Outcome = OutcomeKillQuery \<rparr>"
  | (other) r1 w1 where "rt_cache r1 = rt_cache r" "rt_cfg r1 = rt_cfg r"
      "Route ops req r w = route_cached ops req r1 w1"
proof -
  obtain u r1 w1 where k: "(if extractKillQueryID (ri_Body req) \<noteq> []
      then recoverBackend ops (extractKillQueryID (ri_Body req)) r w else ([], r, w)) = (u, r1, w1)"
    by (metis prod_cases3)
  have "rt_cache r1 = rt_cache r" "rt_cfg r1 = rt_cfg r"
    using k recoverBackend_keeps by (auto split: if_splits)
  then show thesis
    using kill[of u] other[of r1 w1] k by (cases "u = []") (simp_all add: Route_def)
qed

lemma route_cached_cases:
  obtains (hit) u where "fst (cache_get ops (extractQueryID req) (rt_cache r)) = Some u"
      "fst (route_cached ops req r w) = \<lparr> rr_BackendURL = u,
      rr_RoutingGroup = [], rr_ExternalHeaders = [], rr_Errors = [], rr_Outcome = OutcomeOK \<rparr>"
  | (miss) r1 where "rt_cfg r1 = rt_cfg r" "route_cached ops req r w = route_by_group ops req r1 w"
proof (cases "extractQueryID req = []")
  case True
  then show thesis using miss[of r] by (simp add: route_cached_def)
next
  case False
  obtain h c where g: "cache_get ops (extractQueryID req) (rt_cache r) = (h, c)" by fastforce
  show thesis
  proof (cases h)
    case None
    then show thesis
      using miss[of "record_metric (CacheEvent CacheEventMiss) (r\<lparr> rt_cache := c \<rparr>)"] False g
      by (simp add: route_cached_def)
  next
    case (Some u)
    then show thesis using hit[of u] False g by (simp add: route_cached_def)
  qed
qed

lemma route_by_group_shape:
  obtains w3 h where
    "rr_BackendURL (fst (route_by_group ops req r w)) \<noteq> [] \<or>
     rr_BackendURL (fst (route_by_group ops req r w)) =
       (case fst (firstActiveBackend ops w3) of Inl _ \<Rightarrow> [] | Inr u \<Rightarrow> u)"
    "rr_ExternalHeaders (fst (route_by_group ops req r w)) = filterExcludedHeaders (rt_cfg r) h"
proof -
  obtain res r1 w1 where a: "callExternal ops req r w = (res, r1, w1)" by (metis prod_cases3)
  obtain g0 h e where b: "(case res of Inl _ \<Rightarrow> ([], [], []) | Inr sel \<Rightarrow> sel) = (g0, h, e)"
    by (metis prod_cases3)
  let ?g = "if g0 = [] then rc_DefaultGroup (rt_cfg r1) else g0"
  obtain found w2 where c: "resolveGroup ops ?g w1 = (found, w2)" by fastforce
  obtain url r2 w3 where d: "(if extractQueryID req \<noteq> [] then recoverBackend ops (extractQueryID req) r1 w2
      else ([], r1, w2)) = (url, r2, w3)" by (metis prod_cases3)
  obtain fa w4 where f: "firstActiveBackend ops w3 = (fa, w4)" by fastforce
  have "\<exists>h0. h = filterExcludedHeaders (rt_cfg r) h0"
    using callExternal_filtered[of ops req r w _ _ _ r1 w1] a b
    by (cases res) (auto simp: filterExcludedHeaders_def Let_def intro: exI[of _ "[]"])
  then obtain h0 where h: "h = filterExcludedHeaders (rt_cfg r) h0" ..
  let ?rr = "fst (route_by_group ops req r w)"
  have x: "rr_ExternalHeaders ?rr = h"
    using a b c d f unfolding route_by_group_def
    by (cases "extractQueryID req = []"; cases "g0 = []"; cases found) (auto simp: Let_def)
  have y: "rr_BackendURL ?rr \<noteq> [] \<or> rr_BackendURL ?rr = (case fa of Inl _ \<Rightarrow> [] | Inr u \<Rightarrow> u)"
    using a b c d f unfolding route_by_group_def
    by (cases "extractQueryID req = []"; cases "g0 = []"; cases found) (auto simp: Let_def)
  show thesis
    using that[of w3 h0] x y h f by simp
qed

lemma route_by_group_available:
  assumes "\<forall>w. \<exists>b bs w'. op_ListActive ops w = (Inr (b # bs), w') \<and> ab_URL b \<noteq> []"
  shows "rr_BackendURL (fst (route_by_group ops req r w)) \<noteq> []"
proof (rule route_by_group_shape[of ops req r w])
  fix w3
  have "(case fst (firstActiveBackend ops w3) of Inl _ \<Rightarrow> [] | Inr u \<Rightarrow> u) \<noteq> []"
    using assms[rule_format, of w3] by (auto simp: firstActiveBackend_def)
  then show "rr_BackendURL (fst (route_by_group ops req r w)) \<noteq> [] \<or>
     rr_BackendURL (fst (route_by_group ops req r w)) =
       (case fst (firstActiveBackend ops w3) of Inl _ \<Rightarrow> [] | Inr u \<Rightarrow> u) \<Longrightarrow> ?thesis" by auto
qed

text \<open>
  C12: Availability.  As long as the backend table answers a non-empty list of active backends whose
  first one has a URL, every request is routed to some backend, whatever the history, the probes
  and the external router answer; only an empty URL stored in the cache could prevent it.
\<close>
theorem Route_available:
  assumes "\<forall>w. \<exists>b bs w'. op_ListActive ops w = (Inr (b # bs), w') \<and> ab_URL b \<noteq> []"
    and "fst (cache_get ops (extractQueryID req) (rt_cache r)) \<noteq> Some []"
  shows "rr_BackendURL (fst (Route ops req r w)) \<noteq> []"
proof (cases rule: Route_cases[of ops req r w])
  case (kill u)
  then show ?thesis by simp
next
  case (other r1 w1)
  then show ?thesis
    using assms(2) route_by_group_available[OF assms(1)]
    by (cases rule: route_cached_cases[of ops req r1 w1]) auto
qed

text \<open>
  A header named in \<^verbatim>\<open>excludeHeaders\<close>, in any case, is never among the headers that the router
  hands to the proxy for injection.
\<close>
theorem Route_excluded_headers:
  assumes "x \<in> set (ec_ExcludeHeaders (rc_External (rt_cfg r)))"
  shows "\<forall>(k, v) \<in> set (rr_ExternalHeaders (fst (Route ops req r w))).
           CanonicalHeaderKey k \<noteq> CanonicalHeaderKey x"
proof -
  have f: "CanonicalHeaderKey k \<noteq> CanonicalHeaderKey x"
    if "(k, v) \<in> set (filterExcludedHeaders (rt_cfg r) h)" for k v h
    using filterExcludedHeaders_sound(1)[OF that] assms by (auto simp: buildExcludeSet_def)
  show ?thesis
  proof (cases rule: Route_cases[of ops req r w])
    case (other r1 w1)
    then show ?thesis
      using f route_by_group_shape[of ops req _ w1]
      by (cases rule: route_cached_cases[of ops req r1 w1]) (auto, metis)
  qed simp
qed

section \<open>Query ids in statements and paths\<close>

lemma eat_lit_sound: "eat_lit p s = Some t \<Longrightarrow> \<exists>k. s = k @ t \<and> ToUpper k = p"
proof (induction p s rule: eat_lit.induct)
  case (3 p ps c cs)
  then obtain k where "cs = k @ t" "ToUpper k = ps" "upper_char c = p" by (auto split: if_splits)
  then show ?case by (intro exI[of _ "c # k"]) (simp add: ToUpper_def)
qed (auto simp: ToUpper_def)

lemma eat_lit_complete: "ToUpper k = p \<Longrightarrow> eat_lit p (k @ t) = Some t"
  by (induction k arbitrary: p) (auto simp: ToUpper_def)

lemma eat_spaces_sound: "eat_spaces s = Some t \<Longrightarrow> suffix t s"
  unfolding eat_spaces_def
  by (auto split: list.splits if_splits intro: suffix_ConsI simp: suffix_dropWhile)

lemma eat_spaces_complete:
  assumes "ws \<noteq> []" "list_all re_space ws" "t \<noteq> []" "\<not> re_space (hd t)"
  shows "eat_spaces (ws @ t) = Some t"
proof -
  have "dropWhile re_space (v @ t) = t" if "list_all re_space v" for v
    using that assms(3,4) by (induction v) (auto simp: neq_Nil_conv)
  then show ?thesis
    using assms(1,2) by (cases ws) (auto simp: eat_spaces_def)
qed

lemma eat_digits_us_sound:
  "eat_digits_us s = Some (d, t) \<Longrightarrow>
     s = d @ t \<and> (\<exists>x. d = x @ ''_'' \<and> x \<noteq> [] \<and> list_all is_digit x)"
proof -
  assume a: "eat_digits_us s = Some (d, t)"
  let ?x = "takeWhile is_digit s" and ?r = "dropWhile is_digit s"
  have "?x \<noteq> []" "?r = CHR ''_'' # t" "d = ?x @ ''_''"
    using a by (auto simp: eat_digits_us_def Let_def split: if_splits intro: list.expand)
  moreover have "list_all is_digit ?x"
    by (simp add: list_all_iff) (meson set_takeWhileD)
  moreover have "s = ?x @ ?r" by simp
  ultimately show ?thesis by (metis append.assoc append_Cons append_Nil)
qed

lemma eat_digits_us_complete:
  assumes "x \<noteq> []" "list_all is_digit x"
  shows "eat_digits_us (x @ ''_'' @ t) = Some (x @ ''_'', t)"
proof -
  have "\<not> is_digit (CHR ''_'')" by (simp add: is_digit_def byte_def)
  then have "takeWhile is_digit (x @ ''_'' @ t) = x" "dropWhile is_digit (x @ ''_'' @ t) = ''_'' @ t"
    using assms(2) by (induction x) auto
  then show ?thesis using assms(1) by (simp add: eat_digits_us_def)
qed

lemma take_word_prefix: "prefix (take_word s) s"
proof (induction s rule: take_word.induct)
  case (2 c cs)
  have "prefix (long_s @ take_word (drop 1 cs)) (c # cs)" if "\<not> re_word c" "prefix long_s (c # cs)"
    using that 2(2)[OF that] by (auto simp: prefix_def long_s_def)
  moreover have "prefix (kelvin @ take_word (drop 2 cs)) (c # cs)"
    if "\<not> re_word c" "\<not> prefix long_s (c # cs)" "prefix kelvin (c # cs)"
    using that 2(3)[OF that] by (auto simp: prefix_def kelvin_def numeral_2_eq_2)
  ultimately show ?case using 2(1) by auto
qed simp

lemma quote_not_word: "\<not> re_word quote_char" "hd long_s \<noteq> quote_char" "hd kelvin \<noteq> quote_char"
  by (simp_all add: re_word_def quote_char_def is_digit_def is_upper_def is_lower_def byte_def
      long_s_def kelvin_def)

lemma take_word_complete:
  assumes "list_all re_word v"
  shows "take_word (v @ quote_char # t) = v"
proof -
  have "\<not> prefix long_s (quote_char # t)" "\<not> prefix kelvin (quote_char # t)"
    using quote_not_word(2,3) by (auto simp: long_s_def kelvin_def)
  then show ?thesis using assms quote_not_word(1) by (induction v) auto
qed

text \<open>The shape of a Trino query id: three numbers and a word, joined by underscores.\<close>

definition is_query_id :: "string \<Rightarrow> bool" where
  "is_query_id q = (\<exists>a b c v. q = a @ ''_'' @ b @ ''_'' @ c @ ''_'' @ v \<and>
     (\<forall>x \<in> {a, b, c}. x \<noteq> [] \<and> list_all is_digit x) \<and> v \<noteq> [])"

lemma kill_id_at_sound:
  assumes "kill_id_at s = Some q"
  shows "is_query_id q \<and> prefix (q @ [quote_char]) s"
proof -
  obtain a s1 b s2 c s3 where e: "eat_digits_us s = Some (a, s1)" "eat_digits_us s1 = Some (b, s2)"
      "eat_digits_us s2 = Some (c, s3)"
    and q: "q = a @ b @ c @ take_word s3" "take_word s3 \<noteq> []"
    and r: "drop (length (take_word s3)) s3 \<noteq> []" "hd (drop (length (take_word s3)) s3) = quote_char"
    using assms by (auto simp: kill_id_at_def Let_def split: option.splits if_splits)
  obtain r' where "s3 = take_word s3 @ quote_char # r'"
    using take_word_prefix[of s3] r by (metis append_eq_conv_conj list.exhaust_sel prefixE)
  then have "prefix (q @ [quote_char]) s"
    using eat_digits_us_sound[OF e(1)] eat_digits_us_sound[OF e(2)] eat_digits_us_sound[OF e(3)] q
    by (metis append.assoc append_Cons append_Nil prefixI)
  moreover have "is_query_id q"
    using eat_digits_us_sound[OF e(1)] eat_digits_us_sound[OF e(2)] eat_digits_us_sound[OF e(3)] q
    unfolding is_query_id_def by fastforce
  ultimately show ?thesis by simp
qed

lemma upper_char_quote: "upper_char c = quote_char \<Longrightarrow> c = quote_char"
proof (rule ccontr)
  assume a: "upper_char c = quote_char" "c \<noteq> quote_char"
  then have l: "is_lower c" by (auto simp: upper_char_def split: if_splits)
  then have "65 \<le> byte (upper_char c)" by (auto simp: byte_upper_char is_lower_def)
  then show False using a(1) by (simp add: quote_char_def byte_def)
qed

lemma kill_match_at_sound:
  assumes "kill_match_at s = Some q"
  shows "is_query_id q \<and> sublist (quote_char # q @ [quote_char]) s"
proof -
  obtain s1 s2 s3 s4 s5 s6 where e: "eat_K s = Some s1" "eat_lit ''ILL'' s1 = Some s2"
    "eat_spaces s2 = Some s3" "eat_lit ''QUERY'' s3 = Some s4" "eat_spaces s4 = Some s5"
    "eat_lit [quote_char] s5 = Some s6" "kill_id_at s6 = Some q"
    using assms by (auto simp: kill_match_at_def bind_eq_Some_conv)
  have s: "suffix t u" if "eat_lit p u = Some t" for p t u
    using eat_lit_sound[OF that] by (auto simp: suffix_def)
  have "suffix s1 s"
    using e(1) s by (auto simp: eat_K_def suffix_drop split: if_splits)
  then have x: "suffix s5 s"
    using s[OF e(2)] eat_spaces_sound[OF e(3)] s[OF e(4)] eat_spaces_sound[OF e(5)]
    by (auto simp: suffix_def)
  obtain c where "s5 = c # s6" "upper_char c = quote_char"
    using eat_lit_sound[OF e(6)] by (auto simp: ToUpper_def)
  then have "s5 = quote_char # s6" using upper_char_quote by simp
  moreover have "is_query_id q" "prefix (q @ [quote_char]) s6" using kill_id_at_sound[OF e(7)] by auto
  ultimately have "prefix (quote_char # q @ [quote_char]) s5" by simp
  then show ?thesis
    using x \<open>is_query_id q\<close> by (auto simp: sublist_def suffix_def prefix_def)
qed

text \<open>
  What the KILL QUERY expression extracts is a query id, and it stands between quotes in the
  statement.
\<close>
theorem extractKillQueryID_sound:
  assumes "extractKillQueryID body = q" and "q \<noteq> []"
  shows "is_query_id q \<and> sublist (quote_char # q @ [quote_char]) body"
  using assms
proof (induction body rule: extractKillQueryID.induct)
  case (2 c cs)
  then show ?case
    by (cases "kill_match_at (c # cs)") (auto dest: kill_match_at_sound intro: sublist_Cons_right[THEN iffD2])
qed simp

lemma kill_match_at_other:
  assumes "upper_char c \<noteq> CHR ''K''" "c \<noteq> CHR 0xE2"
  shows "kill_match_at (c # s) = None"
  using assms by (simp add: kill_match_at_def eat_K_def kelvin_def)

lemma kill_match_at_complete:
  assumes "ToUpper k = ''KILL''" "ToUpper qy = ''QUERY''"
    and "ws1 \<noteq> []" "list_all re_space ws1" "ws2 \<noteq> []" "list_all re_space ws2"
    and "kill_id_at s = Some q"
  shows "kill_match_at (k @ ws1 @ qy @ ws2 @ quote_char # s) = Some q"
proof -
  obtain k0 k1 where k: "k = k0 # k1" "upper_char k0 = CHR ''K''" "ToUpper k1 = ''ILL''"
    using assms(1) by (auto simp: ToUpper_def)
  obtain q0 q1 where q: "qy = q0 # q1" "upper_char q0 = CHR ''Q''"
    using assms(2) by (auto simp: ToUpper_def)
  have "k0 \<noteq> CHR 0xE2" "\<not> re_space q0"
    using k(2) q(2) by (auto simp: upper_char_def is_lower_def re_space_def byte_def split: if_splits)
  moreover have "\<not> re_space quote_char" by (simp add: re_space_def quote_char_def byte_def)
  moreover have "upper_char quote_char = quote_char"
    by (simp add: upper_char_def quote_char_def is_lower_def byte_def)
  ultimately show ?thesis
    using eat_lit_complete[OF k(3)] eat_lit_complete[OF assms(2)] k(2) q(1) assms(7)
      eat_spaces_complete[OF assms(3,4), of "qy @ ws2 @ quote_char # s"]
      eat_spaces_complete[OF assms(5,6), of "quote_char # s"]
    by (simp add: kill_match_at_def eat_K_def kelvin_def k(1))
qed

text \<open>
  Every KILL QUERY statement is recognised: keywords in any case, any white space between them,
  any text after the closing quote, and any text before it that has no letter K.
\<close>
theorem extractKillQueryID_complete:
  assumes "ToUpper k = ''KILL''" and "ToUpper qy = ''QUERY''"
    and "ws1 \<noteq> [] \<and> list_all re_space ws1" and "ws2 \<noteq> [] \<and> list_all re_space ws2"
    and "\<forall>x \<in> {a, b, c}. x \<noteq> [] \<and> list_all is_digit x"
    and "v \<noteq> [] \<and> list_all re_word v"
    and "q = a @ ''_'' @ b @ ''_'' @ c @ ''_'' @ v"
    and "list_all (\<lambda>x. upper_char x \<noteq> CHR ''K'' \<and> x \<noteq> CHR 0xE2) pre"
  shows "extractKillQueryID (pre @ k @ ws1 @ qy @ ws2 @ quote_char # q @ quote_char # post) = q"
proof -
  let ?t = "quote_char # post"
  have "kill_id_at (q @ ?t) = Some q"
    using assms(5-7) eat_digits_us_complete[of a "b @ ''_'' @ c @ ''_'' @ v @ ?t"]
      eat_digits_us_complete[of b "c @ ''_'' @ v @ ?t"] eat_digits_us_complete[of c "v @ ?t"]
      take_word_complete[of v post]
    by (simp add: kill_id_at_def)
  then have "kill_match_at (k @ ws1 @ qy @ ws2 @ quote_char # q @ ?t) = Some q" (is "kill_match_at ?s = _")
    using kill_match_at_complete[of k qy ws1 ws2 "q @ ?t" q] assms(1-4) by simp
  moreover from this have "?s \<noteq> []" using assms(1) by (auto simp: ToUpper_def)
  ultimately have "extractKillQueryID ?s = q" by (cases ?s) simp_all
  then show ?thesis
    using assms(8) by (induction pre) (simp_all add: kill_match_at_other)
qed

lemma takeWhile_stop: "list_all P xs \<Longrightarrow> \<not> P y \<Longrightarrow> takeWhile P (xs @ y # ys) = xs"
  by (induction xs) auto

text \<open>
  The id of a query is read from the path \<^verbatim>\<open>/v1/query/<id>\<close>, up to the next slash or question
  mark; a path that does not start with that prefix has no query id, so its requests, such as
  the \<^verbatim>\<open>/v1/statement/\<close> polls, never use the cache.
\<close>
theorem extractQueryID_spec:
  assumes "list_all (\<lambda>c. c \<noteq> CHR ''/'' \<and> c \<noteq> CHR ''?'') q" and "q \<noteq> []"
    and "rest = [] \<or> hd rest = CHR ''/'' \<or> hd rest = CHR ''?''"
  shows "extractQueryID (req\<lparr> ri_RequestURI := ''/v1/query/'' @ q @ rest \<rparr>) = q \<and>
    (\<not> prefix ''/v1/query/'' uri \<longrightarrow> extractQueryID (req\<lparr> ri_RequestURI := uri \<rparr>) = [])"
proof -
  let ?P = "\<lambda>c. c \<noteq> CHR ''/'' \<and> c \<noteq> CHR ''?''"
  have "takeWhile ?P (q @ rest) = q"
    using takeWhile_stop[OF assms(1), of "hd rest" "tl rest"] assms(1,3)
    by (cases rest) (auto simp: list_all_iff)
  then have "extractQueryID (req\<lparr> ri_RequestURI := ''/v1/query/'' @ q @ rest \<rparr>) = q"
    using assms(2) by (simp add: extractQueryID_def queryPrefix_def)
  moreover have "extractQueryID (req\<lparr> ri_RequestURI := uri \<rparr>) = []" if "\<not> prefix ''/v1/query/'' uri"
  proof -
    have "take (length queryPrefix) uri \<noteq> queryPrefix"
      using that take_is_prefix[of "length queryPrefix" uri] unfolding queryPrefix_def by metis
    then show ?thesis by (simp add: extractQueryID_def)
  qed
  ultimately show ?thesis by simp
qed

section \<open>A bounded recency list\<close>

text \<open>
  The cache contract holds of the textbook LRU cache, a list of at most \<open>Suc n\<close> pairs with the most
  recently used one first.  It is the cache of the concrete runs below.
\<close>

definition lru_touch :: "string \<Rightarrow> string \<Rightarrow> (string \<times> string) list \<Rightarrow> (string \<times> string) list" where
  "lru_touch k v c = (k, v) # filter (\<lambda>p. fst p \<noteq> k) c"

definition list_lru_ops ::
  "nat \<Rightarrow> (string \<Rightarrow> 'w \<Rightarrow> string result \<times> 'w) \<Rightarrow> ('w \<Rightarrow> ActiveBackend list result \<times> 'w)
    \<Rightarrow> (string \<Rightarrow> 'w \<Rightarrow> nat result \<times> 'w) \<Rightarrow> 'w http_selector_ops
    \<Rightarrow> (pb_RouteRequest \<Rightarrow> 'w \<Rightarrow> pb_RouteResponse result \<times> 'w)
    \<Rightarrow> ((string \<times> string) list, 'w) router_ops" where
  "list_lru_ops n lookup active hd_probe http grpc = \<lparr>
     lru_New = (\<lambda>_. Inr []),
     lru_Get = (\<lambda>c k. (map_of c k, case map_of c k of None \<Rightarrow> c | Some v \<Rightarrow> lru_touch k v c)),
     lru_Add = (\<lambda>c k v. take (Suc n) (lru_touch k v c)),
     lru_Remove = (\<lambda>c k. filter (\<lambda>p. fst p \<noteq> k) c),
     op_dial = (\<lambda>_. Inr ()),
     op_LookupByQueryID = lookup,
     op_ListActive = active,
     op_Head = hd_probe,
     op_completion = (\<lambda>bs _. bs),
     op_http = http,
     op_grpc = grpc \<rparr>"

lemma map_of_filter_ne: "map_of (filter (\<lambda>p. fst p \<noteq> k) c) p = (if p = k then None else map_of c p)"
  by (induction c) auto

lemma map_of_lru_touch: "map_of (lru_touch k v c) = (map_of c)(k \<mapsto> v)"
  by (rule ext) (simp add: lru_touch_def map_of_filter_ne)

lemma map_of_take: "map_of (take m xs) p = map_of xs p \<or> map_of (take m xs) p = None"
  by (induction xs arbitrary: m) (auto simp: take_Cons split: nat.splits)

interpretation list_lru: query_cache "list_lru_ops n lookup active hd_probe http grpc"
    map_of "\<lambda>c. length c \<le> Suc n \<and> distinct (map fst c)"
  for n lookup active hd_probe http grpc
proof (unfold_locales, goal_cases)
  case (3 c q)
  show ?case
  proof (cases "map_of c q")
    case None
    then show ?thesis using 3 by (simp add: cache_get_def list_lru_ops_def)
  next
    case (Some v)
    have "length (filter (\<lambda>p. fst p \<noteq> q) c) < length c"
      using map_of_SomeD[OF Some] by (intro length_filter_less[of "(q, v)"]) simp_all
    then show ?thesis
      using 3 Some by (auto simp: cache_get_def list_lru_ops_def lru_touch_def distinct_map_filter)
  qed
next
  case (4 c q u)
  show ?case by (simp add: cache_set_def list_lru_ops_def lru_touch_def)
next
  case (5 c p q u)
  then show ?case
    using map_of_take[of "Suc n" "lru_touch q u c" p]
    by (auto simp: cache_set_def list_lru_ops_def map_of_lru_touch simp del: take_Suc_Cons)
next
  case (6 c q u)
  then show ?case
    by (auto simp: cache_set_def list_lru_ops_def lru_touch_def distinct_map_filter take_map[symmetric]
        intro!: distinct_take dest: in_set_takeD)
qed (auto simp: cache_get_def cache_set_def list_lru_ops_def map_of_lru_touch split: option.splits)

section \<open>Concrete runs\<close>

definition demo_backends :: "ActiveBackend list" where
  "demo_backends = [\<lparr> ab_Name = ''a'', ab_URL = ''http://a'', ab_RoutingGroup = ''adhoc'' \<rparr>,
                    \<lparr> ab_Name = ''b'', ab_URL = ''http://b'', ab_RoutingGroup = ''etl'' \<rparr>]"

definition demo_http :: "unit http_selector_ops" where
  "demo_http = \<lparr> hs_Do = (\<lambda>_ _ _ w. (Inl DeadlineExceeded, w)), hs_decode = (\<lambda>_. Inl (Failure [])) \<rparr>"

definition demo_grpc :: "pb_RouteRequest \<Rightarrow> unit \<Rightarrow> pb_RouteResponse result \<times> unit" where
  "demo_grpc req w = (Inr \<lparr> ps_RoutingGroup = ''etl'',
     ps_ExternalHeaders = Some [(''x-team'', ''t''), (''X-Secret'', ''s'')], ps_Errors = [] \<rparr>, w)"

definition demo_ops :: "((string \<times> string) list, unit) router_ops" where
  "demo_ops = list_lru_ops 4095
     (\<lambda>q w. (if q = ''20_1_2_ab'' then Inr ''http://b'' else Inr [], w))
     (\<lambda>w. (Inr demo_backends, w)) (\<lambda>_ w. (Inr 404, w)) demo_http demo_grpc"

definition demo_router :: "string \<Rightarrow> (string \<times> string) list router" where
  "demo_router grpc_addr = \<lparr> rt_cfg = \<lparr> rc_DefaultGroup = ''adhoc'', rc_External =
       \<lparr> ec_URL = ''http://r'', ec_GRPCAddr = grpc_addr, ec_ExcludeHeaders = [''x-secret''] \<rparr> \<rparr>,
     rt_cache = [], rt_metrics = [] \<rparr>"

definition demo_req :: "string \<Rightarrow> string \<Rightarrow> RouteInput" where
  "demo_req uri body = \<lparr> ri_Method = ''POST'', ri_RequestURI = uri, ri_QueryString = [],
     ri_RemoteAddr = [], ri_RemoteHost = [], ri_RemoteUser = [], ri_Body = body,
     ri_Parameters = None, ri_headers = (\<lambda>_. None) \<rparr>"

definition demo_kill :: string where
  "demo_kill = ''/* x */ '' @ ''kill'' @ '' '' @ ''Query'' @ ''  '' @ quote_char # ''20_1_2_ab'' @ quote_char # []"

lemmas demo_defs = demo_backends_def demo_http_def demo_grpc_def demo_ops_def demo_router_def
  demo_req_def list_lru_ops_def

lemma demo_kill_id: "extractKillQueryID demo_kill = ''20_1_2_ab''"
  by code_simp

lemma demo_query_cache:
  "query_cache demo_ops map_of (\<lambda>c. length c \<le> Suc 4095 \<and> distinct (map fst c))"
  unfolding demo_ops_def by (rule list_lru.query_cache_axioms)

theorem Route_backend_source_witness:
  "rr_BackendURL (fst (Route demo_ops (demo_req ''/v1/statement'' ''SELECT 1'') (demo_router []) ())) = ''http://a''
   \<and> (history_backend demo_ops [] ''http://a'' \<or> active_backend demo_ops ''http://a''
     \<or> fst (cache_get demo_ops [] []) = Some ''http://a'')"
proof -
  let ?x = "Route demo_ops (demo_req ''/v1/statement'' ''SELECT 1'') (demo_router []) ()"
  have e: "rr_BackendURL (fst ?x) = ''http://a''"
    "extractKillQueryID (ri_Body (demo_req ''/v1/statement'' ''SELECT 1'')) = []"
    "extractQueryID (demo_req ''/v1/statement'' ''SELECT 1'') = []"
    "rt_cache (demo_router []) = []"
    by code_simp+
  have "each_probe_completes demo_ops" by (simp add: each_probe_completes_def demo_defs)
  moreover obtain res r' w' where "?x = (res, r', w')" by (metis prod_cases3)
  ultimately show ?thesis
    using Route_backend_source[of demo_ops "demo_req ''/v1/statement'' ''SELECT 1''" "demo_router []" "()"
      res r' w'] e by simp
qed

theorem Route_sticky_after_WriteCache_witness:
  "fst (Route demo_ops (demo_req ''/v1/query/q1/1'' []) (WriteCache demo_ops ''q1'' ''http://b'' (demo_router [])) ())
     = \<lparr> rr_BackendURL = ''http://b'', rr_RoutingGroup = [], rr_ExternalHeaders = [], rr_Errors = [],
         rr_Outcome = OutcomeOK \<rparr>"
proof -
  have "extractQueryID (demo_req ''/v1/query/q1/1'' []) = ''q1''"
    "extractKillQueryID (ri_Body (demo_req ''/v1/query/q1/1'' [])) = []" by code_simp+
  then show ?thesis
    using Route_sticky_after_WriteCache[OF demo_query_cache, of "demo_router []"
        "demo_req ''/v1/query/q1/1'' []" "''q1''" "''http://b''" "()"]
    by (simp add: demo_router_def)
qed

theorem Route_kill_query_witness:
  "rr_BackendURL (fst (Route demo_ops (demo_req ''/v1/statement'' demo_kill) (demo_router []) ())) = ''http://b''"
proof -
  have "extractKillQueryID (ri_Body (demo_req ''/v1/statement'' demo_kill)) = ''20_1_2_ab''"
    by (simp add: demo_req_def demo_kill_id)
  then show ?thesis
    using Route_kill_query[of "demo_req ''/v1/statement'' demo_kill" "''20_1_2_ab''" demo_ops "()"
        "''http://b''" "()" "demo_router []"]
    by (simp add: demo_ops_def list_lru_ops_def)
qed


theorem Route_external_group_witness:
  "fst (Route demo_ops (demo_req ''/v1/statement'' ''SELECT 1'') (demo_router ''g:1'') ()) =
     \<lparr> rr_BackendURL = ''http://b'', rr_RoutingGroup = ''etl'', rr_ExternalHeaders = [(''x-team'', ''t'')],
       rr_Errors = [], rr_Outcome = OutcomeOK \<rparr>"
proof -
  let ?r = "demo_req ''/v1/statement'' ''SELECT 1''"
  have e: "extractKillQueryID (ri_Body ?r) = []" "extractQueryID ?r = []" by code_simp+
  have c: "callExternal demo_ops ?r (demo_router ''g:1'') () =
      (Inr (''etl'', [(''x-team'', ''t'')], []),
       record_metric (RouterCall TransportGRPC RouterOutcomeOK) (demo_router ''g:1''), ())"
    by code_simp
  show ?thesis
    using Route_external_group[OF e c, of "[hd demo_backends]" "last demo_backends" "[]" "()"]
    by (simp add: demo_ops_def list_lru_ops_def demo_backends_def)
qed

theorem Route_external_failure_witness:
  "fst (Route demo_ops (demo_req ''/v1/statement'' ''SELECT 1'') (demo_router []) ()) =
     \<lparr> rr_BackendURL = ''http://a'', rr_RoutingGroup = ''adhoc'', rr_ExternalHeaders = [],
       rr_Errors = [], rr_Outcome = OutcomeFallback \<rparr>"
proof -
  let ?r = "demo_req ''/v1/statement'' ''SELECT 1''"
  have e: "extractKillQueryID (ri_Body ?r) = []" "extractQueryID ?r = []" by code_simp+
  have c: "callExternal demo_ops ?r (demo_router []) () =
      (Inl DeadlineExceeded,
       record_metric (RouterCall TransportHTTP RouterOutcomeTimeout) (demo_router []), ())"
    by code_simp
  show ?thesis
    using Route_external_failure[OF e c, of demo_backends "()" "hd demo_backends"]
    by (simp add: demo_ops_def list_lru_ops_def demo_backends_def demo_router_def)
qed

theorem Route_available_witness:
  "rr_BackendURL (fst (Route demo_ops (demo_req ''/v1/query/zz'' []) (demo_router []) ())) \<noteq> []"
proof (rule Route_available)
  show "\<forall>w. \<exists>b bs w'. op_ListActive demo_ops w = (Inr (b # bs), w') \<and> ab_URL b \<noteq> []"
    by (simp add: demo_ops_def list_lru_ops_def demo_backends_def)
  show "fst (cache_get demo_ops (extractQueryID (demo_req ''/v1/query/zz'' [])) (rt_cache (demo_router [])))
      \<noteq> Some []"
    by (simp add: cache_get_def demo_ops_def list_lru_ops_def demo_router_def)
qed

theorem Route_excluded_headers_witness:
  "list_all (\<lambda>(k, v). CanonicalHeaderKey k \<noteq> CanonicalHeaderKey ''x-secret'')
     (rr_ExternalHeaders
       (fst (Route demo_ops (demo_req ''/v1/statement'' ''SELECT 1'') (demo_router ''g:1'') ())))"
  using Route_excluded_headers[of "''x-secret''" "demo_router ''g:1''" demo_ops
      "demo_req ''/v1/statement'' ''SELECT 1''" "()"]
  by (simp add: demo_router_def list_all_iff)

theorem extractKillQueryID_sound_witness:
  "is_query_id ''20_1_2_ab'' \<and> sublist (quote_char # ''20_1_2_ab'' @ [quote_char]) demo_kill"
  by (rule extractKillQueryID_sound[OF demo_kill_id]) simp

theorem extractKillQueryID_complete_witness: "extractKillQueryID demo_kill = ''20_1_2_ab''"
proof -
  have "ToUpper ''kill'' = ''KILL''" "ToUpper ''Query'' = ''QUERY''"
    "list_all re_space '' ''" "list_all re_space ''  ''"
    "list_all is_digit ''20''" "list_all is_digit ''1''" "list_all is_digit ''2''"
    "list_all re_word ''ab''"
    "list_all (\<lambda>x. upper_char x \<noteq> CHR ''K'' \<and> x \<noteq> CHR 0xE2) ''/* x */ ''"
    by code_simp+
  then show ?thesis
    using extractKillQueryID_complete[of "''kill''" "''Query''" "'' ''" "''  ''" "''20''" "''1''" "''2''"
        "''ab''" "''20_1_2_ab''" "''/* x */ ''" "[]"]
    by (simp add: demo_kill_def)
qed

theorem extractQueryID_spec_witness:
  "extractQueryID (demo_req ''/v1/query/q1?a=b'' []) = ''q1'' \<and>
   extractQueryID (demo_req ''/v1/statement/queued/q1/1'' []) = []"
  using extractQueryID_spec[of "''q1''" "''?a=b''" "demo_req [] []" "''/v1/statement/queued/q1/1''"]
  by (simp add: demo_req_def)

end
