(* ===== verification/Base64.thy ===== *)
theory Base64
  imports Goway_Prelude
begin

text \<open>
  Encodings of the Go standard library that the gateway cookie uses: URL-safe base64 with and
  without padding (\<^verbatim>\<open>base64.URLEncoding\<close>, \<^verbatim>\<open>base64.RawURLEncoding\<close>), lower-case hex, and decimal
  integers as \<^verbatim>\<open>fmt\<close> prints and scans them.  Decoding ignores line breaks, as the library does.
\<close>

section \<open>Base64\<close>

definition enc6 :: "nat \<Rightarrow> char" where
  "enc6 n = (if n < 26 then char_of (65 + n) else if n < 52 then char_of (71 + n)
             else if n < 62 then char_of (n - 4) else if n = 62 then CHR ''-'' else CHR ''_'')"

definition dec6 :: "char \<Rightarrow> nat option" where
  "dec6 c = (let b = byte c in
     if 65 \<le> b \<and> b \<le> 90 then Some (b - 65) else if 97 \<le> b \<and> b \<le> 122 then Some (b - 71)
     else if 48 \<le> b \<and> b \<le> 57 then Some (b + 4) else if b = 45 then Some 62
     else if b = 95 then Some 63 else None)"

fun b64_encode :: "bool \<Rightarrow> string \<Rightarrow> string" where
  "b64_encode pad [] = []"
| "b64_encode pad [a] =
     [enc6 (byte a div 4), enc6 (byte a mod 4 * 16)] @ (if pad then ''=='' else [])"
| "b64_encode pad [a, b] =
     [enc6 (byte a div 4), enc6 (byte a mod 4 * 16 + byte b div 16), enc6 (byte b mod 16 * 4)]
     @ (if pad then ''='' else [])"
| "b64_encode pad (a # b # c # rest) =
     [enc6 (byte a div 4), enc6 (byte a mod 4 * 16 + byte b div 16),
      enc6 (byte b mod 16 * 4 + byte c div 64), enc6 (byte c mod 64)] @ b64_encode pad rest"

definition byte1 :: "nat \<Rightarrow> nat \<Rightarrow> char" where "byte1 w x = char_of (w * 4 + x div 16)"
definition byte2 :: "nat \<Rightarrow> nat \<Rightarrow> char" where "byte2 x y = char_of (x mod 16 * 16 + y div 4)"
definition byte3 :: "nat \<Rightarrow> nat \<Rightarrow> char" where "byte3 y z = char_of (y mod 4 * 64 + z)"

definition dec2 :: "char \<Rightarrow> char \<Rightarrow> string option" where
  "dec2 a b = (case (dec6 a, dec6 b) of (Some w, Some x) \<Rightarrow> Some [byte1 w x] | _ \<Rightarrow> None)"

definition dec3 :: "char \<Rightarrow> char \<Rightarrow> char \<Rightarrow> string option" where
  "dec3 a b c = (case (dec6 a, dec6 b, dec6 c) of
     (Some w, Some x, Some y) \<Rightarrow> Some [byte1 w x, byte2 x y] | _ \<Rightarrow> None)"

definition dec4 :: "char \<Rightarrow> char \<Rightarrow> char \<Rightarrow> char \<Rightarrow> string option" where
  "dec4 a b c d = (case (dec6 a, dec6 b, dec6 c, dec6 d) of
     (Some w, Some x, Some y, Some z) \<Rightarrow> Some [byte1 w x, byte2 x y, byte3 y z] | _ \<Rightarrow> None)"

fun b64_quanta :: "bool \<Rightarrow> string \<Rightarrow> string option" where
  "b64_quanta pad [] = Some []"
| "b64_quanta pad [a] = None"
| "b64_quanta pad [a, b] = (if pad then None else dec2 a b)"
| "b64_quanta pad [a, b, c] = (if pad then None else dec3 a b c)"
| "b64_quanta pad (a # b # c # d # rest) =
     (case dec4 a b c d of
        Some q \<Rightarrow> map_option (\<lambda>t. q @ t) (b64_quanta pad rest)
      | None \<Rightarrow>
          if pad \<and> rest = [] \<and> d = CHR ''='' then
            (if c = CHR ''='' then dec2 a b else dec3 a b c)
          else None)"

definition b64_decode :: "bool \<Rightarrow> string \<Rightarrow> string option" where
  "b64_decode pad s = b64_quanta pad (filter (\<lambda>c. byte c \<noteq> 10 \<and> byte c \<noteq> 13) s)"

section \<open>Hex and decimals\<close>

definition hex_digit :: "nat \<Rightarrow> char" where
  "hex_digit n = (if n < 10 then char_of (48 + n) else char_of (87 + n))"

definition hex_encode :: "string \<Rightarrow> string" where
  "hex_encode s = concat (map (\<lambda>c. [hex_digit (byte c div 16), hex_digit (byte c mod 16)]) s)"

fun dec_nat :: "nat \<Rightarrow> string" where
  "dec_nat n = (if n < 10 then [char_of (48 + n)] else dec_nat (n div 10) @ [char_of (48 + n mod 10)])"

declare dec_nat.simps [simp del]

definition dec_int :: "int \<Rightarrow> string" where
  "dec_int i = (if i < 0 then CHR ''-'' # dec_nat (nat (- i)) else dec_nat (nat i))"

definition digits_val :: "string \<Rightarrow> nat" where
  "digits_val s = foldl (\<lambda>a c. a * 10 + (byte c - 48)) 0 s"

definition int64 :: "int \<Rightarrow> bool" where
  "int64 i = (- (2 ^ 63) \<le> i \<and> i < 2 ^ 63)"

text \<open>\<^verbatim>\<open>fmt.Sscanf(s, "%d", &n)\<close>: blanks before the number are skipped, a line break there is an error,
  and what follows the digits is ignored.\<close>

definition Sscanf_d :: "string \<Rightarrow> int option" where
  "Sscanf_d s =
     (let s1 = dropWhile (\<lambda>c. is_space c \<and> byte c \<noteq> 10) s;
          neg = (s1 \<noteq> [] \<and> hd s1 = CHR ''-'');
          s2 = (if s1 \<noteq> [] \<and> (hd s1 = CHR ''-'' \<or> hd s1 = CHR ''+'') then tl s1 else s1);
          ds = takeWhile is_digit s2;
          v = (if neg then - int (digits_val ds) else int (digits_val ds))
      in if ds \<noteq> [] \<and> int64 v then Some v else None)"

section \<open>Round trips\<close>

lemma dec6_enc6: "n < 64 \<Longrightarrow> dec6 (enc6 n) = Some n"
proof -
  assume n: "n < 64"
  consider "n < 26" | "26 \<le> n" "n < 52" | "52 \<le> n" "n < 62" | "n = 62" | "n = 63" using n by linarith
  then show ?thesis
    by cases (simp_all add: enc6_def dec6_def Let_def byte_char_of, auto simp: byte_def)
qed

lemma enc6_plain: "n < 64 \<Longrightarrow> byte (enc6 n) \<noteq> 10 \<and> byte (enc6 n) \<noteq> 13 \<and> enc6 n \<noteq> CHR ''=''"
proof -
  assume n: "n < 64"
  have "byte (CHR ''='') = 61" by (simp add: byte_def)
  moreover have "dec6 (CHR ''='') = None" by (simp add: dec6_def byte_def)
  ultimately show ?thesis
    using dec6_enc6[OF n] by (auto simp: dec6_def Let_def split: if_splits)
qed

lemma bytes_assembled:
  "byte1 (byte a div 4) (byte a mod 4 * 16 + byte b div 16) = a"
  "byte2 (byte a mod 4 * 16 + byte b div 16) (byte b mod 16 * 4 + byte c div 64) = b"
  "byte3 (byte b mod 16 * 4 + byte c div 64) (byte c mod 64) = c"
  "byte1 (byte a div 4) (byte a mod 4 * 16) = a"
  "byte2 (byte a mod 4 * 16 + byte b div 16) (byte b mod 16 * 4) = b"
proof -
  have x: "byte b div 16 < 16" "byte c div 64 < 4" using byte_lt[of b] byte_lt[of c] by auto
  have r: "char_of (byte d) = d" for d by (simp add: byte_def)
  have "byte a div 4 * 4 + (byte a mod 4 * 16 + byte b div 16) div 16 = byte a" using x by auto
  then show "byte1 (byte a div 4) (byte a mod 4 * 16 + byte b div 16) = a" using r by (simp add: byte1_def)
  have "(byte a mod 4 * 16 + byte b div 16) mod 16 * 16 + (byte b mod 16 * 4 + byte c div 64) div 4 = byte b"
    using x by auto
  then show "byte2 (byte a mod 4 * 16 + byte b div 16) (byte b mod 16 * 4 + byte c div 64) = b"
    using r by (simp add: byte2_def)
  have "(byte b mod 16 * 4 + byte c div 64) mod 4 * 64 + byte c mod 64 = byte c" using x by auto
  then show "byte3 (byte b mod 16 * 4 + byte c div 64) (byte c mod 64) = c" using r by (simp add: byte3_def)
  have "byte a div 4 * 4 + byte a mod 4 * 16 div 16 = byte a" by auto
  then show "byte1 (byte a div 4) (byte a mod 4 * 16) = a" using r by (simp add: byte1_def)
  have "(byte a mod 4 * 16 + byte b div 16) mod 16 * 16 + byte b mod 16 * 4 div 4 = byte b" using x by auto
  then show "byte2 (byte a mod 4 * 16 + byte b div 16) (byte b mod 16 * 4) = b" using r by (simp add: byte2_def)
qed

lemma sextets:
  "byte a div 4 < 64" "byte a mod 4 * 16 < 64" "byte a mod 4 * 16 + byte b div 16 < 64"
  "byte b mod 16 * 4 < 64" "byte b mod 16 * 4 + byte c div 64 < 64" "byte c mod 64 < 64"
  using byte_lt[of a] byte_lt[of b] byte_lt[of c] by auto

lemma b64_encode_no_breaks: "filter (\<lambda>c. byte c \<noteq> 10 \<and> byte c \<noteq> 13) (b64_encode pad s) = b64_encode pad s"
proof (induction pad s rule: b64_encode.induct)
  case (4 pad a b c rest)
  then show ?case using enc6_plain sextets by simp
qed (use enc6_plain sextets in \<open>auto simp: byte_def\<close>)

lemma b64_quanta_encode: "b64_quanta pad (b64_encode pad s) = Some s"
proof (induction pad s rule: b64_encode.induct)
  case (2 pad a)
  have "dec6 (CHR ''='') = None" by (simp add: dec6_def byte_def)
  then show ?case by (simp add: dec2_def dec4_def dec6_enc6 sextets bytes_assembled)
next
  case (3 pad a b)
  have "dec6 (CHR ''='') = None" by (simp add: dec6_def byte_def)
  then show ?case
    using enc6_plain[OF sextets(4), of b]
    by (simp add: dec3_def dec4_def dec6_enc6 sextets bytes_assembled)
next
  case (4 pad a b c rest)
  then show ?case by (simp add: dec4_def dec6_enc6 sextets bytes_assembled)
qed simp

lemma b64_decode_encode: "b64_decode pad (b64_encode pad s) = Some s"
  by (simp add: b64_decode_def b64_encode_no_breaks b64_quanta_encode)

lemma dec_nat_digits: "list_all is_digit (dec_nat n) \<and> dec_nat n \<noteq> []"
proof (induction n rule: dec_nat.induct)
  case (1 n)
  have "is_digit (char_of (48 + n mod 10))" "n < 10 \<Longrightarrow> is_digit (char_of (48 + n))"
    by (simp_all add: is_digit_def byte_char_of)
  then show ?case using 1 by (subst dec_nat.simps) (simp add: dec_nat.simps[of n])
qed

lemma digits_val_snoc: "digits_val (s @ [c]) = digits_val s * 10 + (byte c - 48)"
  by (simp add: digits_val_def)

lemma digits_val_dec_nat: "digits_val (dec_nat n) = n"
proof (induction n rule: dec_nat.induct)
  case (1 n)
  show ?case
  proof (cases "n < 10")
    case True
    then show ?thesis by (subst dec_nat.simps) (simp add: digits_val_def byte_char_of)
  next
    case False
    then have "digits_val (dec_nat n) = n div 10 * 10 + n mod 10"
      using 1 by (subst dec_nat.simps) (simp add: digits_val_snoc byte_char_of)
    then show ?thesis by simp
  qed
qed

lemma takeWhile_digits: "list_all is_digit s \<Longrightarrow> takeWhile is_digit s = s"
  by (induction s) auto

lemma digit_not_blank: "is_digit c \<Longrightarrow> \<not> is_space c \<and> c \<noteq> CHR ''-'' \<and> c \<noteq> CHR ''+''"
  by (auto simp: is_digit_def is_space_def byte_def)

text \<open>A decimal that \<^verbatim>\<open>%d\<close> prints is read back, within 64 bits.\<close>

lemma Sscanf_d_dec_int:
  assumes "int64 i"
  shows "Sscanf_d (dec_int i) = Some i"
proof -
  let ?d = "dec_nat (nat \<bar>i\<bar>)"
  obtain c cs where d: "?d = c # cs" using dec_nat_digits[of "nat \<bar>i\<bar>"] by (meson neq_Nil_conv)
  have c: "is_digit c" "list_all is_digit ?d" using dec_nat_digits[of "nat \<bar>i\<bar>"] d by auto
  have v: "digits_val ?d = nat \<bar>i\<bar>" by (rule digits_val_dec_nat)
  have h: "\<not> is_space (CHR ''-'')" by (simp add: is_space_def byte_def)
  show ?thesis
  proof (cases "i < 0")
    case True
    then have "dec_int i = CHR ''-'' # ?d" by (simp add: dec_int_def)
    then show ?thesis
      using True v h assms c d by (simp add: Sscanf_d_def Let_def takeWhile_digits)
  next
    case False
    then have "dec_int i = ?d" by (simp add: dec_int_def)
    then show ?thesis
      using False v assms c digit_not_blank[OF c(1)] d
      by (simp add: Sscanf_d_def Let_def takeWhile_digits)
  qed
qed

lemma dec_int_chars: "x \<in> set (dec_int i) \<Longrightarrow> is_digit x \<or> x = CHR ''-''"
  using dec_nat_digits by (auto simp: dec_int_def list_all_iff split: if_splits)

section \<open>Hexadecimal\<close>

lemma hex_digit_inj: "m < 16 \<Longrightarrow> n < 16 \<Longrightarrow> hex_digit m = hex_digit n \<Longrightarrow> m = n"
proof -
  have "distinct (map hex_digit [0..<16])" by code_simp
  then show "m < 16 \<Longrightarrow> n < 16 \<Longrightarrow> hex_digit m = hex_digit n \<Longrightarrow> m = n"
    by (auto simp: distinct_map inj_on_def)
qed

lemma hex_encode_inj: "hex_encode xs = hex_encode ys \<Longrightarrow> xs = ys"
proof (induction xs arbitrary: ys)
  case Nil
  then show ?case by (cases ys) (simp_all add: hex_encode_def)
next
  case (Cons x xs)
  then obtain y ys' where ys: "ys = y # ys'" by (cases ys) (auto simp: hex_encode_def)
  have "byte x < 256" "byte y < 256" by (simp_all add: byte_def)
  then have "byte x div 16 = byte y div 16" "byte x mod 16 = byte y mod 16"
    using Cons.prems hex_digit_inj by (auto simp: ys hex_encode_def)
  then have "byte x = byte y" by (metis div_mult_mod_eq)
  then have "x = y" by (simp add: byte_def)
  moreover have "hex_encode xs = hex_encode ys'" using Cons.prems by (simp add: ys hex_encode_def)
  ultimately show ?case using Cons.IH ys by blast
qed

end
