(* ===== verification/Persistence.thy ===== *)
theory Persistence
  imports Routing Base64
begin

text \<open>
  The two tables of the gateway and the data access objects on them
  (\<^verbatim>\<open>internal/persistence/backend.go\<close>, \<^verbatim>\<open>history.go\<close>) with the adapters of \<^verbatim>\<open>cmd/trino-goway/main.go\<close>.
  A table is the list of its rows and a statement does what its SQL text says; rows of a query
  without \<^verbatim>\<open>ORDER BY\<close>, and rows that tie under it, come in table order.  \<open>db_err\<close> is the error the
  database answers at the moment, if any.  Times are nanoseconds since the Unix epoch.
\<close>

section \<open>Tables\<close>

record Backend =
  be_Name :: string
  be_URL :: string
  be_ExternalURL :: string
  be_RoutingGroup :: string
  be_Active :: bool
  be_CreatedAt :: int
  be_UpdatedAt :: int

text \<open>The columns of a history row.  The struct of the code has two more fields, \<^verbatim>\<open>RoutingGroup\<close> and
  \<^verbatim>\<open>QueryText\<close>: the table has no such columns and no statement writes or reads them.\<close>

record QueryRecord =
  qr_QueryID :: string
  qr_BackendURL :: string
  qr_ExternalURL :: string
  qr_UserName :: string
  qr_Source :: string
  qr_CreatedAt :: int

datatype driver = Postgres | Mysql | OtherDriver

datatype insert_result = ResultOK | ResultError

record db =
  db_driver :: driver
  db_err :: "go_error option"
  gateway_backend :: "Backend list"
  query_history :: "QueryRecord list"
  history_metrics :: "insert_result list"

definition unsupported_driver :: go_error where
  "unsupported_driver = Failure ''unsupported driver''"

section \<open>Backends\<close>

definition backend_List :: "db \<Rightarrow> Backend list result" where
  "backend_List d = (case db_err d of Some e \<Rightarrow> Inl e | None \<Rightarrow> Inr (gateway_backend d))"

fun upsert_row :: "Backend \<Rightarrow> Backend list \<Rightarrow> Backend list" where
  "upsert_row b [] = [b]"
| "upsert_row b (r # rs) =
     (if be_Name r = be_Name b
      then r\<lparr> be_URL := be_URL b, be_ExternalURL := be_ExternalURL b,
              be_RoutingGroup := be_RoutingGroup b, be_Active := be_Active b,
              be_UpdatedAt := be_UpdatedAt b \<rparr> # rs
      else r # upsert_row b rs)"

definition backend_Upsert :: "Backend \<Rightarrow> db \<Rightarrow> unit result \<times> db" where
  "backend_Upsert b d =
     (if db_driver d = OtherDriver then (Inl unsupported_driver, d)
      else (case db_err d of
              Some e \<Rightarrow> (Inl e, d)
            | None \<Rightarrow> (Inr (), d\<lparr> gateway_backend := upsert_row b (gateway_backend d) \<rparr>)))"

definition backend_Delete :: "string \<Rightarrow> db \<Rightarrow> unit result \<times> db" where
  "backend_Delete name d =
     (case db_err d of
        Some e \<Rightarrow> (Inl e, d)
      | None \<Rightarrow> (Inr (), d\<lparr> gateway_backend := filter (\<lambda>r. be_Name r \<noteq> name) (gateway_backend d) \<rparr>))"

definition backend_SetActive :: "int \<Rightarrow> string \<Rightarrow> bool \<Rightarrow> db \<Rightarrow> unit result \<times> db" where
  "backend_SetActive now name active d =
     (case db_err d of
        Some e \<Rightarrow> (Inl e, d)
      | None \<Rightarrow> (Inr (), d\<lparr> gateway_backend :=
          map (\<lambda>r. if be_Name r = name then r\<lparr> be_Active := active, be_UpdatedAt := now \<rparr> else r)
            (gateway_backend d) \<rparr>))"

definition backend_LookupExternalURL :: "string \<Rightarrow> db \<Rightarrow> string result" where
  "backend_LookupExternalURL url d =
     (case db_err d of
        Some e \<Rightarrow> Inl e
      | None \<Rightarrow>
          (case find (\<lambda>r. be_URL r = url) (gateway_backend d) of
             None \<Rightarrow> Inr url
           | Some r \<Rightarrow> if be_ExternalURL r = [] then Inr url else Inr (be_ExternalURL r)))"

definition backend_ListActive :: "db \<Rightarrow> Backend list result" where
  "backend_ListActive d =
     (case db_err d of Some e \<Rightarrow> Inl e | None \<Rightarrow> Inr (filter be_Active (gateway_backend d)))"

section \<open>History\<close>

definition record_insert :: "insert_result \<Rightarrow> db \<Rightarrow> db" where
  "record_insert x d = d\<lparr> history_metrics := history_metrics d @ [x] \<rparr>"

definition history_Insert :: "QueryRecord \<Rightarrow> db \<Rightarrow> unit result \<times> db" where
  "history_Insert r d =
     (if db_driver d = OtherDriver then (Inl unsupported_driver, record_insert ResultError d)
      else (case db_err d of
              Some e \<Rightarrow> (Inl e, record_insert ResultError d)
            | None \<Rightarrow>
                (Inr (), record_insert ResultOK
                   (if qr_QueryID r \<in> set (map qr_QueryID (query_history d)) then d
                    else d\<lparr> query_history := query_history d @ [r] \<rparr>))))"

definition history_LookupByQueryID :: "string \<Rightarrow> db \<Rightarrow> string result" where
  "history_LookupByQueryID queryID d =
     (case db_err d of
        Some e \<Rightarrow> Inl e
      | None \<Rightarrow>
          (case find (\<lambda>r. qr_QueryID r = queryID) (query_history d) of
             None \<Rightarrow> Inr [] | Some r \<Rightarrow> Inr (qr_BackendURL r)))"

text \<open>\<^verbatim>\<open>ORDER BY created_at DESC\<close>.\<close>

definition newest_first :: "QueryRecord list \<Rightarrow> QueryRecord list" where
  "newest_first rs = sort_key (\<lambda>r. - qr_CreatedAt r) rs"

definition history_ListRecent :: "int \<Rightarrow> db \<Rightarrow> QueryRecord list result" where
  "history_ListRecent limit d =
     (let n = (if limit \<le> 0 then 10 else limit) in
      if db_driver d = OtherDriver then Inl unsupported_driver
      else (case db_err d of
              Some e \<Rightarrow> Inl e | None \<Rightarrow> Inr (take (nat n) (newest_first (query_history d)))))"

record DistributionBucket =
  bu_MinuteStart :: int
  bu_BackendURL :: string
  bu_QueryCount :: nat

definition minute_start :: "int \<Rightarrow> int" where
  "minute_start t = t div 60000000000 * 60000000000"

definition bucket_key :: "QueryRecord \<Rightarrow> int \<times> string" where
  "bucket_key r = (minute_start (qr_CreatedAt r), qr_BackendURL r)"

definition history_FindDistribution :: "int \<Rightarrow> db \<Rightarrow> DistributionBucket list result" where
  "history_FindDistribution since d =
     (if db_driver d = OtherDriver then Inl unsupported_driver
      else (case db_err d of
              Some e \<Rightarrow> Inl e
            | None \<Rightarrow>
                (let rows = filter (\<lambda>r. since \<le> qr_CreatedAt r) (query_history d);
                     keys = sort_key fst (remdups (map bucket_key rows))
                 in Inr (map (\<lambda>k. \<lparr> bu_MinuteStart = fst k, bu_BackendURL = snd k,
                                  bu_QueryCount = length (filter (\<lambda>r. bucket_key r = k) rows) \<rparr>) keys))))"

section \<open>Filtered, paged history\<close>

text \<open>
  \<^verbatim>\<open>FindByFilter\<close> builds the text of a \<^verbatim>\<open>WHERE\<close> clause with placeholders, \<^verbatim>\<open>?\<close> for MySQL and \<^verbatim>\<open>$n\<close>
  otherwise, and the list of arguments.  The clause is kept as its conditions; the database binds
  \<^verbatim>\<open>$n\<close> to the n-th argument and the k-th \<^verbatim>\<open>?\<close> to the k-th.
\<close>

record HistoryFilter =
  hf_UserName :: string
  hf_BackendURL :: string
  hf_QueryID :: string
  hf_Source :: string
  hf_Page :: int
  hf_PageSize :: int

datatype column = ColUserName | ColBackendURL | ColQueryID | ColSource
datatype placeholder = Question | Dollar nat
datatype sql_arg = AStr string | AInt int

type_synonym where_clause = "(column \<times> placeholder) list"

definition next_placeholder :: "driver \<Rightarrow> nat \<Rightarrow> placeholder \<times> nat" where
  "next_placeholder drv argIdx = (if drv = Mysql then (Question, argIdx) else (Dollar argIdx, argIdx + 1))"

definition add_condition ::
  "driver \<Rightarrow> column \<Rightarrow> string \<Rightarrow> where_clause \<times> sql_arg list \<times> nat \<Rightarrow> where_clause \<times> sql_arg list \<times> nat" where
  "add_condition drv col v st =
     (if v = [] then st
      else (let (conds, args, argIdx) = st; (p, argIdx') = next_placeholder drv argIdx
            in (conds @ [(col, p)], args @ [AStr v], argIdx')))"

definition build_where :: "driver \<Rightarrow> HistoryFilter \<Rightarrow> where_clause \<times> sql_arg list \<times> nat" where
  "build_where drv f =
     add_condition drv ColSource (hf_Source f)
      (add_condition drv ColQueryID (hf_QueryID f)
        (add_condition drv ColBackendURL (hf_BackendURL f)
          (add_condition drv ColUserName (hf_UserName f) ([], [], 1))))"

definition bind_arg :: "nat \<Rightarrow> placeholder \<Rightarrow> sql_arg list \<Rightarrow> sql_arg option" where
  "bind_arg pos p args = (case p of
     Question \<Rightarrow> if pos < length args then Some (args ! pos) else None
   | Dollar n \<Rightarrow> if 1 \<le> n \<and> n \<le> length args then Some (args ! (n - 1)) else None)"

fun column_value :: "column \<Rightarrow> QueryRecord \<Rightarrow> string" where
  "column_value ColUserName r = qr_UserName r"
| "column_value ColBackendURL r = qr_BackendURL r"
| "column_value ColQueryID r = qr_QueryID r"
| "column_value ColSource r = qr_Source r"

fun eval_where :: "nat \<Rightarrow> where_clause \<Rightarrow> sql_arg list \<Rightarrow> QueryRecord \<Rightarrow> bool" where
  "eval_where pos [] args r = True"
| "eval_where pos ((col, p) # cs) args r =
     ((case bind_arg pos p args of Some (AStr v) \<Rightarrow> column_value col r = v | _ \<Rightarrow> False)
      \<and> eval_where (pos + 1) cs args r)"

definition history_FindByFilter :: "HistoryFilter \<Rightarrow> db \<Rightarrow> (QueryRecord list \<times> nat) result" where
  "history_FindByFilter f d =
     (let page = (if hf_Page f < 1 then 1 else hf_Page f);
          pageSize = (if hf_PageSize f \<le> 0 then 10 else hf_PageSize f);
          offset = wrap64 ((page - 1) * pageSize);
          (conds, args, argIdx) = build_where (db_driver d) f
      in case db_err d of
           Some e \<Rightarrow> Inl e
         | None \<Rightarrow>
             (let total = length (filter (eval_where 0 conds args) (query_history d));
                  (limitP, offsetP) = (if db_driver d = Mysql then (Question, Question)
                                       else (Dollar argIdx, Dollar (argIdx + 1)));
                  args' = args @ [AInt pageSize, AInt offset];
                  rows = newest_first (filter (eval_where 0 conds args') (query_history d))
              in case (bind_arg (length conds) limitP args', bind_arg (length conds + 1) offsetP args') of
                   (Some (AInt l), Some (AInt q)) \<Rightarrow>
                     if l < 0 \<or> q < 0 then Inl (Failure ''persistence: history: find by filter'')
                     else Inr (take (nat l) (drop (nat q) rows), total)
                 | _ \<Rightarrow> Inl (Failure ''persistence: history: find by filter'')))"

section \<open>Adapters\<close>

text \<open>The time of a record that sets no \<^verbatim>\<open>CreatedAt\<close>: the first of January of year 1.\<close>

definition zero_time :: int where
  "zero_time = - 62135596800000000000"

definition historyAdapter_Insert ::
  "string \<Rightarrow> string \<Rightarrow> string \<Rightarrow> string \<Rightarrow> db \<Rightarrow> unit result \<times> db" where
  "historyAdapter_Insert queryID backendURL userName source d =
     (let externalURL = (case backend_LookupExternalURL backendURL d of
                           Inl _ \<Rightarrow> backendURL | Inr u \<Rightarrow> u)
      in history_Insert \<lparr> qr_QueryID = queryID, qr_BackendURL = backendURL, qr_ExternalURL = externalURL,
           qr_UserName = userName, qr_Source = source, qr_CreatedAt = zero_time \<rparr> d)"

definition activeBackendAdapter_ListActive :: "db \<Rightarrow> ActiveBackend list result" where
  "activeBackendAdapter_ListActive d =
     (case backend_ListActive d of
        Inl e \<Rightarrow> Inl e
      | Inr bs \<Rightarrow> Inr (map (\<lambda>b. \<lparr> ab_Name = be_Name b, ab_URL = be_URL b,
                                   ab_RoutingGroup = be_RoutingGroup b \<rparr>) bs))"

section \<open>Invariant\<close>

text \<open>The primary keys of the two tables.\<close>

definition db_wf :: "db \<Rightarrow> bool" where
  "db_wf d = (distinct (map be_Name (gateway_backend d)) \<and> distinct (map qr_QueryID (query_history d)))"

lemma upsert_row_names:
  "map be_Name (upsert_row b rs) =
     (if be_Name b \<in> set (map be_Name rs) then map be_Name rs else map be_Name rs @ [be_Name b])"
  by (induction b rs rule: upsert_row.induct) auto

lemma record_insert_simps [simp]:
  "gateway_backend (record_insert x d) = gateway_backend d" "query_history (record_insert x d) = query_history d"
  "db_err (record_insert x d) = db_err d" "db_driver (record_insert x d) = db_driver d"
  by (simp_all add: record_insert_def)

lemma db_wf_Upsert: "db_wf d \<Longrightarrow> db_wf (snd (backend_Upsert b d))"
  by (auto simp: backend_Upsert_def db_wf_def upsert_row_names split: option.splits)

lemma db_wf_Delete: "db_wf d \<Longrightarrow> db_wf (snd (backend_Delete n d))"
  by (auto simp: backend_Delete_def db_wf_def distinct_map_filter split: option.splits)

lemma SetActive_names: "map be_Name (gateway_backend (snd (backend_SetActive now n a d))) =
    map be_Name (gateway_backend d)"
  by (auto simp: backend_SetActive_def comp_def if_distrib cong: if_cong split: option.splits)

lemma db_wf_SetActive: "db_wf d \<Longrightarrow> db_wf (snd (backend_SetActive now n a d))"
  using SetActive_names[of now n a d]
  by (simp add: db_wf_def) (simp add: backend_SetActive_def split: option.splits)

lemma db_wf_Insert: "db_wf d \<Longrightarrow> db_wf (snd (history_Insert r d))"
  by (auto simp: history_Insert_def db_wf_def split: option.splits)

lemma db_wf_adapter: "db_wf d \<Longrightarrow> db_wf (snd (historyAdapter_Insert q b u s d))"
  by (simp add: historyAdapter_Insert_def Let_def db_wf_Insert)

section \<open>What the store promises\<close>

datatype db_op =
    DoUpsert Backend
  | DoDelete string
  | DoSetActive int string bool
  | DoInsert QueryRecord
  | DoRecord string string string string
  | Fault "go_error option"

fun db_apply :: "db_op \<Rightarrow> db \<Rightarrow> db" where
  "db_apply (DoUpsert b) d = snd (backend_Upsert b d)"
| "db_apply (DoDelete n) d = snd (backend_Delete n d)"
| "db_apply (DoSetActive now n a) d = snd (backend_SetActive now n a d)"
| "db_apply (DoInsert r) d = snd (history_Insert r d)"
| "db_apply (DoRecord q b u s) d = snd (historyAdapter_Insert q b u s d)"
| "db_apply (Fault e) d = d\<lparr> db_err := e \<rparr>"

definition empty_db :: "driver \<Rightarrow> db" where
  "empty_db drv = \<lparr> db_driver = drv, db_err = None, gateway_backend = [], query_history = [],
     history_metrics = [] \<rparr>"

lemma db_wf_apply: "db_wf d \<Longrightarrow> db_wf (db_apply op d)"
  by (cases op) (simp_all add: db_wf_Upsert db_wf_Delete db_wf_SetActive db_wf_Insert db_wf_adapter,
      simp add: db_wf_def)


lemma find_upsert_row:
  "find (\<lambda>r. be_Name r = n) (upsert_row b rs) =
     (if n = be_Name b
      then (case find (\<lambda>r. be_Name r = n) rs of
              None \<Rightarrow> Some b | Some r \<Rightarrow> Some (b\<lparr> be_Name := n, be_CreatedAt := be_CreatedAt r \<rparr>))
      else find (\<lambda>r. be_Name r = n) rs)"
  by (induction b rs rule: upsert_row.induct) auto

text \<open>
  \<^verbatim>\<open>Upsert\<close> writes one row and nothing else: afterwards the backend of that name has the given
  fields, with the creation time of the row it replaces if there was one, and every other name has
  the row it had.
\<close>
theorem backend_Upsert_lookup:
  assumes "backend_Upsert b d = (Inr (), d')"
  shows "find (\<lambda>r. be_Name r = n) (gateway_backend d') =
    (if n = be_Name b
     then (case find (\<lambda>r. be_Name r = n) (gateway_backend d) of
             None \<Rightarrow> Some b | Some r \<Rightarrow> Some (b\<lparr> be_CreatedAt := be_CreatedAt r \<rparr>))
     else find (\<lambda>r. be_Name r = n) (gateway_backend d))"
proof -
  have "gateway_backend d' = upsert_row b (gateway_backend d)"
    using assms by (auto simp: backend_Upsert_def split: if_splits option.splits)
  moreover have "n = be_Name b \<Longrightarrow> b\<lparr> be_Name := n, be_CreatedAt := c \<rparr> = b\<lparr> be_CreatedAt := c \<rparr>" for c
    by simp
  ultimately show ?thesis by (simp add: find_upsert_row split: option.splits)
qed

lemma find_append: "find P (xs @ ys) = (case find P xs of None \<Rightarrow> find P ys | Some x \<Rightarrow> Some x)"
  by (induction xs) auto

lemma find_None_ids: "find (\<lambda>r. qr_QueryID r = q) rs = None \<longleftrightarrow> q \<notin> set (map qr_QueryID rs)"
  by (auto simp: find_None_iff)

text \<open>
  The first record of a query wins: after an insert the lookup of that query id answers the
  backend recorded first, and the answers for other ids do not change.
\<close>
theorem history_first_write_wins:
  assumes "history_Insert r d = (Inr (), d')"
  shows "history_LookupByQueryID q d' =
    (if q = qr_QueryID r \<and> q \<notin> set (map qr_QueryID (query_history d)) then Inr (qr_BackendURL r)
     else history_LookupByQueryID q d)"
proof -
  have e: "db_err d = None" "db_err d' = None" and
    h: "query_history d' = (if qr_QueryID r \<in> set (map qr_QueryID (query_history d)) then query_history d
                            else query_history d @ [r])"
    using assms by (auto simp: history_Insert_def split: if_splits option.splits)
  show ?thesis
    using e h find_None_ids[of q "query_history d"]
    by (auto simp: history_LookupByQueryID_def find_append split: option.splits)
qed

text \<open>Whether a row satisfies the non-empty fields of a filter.\<close>

definition filter_matches :: "HistoryFilter \<Rightarrow> QueryRecord \<Rightarrow> bool" where
  "filter_matches f r =
     ((hf_UserName f = [] \<or> qr_UserName r = hf_UserName f) \<and>
      (hf_BackendURL f = [] \<or> qr_BackendURL r = hf_BackendURL f) \<and>
      (hf_QueryID f = [] \<or> qr_QueryID r = hf_QueryID f) \<and>
      (hf_Source f = [] \<or> qr_Source r = hf_Source f))"

lemma build_where_binds:
  assumes "build_where drv f = (conds, args, argIdx)"
  shows "eval_where 0 conds (args @ rest) r = filter_matches f r"
    and "length args = length conds" and "drv \<noteq> Mysql \<Longrightarrow> argIdx = length args + 1"
proof -
  have "eval_where 0 conds (args @ rest) r = filter_matches f r \<and> length args = length conds
      \<and> (drv \<noteq> Mysql \<longrightarrow> argIdx = length args + 1)"
    using assms
    by (cases "drv = Mysql"; cases "hf_UserName f = []"; cases "hf_BackendURL f = []";
        cases "hf_QueryID f = []"; cases "hf_Source f = []")
       (auto simp: build_where_def add_condition_def next_placeholder_def bind_arg_def filter_matches_def)
  then show "eval_where 0 conds (args @ rest) r = filter_matches f r"
    "length args = length conds" "drv \<noteq> Mysql \<Longrightarrow> argIdx = length args + 1" by auto
qed

text \<open>
  C22: The paged search returns what was asked for: the placeholders of the generated clause are bound
  to the right arguments for every driver and every combination of filters, the total is the number
  of rows that satisfy all non-empty filters, and the page is the requested slice of those rows,
  newest first.
\<close>
theorem history_FindByFilter_page:
  assumes "db_err d = None" and "1 \<le> hf_Page f" and "1 \<le> hf_PageSize f"
    and "(hf_Page f - 1) * hf_PageSize f < 2 ^ 63"
  shows "history_FindByFilter f d =
    Inr (take (nat (hf_PageSize f)) (drop (nat ((hf_Page f - 1) * hf_PageSize f))
           (newest_first (filter (filter_matches f) (query_history d)))),
         length (filter (filter_matches f) (query_history d)))"
proof -
  obtain conds args argIdx where b: "build_where (db_driver d) f = (conds, args, argIdx)"
    by (metis prod_cases3)
  note B = build_where_binds[OF b]
  define off where "off = (hf_Page f - 1) * hf_PageSize f"
  have nn: "0 \<le> off" "off < 2 ^ 63" using assms(2-4) by (simp_all add: off_def)
  then have o: "wrap64 off = off" by (simp add: wrap64_def)
  have w: "eval_where 0 conds args = filter_matches f"
    "eval_where 0 conds (args @ [AInt (hf_PageSize f), AInt off]) = filter_matches f"
    using B(1)[of "[]"] B(1)[of "[AInt (hf_PageSize f), AInt off]"] by auto
  show ?thesis
    unfolding off_def[symmetric]
    using assms(1-3) b w o nn B(2,3)
    by (auto simp: history_FindByFilter_def Let_def bind_arg_def nth_append off_def[symmetric])
qed

lemma adapter_history:
  "query_history (snd (historyAdapter_Insert q b u s d)) = query_history d \<or>
   (\<exists>r. query_history (snd (historyAdapter_Insert q b u s d)) = query_history d @ [r] \<and> qr_CreatedAt r = zero_time)"
  by (auto simp: historyAdapter_Insert_def history_Insert_def Let_def split: option.splits)

text \<open>
  C23: The proxy's history adapter never sets the creation time, so every row it records has Go's zero
  time: a history filled by the proxy alone contributes nothing to the query distribution, whatever
  the starting time asked for, as long as it lies after year 1.
\<close>
theorem recorded_history_has_no_distribution:
  assumes "zero_time < since" and "drv \<noteq> OtherDriver"
  shows "history_FindDistribution since
    (fold (\<lambda>(q, b, u, s) d. snd (historyAdapter_Insert q b u s d)) calls (empty_db drv)) = Inr []"
proof -
  let ?step = "\<lambda>(q, b, u, s) d. snd (historyAdapter_Insert q b u s d)"
  define P where "P d \<longleftrightarrow> db_driver d = drv \<and> db_err d = None \<and>
    (\<forall>r \<in> set (query_history d). qr_CreatedAt r = zero_time)" for d :: db
  have st: "P (?step c d)" if "P d" for c d
  proof -
    obtain q b u s where c: "c = (q, b, u, s)" by (metis prod_cases4)
    have "db_driver (?step c d) = db_driver d" "db_err (?step c d) = db_err d"
      by (auto simp: c historyAdapter_Insert_def history_Insert_def Let_def split: option.splits)
    then show ?thesis using that adapter_history[of q b u s d] by (auto simp: P_def c)
  qed
  have "P d \<Longrightarrow> P (fold ?step calls d)" for d
    using st by (induction calls arbitrary: d) auto
  moreover have "P (empty_db drv)" by (simp add: P_def empty_db_def)
  ultimately have p: "P (fold ?step calls (empty_db drv))" by blast
  then have "filter (\<lambda>r. since \<le> qr_CreatedAt r) (query_history (fold ?step calls (empty_db drv))) = []"
    using assms(1) by (auto simp: P_def filter_empty_conv)
  then show ?thesis
    using p assms(2) by (simp add: history_FindDistribution_def P_def)
qed

text \<open>
  The distribution counts every recent row once: the counts of the buckets add up to the number of
  rows created at or after the starting time, and the buckets are in time order.
\<close>
theorem history_FindDistribution_total:
  assumes "history_FindDistribution since d = Inr buckets"
  shows "sum_list (map bu_QueryCount buckets) =
      length (filter (\<lambda>r. since \<le> qr_CreatedAt r) (query_history d))
    \<and> sorted (map bu_MinuteStart buckets)"
proof -
  let ?rows = "filter (\<lambda>r. since \<le> qr_CreatedAt r) (query_history d)"
  let ?keys = "sort_key fst (remdups (map bucket_key ?rows))"
  have b: "buckets = map (\<lambda>k. \<lparr> bu_MinuteStart = fst k, bu_BackendURL = snd k,
      bu_QueryCount = length (filter (\<lambda>r. bucket_key r = k) ?rows) \<rparr>) ?keys"
    using assms by (auto simp: history_FindDistribution_def Let_def split: if_splits option.splits)
  have c: "(\<Sum>k \<in> K. length (filter (\<lambda>r. f r = k) rs)) = length rs"
    if "finite K" "f ` set rs \<subseteq> K" for f :: "QueryRecord \<Rightarrow> int \<times> string" and rs K
    using that(2)
  proof (induction rs)
    case (Cons x rs)
    have "(\<Sum>k \<in> K. length (filter (\<lambda>r. f r = k) (x # rs))) =
        (\<Sum>k \<in> K. length (filter (\<lambda>r. f r = k) rs) + (if f x = k then 1 else 0))"
      by (intro sum.cong) auto
    also have "\<dots> = length (x # rs)"
      using Cons that(1) by (simp add: sum.distrib)
    finally show ?case .
  qed simp
  have "sum_list (map bu_QueryCount buckets) =
      sum (\<lambda>k. length (filter (\<lambda>r. bucket_key r = k) ?rows)) (set ?keys)"
    using b by (simp add: comp_def sum_list_distinct_conv_sum_set distinct_sort)
  also have "\<dots> = length ?rows" by (rule c) auto
  finally show ?thesis using b by (simp add: comp_def)
qed

section \<open>Concrete tables\<close>

definition demo_row :: "string \<Rightarrow> string \<Rightarrow> int \<Rightarrow> QueryRecord" where
  "demo_row q u t = \<lparr> qr_QueryID = q, qr_BackendURL = ''http://b'', qr_ExternalURL = [],
     qr_UserName = u, qr_Source = [], qr_CreatedAt = t \<rparr>"

definition demo_backend :: "string \<Rightarrow> bool \<Rightarrow> Backend" where
  "demo_backend u a = \<lparr> be_Name = ''b'', be_URL = u, be_ExternalURL = [], be_RoutingGroup = ''etl'',
     be_Active = a, be_CreatedAt = 7, be_UpdatedAt = 7 \<rparr>"

definition demo_db :: db where
  "demo_db = (empty_db Postgres)\<lparr> gateway_backend := [demo_backend ''http://b'' True],
     query_history := [demo_row ''q1'' ''ann'' 1, demo_row ''q2'' ''bob'' 2, demo_row ''q3'' ''ann'' 3] \<rparr>"

lemmas demo_db_defs = demo_db_def empty_db_def demo_row_def demo_backend_def

theorem backend_Upsert_lookup_witness:
  "find (\<lambda>r. be_Name r = ''b'')
     (gateway_backend (snd (backend_Upsert ((demo_backend ''http://n'' False)\<lparr> be_CreatedAt := 9 \<rparr>) demo_db)))
   = Some (demo_backend ''http://n'' False)"
  using backend_Upsert_lookup[of "(demo_backend ''http://n'' False)\<lparr> be_CreatedAt := 9 \<rparr>" demo_db
      "snd (backend_Upsert ((demo_backend ''http://n'' False)\<lparr> be_CreatedAt := 9 \<rparr>) demo_db)" "''b''"]
  by (simp add: backend_Upsert_def demo_db_defs)

theorem history_first_write_wins_witness:
  "history_LookupByQueryID ''q1'' (snd (history_Insert ((demo_row ''q1'' ''eve'' 4)\<lparr> qr_BackendURL := ''x'' \<rparr>) demo_db))
     = Inr ''http://b''"
  using history_first_write_wins[of "(demo_row ''q1'' ''eve'' 4)\<lparr> qr_BackendURL := ''x'' \<rparr>" demo_db
      "snd (history_Insert ((demo_row ''q1'' ''eve'' 4)\<lparr> qr_BackendURL := ''x'' \<rparr>) demo_db)" "''q1''"]
  by (simp add: history_Insert_def history_LookupByQueryID_def demo_db_defs)

definition demo_filter :: HistoryFilter where
  "demo_filter = \<lparr> hf_UserName = ''ann'', hf_BackendURL = [], hf_QueryID = [], hf_Source = [],
     hf_Page = 2, hf_PageSize = 1 \<rparr>"

theorem history_FindByFilter_page_witness:
  "history_FindByFilter demo_filter demo_db = Inr ([demo_row ''q1'' ''ann'' 1], 2)"
  using history_FindByFilter_page[of demo_db demo_filter]
  by (simp add: demo_filter_def demo_db_defs filter_matches_def newest_first_def)

theorem recorded_history_has_no_distribution_witness:
  "history_FindDistribution 0
     (snd (historyAdapter_Insert ''q'' ''http://b'' ''ann'' [] (empty_db Postgres))) = Inr []"
  using recorded_history_has_no_distribution[of 0 Postgres "[(''q'', ''http://b'', ''ann'', [])]"]
  by (simp add: zero_time_def)

theorem history_FindDistribution_total_witness:
  "\<exists>buckets. history_FindDistribution 2 demo_db = Inr buckets \<and> sum_list (map bu_QueryCount buckets) = 2"
proof -
  obtain buckets where b: "history_FindDistribution 2 demo_db = Inr buckets"
    by (simp add: history_FindDistribution_def demo_db_defs Let_def)
  from history_FindDistribution_total[OF b] b show ?thesis by (simp add: demo_db_defs)
qed

end
