(* ===== verification/Monitor.thy ===== *)
theory Monitor
  imports Persistence
begin

text \<open>
  The health monitor (\<^verbatim>\<open>internal/monitor/monitor.go\<close>, \<^verbatim>\<open>internal/clusterstatus/status.go\<close>) and the
  refresh of its backend set from the database (\<^verbatim>\<open>refreshBackends\<close> of \<^verbatim>\<open>cmd/trino-goway/main.go\<close>).
  A probe cycle runs one goroutine per backend; the environment gives the pairs of a backend and its
  answer in the order the goroutines finish.  \<^verbatim>\<open>SetBackendStatus\<close> is split into its load and its
  store, which are the points at which other goroutines can run.
\<close>

section \<open>State\<close>

datatype TrinoStatus = StatusUnknown | StatusHealthy | StatusUnhealthy | StatusPending

definition Label :: "TrinoStatus \<Rightarrow> string" where
  "Label s = (case s of StatusHealthy \<Rightarrow> ''HEALTHY'' | StatusUnhealthy \<Rightarrow> ''UNHEALTHY''
     | StatusPending \<Rightarrow> ''PENDING'' | StatusUnknown \<Rightarrow> ''UNKNOWN'')"

record SimpleBackend =
  sb_Name :: string
  sb_URL :: string
  sb_ExternalURL :: string
  sb_RoutingGroup :: string

type_synonym statuses = "string \<Rightarrow> TrinoStatus option"

text \<open>\<open>mo_observer\<close>, \<open>mo_collector\<close> and \<open>mo_onFirstTick\<close> tell which optional parts are wired; the lists
  are what the observers and the readiness callback have received.\<close>

record 's monitor =
  mo_interval :: int
  mo_checkTimeout :: int
  mo_status :: statuses
  mo_backends :: "SimpleBackend list"
  mo_onFirstTick :: bool
  mo_firstTickDone :: bool
  mo_firstTicks :: nat
  mo_observer :: bool
  mo_observed :: "(statuses \<times> (string \<Rightarrow> string option)) list"
  mo_collector :: bool
  mo_stats :: "(string \<Rightarrow> 's option) list"

definition monitor_New :: "int \<Rightarrow> int \<Rightarrow> bool \<Rightarrow> bool \<Rightarrow> bool \<Rightarrow> 's monitor" where
  "monitor_New interval checkTimeout first obs coll = \<lparr> mo_interval = interval,
     mo_checkTimeout = checkTimeout, mo_status = (\<lambda>_. None), mo_backends = [],
     mo_onFirstTick = first, mo_firstTickDone = False, mo_firstTicks = 0, mo_observer = obs,
     mo_observed = [], mo_collector = coll, mo_stats = [] \<rparr>"

section \<open>Operations\<close>

definition backend_names :: "SimpleBackend list \<Rightarrow> string \<Rightarrow> string option" where
  "backend_names bs = fold (\<lambda>b m. m(sb_URL b \<mapsto> sb_Name b)) bs (\<lambda>_. None)"

definition notifyObserver :: "'s monitor \<Rightarrow> 's monitor" where
  "notifyObserver m =
     (if \<not> mo_observer m then m
      else (let names = backend_names (mo_backends m);
                statuses = (\<lambda>url. case names url of None \<Rightarrow> None
                  | Some _ \<Rightarrow> (case mo_status m url of Some s \<Rightarrow> Some s | None \<Rightarrow> Some StatusPending))
            in m\<lparr> mo_observed := mo_observed m @ [(statuses, names)] \<rparr>))"

definition SetBackends :: "SimpleBackend list \<Rightarrow> 's monitor \<Rightarrow> 's monitor" where
  "SetBackends bs m = notifyObserver (m\<lparr> mo_backends := bs \<rparr>)"

definition Status :: "'s monitor \<Rightarrow> string \<Rightarrow> TrinoStatus" where
  "Status m url = (case mo_status m url of None \<Rightarrow> StatusUnknown | Some s \<Rightarrow> s)"

definition sbs_load :: "'s monitor \<Rightarrow> statuses" where
  "sbs_load m = mo_status m"

definition sbs_store :: "statuses \<Rightarrow> string \<Rightarrow> TrinoStatus \<Rightarrow> 's monitor \<Rightarrow> 's monitor" where
  "sbs_store old url s m = notifyObserver (m\<lparr> mo_status := old(url \<mapsto> s) \<rparr>)"

definition SetBackendStatus :: "string \<Rightarrow> TrinoStatus \<Rightarrow> 's monitor \<Rightarrow> 's monitor" where
  "SetBackendStatus url s m = sbs_store (sbs_load m) url s m"

definition AllStatuses :: "'s monitor \<Rightarrow> statuses" where
  "AllStatuses m = mo_status m"

definition monitor_Start :: "'s monitor \<Rightarrow> unit result" where
  "monitor_Start m =
     (if mo_interval m = 0 then Inl (Failure ''monitor: start: interval must be > 0'')
      else if mo_checkTimeout m = 0 then Inl (Failure ''monitor: start: checkTimeout must be > 0'')
      else Inr ())"

text \<open>The answer to a GET of \<^verbatim>\<open>/v1/info\<close>: a request or transport error, or a status and the decoded
  \<^verbatim>\<open>starting\<close> flag, if the body decodes.\<close>

datatype info_answer = InfoError | InfoAnswer nat "bool option"

definition checkOne :: "info_answer \<Rightarrow> TrinoStatus" where
  "checkOne a = (case a of
     InfoError \<Rightarrow> StatusUnhealthy
   | InfoAnswer status info \<Rightarrow>
       if status \<noteq> 200 then StatusUnhealthy
       else (case info of
               None \<Rightarrow> StatusUnhealthy
             | Some starting \<Rightarrow> if starting then StatusPending else StatusHealthy))"

definition firstTick :: "'s monitor \<Rightarrow> 's monitor" where
  "firstTick m =
     (if mo_firstTickDone m then m
      else m\<lparr> mo_firstTickDone := True,
              mo_firstTicks := mo_firstTicks m + (if mo_onFirstTick m then 1 else 0) \<rparr>)"

definition collectStats :: "(SimpleBackend \<times> 's) list \<Rightarrow> 's monitor \<Rightarrow> 's monitor" where
  "collectStats collected m =
     (if \<not> mo_collector m then m
      else m\<lparr> mo_stats := mo_stats m @ [fold (\<lambda>(b, cs) snap. snap(sb_Name b \<mapsto> cs)) collected (\<lambda>_. None)] \<rparr>)"

definition probe_results :: "(SimpleBackend \<times> info_answer) list \<Rightarrow> statuses" where
  "probe_results answers = fold (\<lambda>(b, a) res. res(sb_URL b \<mapsto> checkOne a)) answers (\<lambda>_. None)"

text \<open>\<open>answers bs\<close> and \<open>collected bs\<close>: the backends in completion order with what their probe and their
  collector returned.\<close>

definition probe ::
  "(SimpleBackend list \<Rightarrow> (SimpleBackend \<times> info_answer) list)
    \<Rightarrow> (SimpleBackend list \<Rightarrow> (SimpleBackend \<times> 's) list) \<Rightarrow> 's monitor \<Rightarrow> 's monitor" where
  "probe answers collected m =
     firstTick
       (let backends = mo_backends m in
        if backends = [] then m
        else collectStats (collected backends)
               (notifyObserver (m\<lparr> mo_status := probe_results (answers backends) \<rparr>)))"

fun run_cycles ::
  "((SimpleBackend list \<Rightarrow> (SimpleBackend \<times> info_answer) list)
    \<times> (SimpleBackend list \<Rightarrow> (SimpleBackend \<times> 's) list)) list \<Rightarrow> 's monitor \<Rightarrow> 's monitor" where
  "run_cycles [] m = m"
| "run_cycles ((a, c) # ticks) m = run_cycles ticks (probe a c m)"

text \<open>The refresh keeps the old set on a database error.\<close>

definition refreshBackends :: "db \<Rightarrow> 's monitor \<Rightarrow> unit result \<times> 's monitor" where
  "refreshBackends d m =
     (case backend_ListActive d of
        Inl e \<Rightarrow> (Inl e, m)
      | Inr bs \<Rightarrow>
          (Inr (), SetBackends (map (\<lambda>b. \<lparr> sb_Name = be_Name b, sb_URL = be_URL b,
             sb_ExternalURL = be_ExternalURL b, sb_RoutingGroup = be_RoutingGroup b \<rparr>) bs) m))"

section \<open>Properties\<close>

lemma fold_map_value:
  "fold (\<lambda>x m. m(f x \<mapsto> g x)) xs (\<lambda>_. None) k = Some v \<Longrightarrow> \<exists>x \<in> set xs. f x = k \<and> g x = v"
  by (induction xs rule: rev_induct) (auto split: if_splits)

lemma fold_map_hit:
  "k \<in> f ` set xs \<Longrightarrow> \<exists>v. fold (\<lambda>x m. m(f x \<mapsto> g x)) xs (\<lambda>_. None) k = Some v"
  by (induction xs rule: rev_induct) auto

lemma fold_map_miss:
  "k \<notin> f ` set xs \<Longrightarrow> fold (\<lambda>x m. m(f x \<mapsto> g x)) xs (\<lambda>_. None) k = None"
  by (induction xs rule: rev_induct) auto

lemma probe_results_alt:
  "probe_results answers = fold (\<lambda>x m. m(sb_URL (fst x) \<mapsto> checkOne (snd x))) answers (\<lambda>_. None)"
  by (simp add: probe_results_def case_prod_unfold)

lemma notifyObserver_simps [simp]:
  "mo_status (notifyObserver m) = mo_status m" "mo_backends (notifyObserver m) = mo_backends m"
  "mo_firstTickDone (notifyObserver m) = mo_firstTickDone m" "mo_firstTicks (notifyObserver m) = mo_firstTicks m"
  "mo_onFirstTick (notifyObserver m) = mo_onFirstTick m" "mo_observer (notifyObserver m) = mo_observer m"
  by (simp_all add: notifyObserver_def Let_def)

lemma collectStats_simps [simp]:
  "mo_status (collectStats c m) = mo_status m" "mo_backends (collectStats c m) = mo_backends m"
  "mo_firstTickDone (collectStats c m) = mo_firstTickDone m" "mo_firstTicks (collectStats c m) = mo_firstTicks m"
  "mo_onFirstTick (collectStats c m) = mo_onFirstTick m" "mo_observed (collectStats c m) = mo_observed m"
  by (simp_all add: collectStats_def)

lemma firstTick_simps [simp]:
  "mo_status (firstTick m) = mo_status m" "mo_backends (firstTick m) = mo_backends m"
  "mo_onFirstTick (firstTick m) = mo_onFirstTick m" "mo_observed (firstTick m) = mo_observed m"
  "mo_firstTickDone (firstTick m)"
  by (simp_all add: firstTick_def)

lemma probe_status:
  "mo_status (probe answers collected m) =
     (if mo_backends m = [] then mo_status m else probe_results (answers (mo_backends m)))"
  by (simp add: probe_def Let_def)

text \<open>Every backend's goroutine finishes once.\<close>

definition all_answer :: "(SimpleBackend list \<Rightarrow> (SimpleBackend \<times> 'a) list) \<Rightarrow> bool" where
  "all_answer answers = (\<forall>bs. mset (map fst (answers bs)) = mset bs)"

lemma all_answer_set: "all_answer answers \<Longrightarrow> fst ` set (answers bs) = set bs"
  unfolding all_answer_def by (metis list.set_map set_mset_mset)

text \<open>
  C24: A probe cycle replaces the whole health map.  With at least one backend, afterwards exactly the
  URLs of the current backends have a status, and each status is the verdict on an answer of a
  backend with that URL; statuses of removed backends are gone.
\<close>
theorem probe_replaces_statuses:
  assumes "all_answer answers" and "mo_backends m \<noteq> []"
  shows "(Status (probe answers collected m) url \<noteq> StatusUnknown \<longleftrightarrow> url \<in> sb_URL ` set (mo_backends m))
    \<and> (url \<in> sb_URL ` set (mo_backends m) \<longrightarrow>
        (\<exists>b a. (b, a) \<in> set (answers (mo_backends m)) \<and> sb_URL b = url \<and>
           Status (probe answers collected m) url = checkOne a))"
proof -
  let ?A = "answers (mo_backends m)"
  have img: "(\<lambda>x. sb_URL (fst x)) ` set ?A = sb_URL ` set (mo_backends m)"
    using all_answer_set[OF assms(1), of "mo_backends m"] by (metis image_image)
  have st: "mo_status (probe answers collected m) = probe_results ?A"
    using assms(2) by (simp add: probe_status)
  show ?thesis
  proof (cases "url \<in> sb_URL ` set (mo_backends m)")
    case True
    then obtain v where v: "probe_results ?A url = Some v"
      using fold_map_hit[of url "\<lambda>x. sb_URL (fst x)" ?A "\<lambda>x. checkOne (snd x)"] img
      unfolding probe_results_alt by blast
    then obtain x where "x \<in> set ?A" "sb_URL (fst x) = url" "checkOne (snd x) = v"
      using fold_map_value[of "\<lambda>x. sb_URL (fst x)" "\<lambda>x. checkOne (snd x)" ?A url v]
      unfolding probe_results_alt by blast
    moreover have "checkOne a \<noteq> StatusUnknown" for a
      by (simp add: checkOne_def split: info_answer.splits option.splits)
    ultimately show ?thesis using True v st by (auto simp: Status_def) (metis prod.collapse)
  next
    case False
    then have "probe_results ?A url = None"
      using fold_map_miss[of url "\<lambda>x. sb_URL (fst x)" ?A] img by (simp add: probe_results_alt)
    then show ?thesis using False st by (simp add: Status_def)
  qed
qed

lemma run_cycles_first:
  "mo_firstTickDone m \<Longrightarrow> mo_firstTicks (run_cycles ticks m) = mo_firstTicks m \<and> mo_firstTickDone (run_cycles ticks m)"
proof (induction ticks m rule: run_cycles.induct)
  case (2 a c ticks m)
  then show ?case by (simp add: probe_def firstTick_def Let_def)
qed simp

text \<open>
  Readiness is announced once: if a callback is registered, it is called in the first probe cycle,
  with or without backends and whatever the probes answer, and never again.
\<close>
theorem readiness_announced_once:
  assumes "ticks \<noteq> []"
  shows "mo_firstTicks (run_cycles ticks (SetBackends bs (monitor_New i t first obs coll))) =
    (if first then 1 else 0)"
proof -
  obtain a c rest where t: "ticks = (a, c) # rest" using assms by (metis neq_Nil_conv surj_pair)
  define m :: "'a monitor" where "m = SetBackends bs (monitor_New i t first obs coll)"
  have "\<not> mo_firstTickDone m \<and> mo_firstTicks m = 0 \<and> mo_onFirstTick m = first"
    by (simp add: m_def SetBackends_def monitor_New_def)
  then have "mo_firstTickDone (probe a c m)" "mo_firstTicks (probe a c m) = (if first then 1 else 0)"
    by (simp_all add: probe_def firstTick_def Let_def)
  then show ?thesis using run_cycles_first[of "probe a c m" rest] t by (simp add: m_def[symmetric])
qed

lemma run_cycles_no_backends:
  "mo_backends m = [] \<Longrightarrow> mo_status (run_cycles ticks m) = mo_status m"
proof (induction ticks m rule: run_cycles.induct)
  case (2 a c ticks m)
  then show ?case by (simp add: probe_def Let_def)
qed simp

text \<open>
  When the last backend is removed the health map is not cleared: after the backend set becomes
  empty, any number of probe cycles leaves the status of every URL as it was.
\<close>
theorem stale_status_after_last_backend:
  "Status (run_cycles ticks (SetBackends [] m)) url = Status m url"
  using run_cycles_no_backends[of "SetBackends [] m" ticks] by (simp add: SetBackends_def Status_def)

text \<open>
  \<^verbatim>\<open>SetBackendStatus\<close> is not atomic.  If a probe cycle stores its results between the load and the
  store of \<^verbatim>\<open>SetBackendStatus\<close>, all verdicts of that cycle are lost and the map is the old one with
  the one entry changed.
\<close>
theorem SetBackendStatus_loses_probe:
  "mo_status (sbs_store (sbs_load m) url s (probe answers collected m)) = (mo_status m)(url \<mapsto> s)"
  by (simp add: sbs_store_def sbs_load_def)

lemma backend_names_dom: "backend_names bs url \<noteq> None \<longleftrightarrow> url \<in> sb_URL ` set bs"
  using fold_map_hit[of url sb_URL bs sb_Name] fold_map_miss[of url sb_URL bs sb_Name]
  unfolding backend_names_def by (cases "url \<in> sb_URL ` set bs") simp_all

text \<open>
  The observer always sees the current backend set: after a change of the set, a manual status or a
  probe cycle, the newest snapshot has exactly the URLs of the backends, a backend without a verdict
  as pending, and the monitor's status for every other.
\<close>
theorem observer_snapshot:
  assumes "mo_observer m"
    and "m' = SetBackends bs m \<or> m' = SetBackendStatus u s m \<or> (m' = probe answers collected m \<and> mo_backends m \<noteq> [])"
  shows "\<exists>names. last (mo_observed m') =
     (\<lambda>url. if url \<in> sb_URL ` set (mo_backends m')
            then Some (case mo_status m' url of Some st \<Rightarrow> st | None \<Rightarrow> StatusPending) else None, names)
     \<and> mo_observed m' \<noteq> []"
proof -
  let ?snap = "\<lambda>x :: 'a monitor. (\<lambda>url. if url \<in> sb_URL ` set (mo_backends x)
     then Some (case mo_status x url of Some st \<Rightarrow> st | None \<Rightarrow> StatusPending) else None)"
  have n: "\<exists>names. mo_observed (notifyObserver x) = mo_observed x @ [(?snap x, names)]"
    if "mo_observer x" for x :: "'a monitor"
  proof -
    have "(\<lambda>url. case backend_names (mo_backends x) url of None \<Rightarrow> None
        | Some _ \<Rightarrow> (case mo_status x url of Some s \<Rightarrow> Some s | None \<Rightarrow> Some StatusPending)) = ?snap x"
    proof (rule ext, goal_cases)
      case (1 url)
      show ?case
        using backend_names_dom[of "mo_backends x" url]
        by (cases "backend_names (mo_backends x) url"; cases "mo_status x url") auto
    qed
    then show ?thesis using that by (simp add: notifyObserver_def Let_def)
  qed
  show ?thesis
    using assms(2)
  proof (elim disjE conjE)
    assume a: "m' = SetBackends bs m"
    show ?thesis using n[of "m\<lparr> mo_backends := bs \<rparr>"] assms(1) by (auto simp: a SetBackends_def cong: if_cong)
  next
    assume a: "m' = SetBackendStatus u s m"
    show ?thesis using n[of "m\<lparr> mo_status := (mo_status m)(u \<mapsto> s) \<rparr>"] assms(1)
      by (auto simp: a SetBackendStatus_def sbs_store_def sbs_load_def cong: if_cong)
  next
    assume a: "m' = probe answers collected m" "mo_backends m \<noteq> []"
    show ?thesis using n[of "m\<lparr> mo_status := probe_results (answers (mo_backends m)) \<rparr>"] assms(1) a(2)
      by (auto simp: a(1) probe_def Let_def cong: if_cong)
  qed
qed

section \<open>A concrete monitor\<close>

definition demo_sb :: "string \<Rightarrow> SimpleBackend" where
  "demo_sb u = \<lparr> sb_Name = u, sb_URL = u, sb_ExternalURL = [], sb_RoutingGroup = [] \<rparr>"

definition demo_answers :: "SimpleBackend list \<Rightarrow> (SimpleBackend \<times> info_answer) list" where
  "demo_answers bs = map (\<lambda>b. (b, if sb_URL b = ''u1'' then InfoAnswer 200 (Some False) else InfoError)) bs"

definition demo_monitor :: "unit monitor" where
  "demo_monitor = SetBackends [demo_sb ''u1'', demo_sb ''u2''] (monitor_New 1 1 True True False)"

theorem probe_replaces_statuses_witness:
  "Status (probe demo_answers (\<lambda>_. []) demo_monitor) ''u1'' = StatusHealthy
   \<and> Status (probe demo_answers (\<lambda>_. []) demo_monitor) ''u3'' = StatusUnknown"
proof -
  have a: "all_answer demo_answers" by (simp add: all_answer_def demo_answers_def comp_def)
  have b: "mo_backends demo_monitor = [demo_sb ''u1'', demo_sb ''u2'']"
    by (simp add: demo_monitor_def SetBackends_def)
  show ?thesis
    using probe_replaces_statuses[OF a, of demo_monitor "\<lambda>_. []" "''u1''"]
      probe_replaces_statuses[OF a, of demo_monitor "\<lambda>_. []" "''u3''"]
    by (auto simp: b demo_sb_def demo_answers_def checkOne_def)
qed

theorem readiness_announced_once_witness:
  "mo_firstTicks (run_cycles [(demo_answers, \<lambda>_. []), (demo_answers, \<lambda>_. [])] demo_monitor) = 1"
  using readiness_announced_once[of "[(demo_answers, \<lambda>_. []), (demo_answers, \<lambda>_. [] :: (SimpleBackend \<times> unit) list)]"
      "[demo_sb ''u1'', demo_sb ''u2'']" 1 1 True True False]
  unfolding demo_monitor_def by simp

theorem observer_snapshot_witness:
  "\<exists>names. last (mo_observed (SetBackends [demo_sb ''u9''] demo_monitor)) =
     (\<lambda>url. if url \<in> {''u9''} then Some (case mo_status (SetBackends [demo_sb ''u9''] demo_monitor) url
        of Some st \<Rightarrow> st | None \<Rightarrow> StatusPending) else None, names)"
  using observer_snapshot[of demo_monitor "SetBackends [demo_sb ''u9''] demo_monitor" "[demo_sb ''u9'']"]
  by (simp add: demo_monitor_def SetBackends_def monitor_New_def demo_sb_def)

end
