(* ===== verification/Sql_Meta.thy ===== *)
theory Sql_Meta
  imports Goway_Prelude
begin

text \<open>
  The SQL analyzer of the routing service
  (\<^verbatim>\<open>routing-service/internal/sqlmeta/analyzer.go\<close> and \<^verbatim>\<open>heuristic.go\<close>).  The scanners index into a
  string or token slice in Go; here they take the rest of it, so an index is the length of what has
  been consumed.  Everything is a total function: that the scanners terminate on every input is part
  of their definition.
\<close>

section \<open>Results\<close>

datatype category = CategoryRead | CategoryWrite | CategoryDDL | CategoryDML | CategoryExplain | CategoryOther

record QueryMeta =
  qm_QueryType :: string
  qm_Category :: category
  qm_Catalogs :: "string list"
  qm_Schemas :: "string list"
  qm_CatalogSchemas :: "string list"
  qm_Tables :: "string list"
  qm_ParseOK :: bool

definition emptyMeta :: QueryMeta where
  "emptyMeta = \<lparr> qm_QueryType = [], qm_Category = CategoryOther, qm_Catalogs = [], qm_Schemas = [],
     qm_CatalogSchemas = [], qm_Tables = [], qm_ParseOK = False \<rparr>"

section \<open>Tokens\<close>

record token =
  tk_text :: string
  tk_quoted :: bool

definition word_token :: "string \<Rightarrow> token" where
  "word_token s = \<lparr> tk_text = s, tk_quoted = False \<rparr>"

definition quoted_token :: "string \<Rightarrow> token" where
  "quoted_token s = \<lparr> tk_text = s, tk_quoted = True \<rparr>"

definition isIdentChar :: "char \<Rightarrow> bool" where
  "isIdentChar c = (c = CHR ''_'' \<or> is_lower c \<or> is_upper c \<or> is_digit c)"

definition apostrophe :: char where
  "apostrophe = CHR 0x27"

definition skip_line :: "string \<Rightarrow> string" where
  "skip_line s = dropWhile (\<lambda>c. c \<noteq> CHR 0x0A) s"

fun skip_block :: "string \<Rightarrow> string" where
  "skip_block (a # b # rest) = (if a = CHR ''*'' \<and> b = CHR ''/'' then rest else skip_block (b # rest))"
| "skip_block _ = []"

fun skip_literal :: "string \<Rightarrow> string" where
  "skip_literal (c # d # ds) =
     (if c = apostrophe then (if d = apostrophe then skip_literal ds else d # ds)
      else skip_literal (d # ds))"
| "skip_literal _ = []"

text \<open>\<open>scanDelimited\<close> returns the text with doubled closing characters undone and what follows the
  identifier; \<open>symmetric\<close> is \<^verbatim>\<open>open == close\<close> in the code.\<close>

fun scanDelimited :: "bool \<Rightarrow> char \<Rightarrow> string \<Rightarrow> string \<times> string" where
  "scanDelimited symmetric close [] = ([], [])"
| "scanDelimited symmetric close [c] = (if c = close then ([], []) else ([c], []))"
| "scanDelimited symmetric close (c # d # ds) =
     (if c = close then
        (if symmetric \<and> d = close then apfst (Cons close) (scanDelimited symmetric close ds)
         else ([], d # ds))
      else apfst (Cons c) (scanDelimited symmetric close (d # ds)))"

text \<open>One turn of the loop of \<open>tokenize\<close>: the token produced, if any, and the rest of the input.\<close>

definition lex_step :: "char \<Rightarrow> string \<Rightarrow> token option \<times> string" where
  "lex_step c cs =
     (if c = CHR ''-'' \<and> take 1 cs = ''-'' then (None, skip_line (drop 1 cs))
      else if c = CHR ''/'' \<and> take 1 cs = ''*'' then (None, skip_block (drop 1 cs))
      else if c = apostrophe then (None, skip_literal cs)
      else if c = CHR 0x22 then apfst (Some \<circ> quoted_token) (scanDelimited True (CHR 0x22) cs)
      else if c = CHR 0x60 then apfst (Some \<circ> quoted_token) (scanDelimited True (CHR 0x60) cs)
      else if c = CHR ''['' then apfst (Some \<circ> quoted_token) (scanDelimited False (CHR '']'') cs)
      else if c \<in> set ''.(),'' then (Some (word_token [c]), cs)
      else if isIdentChar c then (Some (word_token (c # takeWhile isIdentChar cs)), dropWhile isIdentChar cs)
      else (None, cs))"

lemma skip_block_length: "length (skip_block s) \<le> length s"
  by (induction s rule: skip_block.induct) (auto intro: le_SucI)

lemma skip_literal_length: "length (skip_literal s) \<le> length s"
  by (induction s rule: skip_literal.induct) (auto intro: le_SucI)

lemma scanDelimited_length: "length (snd (scanDelimited y c s)) \<le> length s"
  by (induction y c s rule: scanDelimited.induct) (auto intro: le_SucI)

lemma skip_line_length: "length (skip_line s) \<le> length s"
  by (simp add: skip_line_def length_dropWhile_le)

lemma lex_step_length: "length (snd (lex_step c cs)) \<le> length cs"
proof -
  have "length (skip_line (drop (Suc 0) cs)) \<le> length cs"
    using skip_line_length[of "drop (Suc 0) cs"] by simp
  moreover have "length (skip_block (drop (Suc 0) cs)) \<le> length cs"
    using skip_block_length[of "drop (Suc 0) cs"] by simp
  ultimately show ?thesis
    by (simp add: lex_step_def skip_literal_length scanDelimited_length length_dropWhile_le)
qed

function tokenize :: "string \<Rightarrow> token list" where
  "tokenize [] = []"
| "tokenize (c # cs) =
     (case fst (lex_step c cs) of
        None \<Rightarrow> tokenize (snd (lex_step c cs))
      | Some t \<Rightarrow> t # tokenize (snd (lex_step c cs)))"
  by pat_completeness simp_all

termination tokenize
  by (relation "measure length") (simp_all add: le_imp_less_Suc lex_step_length)

section \<open>Statement type\<close>

definition statementKeywords :: "string list" where
  "statementKeywords = [''SELECT'', ''INSERT'', ''UPDATE'', ''DELETE'', ''MERGE'', ''CREATE'', ''DROP'',
     ''ALTER'', ''TRUNCATE'', ''EXPLAIN'', ''SHOW'', ''DESCRIBE'', ''USE'', ''CALL'', ''SET'', ''RESET'',
     ''GRANT'', ''REVOKE'', ''COMMENT'', ''ANALYZE'', ''REFRESH'', ''VALUES'', ''PREPARE'', ''EXECUTE'',
     ''DEALLOCATE'', ''START'', ''COMMIT'', ''ROLLBACK'']"

definition isStatementKeyword :: "string \<Rightarrow> bool" where
  "isStatementKeyword kw = (kw \<in> set statementKeywords)"

definition keywordAt :: "token list \<Rightarrow> string" where
  "keywordAt toks = (case find (\<lambda>t. \<not> tk_quoted t) toks of None \<Rightarrow> [] | Some t \<Rightarrow> ToUpper (tk_text t))"

fun main_scan :: "nat \<Rightarrow> token list \<Rightarrow> string option" where
  "main_scan depth [] = None"
| "main_scan depth (t # ts) =
     (if tk_text t = ''('' then main_scan (depth + 1) ts
      else if tk_text t = '')'' then main_scan (depth - 1) ts
      else if depth \<noteq> 0 \<or> tk_quoted t then main_scan depth ts
      else if isStatementKeyword (ToUpper (tk_text t)) then Some (ToUpper (tk_text t))
      else main_scan depth ts)"

definition mainAfterWith :: "token list \<Rightarrow> string option" where
  "mainAfterWith toks = main_scan 0 (tl toks)"

definition statementType :: "token list \<Rightarrow> string option" where
  "statementType toks =
     (let first = keywordAt toks in
      if first = ''EXPLAIN'' then Some ''EXPLAIN''
      else if first = ''WITH'' then
        (case mainAfterWith toks of Some k \<Rightarrow> Some k | None \<Rightarrow> Some ''SELECT'')
      else if isStatementKeyword first then Some first
      else None)"

definition categoryFor :: "string \<Rightarrow> category" where
  "categoryFor q =
     (if q \<in> set [''SELECT'', ''VALUES'', ''DESCRIBE'', ''SHOW''] then CategoryRead
      else if q \<in> set [''INSERT'', ''UPDATE'', ''DELETE'', ''MERGE'', ''TRUNCATE''] then CategoryWrite
      else if q \<in> set [''CREATE'', ''DROP'', ''ALTER'', ''COMMENT'', ''REFRESH'', ''ANALYZE''] then CategoryDDL
      else if q = ''EXPLAIN'' then CategoryExplain
      else CategoryOther)"

definition CategoryForType :: "string \<Rightarrow> category" where
  "CategoryForType q = categoryFor (ToUpper (TrimSpace q))"

section \<open>Table references\<close>

definition tableKeywords :: "string list" where
  "tableKeywords = [''FROM'', ''JOIN'', ''INTO'', ''UPDATE'', ''TABLE'']"

definition refStopKeywords :: "string list" where
  "refStopKeywords = [''WHERE'', ''ON'', ''USING'', ''GROUP'', ''ORDER'', ''HAVING'', ''LIMIT'', ''UNION'',
     ''INTERSECT'', ''EXCEPT'', ''AS'', ''SET'', ''VALUES'', ''SELECT'', ''WITH'', ''LEFT'', ''RIGHT'', ''INNER'',
     ''OUTER'', ''CROSS'', ''FULL'', ''NATURAL'', ''AND'', ''OR'', ''OFFSET'', ''FETCH'', ''WINDOW'', ''QUALIFY'',
     ''TABLESAMPLE'']"

definition partText :: "token \<Rightarrow> string" where
  "partText t = (if tk_quoted t then tk_text t else ToLower (tk_text t))"

fun read_parts :: "token list \<Rightarrow> string list \<times> token list" where
  "read_parts (d # t # ts) =
     (if tk_text d = ''.'' then (let (ps, r) = read_parts ts in (partText t # ps, r)) else ([], d # t # ts))"
| "read_parts ts = ([], ts)"

definition readRef :: "token list \<Rightarrow> (string list \<times> token list) option" where
  "readRef toks =
     (case toks of
        [] \<Rightarrow> None
      | t # ts \<Rightarrow>
          if \<not> tk_quoted t \<and> (tk_text t \<in> {''('', '','', '')''} \<or> ToUpper (tk_text t) \<in> set refStopKeywords)
          then None
          else (let (ps, r) = read_parts ts in Some (partText t # ps, r)))"

definition skipAlias :: "token list \<Rightarrow> token list" where
  "skipAlias toks =
     (case toks of
        [] \<Rightarrow> []
      | t # ts \<Rightarrow>
          if \<not> tk_quoted t \<and> ToUpper (tk_text t) = ''AS'' then drop 1 ts
          else if tk_text t \<in> {'','', ''('', '')'', ''.''} then toks
          else if \<not> tk_quoted t \<and>
                  (ToUpper (tk_text t) \<in> set refStopKeywords \<or> ToUpper (tk_text t) \<in> set tableKeywords)
          then toks
          else ts)"

lemma read_parts_length: "length (snd (read_parts ts)) \<le> length ts"
  by (induction ts rule: read_parts.induct) (auto split: prod.splits)

lemma readRef_length: "readRef toks = Some (ps, r) \<Longrightarrow> length r < length toks"
proof -
  assume a: "readRef toks = Some (ps, r)"
  then obtain t ts where t: "toks = t # ts" by (cases toks) (auto simp: readRef_def)
  then have "r = snd (read_parts ts)" using a by (auto simp: readRef_def split: if_splits prod.splits)
  then show ?thesis using read_parts_length[of ts] t by simp
qed

lemma skipAlias_length: "length (skipAlias toks) \<le> length toks"
  by (auto simp: skipAlias_def split: list.splits)

definition starts_with :: "string \<Rightarrow> token list \<Rightarrow> bool" where
  "starts_with s toks = (case toks of [] \<Rightarrow> False | t # _ \<Rightarrow> tk_text t = s)"

text \<open>The comma-separated references after an anchor, and the tokens left.\<close>

function collect_refs :: "token list \<Rightarrow> string list list \<times> token list" where
  "collect_refs toks =
     (case readRef toks of
        None \<Rightarrow> ([], toks)
      | Some (ref, rest) \<Rightarrow>
          (let r = skipAlias rest in
           if starts_with '','' r then
             (if starts_with ''('' (tl r) then ([ref], tl r)
              else (let (refs, r') = collect_refs (tl r) in (ref # refs, r')))
           else ([ref], r)))"
  by pat_completeness auto

termination collect_refs
proof (relation "measure length", goal_cases)
  case (2 toks x ref rest r)
  have "length rest < length toks" using 2 readRef_length by auto
  moreover have "length r \<le> length rest" using 2 skipAlias_length by simp
  ultimately show ?case by simp
qed simp

declare collect_refs.simps [simp del]

lemma collect_refs_length: "length (snd (collect_refs toks)) \<le> length toks"
proof (induction toks rule: collect_refs.induct)
  case (1 toks)
  show ?case
  proof (cases "readRef toks")
    case None
    then show ?thesis by (simp add: collect_refs.simps)
  next
    case (Some p)
    obtain ref rest where p: "p = (ref, rest)" by fastforce
    have l: "length rest < length toks" "length (skipAlias rest) \<le> length rest"
      using readRef_length[of toks] Some p skipAlias_length by auto
    show ?thesis
      using 1[OF Some p[symmetric] refl] l Some p
      by (subst collect_refs.simps) (auto simp: Let_def split: prod.splits)
  qed
qed

fun skip_only :: "token list \<Rightarrow> token list" where
  "skip_only [] = []"
| "skip_only (t # ts) = (if \<not> tk_quoted t \<and> ToUpper (tk_text t) = ''ONLY'' then skip_only ts else t # ts)"

lemma skip_only_length: "length (skip_only ts) \<le> length ts"
  by (induction ts rule: skip_only.induct) auto

function extractTableRefs :: "token list \<Rightarrow> string list list" where
  "extractTableRefs [] = []"
| "extractTableRefs (t # ts) =
     (if tk_quoted t \<or> ToUpper (tk_text t) \<notin> set tableKeywords then extractTableRefs ts
      else (let r = skip_only ts in
            if starts_with ''('' r then extractTableRefs r
            else fst (collect_refs r) @ extractTableRefs (snd (collect_refs r))))"
  by pat_completeness auto

lemma anchor_length: "length (snd (collect_refs (skip_only ts))) < Suc (length ts)"
  using collect_refs_length[of "skip_only ts"] skip_only_length[of ts] by simp

termination extractTableRefs
  by (relation "measure length") (simp_all add: le_imp_less_Suc skip_only_length anchor_length)

section \<open>Names and the analyzer\<close>

definition qualify :: "string list \<Rightarrow> string \<Rightarrow> string \<Rightarrow> string \<times> string \<times> string" where
  "qualify ref defaultCatalog defaultSchema =
     (let dc = ToLower (TrimSpace defaultCatalog); ds = ToLower (TrimSpace defaultSchema); k = length ref
      in if k = 1 then (dc, ds, ref ! 0)
         else if k = 2 then (dc, ref ! 0, ref ! 1)
         else (ref ! (k - 3), ref ! (k - 2), ref ! (k - 1)))"

definition joinName :: "string \<Rightarrow> string \<Rightarrow> string \<Rightarrow> string" where
  "joinName catalog schema table =
     join ''.'' ((if catalog \<noteq> [] then [catalog] else []) @ (if schema \<noteq> [] then [schema] else []) @ [table])"

definition sorted_set :: "string list \<Rightarrow> string list" where
  "sorted_set xs = sort (remdups (filter (\<lambda>s. s \<noteq> []) xs))"

definition DefaultMaxBodyBytes :: int where
  "DefaultMaxBodyBytes = 262144"

definition NewHeuristic :: "int \<Rightarrow> int" where
  "NewHeuristic maxBodyBytes = (if maxBodyBytes \<le> 0 then DefaultMaxBodyBytes else maxBodyBytes)"

definition meta_of :: "token list \<Rightarrow> string \<Rightarrow> string \<Rightarrow> QueryMeta" where
  "meta_of toks defaultCatalog defaultSchema =
     (case (if toks = [] then None else statementType toks) of
        None \<Rightarrow> emptyMeta
      | Some queryType \<Rightarrow>
          (let names = filter (\<lambda>(c, s, t). t \<noteq> [])
                 (map (\<lambda>ref. qualify ref defaultCatalog defaultSchema) (extractTableRefs toks))
           in \<lparr> qm_QueryType = queryType, qm_Category = categoryFor queryType,
                qm_Catalogs = sorted_set (map (\<lambda>(c, s, t). c) names),
                qm_Schemas = sorted_set (map (\<lambda>(c, s, t). s) names),
                qm_CatalogSchemas = sorted_set (map (\<lambda>(c, s, t). c @ ''.'' @ s)
                   (filter (\<lambda>(c, s, t). c \<noteq> [] \<and> s \<noteq> []) names)),
                qm_Tables = sorted_set (map (\<lambda>(c, s, t). joinName c s t) names),
                qm_ParseOK = True \<rparr>))"

text \<open>\<open>maxBodyBytes\<close> is the only field of \<^verbatim>\<open>Heuristic\<close>.\<close>

definition analyze :: "int \<Rightarrow> string \<Rightarrow> string \<Rightarrow> string \<Rightarrow> QueryMeta \<times> bool" where
  "analyze maxBodyBytes sql defaultCatalog defaultSchema =
     (let limit = nat (if maxBodyBytes \<le> 0 then DefaultMaxBodyBytes else maxBodyBytes);
          truncated = length sql > limit;
          sql' = (if truncated then take limit sql else sql)
      in (meta_of (tokenize sql') defaultCatalog defaultSchema, truncated))"

definition Heuristic_Analyze :: "int \<Rightarrow> string \<Rightarrow> string \<Rightarrow> string \<Rightarrow> QueryMeta" where
  "Heuristic_Analyze maxBodyBytes sql defaultCatalog defaultSchema =
     fst (analyze maxBodyBytes sql defaultCatalog defaultSchema)"

definition AnalyzeWithTruncation :: "int \<Rightarrow> string \<Rightarrow> string \<Rightarrow> string \<Rightarrow> QueryMeta \<times> bool" where
  "AnalyzeWithTruncation maxBodyBytes sql defaultCatalog defaultSchema =
     analyze maxBodyBytes sql defaultCatalog defaultSchema"

definition Noop_Analyze :: "string \<Rightarrow> string \<Rightarrow> string \<Rightarrow> QueryMeta" where
  "Noop_Analyze sql defaultCatalog defaultSchema = emptyMeta"

section \<open>Shape of the result\<close>

definition name_list :: "string list \<Rightarrow> bool" where
  "name_list xs = (sorted xs \<and> distinct xs \<and> [] \<notin> set xs)"

text \<open>What the comment on \<^verbatim>\<open>QueryMeta\<close> promises.\<close>

definition meta_wf :: "QueryMeta \<Rightarrow> bool" where
  "meta_wf m =
     (list_all name_list [qm_Catalogs m, qm_Schemas m, qm_CatalogSchemas m, qm_Tables m] \<and>
      (if qm_ParseOK m
       then qm_QueryType m \<in> set statementKeywords \<and> qm_Category m = categoryFor (qm_QueryType m)
       else m = emptyMeta))"

lemma name_list_sorted_set [simp]: "name_list (sorted_set xs)"
  by (simp add: name_list_def sorted_set_def)

lemma set_sorted_set [simp]: "set (sorted_set xs) = set xs - {[]}"
  by (auto simp: sorted_set_def)

lemma main_scan_keyword: "main_scan n ts = Some k \<Longrightarrow> isStatementKeyword k"
  by (induction n ts rule: main_scan.induct) (simp_all split: if_splits)

lemma statementType_keyword: "statementType toks = Some k \<Longrightarrow> isStatementKeyword k"
proof -
  have "isStatementKeyword ''EXPLAIN''" "isStatementKeyword ''SELECT''"
    by (simp_all add: isStatementKeyword_def statementKeywords_def)
  then show "statementType toks = Some k \<Longrightarrow> isStatementKeyword k"
    using main_scan_keyword[of 0 "tl toks" k]
    by (simp add: statementType_def mainAfterWith_def Let_def split: if_splits option.splits)
qed

lemma emptyMeta_wf [simp]: "meta_wf emptyMeta"
  by (simp add: meta_wf_def name_list_def emptyMeta_def)

lemma meta_of_wf: "meta_wf (meta_of toks c s)"
proof (cases "toks = [] \<or> statementType toks = None")
  case True
  then have "meta_of toks c s = emptyMeta" by (auto simp: meta_of_def)
  then show ?thesis by simp
next
  case False
  then obtain k where "toks \<noteq> []" and k: "statementType toks = Some k" by auto
  then show ?thesis
    using statementType_keyword[OF k]
    by (simp add: meta_of_def meta_wf_def Let_def isStatementKeyword_def)
qed


section \<open>Work bound\<close>

lemma tokenize_length: "length (tokenize s) \<le> length s"
proof (induction s rule: tokenize.induct)
  case (2 c cs)
  then show ?case using lex_step_length[of c cs] by (fastforce split: option.splits)
qed simp

text \<open>
  The analyzer looks at no more than its byte cap: the answer is that for the capped prefix, no
  more tokens are produced than the cap has bytes, and the truncation flag says whether something
  was cut off.
\<close>
theorem analyze_bounded:
  "let limit = nat (NewHeuristic maxBodyBytes) in
     AnalyzeWithTruncation maxBodyBytes sql c s =
       (Heuristic_Analyze maxBodyBytes (take limit sql) c s, limit < length sql) \<and>
     length (tokenize (take limit sql)) \<le> limit \<and> 0 < limit"
proof -
  have "length (tokenize (take n sql)) \<le> n" for n using tokenize_length[of "take n sql"] by simp
  then show ?thesis
    by (simp add: AnalyzeWithTruncation_def Heuristic_Analyze_def NewHeuristic_def analyze_def Let_def
        DefaultMaxBodyBytes_def)
qed

section \<open>Lexical round trip\<close>

text \<open>Source text as a sequence of lexemes, each printed with a separator after it.\<close>

datatype lexeme = LWord string | LQuoted string | LTick string | LBracket string | LPunct char
  | LLine string | LBlock string | LString string

fun esc :: "char \<Rightarrow> string \<Rightarrow> string" where
  "esc d [] = []"
| "esc d (c # cs) = (if c = d then [d, d] else [c]) @ esc d cs"

fun render1 :: "lexeme \<Rightarrow> string" where
  "render1 (LWord w) = w @ '' ''"
| "render1 (LQuoted s) = CHR 0x22 # esc (CHR 0x22) s @ [CHR 0x22, CHR '' '']"
| "render1 (LTick s) = CHR 0x60 # esc (CHR 0x60) s @ [CHR 0x60, CHR '' '']"
| "render1 (LBracket s) = CHR ''['' # s @ '']''"
| "render1 (LPunct c) = [c]"
| "render1 (LLine s) = ''--'' @ s @ [CHR 0x0A]"
| "render1 (LBlock s) = ''/*'' @ s @ ''*/''"
| "render1 (LString s) = apostrophe # esc apostrophe s @ [apostrophe, CHR '' '']"

definition render :: "lexeme list \<Rightarrow> string" where
  "render ls = concat (map render1 ls)"

fun block_ok :: "string \<Rightarrow> bool" where
  "block_ok (a # b # rest) = (\<not> (a = CHR ''*'' \<and> b = CHR ''/'') \<and> block_ok (b # rest))"
| "block_ok _ = True"

fun lexeme_ok :: "lexeme \<Rightarrow> bool" where
  "lexeme_ok (LWord w) = (w \<noteq> [] \<and> list_all isIdentChar w)"
| "lexeme_ok (LBracket s) = (CHR '']'' \<notin> set s)"
| "lexeme_ok (LPunct c) = (c \<in> set ''.(),'')"
| "lexeme_ok (LLine s) = (CHR 0x0A \<notin> set s)"
| "lexeme_ok (LBlock s) = block_ok s"
| "lexeme_ok _ = True"

fun tok1 :: "lexeme \<Rightarrow> token list" where
  "tok1 (LWord w) = [word_token w]"
| "tok1 (LQuoted s) = [quoted_token s]"
| "tok1 (LTick s) = [quoted_token s]"
| "tok1 (LBracket s) = [quoted_token s]"
| "tok1 (LPunct c) = [word_token [c]]"
| "tok1 (LLine s) = []"
| "tok1 (LBlock s) = []"
| "tok1 (LString s) = []"

lemma ident_punct [simp]:
  "\<not> isIdentChar (CHR '' '')" "\<not> isIdentChar (CHR ''-'')" "\<not> isIdentChar (CHR ''/'')"
  "\<not> isIdentChar apostrophe" "\<not> isIdentChar (CHR 0x22)" "\<not> isIdentChar (CHR 0x60)"
  "\<not> isIdentChar (CHR ''['')" "\<not> isIdentChar (CHR ''.'')" "\<not> isIdentChar (CHR ''('')"
  "\<not> isIdentChar (CHR '')'')" "\<not> isIdentChar (CHR '','')" "\<not> isIdentChar (CHR 0x0A)"
  by (simp_all add: isIdentChar_def apostrophe_def is_lower_def is_upper_def is_digit_def byte_def)

lemma lex_blank [simp]: "lex_step (CHR '' '') s = (None, s)" "lex_step (CHR 0x0A) s = (None, s)"
  by (simp_all add: lex_step_def apostrophe_def)

lemma ident_not_special:
  assumes "isIdentChar c"
  shows "c \<noteq> CHR ''-'' \<and> c \<noteq> CHR ''/'' \<and> c \<noteq> apostrophe \<and> c \<noteq> CHR 0x22 \<and> c \<noteq> CHR 0x60 \<and>
    c \<noteq> CHR ''['' \<and> c \<notin> set ''.(),''"
  using assms ident_punct by auto

lemma lex_word:
  "isIdentChar c \<Longrightarrow> lex_step c cs = (Some (word_token (c # takeWhile isIdentChar cs)), dropWhile isIdentChar cs)"
  unfolding lex_step_def using ident_not_special[of c] by simp

lemma skip_line_newline: "CHR 0x0A \<notin> set s \<Longrightarrow> skip_line (s @ CHR 0x0A # r) = CHR 0x0A # r"
  unfolding skip_line_def by (induction s) auto

lemma skip_block_close: "block_ok s \<Longrightarrow> skip_block (s @ CHR ''*'' # CHR ''/'' # r) = r"
proof (induction s rule: block_ok.induct)
  case (1 a b rest)
  then show ?case by (cases rest) auto
qed auto

lemma skip_literal_esc: "skip_literal (esc apostrophe s @ apostrophe # CHR '' '' # r) = CHR '' '' # r"
proof (induction s)
  case Nil
  then show ?case by (simp add: apostrophe_def)
next
  case (Cons c s)
  then show ?case by (cases "esc apostrophe s") auto
qed

lemma scanDelimited_esc:
  "d \<noteq> CHR '' '' \<Longrightarrow> scanDelimited True d (esc d s @ d # CHR '' '' # r) = (s, CHR '' '' # r)"
proof (induction s)
  case (Cons c s)
  then show ?case by (cases "esc d s") auto
qed simp

lemma scanDelimited_bracket:
  "d \<notin> set s \<Longrightarrow> scanDelimited False d (s @ d # r) = (s, r)"
proof (induction s)
  case Nil
  then show ?case by (cases r) simp_all
next
  case (Cons c s)
  then show ?case by (cases s) auto
qed

lemma lex_delimited:
  "lex_step (CHR 0x22) cs = apfst (Some \<circ> quoted_token) (scanDelimited True (CHR 0x22) cs)"
  "lex_step (CHR 0x60) cs = apfst (Some \<circ> quoted_token) (scanDelimited True (CHR 0x60) cs)"
  "lex_step (CHR ''['') cs = apfst (Some \<circ> quoted_token) (scanDelimited False (CHR '']'') cs)"
  "lex_step apostrophe cs = (None, skip_literal cs)"
  "lex_step (CHR ''-'') (CHR ''-'' # cs) = (None, skip_line cs)"
  "lex_step (CHR ''/'') (CHR ''*'' # cs) = (None, skip_block cs)"
  by (simp_all add: lex_step_def apostrophe_def)

lemma lex_punct: "c \<in> set ''.(),'' \<Longrightarrow> lex_step c cs = (Some (word_token [c]), cs)"
  by (auto simp: lex_step_def apostrophe_def)

lemma tokenize_word:
  assumes "w \<noteq> []" "list_all isIdentChar w"
  shows "tokenize (w @ CHR '' '' # r) = word_token w # tokenize r"
proof -
  obtain c cs where w: "w = c # cs" using assms(1) by (cases w) auto
  have "takeWhile isIdentChar (cs @ CHR '' '' # r) = cs" "dropWhile isIdentChar (cs @ CHR '' '' # r) = CHR '' '' # r"
    using assms(2) w by (auto simp: takeWhile_append2 dropWhile_append2 list_all_iff)
  then show ?thesis using assms(2) w by (simp add: lex_word)
qed

lemma tokenize_lexeme: "lexeme_ok l \<Longrightarrow> tokenize (render1 l @ r) = tok1 l @ tokenize r"
  by (cases l)
     (simp_all add: tokenize_word lex_delimited lex_punct scanDelimited_esc scanDelimited_bracket
        skip_literal_esc skip_line_newline skip_block_close del: set_simps)

lemma tokenize_render: "list_all lexeme_ok ls \<Longrightarrow> tokenize (render ls) = concat (map tok1 ls)"
  by (induction ls) (simp_all add: render_def tokenize_lexeme)

text \<open>
  Text printed from lexemes is read back as its words, quoted identifiers and punctuation; what
  stands in line comments, block comments and string literals has no influence on the analysis, and
  a quoted identifier keeps every byte, its delimiter included.
\<close>
theorem analyze_render:
  assumes "list_all lexeme_ok ls" and "int (length (render ls)) \<le> NewHeuristic maxBodyBytes"
  shows "Heuristic_Analyze maxBodyBytes (render ls) c s = meta_of (concat (map tok1 ls)) c s"
  using assms
  by (simp add: Heuristic_Analyze_def analyze_def Let_def tokenize_render NewHeuristic_def)

theorem analyze_render_witness:
  "list_all lexeme_ok [LBlock ''FROM a'', LWord ''USE'', LString ''it is'', LQuoted ''x''] \<and>
   Heuristic_Analyze 0 (render [LBlock ''FROM a'', LWord ''USE'', LString ''it is'', LQuoted ''x'']) [] [] =
     meta_of [word_token ''USE'', quoted_token ''x''] [] []"
proof -
  let ?ls = "[LBlock ''FROM a'', LWord ''USE'', LString ''it is'', LQuoted ''x'']"
  have ok: "list_all lexeme_ok ?ls"
    by (simp add: isIdentChar_def is_upper_def is_lower_def is_digit_def byte_def)
  have "int (length (render ?ls)) \<le> NewHeuristic 0"
    by (simp add: render_def NewHeuristic_def DefaultMaxBodyBytes_def apostrophe_def)
  from analyze_render[OF ok this, of "[]" "[]"] ok show ?thesis by simp
qed

section \<open>References after an anchor\<close>

definition dot :: token where
  "dot = word_token ''.''"

definition comma :: token where
  "comma = word_token '',''"

fun ref_toks :: "token list \<Rightarrow> token list" where
  "ref_toks [] = []"
| "ref_toks [t] = [t]"
| "ref_toks (t # u # ts) = t # dot # ref_toks (u # ts)"

definition anchor :: "token \<Rightarrow> bool" where
  "anchor t = (\<not> tk_quoted t \<and> ToUpper (tk_text t) \<in> set tableKeywords)"

definition stop :: "token \<Rightarrow> bool" where
  "stop t = (\<not> tk_quoted t \<and> ToUpper (tk_text t) \<in> set refStopKeywords)"

definition is_kw :: "string \<Rightarrow> token \<Rightarrow> bool" where
  "is_kw k t = (\<not> tk_quoted t \<and> ToUpper (tk_text t) = k)"

definition punct :: "token \<Rightarrow> bool" where
  "punct t = (tk_text t \<in> {'','', ''('', '')'', ''.''})"

text \<open>A list item is a dotted reference with an optional alias, bare or after \<^verbatim>\<open>AS\<close>.\<close>

fun alias_ok :: "token list \<Rightarrow> bool" where
  "alias_ok [] = True"
| "alias_ok [t] = (\<not> punct t \<and> \<not> stop t \<and> \<not> anchor t)"
| "alias_ok [a, t] = (is_kw ''AS'' a \<and> tk_text a \<noteq> ''.'')"
| "alias_ok _ = False"

definition item_ok :: "token list \<times> token list \<Rightarrow> bool" where
  "item_ok it = (fst it \<noteq> [] \<and> \<not> punct (hd (fst it)) \<and> \<not> stop (hd (fst it)) \<and> alias_ok (snd it))"

fun from_list :: "(token list \<times> token list) list \<Rightarrow> token list" where
  "from_list [] = []"
| "from_list [it] = ref_toks (fst it) @ snd it"
| "from_list (it # it2 # its) = ref_toks (fst it) @ snd it @ comma # from_list (it2 # its)"

definition clause_end :: "token list \<Rightarrow> bool" where
  "clause_end rest = (case rest of [] \<Rightarrow> True
     | t # _ \<Rightarrow> tk_text t = '')'' \<or> (\<not> punct t \<and> \<not> is_kw ''AS'' t \<and> (stop t \<or> anchor t)))"

lemma dot_text [simp]: "tk_text dot = ''.''" "tk_text comma = '',''" "\<not> tk_quoted comma"
  by (simp_all add: dot_def comma_def word_token_def)

lemma read_parts_dots:
  assumes "rest = [] \<or> tk_text (hd rest) \<noteq> ''.''"
  shows "read_parts (concat (map (\<lambda>p. [dot, p]) ps) @ rest) = (map partText ps, rest)"
proof (induction ps)
  case Nil
  then show ?case using assms by (cases rest rule: read_parts.cases) auto
qed simp

lemma ref_toks_Cons: "ref_toks (t # ps) = t # concat (map (\<lambda>p. [dot, p]) ps)"
  by (induction ps arbitrary: t) simp_all

lemma readRef_ref_toks:
  assumes "ps \<noteq> []" "\<not> punct (hd ps)" "\<not> stop (hd ps)" "rest = [] \<or> tk_text (hd rest) \<noteq> ''.''"
  shows "readRef (ref_toks ps @ rest) = Some (map partText ps, rest)"
proof -
  obtain t ts where ps: "ps = t # ts" using assms(1) by (cases ps) auto
  then show ?thesis
    using assms(2,3) read_parts_dots[OF assms(4), of ts]
    by (simp add: readRef_def ref_toks_Cons punct_def stop_def)
qed

lemma skipAlias_item:
  assumes "alias_ok al" "rest = [] \<or> tk_text (hd rest) = '','' \<or> clause_end rest"
  shows "skipAlias (al @ rest) = rest"
  using assms
proof (cases al rule: alias_ok.cases)
  case 1
  then show ?thesis using assms(2)
    by (cases rest) (auto simp: skipAlias_def clause_end_def is_kw_def stop_def anchor_def ToUpper_def
        upper_char_def is_lower_def byte_def)
next
  case (2 t)
  then show ?thesis using assms(1)
    by (auto simp: skipAlias_def punct_def stop_def anchor_def refStopKeywords_def)
qed (auto simp: skipAlias_def is_kw_def)

lemma alias_no_dot:
  assumes "alias_ok al" "rest = [] \<or> tk_text (hd rest) \<noteq> ''.''"
  shows "al @ rest = [] \<or> tk_text (hd (al @ rest)) \<noteq> ''.''"
  using assms by (cases al rule: alias_ok.cases) (auto simp: punct_def)

lemma clause_end_start:
  "clause_end rest \<Longrightarrow> rest = [] \<or> tk_text (hd rest) \<noteq> ''.''"
  "clause_end rest \<Longrightarrow> \<not> starts_with '','' rest"
  by (auto simp: clause_end_def punct_def starts_with_def split: list.splits)

lemma from_list_hd: "item_ok it \<Longrightarrow> \<exists>ts. from_list (it # its) = hd (fst it) # ts"
  by (cases its; cases "fst it") (simp_all add: ref_toks_Cons item_ok_def)

lemma collect_refs_from_list:
  assumes "its \<noteq> []" "list_all item_ok its" "clause_end rest"
  shows "collect_refs (from_list its @ rest) = (map (\<lambda>it. map partText (fst it)) its, rest)"
  using assms(1,2)
proof (induction its rule: from_list.induct)
  case (2 it)
  have "readRef (ref_toks (fst it) @ snd it @ rest) = Some (map partText (fst it), snd it @ rest)"
    using 2 alias_no_dot[OF _ clause_end_start(1)[OF assms(3)]]
    by (intro readRef_ref_toks) (auto simp: item_ok_def)
  moreover have "skipAlias (snd it @ rest) = rest"
    using 2 assms(3) by (intro skipAlias_item) (auto simp: item_ok_def)
  ultimately show ?case
    by (subst collect_refs.simps) (simp add: clause_end_start(2)[OF assms(3)])
next
  case (3 it it2 its)
  let ?r = "from_list (it2 # its) @ rest"
  have ok: "item_ok it" "item_ok it2" using 3 by simp_all
  have "readRef (ref_toks (fst it) @ snd it @ comma # ?r) = Some (map partText (fst it), snd it @ comma # ?r)"
    using ok alias_no_dot[of "snd it" "comma # ?r"]
    by (intro readRef_ref_toks) (auto simp: item_ok_def)
  moreover have "skipAlias (snd it @ comma # ?r) = comma # ?r"
    using ok by (intro skipAlias_item) (auto simp: item_ok_def)
  moreover have "\<not> starts_with ''('' ?r"
    using from_list_hd[OF ok(2), of its] ok(2) by (auto simp: starts_with_def item_ok_def punct_def)
  ultimately show ?case using 3
    by (subst collect_refs.simps) (simp add: starts_with_def)
qed simp

text \<open>
  Every table of a comma-separated list after \<^verbatim>\<open>FROM\<close>, \<^verbatim>\<open>JOIN\<close>, \<^verbatim>\<open>INTO\<close>, \<^verbatim>\<open>UPDATE\<close> or \<^verbatim>\<open>TABLE\<close> is
  extracted, in order and with its aliases skipped, and the scan goes on behind the list; tokens
  before the anchor add nothing.
\<close>
theorem references_after_anchor:
  assumes "list_all (\<lambda>t. \<not> anchor t) pre" and "anchor kw"
    and "its \<noteq> []" and "list_all item_ok its" and "\<not> is_kw ''ONLY'' (hd (fst (hd its)))"
    and "clause_end rest"
  shows "extractTableRefs (pre @ kw # from_list its @ rest) =
    map (\<lambda>it. map partText (fst it)) its @ extractTableRefs rest"
  using assms(1)
proof (induction pre)
  case Nil
  obtain it its' where its: "its = it # its'" using assms(3) by (cases its) auto
  obtain ts where ts: "from_list its = hd (fst it) # ts"
    using from_list_hd[of it its'] assms(4) its by auto
  have "skip_only (from_list its @ rest) = from_list its @ rest"
    using ts assms(5) its by (auto simp: is_kw_def)
  moreover have "\<not> starts_with ''('' (from_list its @ rest)"
    using ts assms(4) its by (auto simp: starts_with_def item_ok_def punct_def)
  ultimately show ?case
    using assms(2) collect_refs_from_list[OF assms(3,4,6)] by (simp add: anchor_def)
next
  case (Cons t pre)
  then show ?case by (simp add: anchor_def)
qed

theorem references_after_anchor_witness:
  "extractTableRefs
     ([word_token ''SELECT'', quoted_token ''FROM''] @ word_token ''FROM'' #
      from_list [([word_token ''Hive'', word_token ''web'', quoted_token ''Log''], [word_token ''l'']),
                 ([word_token ''t''], [word_token ''AS'', word_token ''u''])]
      @ [word_token ''WHERE'', word_token ''x'']) =
   [[''hive'', ''web'', ''Log''], [''t'']]"
proof -
  have low: "ToLower ''Hive'' = ''hive''" "ToLower ''web'' = ''web''" "ToLower ''t'' = ''t''"
    by (simp_all add: ToLower_def lower_char_def is_upper_def byte_def char_of_def bit_0)
  have up: "ToUpper ''SELECT'' = ''SELECT''" "ToUpper ''FROM'' = ''FROM''" "ToUpper ''WHERE'' = ''WHERE''"
    "ToUpper ''AS'' = ''AS''" "ToUpper ''l'' = ''L''" "ToUpper ''t'' = ''T''" "ToUpper ''x'' = ''X''"
    "ToUpper ''Hive'' = ''HIVE''"
    by (simp_all add: ToUpper_def upper_char_def is_lower_def byte_def char_of_def bit_0)
  show ?thesis
    by (subst references_after_anchor)
       (simp_all add: low up anchor_def stop_def punct_def is_kw_def item_ok_def clause_end_def
          word_token_def quoted_token_def partText_def tableKeywords_def refStopKeywords_def)
qed

lemma quoted_paren_misclassified:
  "statementType [word_token ''WITH'', quoted_token ''('', word_token ''AS'', word_token ''('',
     word_token ''SELECT'', word_token ''1'', word_token '')'', word_token ''INSERT'', word_token ''INTO'',
     word_token ''t''] = Some ''SELECT''"
proof -
  have "ToUpper ''WITH'' = ''WITH''"
    by (simp add: ToUpper_def upper_char_def is_lower_def byte_def)
  then show ?thesis
    by (simp add: statementType_def keywordAt_def mainAfterWith_def word_token_def quoted_token_def)
qed

end
