(* ===== verification/Engine.thy ===== *)
theory Engine
  imports Selectors Sql_Meta
begin

text \<open>
  The routing engine of the routing service (\<^verbatim>\<open>routing-service/internal/engine\<close>): the input built from
  the gateway's request (\<^verbatim>\<open>input.go\<close>, \<^verbatim>\<open>adapter.go\<close>), the hash helper (\<^verbatim>\<open>method.go\<close>) and the pipeline of
  routing methods with its kill switch (\<^verbatim>\<open>pipeline.go\<close>).  A routing method is an interface in the code;
  here \<open>'p\<close> is the state of a provider and a record of operations gives its type name and its
  evaluation, which may return, return an error or panic.  The compare-and-swap loop of
  \<^verbatim>\<open>updateMethod\<close> is a step relation over all interleavings with other updates and reloads.
\<close>

section \<open>Input\<close>

record EngineInput =
  ei_Source :: string
  ei_ClientTags :: "string list"
  ei_User :: string
  ei_Catalog :: string
  ei_Schema :: string
  ei_Method :: string
  ei_URI :: string
  ei_RemoteAddr :: string
  ei_Body :: string
  ei_IsNew :: bool
  ei_ParamMap :: "string \<Rightarrow> string option"
  ei_QueryType :: string
  ei_QueryCategory :: string
  ei_Catalogs :: "string list"
  ei_Schemas :: "string list"
  ei_CatalogSchemas :: "string list"
  ei_Tables :: "string list"
  ei_ParseOK :: bool

text \<open>A nil slice and an empty one are the same list, so the normalisation of nil slices is the identity.\<close>

definition empty_input :: EngineInput where
  "empty_input = \<lparr> ei_Source = [], ei_ClientTags = [], ei_User = [], ei_Catalog = [], ei_Schema = [],
     ei_Method = [], ei_URI = [], ei_RemoteAddr = [], ei_Body = [], ei_IsNew = False,
     ei_ParamMap = (\<lambda>_. None), ei_QueryType = [], ei_QueryCategory = [], ei_Catalogs = [],
     ei_Schemas = [], ei_CatalogSchemas = [], ei_Tables = [], ei_ParseOK = False \<rparr>"

definition FromProto :: "pb_RouteRequest option \<Rightarrow> EngineInput" where
  "FromProto r =
     (case r of
        None \<Rightarrow> empty_input
      | Some req \<Rightarrow>
          (let in1 = empty_input\<lparr> ei_Source := pr_TrinoSource req, ei_ClientTags := pr_ClientTags req,
                       ei_Method := pr_Method req, ei_URI := pr_RequestUri req,
                       ei_RemoteAddr := pr_RemoteAddr req, ei_ParamMap := pr_ParameterMap req \<rparr>;
               in2 = (case pr_User req of None \<Rightarrow> in1 | Some u \<Rightarrow> in1\<lparr> ei_User := u \<rparr>)
           in case pr_TrinoQueryProperties req of
                None \<Rightarrow> in2
              | Some qp \<Rightarrow>
                  in2\<lparr> ei_Catalog := pq_DefaultCatalog qp, ei_Schema := pq_DefaultSchema qp,
                       ei_Body := pq_Body qp, ei_IsNew := pq_IsNewQuerySubmission qp,
                       ei_QueryType := pq_QueryType qp, ei_Catalogs := pq_Catalogs qp,
                       ei_Schemas := pq_Schemas qp, ei_CatalogSchemas := pq_CatalogSchemas qp,
                       ei_Tables := pq_Tables qp, ei_ParseOK := pq_IsQueryParsingSuccessful qp \<rparr>))"

definition HasParsedSQL :: "EngineInput \<Rightarrow> bool" where
  "HasParsedSQL i = (ei_ParseOK i \<or> ei_QueryType i \<noteq> [] \<or> ei_Catalogs i \<noteq> [] \<or> ei_Schemas i \<noteq> [] \<or>
     ei_CatalogSchemas i \<noteq> [] \<or> ei_Tables i \<noteq> [])"

fun CategoryName :: "category \<Rightarrow> string" where
  "CategoryName CategoryRead = ''READ''"
| "CategoryName CategoryWrite = ''WRITE''"
| "CategoryName CategoryDDL = ''DDL''"
| "CategoryName CategoryDML = ''DML''"
| "CategoryName CategoryExplain = ''EXPLAIN''"
| "CategoryName CategoryOther = ''OTHER''"

section \<open>SQL analysis at the boundary\<close>

text \<open>The analyzer injected by \<^verbatim>\<open>main\<close>: none, or the heuristic with its byte cap.\<close>

datatype analyzer = NoopAnalyzer | Heuristic int

text \<open>An observation is the result label and whether the body was truncated.\<close>

type_synonym sql_obs = "string \<times> bool"

record PipelineEvaluator =
  ev_analyzer :: analyzer
  ev_sqlObs :: bool

definition run_analyzer :: "analyzer \<Rightarrow> string \<Rightarrow> string \<Rightarrow> string \<Rightarrow> QueryMeta \<times> bool" where
  "run_analyzer a body catalog schema =
     (case a of
        Heuristic n \<Rightarrow> AnalyzeWithTruncation n body catalog schema
      | NoopAnalyzer \<Rightarrow> (Noop_Analyze body catalog schema, False))"

definition sqlResult :: "QueryMeta \<Rightarrow> string" where
  "sqlResult m = (if qm_ParseOK m then ''ok'' else ''empty'')"

definition fillSQLMeta :: "PipelineEvaluator \<Rightarrow> EngineInput \<Rightarrow> EngineInput \<times> sql_obs list" where
  "fillSQLMeta e i =
     (if \<not> ei_IsNew i \<or> ei_Body i = [] \<or> HasParsedSQL i then (i, [])
      else
        (let (m, truncated) = run_analyzer (ev_analyzer e) (ei_Body i) (ei_Catalog i) (ei_Schema i)
         in (i\<lparr> ei_QueryType := qm_QueryType m, ei_QueryCategory := CategoryName (qm_Category m),
                ei_Catalogs := qm_Catalogs m, ei_Schemas := qm_Schemas m,
                ei_CatalogSchemas := qm_CatalogSchemas m, ei_Tables := qm_Tables m,
                ei_ParseOK := qm_ParseOK m \<rparr>,
             if ev_sqlObs e then [(sqlResult m, truncated)] else [])))"

definition inputFromProto ::
  "PipelineEvaluator \<Rightarrow> pb_RouteRequest option \<Rightarrow> EngineInput \<times> sql_obs list" where
  "inputFromProto e req =
     (let i = FromProto req;
          i' = (if HasParsedSQL i \<and> ei_QueryType i \<noteq> [] \<and> ei_QueryCategory i = []
                then i\<lparr> ei_QueryCategory := CategoryName (CategoryForType (ei_QueryType i)) \<rparr> else i)
      in fillSQLMeta e i')"

section \<open>Hash buckets\<close>

definition fnvOffset :: "64 word" where
  "fnvOffset = 14695981039346656037"

definition fnvPrime :: "64 word" where
  "fnvPrime = 1099511628211"

unbundle bit_operations_syntax

definition fnv_step :: "64 word \<Rightarrow> char \<Rightarrow> 64 word" where
  "fnv_step h c = (h XOR word_of_nat (byte c)) * fnvPrime"

definition HashPct :: "string \<Rightarrow> int" where
  "HashPct s = uint (foldl fnv_step fnvOffset s mod 100)"

section \<open>Pipeline\<close>

record Decision =
  de_RoutingGroup :: string
  de_ExternalHeaders :: "(string \<times> string) list"
  de_Errors :: "string list"
  de_Decided :: bool

definition no_decision :: Decision where
  "no_decision = \<lparr> de_RoutingGroup = [], de_ExternalHeaders = [], de_Errors = [], de_Decided = False \<rparr>"

datatype 'a outcome_of = Returns 'a | Fails string | Panics string

record 'p method_ops =
  rm_Type :: "'p \<Rightarrow> string"
  rm_Evaluate :: "'p \<Rightarrow> EngineInput \<Rightarrow> Decision outcome_of"

datatype 'p RoutingMethod = Provider 'p | DisabledMethod "'p RoutingMethod"

fun method_Type :: "'p method_ops \<Rightarrow> 'p RoutingMethod \<Rightarrow> string" where
  "method_Type ops (Provider p) = rm_Type ops p"
| "method_Type ops (DisabledMethod m) = method_Type ops m"

fun method_Evaluate :: "'p method_ops \<Rightarrow> 'p RoutingMethod \<Rightarrow> EngineInput \<Rightarrow> Decision outcome_of" where
  "method_Evaluate ops (Provider p) i = rm_Evaluate ops p i"
| "method_Evaluate ops (DisabledMethod m) i = Returns no_decision"

fun isDisabled :: "'p RoutingMethod \<Rightarrow> bool" where
  "isDisabled (DisabledMethod _) = True"
| "isDisabled (Provider _) = False"

record 'p Pipeline =
  pl_methods :: "'p RoutingMethod list"
  pl_defaultGroup :: string
  pl_ready :: bool

definition NewPipeline :: "'p RoutingMethod list \<Rightarrow> string \<Rightarrow> 'p Pipeline" where
  "NewPipeline methods defaultGroup =
     \<lparr> pl_methods = methods, pl_defaultGroup = defaultGroup, pl_ready = True \<rparr>"

definition pipeline_Swap :: "'p RoutingMethod list \<Rightarrow> 'p Pipeline \<Rightarrow> 'p Pipeline" where
  "pipeline_Swap methods p = p\<lparr> pl_methods := methods, pl_ready := True \<rparr>"

text \<open>A recovered panic is an error.\<close>

definition safeEvaluate :: "'p method_ops \<Rightarrow> 'p RoutingMethod \<Rightarrow> EngineInput \<Rightarrow> Decision result" where
  "safeEvaluate ops m i =
     (case method_Evaluate ops m i of
        Returns d \<Rightarrow> Inr d
      | Fails e \<Rightarrow> Inl (Failure e)
      | Panics r \<Rightarrow> Inl (Failure (''panic in method '' @ method_Type ops m @ '': '' @ r)))"

fun eval_group :: "'p method_ops \<Rightarrow> string \<Rightarrow> 'p RoutingMethod list \<Rightarrow> EngineInput \<Rightarrow> string" where
  "eval_group ops dflt [] i = dflt"
| "eval_group ops dflt (m # ms) i =
     (if isDisabled m then eval_group ops dflt ms i
      else (case safeEvaluate ops m i of
              Inl e \<Rightarrow> eval_group ops dflt ms i
            | Inr d \<Rightarrow>
                if de_Decided d then (if de_RoutingGroup d = [] then dflt else de_RoutingGroup d)
                else eval_group ops dflt ms i))"

definition Evaluate :: "'p method_ops \<Rightarrow> 'p Pipeline \<Rightarrow> EngineInput \<Rightarrow> string" where
  "Evaluate ops p i = eval_group ops (pl_defaultGroup p) (pl_methods p) i"

record SQLSummary =
  sq_QueryType :: string
  sq_QueryCategory :: string
  sq_ParseOK :: bool
  sq_CatalogCount :: nat
  sq_SchemaCount :: nat
  sq_TableCount :: nat

definition zero_summary :: SQLSummary where
  "zero_summary = \<lparr> sq_QueryType = [], sq_QueryCategory = [], sq_ParseOK = False, sq_CatalogCount = 0,
     sq_SchemaCount = 0, sq_TableCount = 0 \<rparr>"

definition summarize :: "EngineInput \<Rightarrow> SQLSummary" where
  "summarize i = \<lparr> sq_QueryType = ei_QueryType i, sq_QueryCategory = ei_QueryCategory i,
     sq_ParseOK = ei_ParseOK i, sq_CatalogCount = length (ei_Catalogs i),
     sq_SchemaCount = length (ei_Schemas i), sq_TableCount = length (ei_Tables i) \<rparr>"

record EvalResult =
  res_RoutingGroup :: string
  res_MethodType :: string
  res_Decided :: bool
  res_HadError :: bool
  res_SQL :: SQLSummary

fun eval_result ::
  "'p method_ops \<Rightarrow> string \<Rightarrow> bool \<Rightarrow> 'p RoutingMethod list \<Rightarrow> EngineInput \<Rightarrow> EvalResult" where
  "eval_result ops dflt hadErr [] i =
     \<lparr> res_RoutingGroup = dflt, res_MethodType = [], res_Decided = False, res_HadError = hadErr,
       res_SQL = zero_summary \<rparr>"
| "eval_result ops dflt hadErr (m # ms) i =
     (if isDisabled m then eval_result ops dflt hadErr ms i
      else (case safeEvaluate ops m i of
              Inl e \<Rightarrow> eval_result ops dflt True ms i
            | Inr d \<Rightarrow>
                if de_Decided d
                then \<lparr> res_RoutingGroup = (if de_RoutingGroup d = [] then dflt else de_RoutingGroup d),
                       res_MethodType = method_Type ops m, res_Decided = True, res_HadError = hadErr,
                       res_SQL = zero_summary \<rparr>
                else eval_result ops dflt hadErr ms i))"

definition EvaluateResult :: "'p method_ops \<Rightarrow> 'p Pipeline \<Rightarrow> EngineInput \<Rightarrow> EvalResult" where
  "EvaluateResult ops p i = eval_result ops (pl_defaultGroup p) False (pl_methods p) i"

fun eval_full ::
  "'p method_ops \<Rightarrow> string \<Rightarrow> 'p RoutingMethod list \<Rightarrow> EngineInput \<Rightarrow> Decision" where
  "eval_full ops dflt [] i = no_decision\<lparr> de_RoutingGroup := dflt \<rparr>"
| "eval_full ops dflt (m # ms) i =
     (if isDisabled m then eval_full ops dflt ms i
      else (case safeEvaluate ops m i of
              Inl e \<Rightarrow> eval_full ops dflt ms i
            | Inr d \<Rightarrow>
                if de_Decided d
                then (if de_RoutingGroup d = [] then d\<lparr> de_RoutingGroup := dflt \<rparr> else d)
                else eval_full ops dflt ms i))"

definition EvaluateFull :: "'p method_ops \<Rightarrow> 'p Pipeline \<Rightarrow> EngineInput \<Rightarrow> Decision" where
  "EvaluateFull ops p i = eval_full ops (pl_defaultGroup p) (pl_methods p) i"

text \<open>\<^verbatim>\<open>PipelineEvaluator\<close>: the two entry points the server calls.\<close>

definition evaluator_Evaluate ::
  "PipelineEvaluator \<Rightarrow> 'p method_ops \<Rightarrow> 'p Pipeline \<Rightarrow> pb_RouteRequest option \<Rightarrow> string \<times> sql_obs list" where
  "evaluator_Evaluate e ops p req =
     (let (i, obs) = inputFromProto e req in (Evaluate ops p i, obs))"

definition evaluator_EvaluateResult ::
  "PipelineEvaluator \<Rightarrow> 'p method_ops \<Rightarrow> 'p Pipeline \<Rightarrow> pb_RouteRequest option
    \<Rightarrow> EvalResult \<times> sql_obs list" where
  "evaluator_EvaluateResult e ops p req =
     (let (i, obs) = inputFromProto e req
      in ((EvaluateResult ops p i)\<lparr> res_SQL := summarize i \<rparr>, obs))"

section \<open>Kill switch\<close>

fun disable :: "'p RoutingMethod \<Rightarrow> 'p RoutingMethod" where
  "disable (DisabledMethod m) = DisabledMethod m"
| "disable (Provider p) = DisabledMethod (Provider p)"

fun enable :: "'p RoutingMethod \<Rightarrow> 'p RoutingMethod" where
  "enable (DisabledMethod m) = m"
| "enable (Provider p) = Provider p"

text \<open>One pass of the loop of \<^verbatim>\<open>updateMethod\<close> over a loaded slice: the copy with the first method of
  the type replaced, or nothing when there is none.\<close>

fun update_first ::
  "'p method_ops \<Rightarrow> string \<Rightarrow> ('p RoutingMethod \<Rightarrow> 'p RoutingMethod) \<Rightarrow> 'p RoutingMethod list
    \<Rightarrow> 'p RoutingMethod list option" where
  "update_first ops typeName fn [] = None"
| "update_first ops typeName fn (m # ms) =
     (if method_Type ops m = typeName then Some (fn m # ms)
      else map_option (Cons m) (update_first ops typeName fn ms))"

text \<open>\<^verbatim>\<open>updateMethod\<close> when no other goroutine writes the slice: the first compare-and-swap succeeds.\<close>

definition updateMethod ::
  "'p method_ops \<Rightarrow> string \<Rightarrow> ('p RoutingMethod \<Rightarrow> 'p RoutingMethod) \<Rightarrow> 'p Pipeline \<Rightarrow> 'p Pipeline" where
  "updateMethod ops typeName fn p =
     (case update_first ops typeName fn (pl_methods p) of
        None \<Rightarrow> p | Some ms \<Rightarrow> p\<lparr> pl_methods := ms \<rparr>)"

definition DisableMethod :: "'p method_ops \<Rightarrow> string \<Rightarrow> 'p Pipeline \<Rightarrow> 'p Pipeline" where
  "DisableMethod ops typeName p = updateMethod ops typeName disable p"

definition EnableMethod :: "'p method_ops \<Rightarrow> string \<Rightarrow> 'p Pipeline \<Rightarrow> 'p Pipeline" where
  "EnableMethod ops typeName p = updateMethod ops typeName enable p"

definition DisabledMethods :: "'p method_ops \<Rightarrow> 'p Pipeline \<Rightarrow> string list" where
  "DisabledMethods ops p = map (method_Type ops) (filter isDisabled (pl_methods p))"

section \<open>Concurrent updates\<close>

text \<open>
  The goroutines that write the slice: kill-switch calls, each a load, a local copy and a
  compare-and-swap that retries, and reloads, each one store.  \<open>ks_ptr\<close> is the identity of the current
  slice; every store allocates a new one.  \<open>ks_log\<close> is a ghost: who took effect, in order.
\<close>

datatype 'p ks_op = KsDisable string | KsEnable string | KsSwap "'p RoutingMethod list"

datatype 'p ks_pc = Start "'p ks_op" | Loaded "'p ks_op" nat "'p RoutingMethod list" | Finished

record 'p ks_state =
  ks_ptr :: nat
  ks_ms :: "'p RoutingMethod list"
  ks_pcs :: "'p ks_pc list"
  ks_log :: "(nat \<times> 'p ks_op) list"

fun ks_prepare :: "'p method_ops \<Rightarrow> 'p ks_op \<Rightarrow> 'p RoutingMethod list \<Rightarrow> 'p RoutingMethod list option" where
  "ks_prepare ops (KsDisable t) ms = update_first ops t disable ms"
| "ks_prepare ops (KsEnable t) ms = update_first ops t enable ms"
| "ks_prepare ops (KsSwap new) ms = Some new"

definition ks_commit :: "nat \<Rightarrow> 'p ks_op \<Rightarrow> 'p RoutingMethod list \<Rightarrow> 'p ks_state \<Rightarrow> 'p ks_state" where
  "ks_commit t p ms s = s\<lparr> ks_ptr := Suc (ks_ptr s), ks_ms := ms, ks_pcs := (ks_pcs s)[t := Finished],
     ks_log := ks_log s @ [(t, p)] \<rparr>"

definition ks_step :: "'p method_ops \<Rightarrow> nat \<Rightarrow> 'p ks_state \<Rightarrow> 'p ks_state option" where
  "ks_step ops t s =
     (if t < length (ks_pcs s) then
        (case ks_pcs s ! t of
           Start (KsSwap new) \<Rightarrow> Some (ks_commit t (KsSwap new) new s)
         | Start p \<Rightarrow>
             (case ks_prepare ops p (ks_ms s) of
                None \<Rightarrow> Some (s\<lparr> ks_pcs := (ks_pcs s)[t := Finished], ks_log := ks_log s @ [(t, p)] \<rparr>)
              | Some ms \<Rightarrow> Some (s\<lparr> ks_pcs := (ks_pcs s)[t := Loaded p (ks_ptr s) ms] \<rparr>))
         | Loaded p v ms \<Rightarrow>
             if v = ks_ptr s then Some (ks_commit t p ms s)
             else Some (s\<lparr> ks_pcs := (ks_pcs s)[t := Start p] \<rparr>)
         | Finished \<Rightarrow> None)
      else None)"

definition ks_init :: "'p RoutingMethod list \<Rightarrow> 'p ks_op list \<Rightarrow> 'p ks_state" where
  "ks_init ms ps = \<lparr> ks_ptr = 0, ks_ms = ms, ks_pcs = map Start ps, ks_log = [] \<rparr>"

text \<open>A schedule is the sequence of goroutines that take a step.\<close>

fun ks_run :: "'p method_ops \<Rightarrow> nat list \<Rightarrow> 'p ks_state \<Rightarrow> 'p ks_state option" where
  "ks_run ops [] s = Some s"
| "ks_run ops (t # ts) s = (case ks_step ops t s of None \<Rightarrow> None | Some s' \<Rightarrow> ks_run ops ts s')"

text \<open>The effect of an operation that runs alone.\<close>

definition ks_apply :: "'p method_ops \<Rightarrow> 'p RoutingMethod list \<Rightarrow> 'p ks_op \<Rightarrow> 'p RoutingMethod list" where
  "ks_apply ops ms p = (case ks_prepare ops p ms of None \<Rightarrow> ms | Some ms' \<Rightarrow> ms')"

section \<open>Evaluation order\<close>

definition decides :: "'p method_ops \<Rightarrow> EngineInput \<Rightarrow> 'p RoutingMethod \<Rightarrow> bool" where
  "decides ops i m = (\<not> isDisabled m \<and>
     (case safeEvaluate ops m i of Inl _ \<Rightarrow> False | Inr d \<Rightarrow> de_Decided d))"

definition errs :: "'p method_ops \<Rightarrow> EngineInput \<Rightarrow> 'p RoutingMethod \<Rightarrow> bool" where
  "errs ops i m = (\<not> isDisabled m \<and> isl (safeEvaluate ops m i))"

definition group_of :: "'p method_ops \<Rightarrow> string \<Rightarrow> EngineInput \<Rightarrow> 'p RoutingMethod \<Rightarrow> string" where
  "group_of ops dflt i m =
     (case safeEvaluate ops m i of
        Inl _ \<Rightarrow> dflt | Inr d \<Rightarrow> if de_RoutingGroup d = [] then dflt else de_RoutingGroup d)"

lemma eval_result_spec:
  "eval_result ops dflt h ms i =
     (case dropWhile (\<lambda>m. \<not> decides ops i m) ms of
        [] \<Rightarrow> \<lparr> res_RoutingGroup = dflt, res_MethodType = [], res_Decided = False,
               res_HadError = (h \<or> list_ex (errs ops i) ms), res_SQL = zero_summary \<rparr>
      | m # _ \<Rightarrow> \<lparr> res_RoutingGroup = group_of ops dflt i m, res_MethodType = method_Type ops m,
               res_Decided = True,
               res_HadError = (h \<or> list_ex (errs ops i) (takeWhile (\<lambda>m. \<not> decides ops i m) ms)),
               res_SQL = zero_summary \<rparr>)"
proof (induction ms arbitrary: h)
  case (Cons m ms)
  show ?case
    using decides_def[of ops i m] errs_def[of ops i m] group_of_def[of ops dflt i m]
    by (cases "isDisabled m"; cases "safeEvaluate ops m i"; cases "dropWhile (\<lambda>m. \<not> decides ops i m) ms")
       (auto simp: Cons.IH simp del: dropWhile_eq_Nil_conv)
qed simp

text \<open>
  The pipeline takes the decision of the first enabled method that decides, in configured order.
  Methods that are disabled, defer, fail or panic are passed over; a decision without a group and a
  pipeline in which nobody decides give the default group; the error flag tells whether a method
  tried before failed.
\<close>
theorem pipeline_first_decision:
  "EvaluateResult ops p i =
     (case dropWhile (\<lambda>m. \<not> decides ops i m) (pl_methods p) of
        [] \<Rightarrow> \<lparr> res_RoutingGroup = pl_defaultGroup p, res_MethodType = [], res_Decided = False,
               res_HadError = list_ex (errs ops i) (pl_methods p), res_SQL = zero_summary \<rparr>
      | m # _ \<Rightarrow> \<lparr> res_RoutingGroup = group_of ops (pl_defaultGroup p) i m,
               res_MethodType = method_Type ops m, res_Decided = True,
               res_HadError = list_ex (errs ops i) (takeWhile (\<lambda>m. \<not> decides ops i m) (pl_methods p)),
               res_SQL = zero_summary \<rparr>)"
  unfolding EvaluateResult_def eval_result_spec by (simp only: simp_thms)

lemma eval_loops_agree:
  "eval_group ops dflt ms i = res_RoutingGroup (eval_result ops dflt h ms i) \<and>
   eval_group ops dflt ms i = de_RoutingGroup (eval_full ops dflt ms i) \<and>
   res_Decided (eval_result ops dflt h ms i) = de_Decided (eval_full ops dflt ms i)"
proof (induction ms arbitrary: h)
  case (Cons m ms)
  then show ?case by (cases "safeEvaluate ops m i") simp_all
qed (simp add: no_decision_def)

text \<open>
  C25: The three evaluation loops of the pipeline choose the same group for every request, and the two
  that report it agree on whether a method decided.
\<close>
theorem evaluation_loops_equivalent:
  "Evaluate ops p i = res_RoutingGroup (EvaluateResult ops p i) \<and>
   Evaluate ops p i = de_RoutingGroup (EvaluateFull ops p i) \<and>
   res_Decided (EvaluateResult ops p i) = de_Decided (EvaluateFull ops p i)"
  unfolding Evaluate_def EvaluateResult_def EvaluateFull_def by (rule eval_loops_agree)

section \<open>Kill switch, sequentially\<close>

fun remove_first :: "'p method_ops \<Rightarrow> string \<Rightarrow> 'p RoutingMethod list \<Rightarrow> 'p RoutingMethod list" where
  "remove_first ops t [] = []"
| "remove_first ops t (m # ms) = (if method_Type ops m = t then ms else m # remove_first ops t ms)"

lemma isDisabled_disable [simp]: "isDisabled (disable m)"
  by (cases m) simp_all

lemma method_Type_switch [simp]:
  "method_Type ops (disable m) = method_Type ops m" "method_Type ops (enable m) = method_Type ops m"
  by (cases m; simp)+

lemma enable_disable [simp]: "enable (disable m) = enable m"
  by (cases m) simp_all

lemma update_first_None: "update_first ops t fn ms = None \<longleftrightarrow> t \<notin> set (map (method_Type ops) ms)"
  by (induction ms) auto

lemma remove_first_absent: "t \<notin> set (map (method_Type ops) ms) \<Longrightarrow> remove_first ops t ms = ms"
  by (induction ms) auto

lemma eval_result_disabled:
  "update_first ops t disable ms = Some ms' \<Longrightarrow>
     eval_result ops dflt h ms' i = eval_result ops dflt h (remove_first ops t ms) i"
proof (induction ms arbitrary: ms' h)
  case (Cons m ms)
  then show ?case by (auto split: if_splits sum.splits)
qed simp

lemma update_first_enable_disable:
  "update_first ops t disable ms = Some ms' \<Longrightarrow>
     update_first ops t enable ms' = update_first ops t enable ms"
proof (induction ms arbitrary: ms')
  case (Cons m ms)
  then show ?case by (auto split: if_splits)
qed simp

lemma update_first_disabled:
  assumes "update_first ops t disable ms = Some ms'"
  shows "t \<in> method_Type ops ` {m \<in> set ms'. isDisabled m}" "t \<in> method_Type ops ` set ms"
proof -
  show "t \<in> method_Type ops ` set ms" using assms update_first_None[of ops t disable ms] by auto
  show "t \<in> method_Type ops ` {m \<in> set ms'. isDisabled m}" using assms
  proof (induction ms arbitrary: ms')
    case (Cons m ms)
    show ?case
    proof (cases "method_Type ops m = t")
      case True
      then have "disable m \<in> {x \<in> set ms'. isDisabled x}" "t = method_Type ops (disable m)"
        using Cons.prems by auto
      then show ?thesis by (rule rev_image_eqI)
    next
      case False
      then obtain ms2 where "update_first ops t disable ms = Some ms2" "ms' = m # ms2"
        using Cons.prems by auto
      then show ?thesis using Cons.IH by auto
    qed
  qed simp
qed

text \<open>
  Disabling a type has the effect of taking the first method of that type out of the pipeline,
  for every request, and enabling it afterwards gives what enabling it at once would have given; an
  unknown type changes nothing.
\<close>
theorem kill_switch_effect:
  "EvaluateResult ops (DisableMethod ops t p) i =
     EvaluateResult ops (p\<lparr> pl_methods := remove_first ops t (pl_methods p) \<rparr>) i \<and>
   EnableMethod ops t (DisableMethod ops t p) = EnableMethod ops t p \<and>
   (t \<in> set (DisabledMethods ops (DisableMethod ops t p)) \<longleftrightarrow> t \<in> set (map (method_Type ops) (pl_methods p)))"
proof (cases "update_first ops t disable (pl_methods p)")
  case None
  then have "t \<notin> set (map (method_Type ops) (pl_methods p))" by (simp add: update_first_None)
  then show ?thesis using None
    by (auto simp: DisableMethod_def EnableMethod_def updateMethod_def remove_first_absent DisabledMethods_def)
next
  case (Some ms')
  show ?thesis using Some update_first_enable_disable[OF Some] update_first_disabled[OF Some]
      update_first_None[of ops t enable "pl_methods p"]
    by (auto simp: EvaluateResult_def DisableMethod_def EnableMethod_def updateMethod_def DisabledMethods_def
        eval_result_disabled)
qed

section \<open>Kill switch under concurrency\<close>

definition ks_effect :: "'p method_ops \<Rightarrow> 'p RoutingMethod list \<Rightarrow> (nat \<times> 'p ks_op) list \<Rightarrow> 'p RoutingMethod list" where
  "ks_effect ops ms l = foldl (\<lambda>acc e. ks_apply ops acc (snd e)) ms l"

definition ks_fresh :: "'p method_ops \<Rightarrow> 'p ks_state \<Rightarrow> 'p ks_pc \<Rightarrow> bool" where
  "ks_fresh ops s pc = (case pc of
     Loaded p v ms \<Rightarrow> v \<le> ks_ptr s \<and> (v = ks_ptr s \<longrightarrow> ks_prepare ops p (ks_ms s) = Some ms) | _ \<Rightarrow> True)"

fun pc_op :: "'p ks_pc \<Rightarrow> 'p ks_op option" where
  "pc_op (Start p) = Some p"
| "pc_op (Loaded p v ms) = Some p"
| "pc_op Finished = None"

definition ks_inv :: "'p method_ops \<Rightarrow> 'p RoutingMethod list \<Rightarrow> 'p ks_op list \<Rightarrow> 'p ks_state \<Rightarrow> bool" where
  "ks_inv ops ms0 ps s =
     (length (ks_pcs s) = length ps \<and>
      ks_ms s = ks_effect ops ms0 (ks_log s) \<and>
      list_all (ks_fresh ops s) (ks_pcs s) \<and>
      distinct (map fst (ks_log s)) \<and>
      (\<forall>t p. (t, p) \<in> set (ks_log s) \<longleftrightarrow> t < length ps \<and> ks_pcs s ! t = Finished \<and> ps ! t = p) \<and>
      (\<forall>t < length ps. ks_pcs s ! t \<noteq> Finished \<longrightarrow> pc_op (ks_pcs s ! t) = Some (ps ! t)))"

lemma ks_effect_snoc [simp]: "ks_effect ops ms (l @ [(t, p)]) = ks_apply ops (ks_effect ops ms l) p"
  by (simp add: ks_effect_def)

lemma ks_inv_init: "ks_inv ops ms ps (ks_init ms ps)"
  by (auto simp: ks_inv_def ks_init_def ks_effect_def ks_fresh_def list_all_iff)

lemma ks_step_none:
  "t < length (ks_pcs s) \<Longrightarrow> ks_pcs s ! t = Start p \<Longrightarrow> ks_prepare ops p (ks_ms s) = None \<Longrightarrow>
     ks_step ops t s = Some (s\<lparr> ks_pcs := (ks_pcs s)[t := Finished], ks_log := ks_log s @ [(t, p)] \<rparr>)"
  by (cases p) (simp_all add: ks_step_def)

lemma ks_step_swap:
  "t < length (ks_pcs s) \<Longrightarrow> ks_pcs s ! t = Start (KsSwap new) \<Longrightarrow>
     ks_step ops t s = Some (ks_commit t (KsSwap new) new s)"
  by (simp add: ks_step_def)

lemma ks_step_load:
  "t < length (ks_pcs s) \<Longrightarrow> ks_pcs s ! t = Start p \<Longrightarrow> ks_prepare ops p (ks_ms s) = Some ms \<Longrightarrow>
     \<nexists>new. p = KsSwap new \<Longrightarrow>
     ks_step ops t s = Some (s\<lparr> ks_pcs := (ks_pcs s)[t := Loaded p (ks_ptr s) ms] \<rparr>)"
  by (cases p) (simp_all add: ks_step_def)

lemma ks_step_cas:
  "t < length (ks_pcs s) \<Longrightarrow> ks_pcs s ! t = Loaded p v ms \<Longrightarrow>
     ks_step ops t s = (if v = ks_ptr s then Some (ks_commit t p ms s)
                        else Some (s\<lparr> ks_pcs := (ks_pcs s)[t := Start p] \<rparr>))"
  by (simp add: ks_step_def)

lemma ks_step_finished: "ks_pcs s ! t = Finished \<Longrightarrow> ks_step ops t s = None"
  by (simp add: ks_step_def)

text \<open>The three kinds of step: take effect, prepare, retry.\<close>

lemma ks_step_cases:
  assumes "ks_step ops t s = Some s'"
  obtains (effect) p ms q where "t < length (ks_pcs s)" "pc_op (ks_pcs s ! t) = Some p"
      "s' = s\<lparr> ks_ptr := q, ks_ms := ms, ks_pcs := (ks_pcs s)[t := Finished], ks_log := ks_log s @ [(t, p)] \<rparr>"
      "q = Suc (ks_ptr s) \<or> (q = ks_ptr s \<and> ms = ks_ms s)"
      "ks_fresh ops s (ks_pcs s ! t) \<Longrightarrow> ms = ks_apply ops (ks_ms s) p"
    | (load) p ms where "t < length (ks_pcs s)" "ks_pcs s ! t = Start p" "ks_prepare ops p (ks_ms s) = Some ms"
      "s' = s\<lparr> ks_pcs := (ks_pcs s)[t := Loaded p (ks_ptr s) ms] \<rparr>"
    | (retry) p v ms where "t < length (ks_pcs s)" "ks_pcs s ! t = Loaded p v ms" "v \<noteq> ks_ptr s"
      "s' = s\<lparr> ks_pcs := (ks_pcs s)[t := Start p] \<rparr>"
proof -
  have t: "t < length (ks_pcs s)" using assms by (auto simp: ks_step_def split: if_splits)
  show thesis
  proof (cases "ks_pcs s ! t")
    case (Start p)
    show thesis
    proof (cases "ks_prepare ops p (ks_ms s)")
      case None
      then have "s' = s\<lparr> ks_pcs := (ks_pcs s)[t := Finished], ks_log := ks_log s @ [(t, p)] \<rparr>"
        using assms ks_step_none[OF t Start] by simp
      then have s': "s' = s\<lparr> ks_ptr := ks_ptr s, ks_ms := ks_ms s, ks_pcs := (ks_pcs s)[t := Finished],
          ks_log := ks_log s @ [(t, p)] \<rparr>" by (cases s) simp
      show thesis by (rule effect[OF t _ s']) (simp_all add: Start None ks_apply_def)
    next
      case (Some ms)
      show thesis
      proof (cases "\<exists>new. p = KsSwap new")
        case True
        then have "s' = ks_commit t p ms s" using assms Start Some ks_step_swap[OF t, of _ ops] by fastforce
        note s' = this[unfolded ks_commit_def]
        show thesis by (rule effect[OF t _ s']) (simp_all add: Start Some ks_apply_def)
      next
        case False
        then have "s' = s\<lparr> ks_pcs := (ks_pcs s)[t := Loaded p (ks_ptr s) ms] \<rparr>"
          using assms ks_step_load[OF t Start Some] by simp
        then show thesis by (rule load[OF t Start Some])
      qed
    qed
  next
    case (Loaded p v ms)
    show thesis
    proof (cases "v = ks_ptr s")
      case True
      then have "s' = ks_commit t p ms s" using assms ks_step_cas[OF t Loaded] by simp
      note s' = this[unfolded ks_commit_def]
      show thesis by (rule effect[OF t _ s']) (simp_all add: Loaded True ks_apply_def ks_fresh_def)
    next
      case False
      then have "s' = s\<lparr> ks_pcs := (ks_pcs s)[t := Start p] \<rparr>" using assms ks_step_cas[OF t Loaded] by simp
      then show thesis by (rule retry[OF t Loaded False])
    qed
  next
    case Finished
    then show thesis using assms ks_step_finished[of s t ops] by simp
  qed
qed

lemma ks_fresh_pcs [simp]: "ks_fresh ops (s\<lparr> ks_pcs := pcs \<rparr>) = ks_fresh ops s"
  by (rule ext) (simp add: ks_fresh_def split: ks_pc.split)

lemma ks_fresh_update:
  "list_all (ks_fresh ops s) pcs \<Longrightarrow> ks_fresh ops s pc \<Longrightarrow> list_all (ks_fresh ops s) (pcs[t := pc])"
  unfolding list_all_iff using set_update_subset_insert by fastforce

lemma ks_fresh_newer:
  "ks_fresh ops s pc \<Longrightarrow> ks_ptr s' = Suc (ks_ptr s) \<or> (ks_ptr s' = ks_ptr s \<and> ks_ms s' = ks_ms s)
     \<Longrightarrow> ks_fresh ops s' pc"
  by (auto simp: ks_fresh_def split: ks_pc.splits)

lemma ks_inv_step:
  assumes "ks_inv ops ms0 ps s" "ks_step ops t s = Some s'"
  shows "ks_inv ops ms0 ps s'"
  using assms(2)
proof (cases rule: ks_step_cases)
  case (effect p ms q)
  have fr: "ks_fresh ops s (ks_pcs s ! t)" and live: "ks_pcs s ! t \<noteq> Finished"
    using assms(1) effect(1,2) by (auto simp: ks_inv_def list_all_length)
  have op: "ps ! t = p" "t < length ps"
    using assms(1) effect(1,2) live by (auto simp: ks_inv_def)
  have new: "t \<notin> fst ` set (ks_log s)"
    using assms(1) live op(2) by (auto simp: ks_inv_def)
  have "list_all (ks_fresh ops s') (ks_pcs s)"
    using assms(1) effect(3,4) ks_fresh_newer[of ops s _ s'] by (auto simp: ks_inv_def list_all_iff)
  then have "list_all (ks_fresh ops s') ((ks_pcs s)[t := Finished])"
    by (rule ks_fresh_update) (simp add: ks_fresh_def)
  moreover have "ks_pcs s' = (ks_pcs s)[t := Finished]" "ks_log s' = ks_log s @ [(t, p)]" "ks_ms s' = ms"
    using effect(3) by simp_all
  ultimately show ?thesis
    using assms(1) effect(5)[OF fr] new op effect(1)
    by (auto simp: ks_inv_def nth_list_update)
next
  case (load p ms)
  have "list_all (ks_fresh ops s) (ks_pcs s)" using assms(1) by (simp add: ks_inv_def)
  moreover have "ks_fresh ops s (Loaded p (ks_ptr s) ms)" using load by (simp add: ks_fresh_def)
  ultimately have "list_all (ks_fresh ops s') (ks_pcs s')"
    using load(4) by (simp add: ks_fresh_update)
  then show ?thesis using assms(1) load by (auto simp: ks_inv_def nth_list_update)
next
  case (retry p v ms)
  have "list_all (ks_fresh ops s) (ks_pcs s)" using assms(1) by (simp add: ks_inv_def)
  moreover have "ks_fresh ops s (Start p)" by (simp add: ks_fresh_def)
  ultimately have "list_all (ks_fresh ops s') (ks_pcs s')"
    using retry(4) by (simp add: ks_fresh_update)
  then show ?thesis using assms(1) retry by (auto simp: ks_inv_def nth_list_update)
qed

lemma ks_inv_run: "ks_inv ops ms0 ps s \<Longrightarrow> ks_run ops sch s = Some s' \<Longrightarrow> ks_inv ops ms0 ps s'"
proof (induction sch arbitrary: s)
  case (Cons t sch)
  then show ?case using ks_inv_step by (fastforce split: option.splits)
qed simp


text \<open>Every step lowers the measure: an effect finishes a goroutine, a load and a retry bring one closer.\<close>

definition ks_cost :: "nat \<Rightarrow> 'p ks_pc \<Rightarrow> nat" where
  "ks_cost ptr pc = (case pc of Start _ \<Rightarrow> 2 | Loaded _ v _ \<Rightarrow> if v = ptr then 1 else 3 | Finished \<Rightarrow> 0)"

definition ks_live :: "'p ks_state \<Rightarrow> nat" where
  "ks_live s = length (filter (\<lambda>pc. pc \<noteq> Finished) (ks_pcs s))"

definition ks_measure :: "'p ks_state \<Rightarrow> nat" where
  "ks_measure s = ks_live s * (3 * length (ks_pcs s) + 1) + sum_list (map (ks_cost (ks_ptr s)) (ks_pcs s))"

lemma ks_cost_bound: "sum_list (map (ks_cost ptr) pcs) \<le> 3 * length pcs"
proof (induction pcs)
  case (Cons pc pcs)
  have "ks_cost ptr pc \<le> 3" by (simp add: ks_cost_def split: ks_pc.split)
  then show ?case using Cons by simp
qed simp

lemma filter_update_less:
  "t < length xs \<Longrightarrow> P (xs ! t) \<Longrightarrow> \<not> P y \<Longrightarrow>
     Suc (length (filter P (xs[t := y]))) = length (filter P xs)"
proof (induction xs arbitrary: t)
  case (Cons x xs)
  then show ?case by (cases t) auto
qed simp

lemma filter_update_same:
  "t < length xs \<Longrightarrow> P (xs ! t) = P y \<Longrightarrow> length (filter P (xs[t := y])) = length (filter P xs)"
proof (induction xs arbitrary: t)
  case (Cons x xs)
  then show ?case by (cases t) auto
qed simp

lemma sum_list_map_update:
  fixes f :: "'a \<Rightarrow> nat"
  shows "t < length xs \<Longrightarrow> f y < f (xs ! t) \<Longrightarrow> sum_list (map f (xs[t := y])) < sum_list (map f xs)"
proof (induction xs arbitrary: t)
  case (Cons x xs)
  then show ?case by (cases t) auto
qed simp

lemma ks_measure_step:
  assumes "ks_step ops t s = Some s'"
  shows "ks_measure s' < ks_measure s"
  using assms
proof (cases rule: ks_step_cases)
  case (effect p ms q)
  let ?n = "3 * length (ks_pcs s) + 1"
  have "ks_pcs s ! t \<noteq> Finished" using effect(2) by auto
  then have "Suc (ks_live s') = ks_live s"
    using effect(1,3) filter_update_less[of t "ks_pcs s" "\<lambda>pc. pc \<noteq> Finished"] by (simp add: ks_live_def)
  then have "ks_live s * ?n = ks_live s' * ?n + ?n" by (metis add.commute mult_Suc)
  moreover have "sum_list (map (ks_cost (ks_ptr s')) (ks_pcs s')) < ?n"
    using ks_cost_bound[of "ks_ptr s'" "ks_pcs s'"] effect(3) by simp
  ultimately show ?thesis using effect(3) by (simp add: ks_measure_def)
next
  case (load p ms)
  then show ?thesis
    using filter_update_same[of t "ks_pcs s" "\<lambda>pc. pc \<noteq> Finished" "Loaded p (ks_ptr s) ms"]
      sum_list_map_update[of t "ks_pcs s" "ks_cost (ks_ptr s)" "Loaded p (ks_ptr s) ms"]
    by (simp add: ks_measure_def ks_live_def ks_cost_def)
next
  case (retry p v ms)
  then show ?thesis
    using filter_update_same[of t "ks_pcs s" "\<lambda>pc. pc \<noteq> Finished" "Start p"]
      sum_list_map_update[of t "ks_pcs s" "ks_cost (ks_ptr s)" "Start p"]
    by (simp add: ks_measure_def ks_live_def ks_cost_def)
qed

lemma ks_run_bound: "ks_run ops sch s = Some s' \<Longrightarrow> length sch + ks_measure s' \<le> ks_measure s"
proof (induction sch arbitrary: s)
  case (Cons t sch)
  then obtain s1 where "ks_step ops t s = Some s1" "ks_run ops sch s1 = Some s'"
    by (auto split: option.splits)
  then show ?case using Cons.IH ks_measure_step by fastforce
qed simp

lemma ks_init_measure: "ks_measure (ks_init ms ps) \<le> 3 * (length ps + 1) * (length ps + 1)"
proof -
  have "ks_live (ks_init ms ps) \<le> length ps"
    using length_filter_le[of "\<lambda>pc. pc \<noteq> Finished" "map Start ps"] by (simp add: ks_live_def ks_init_def)
  then have "ks_live (ks_init ms ps) * (3 * length ps + 1) \<le> length ps * (3 * length ps + 1)"
    by (rule mult_le_mono1)
  moreover have "sum_list (map (ks_cost (ks_ptr (ks_init ms ps))) (ks_pcs (ks_init ms ps))) \<le> 3 * length ps"
    using ks_cost_bound[of 0 "map Start ps"] by (simp add: ks_init_def)
  ultimately show ?thesis by (simp add: ks_measure_def ks_init_def algebra_simps)
qed

lemma ks_step_live: "t < length (ks_pcs s) \<Longrightarrow> ks_pcs s ! t \<noteq> Finished \<Longrightarrow> ks_step ops t s \<noteq> None"
  by (cases "ks_pcs s ! t"; cases "case ks_pcs s ! t of Start p \<Rightarrow> p | Loaded p _ _ \<Rightarrow> p")
     (auto simp: ks_step_def split: option.splits)

text \<open>
  C7: Concurrent kill-switch calls and reloads are linearizable.  After any schedule of their steps the
  method list is the result of running, one after the other, exactly the operations whose goroutine
  has finished, each of them once: no update is lost to another one or to a reload.
\<close>
theorem updates_linearizable:
  assumes "ks_run ops sch (ks_init ms ps) = Some s"
  shows "ks_ms s = foldl (ks_apply ops) ms (map snd (ks_log s)) \<and>
    distinct (map fst (ks_log s)) \<and>
    set (ks_log s) = {(t, p). t < length ps \<and> ks_pcs s ! t = Finished \<and> ps ! t = p}"
proof -
  have "ks_inv ops ms ps s" using ks_inv_run[OF ks_inv_init assms] .
  then show ?thesis unfolding ks_inv_def ks_effect_def foldl_map by auto
qed

lemma ks_run_append:
  "ks_run ops (a @ b) s = (case ks_run ops a s of None \<Rightarrow> None | Some s' \<Rightarrow> ks_run ops b s')"
  by (induction a arbitrary: s) (auto split: option.split)

lemma ks_can_finish:
  "\<exists>ext s'. ks_run ops ext s = Some s' \<and> list_all (\<lambda>pc. pc = Finished) (ks_pcs s')"
proof (induction "ks_measure s" arbitrary: s rule: less_induct)
  case less
  show ?case
  proof (cases "list_all (\<lambda>pc. pc = Finished) (ks_pcs s)")
    case True
    then show ?thesis by (intro exI[of _ "[]"] exI[of _ s]) simp
  next
    case False
    then obtain t where "t < length (ks_pcs s)" "ks_pcs s ! t \<noteq> Finished" by (auto simp: list_all_length)
    then obtain s1 where s1: "ks_step ops t s = Some s1" using ks_step_live[of t s ops] by auto
    then obtain ext s' where "ks_run ops ext s1 = Some s'" "list_all (\<lambda>pc. pc = Finished) (ks_pcs s')"
      using less[OF ks_measure_step[OF s1]] by auto
    then show ?thesis using s1 by (intro exI[of _ "t # ext"] exI[of _ s']) simp
  qed
qed

text \<open>
  C26: The compare-and-swap loops end.  A schedule of \<open>n\<close> concurrent updates has at most \<open>3(n+1)(n+1)\<close>
  steps, whatever the interleaving, and every schedule can be continued to one after which all of
  them have returned.
\<close>
theorem updates_terminate:
  assumes "ks_run ops sch (ks_init ms ps) = Some s"
  shows "length sch \<le> 3 * (length ps + 1) * (length ps + 1) \<and>
    (\<exists>ext s'. ks_run ops (sch @ ext) (ks_init ms ps) = Some s' \<and>
       list_all (\<lambda>pc. pc = Finished) (ks_pcs s'))"
proof
  show "length sch \<le> 3 * (length ps + 1) * (length ps + 1)"
    using ks_run_bound[OF assms] ks_init_measure[of ms ps] by linarith
  show "\<exists>ext s'. ks_run ops (sch @ ext) (ks_init ms ps) = Some s' \<and>
       list_all (\<lambda>pc. pc = Finished) (ks_pcs s')"
    using ks_can_finish[of ops s] assms by (simp add: ks_run_append)
qed

text \<open>Two goroutines whose loads overlap: the second one has to retry.\<close>

definition demo_method_ops :: "string method_ops" where
  "demo_method_ops = \<lparr> rm_Type = (\<lambda>p. p), rm_Evaluate = (\<lambda>p i. Returns no_decision) \<rparr>"

definition demo_final :: "string ks_state" where
  "demo_final = \<lparr> ks_ptr = 2, ks_ms = [DisabledMethod (Provider ''expr''), DisabledMethod (Provider ''script'')],
     ks_pcs = [Finished, Finished], ks_log = [(0, KsDisable ''expr''), (1, KsDisable ''script'')] \<rparr>"

lemma demo_schedule:
  "ks_run demo_method_ops [0, 1, 0, 1, 1, 1]
     (ks_init [Provider ''expr'', Provider ''script''] [KsDisable ''expr'', KsDisable ''script'']) = Some demo_final"
  by (simp add: ks_init_def ks_step_def ks_commit_def demo_method_ops_def demo_final_def numeral_2_eq_2)

theorem updates_linearizable_witness:
  "ks_ms demo_final = foldl (ks_apply demo_method_ops) [Provider ''expr'', Provider ''script'']
     (map snd (ks_log demo_final)) \<and> distinct (map fst (ks_log demo_final))"
  using updates_linearizable[OF demo_schedule] by blast

theorem updates_terminate_witness: "length [0::nat, 1, 0, 1, 1, 1] \<le> 27"
  using updates_terminate[OF demo_schedule] by simp

section \<open>Hash buckets\<close>

text \<open>FNV-1a over the integers, reduced modulo \<open>2 ^ 64\<close> after every multiplication.\<close>

definition fnv1a_int :: "string \<Rightarrow> int" where
  "fnv1a_int s = foldl (\<lambda>h c. ((h XOR int (byte c)) * 1099511628211) mod 2 ^ 64) 14695981039346656037 s"

lemma uint_fnv_step:
  "uint (fnv_step h c) = ((uint h XOR int (byte c)) * 1099511628211) mod 2 ^ 64"
proof -
  have b: "uint (word_of_nat (byte c) :: 64 word) = int (byte c)"
    using byte_lt[of c] by (simp add: unsigned_of_nat take_bit_nat_eq_self)
  have "uint (h XOR word_of_nat (byte c)) = uint h XOR int (byte c)"
    by (simp only: unsigned_xor_eq b)
  moreover have "uint fnvPrime = 1099511628211" by (simp add: fnvPrime_def)
  ultimately show ?thesis by (simp add: fnv_step_def uint_mult_lem uint_word_ariths)
qed

lemma uint_fnv_fold:
  "uint (foldl fnv_step h s) = foldl (\<lambda>h c. ((h XOR int (byte c)) * 1099511628211) mod 2 ^ 64) (uint h) s"
  by (induction s arbitrary: h) (simp_all add: uint_fnv_step)

text \<open>
  The bucket of a key is its 64-bit FNV-1a hash modulo 100: a number from 0 to 99, computed with
  wrap-around exactly as over the integers modulo \<open>2 ^ 64\<close>.
\<close>
theorem HashPct_bucket: "HashPct s = fnv1a_int s mod 100 \<and> 0 \<le> HashPct s \<and> HashPct s < 100"
proof -
  have "uint fnvOffset = 14695981039346656037" by (simp add: fnvOffset_def)
  then have "HashPct s = fnv1a_int s mod 100"
    by (simp add: HashPct_def fnv1a_int_def uint_mod uint_fnv_fold)
  then show ?thesis by simp
qed

section \<open>From the gateway to the engine\<close>

text \<open>
  What the gateway puts into its gRPC request is what the routing methods see: the headers of the
  client, the statement and whether it is a new submission.  The gateway does not parse SQL, so for a
  new submission with a body the SQL fields are those of the service's own analyzer, and for every
  other request they are empty and nothing is analysed.
\<close>
theorem gateway_request_reaches_engine:
  "let (i, obs) = inputFromProto e (Some (buildProtoRequest req)) in
     ei_Source i = Header req ''X-Trino-Source'' \<and> ei_User i = Header req ''X-Trino-User'' \<and>
     ei_Catalog i = Header req ''X-Trino-Catalog'' \<and> ei_Schema i = Header req ''X-Trino-Schema'' \<and>
     ei_ClientTags i = splitClientTags (Header req ''X-Trino-Client-Tags'') \<and>
     ei_Method i = ri_Method req \<and> ei_URI i = ri_RequestURI req \<and> ei_Body i = ri_Body req \<and>
     ei_IsNew i = (ri_Method req = ''POST'') \<and>
     (if ri_Method req = ''POST'' \<and> ri_Body req \<noteq> []
      then (let m = fst (run_analyzer (ev_analyzer e) (ri_Body req) (Header req ''X-Trino-Catalog'')
                           (Header req ''X-Trino-Schema''))
            in ei_QueryType i = qm_QueryType m \<and> ei_QueryCategory i = CategoryName (qm_Category m) \<and>
               ei_Catalogs i = qm_Catalogs m \<and> ei_Schemas i = qm_Schemas m \<and>
               ei_CatalogSchemas i = qm_CatalogSchemas m \<and> ei_Tables i = qm_Tables m \<and>
               ei_ParseOK i = qm_ParseOK m \<and> (ev_sqlObs e \<longleftrightarrow> obs \<noteq> []))
      else \<not> HasParsedSQL i \<and> ei_QueryCategory i = [] \<and> obs = [])"
  by (simp add: inputFromProto_def fillSQLMeta_def FromProto_def buildProtoRequest_def empty_input_def
      HasParsedSQL_def Let_def split: prod.split)

end
