(* ===== verification/Providers.thy ===== *)
theory Providers
  imports Engine Base64
begin

text \<open>
  The rule providers of the routing service (\<^verbatim>\<open>engine/providers/expr\<close>, \<^verbatim>\<open>engine/providers/script\<close>) and the
  registry that builds them (\<^verbatim>\<open>engine/registry.go\<close>).  The expression language and Starlark are libraries
  of their own: compiling and running a program are parameters, and a run may fail or panic.  The
  registry writes a method's configuration as text and the providers read it back.
\<close>

section \<open>Method configuration\<close>

text \<open>Durations are nanoseconds.\<close>

record MethodConfig =
  mc_Type :: string
  mc_Refresh :: int
  mc_Program :: string
  mc_File :: string

text \<open>\<^verbatim>\<open>time.Duration.String\<close> for a positive duration: the fraction without trailing zeros.\<close>

definition pad_digits :: "nat \<Rightarrow> nat \<Rightarrow> string" where
  "pad_digits prec v = replicate (prec - length (dec_nat v)) (CHR ''0'') @ dec_nat v"

definition fmt_frac :: "nat \<Rightarrow> nat \<Rightarrow> string" where
  "fmt_frac prec v =
     (let ds = TrimRight (pad_digits prec (v mod 10 ^ prec)) (CHR ''0'')
      in dec_nat (v div 10 ^ prec) @ (if v mod 10 ^ prec = 0 then [] else CHR ''.'' # ds))"

definition Duration_String :: "nat \<Rightarrow> string" where
  "Duration_String u =
     (if u = 0 then ''0s''
      else if u < 1000 then dec_nat u @ ''ns''
      else if u < 1000000 then fmt_frac 3 u @ [CHR 0xC2, CHR 0xB5] @ ''s''
      else if u < 1000000000 then fmt_frac 6 u @ ''ms''
      else
        (let sec = u div 1000000000;
             s = fmt_frac 9 (u mod 60000000000) @ ''s''
         in if sec < 60 then s
            else (let m = sec div 60; ms = dec_nat (m mod 60) @ ''m'' @ s
                  in if m < 60 then ms else dec_nat (m div 60) @ ''h'' @ ms)))"

definition newline :: char where
  "newline = CHR 0x0A"

definition appendYAMLStr :: "string \<Rightarrow> string \<Rightarrow> string \<Rightarrow> string" where
  "appendYAMLStr buf key val = buf @ key @ '': '' @ val @ [newline]"

text \<open>The lines of the value, each with its newline; the last one gets one if it has none.\<close>

function yaml_block :: "string \<Rightarrow> string" where
  "yaml_block val =
     (if val = [] then []
      else (case index_byte newline val of
              Some i \<Rightarrow> ''  '' @ take (i + 1) val @ yaml_block (drop (i + 1) val)
            | None \<Rightarrow> ''  '' @ val @ [newline]))"
  by pat_completeness auto

termination yaml_block
  by (relation "measure length") auto

declare yaml_block.simps [simp del]

definition appendYAMLBlock :: "string \<Rightarrow> string \<Rightarrow> string \<Rightarrow> string" where
  "appendYAMLBlock buf key val = buf @ key @ '': |'' @ [newline] @ yaml_block val"

definition methodConfigBytes :: "MethodConfig \<Rightarrow> string" where
  "methodConfigBytes cfg =
     (let b1 = appendYAMLStr [] ''type'' (mc_Type cfg);
          b2 = (if mc_Program cfg \<noteq> [] then appendYAMLBlock b1 ''program'' (mc_Program cfg) else b1);
          b3 = (if mc_File cfg \<noteq> [] then appendYAMLStr b2 ''file'' (mc_File cfg) else b2)
      in if mc_Refresh cfg > 0 then appendYAMLStr b3 ''refresh'' (Duration_String (nat (mc_Refresh cfg))) else b3)"

section \<open>Reading it back\<close>

text \<open>Both providers carry the same three helpers and the same \<^verbatim>\<open>extractSource\<close>.\<close>

fun split_lines :: "string \<Rightarrow> string \<Rightarrow> string list" where
  "split_lines acc [] = (if acc = [] then [] else [rev acc])"
| "split_lines acc (c # cs) = (if c = newline then rev acc # split_lines [] cs else split_lines (c # acc) cs)"

definition splitLines :: "string \<Rightarrow> string list" where
  "splitLines s = split_lines [] s"

definition joinLines :: "string list \<Rightarrow> string" where
  "joinLines ls = join [newline] ls"

definition parseYAMLLine :: "string \<Rightarrow> string \<times> string" where
  "parseYAMLLine line =
     (case index_byte (CHR '':'') line of
        None \<Rightarrow> ([], [])
      | Some i \<Rightarrow> (take i line, (let v = drop (i + 1) line in if take 1 v = '' '' then drop 1 v else v)))"

record scan_state =
  sc_program :: string
  sc_file :: string
  sc_block :: "string list option"

definition scan_key :: "string \<Rightarrow> scan_state \<Rightarrow> scan_state" where
  "scan_key line st =
     (let (key, val) = parseYAMLLine line in
      if key = ''program'' then
        (if val = ''|'' then st\<lparr> sc_block := Some [] \<rparr> else st\<lparr> sc_program := val \<rparr>)
      else if key = ''file'' then st\<lparr> sc_file := val \<rparr>
      else st)"

definition scan_line :: "scan_state \<Rightarrow> string \<Rightarrow> scan_state" where
  "scan_line st line =
     (case sc_block st of
        None \<Rightarrow> scan_key line st
      | Some ls \<Rightarrow>
          if take 2 line = ''  '' then st\<lparr> sc_block := Some (ls @ [drop 2 line]) \<rparr>
          else scan_key line (st\<lparr> sc_block := None, sc_program := joinLines ls \<rparr>))"

definition extractSource :: "(string \<Rightarrow> string result) \<Rightarrow> string \<Rightarrow> string result" where
  "extractSource readFile raw =
     (let st = foldl scan_line \<lparr> sc_program = [], sc_file = [], sc_block = None \<rparr> (splitLines raw);
          program = (case sc_block st of None \<Rightarrow> sc_program st | Some ls \<Rightarrow> joinLines ls)
      in if program \<noteq> [] then Inr program
         else if sc_file st \<noteq> [] then readFile (sc_file st)
         else Inl (Failure ''config must specify program or file''))"

section \<open>Providers\<close>

datatype lang_value = VString string | VNone | VOther string

text \<open>The environment of a program: the fields of \<^verbatim>\<open>request\<close> by name.\<close>

datatype env_value = EStr string | EList "string list" | EBool bool | EMap "string \<Rightarrow> string option"

type_synonym env = "(string \<times> env_value) list"

definition buildEnv :: "EngineInput \<Rightarrow> env" where
  "buildEnv i = [(''source'', EStr (ei_Source i)), (''client_tags'', EList (ei_ClientTags i)),
     (''user'', EStr (ei_User i)), (''catalog'', EStr (ei_Catalog i)), (''schema'', EStr (ei_Schema i)),
     (''method'', EStr (ei_Method i)), (''uri'', EStr (ei_URI i)), (''remote_addr'', EStr (ei_RemoteAddr i)),
     (''body'', EStr (ei_Body i)), (''is_new'', EBool (ei_IsNew i)), (''param_map'', EMap (ei_ParamMap i)),
     (''query_type'', EStr (ei_QueryType i)), (''query_category'', EStr (ei_QueryCategory i)),
     (''catalogs'', EList (ei_Catalogs i)), (''schemas'', EList (ei_Schemas i)),
     (''catalog_schemas'', EList (ei_CatalogSchemas i)), (''tables'', EList (ei_Tables i)),
     (''parse_ok'', EBool (ei_ParseOK i))]"

definition buildReqValue :: "EngineInput \<Rightarrow> env" where
  "buildReqValue i = [(''source'', EStr (ei_Source i)), (''client_tags'', EList (ei_ClientTags i)),
     (''user'', EStr (ei_User i)), (''catalog'', EStr (ei_Catalog i)), (''schema'', EStr (ei_Schema i)),
     (''method'', EStr (ei_Method i)), (''uri'', EStr (ei_URI i)), (''remote_addr'', EStr (ei_RemoteAddr i)),
     (''body'', EStr (ei_Body i)), (''is_new'', EBool (ei_IsNew i)), (''param_map'', EMap (ei_ParamMap i)),
     (''query_type'', EStr (ei_QueryType i)), (''query_category'', EStr (ei_QueryCategory i)),
     (''catalogs'', EList (ei_Catalogs i)), (''schemas'', EList (ei_Schemas i)),
     (''catalog_schemas'', EList (ei_CatalogSchemas i)), (''tables'', EList (ei_Tables i)),
     (''parse_ok'', EBool (ei_ParseOK i))]"

text \<open>The built-in both languages offer; Starlark also rejects keyword arguments.\<close>

definition expr_hashPct :: "lang_value list \<Rightarrow> int result" where
  "expr_hashPct params =
     (case params of
        [VString s] \<Rightarrow> Inr (HashPct s)
      | [_] \<Rightarrow> Inl (Failure ''hashPct: argument must be string'')
      | _ \<Rightarrow> Inl (Failure ''hashPct: expected 1 argument''))"

definition builtinHashPct :: "lang_value list \<Rightarrow> nat \<Rightarrow> int result" where
  "builtinHashPct args kwargs =
     (if kwargs > 0 then Inl (Failure ''hashPct: unexpected keyword argument'')
      else (case args of
              [VString s] \<Rightarrow> Inr (HashPct s)
            | [_] \<Rightarrow> Inl (Failure ''hashPct: argument must be string'')
            | _ \<Rightarrow> Inl (Failure ''hashPct: expected 1 positional argument'')))"

text \<open>Reading files, and the two languages: compiling with the built-in, running in an environment.\<close>

record ('e, 's) lang_libs =
  ll_readFile :: "string \<Rightarrow> string result"
  ll_expr_Compile :: "(lang_value list \<Rightarrow> int result) \<Rightarrow> string \<Rightarrow> 'e result"
  ll_expr_Run :: "'e \<Rightarrow> env \<Rightarrow> lang_value outcome_of"
  ll_star_Exec :: "(lang_value list \<Rightarrow> nat \<Rightarrow> int result) \<Rightarrow> string \<Rightarrow> (string \<Rightarrow> 's option) result"
  ll_star_callable :: "'s \<Rightarrow> bool"
  ll_star_Call :: "nat \<Rightarrow> 's \<Rightarrow> env \<Rightarrow> lang_value outcome_of"

datatype ('e, 's) provider = ExprProvider "'e option" | ScriptProvider "'s option" nat

definition maxSteps :: nat where
  "maxSteps = 10000"

definition effectiveMaxSteps :: "nat \<Rightarrow> nat" where
  "effectiveMaxSteps stepBudget = (if stepBudget > 0 then stepBudget else maxSteps)"

definition decided :: "string \<Rightarrow> Decision" where
  "decided grp = no_decision\<lparr> de_RoutingGroup := grp, de_Decided := True \<rparr>"

definition expr_Evaluate :: "('e, 's) lang_libs \<Rightarrow> 'e option \<Rightarrow> EngineInput \<Rightarrow> Decision outcome_of" where
  "expr_Evaluate libs prog i =
     (case prog of
        None \<Rightarrow> Returns no_decision
      | Some pr \<Rightarrow>
          (case ll_expr_Run libs pr (buildEnv i) of
             Panics r \<Rightarrow> Panics r
           | Fails e \<Rightarrow> Fails (''expr: Run: '' @ e)
           | Returns (VString grp) \<Rightarrow> Returns (if grp = [] then no_decision else decided grp)
           | Returns _ \<Rightarrow> Fails ''expr: result is not a string''))"

definition compileAndExec :: "('e, 's) lang_libs \<Rightarrow> string \<Rightarrow> 's result" where
  "compileAndExec libs src =
     (case ll_star_Exec libs builtinHashPct src of
        Inl e \<Rightarrow> Inl e
      | Inr globals \<Rightarrow>
          (case globals ''route'' of
             None \<Rightarrow> Inl (Failure ''script must define a function named route'')
           | Some f \<Rightarrow> if ll_star_callable libs f then Inr f else Inl (Failure ''route is not callable'')))"

definition script_Evaluate ::
  "('e, 's) lang_libs \<Rightarrow> 's option \<Rightarrow> nat \<Rightarrow> EngineInput \<Rightarrow> Decision outcome_of" where
  "script_Evaluate libs script stepBudget i =
     (case script of
        None \<Rightarrow> Returns no_decision
      | Some f \<Rightarrow>
          (case ll_star_Call libs (effectiveMaxSteps stepBudget) f (buildReqValue i) of
             Panics r \<Rightarrow> Panics r
           | Fails e \<Rightarrow> Fails (''script: route(): '' @ e)
           | Returns VNone \<Rightarrow> Returns no_decision
           | Returns (VString grp) \<Rightarrow> Returns (if grp = [] then no_decision else decided grp)
           | Returns (VOther ty) \<Rightarrow> Fails (''script: route() returned '' @ ty)))"

fun provider_Type :: "('e, 's) provider \<Rightarrow> string" where
  "provider_Type (ExprProvider _) = ''expr''"
| "provider_Type (ScriptProvider _ _) = ''script''"

fun provider_Evaluate ::
  "('e, 's) lang_libs \<Rightarrow> ('e, 's) provider \<Rightarrow> EngineInput \<Rightarrow> Decision outcome_of" where
  "provider_Evaluate libs (ExprProvider prog) i = expr_Evaluate libs prog i"
| "provider_Evaluate libs (ScriptProvider script n) i = script_Evaluate libs script n i"

text \<open>\<^verbatim>\<open>LoadConfig\<close> returns the error, if any, and the provider as it is left.\<close>

fun LoadConfig ::
  "('e, 's) lang_libs \<Rightarrow> string \<Rightarrow> ('e, 's) provider \<Rightarrow> unit result \<times> ('e, 's) provider" where
  "LoadConfig libs raw (ExprProvider prog) =
     (case extractSource (ll_readFile libs) raw of
        Inl e \<Rightarrow> (Inl e, ExprProvider prog)
      | Inr src \<Rightarrow>
          (case ll_expr_Compile libs expr_hashPct src of
             Inl e \<Rightarrow> (Inl e, ExprProvider prog)
           | Inr pr \<Rightarrow> (Inr (), ExprProvider (Some pr))))"
| "LoadConfig libs raw (ScriptProvider script n) =
     (case extractSource (ll_readFile libs) raw of
        Inl e \<Rightarrow> (Inl e, ScriptProvider script n)
      | Inr src \<Rightarrow>
          (case compileAndExec libs src of
             Inl e \<Rightarrow> (Inl e, ScriptProvider script n)
           | Inr f \<Rightarrow> (Inr (), ScriptProvider (Some f) n)))"

definition provider_ops :: "('e, 's) lang_libs \<Rightarrow> ('e, 's) provider method_ops" where
  "provider_ops libs = \<lparr> rm_Type = provider_Type, rm_Evaluate = provider_Evaluate libs \<rparr>"

section \<open>Registry\<close>

type_synonym ('e, 's) registry = "string \<Rightarrow> ('e, 's) provider option"

text \<open>\<^verbatim>\<open>Register\<close> panics on a duplicate: no registry.\<close>

definition Register :: "string \<Rightarrow> ('e, 's) provider \<Rightarrow> ('e, 's) registry \<Rightarrow> ('e, 's) registry option" where
  "Register typeName fresh reg = (case reg typeName of Some _ \<Rightarrow> None | None \<Rightarrow> Some (reg(typeName \<mapsto> fresh)))"

text \<open>The registry \<^verbatim>\<open>main\<close> builds.\<close>

definition main_registry :: "('e, 's) registry" where
  "main_registry = [''expr'' \<mapsto> ExprProvider None, ''script'' \<mapsto> ScriptProvider None 0]"

definition Build ::
  "('e, 's) lang_libs \<Rightarrow> ('e, 's) registry \<Rightarrow> MethodConfig \<Rightarrow> ('e, 's) provider result" where
  "Build libs reg cfg =
     (case reg (mc_Type cfg) of
        None \<Rightarrow> Inl (Failure ''engine: registry: unknown method type'')
      | Some m \<Rightarrow>
          (case LoadConfig libs (methodConfigBytes cfg) m of
             (Inl e, _) \<Rightarrow> Inl e
           | (Inr _, m') \<Rightarrow> Inr m'))"

section \<open>Round trip of the configuration text\<close>

definition strip_newline :: "string \<Rightarrow> string" where
  "strip_newline s = (if s \<noteq> [] \<and> last s = newline then butlast s else s)"

lemma split_lines_append:
  "newline \<notin> set l \<Longrightarrow> split_lines acc (l @ newline # rest) = (rev acc @ l) # splitLines rest"
  by (induction l arbitrary: acc) (auto simp: splitLines_def)

lemma splitLines_Nil [simp]: "splitLines [] = []"
  by (simp add: splitLines_def)

lemma splitLines_line: "newline \<notin> set l \<Longrightarrow> splitLines (l @ newline # rest) = l # splitLines rest"
  using split_lines_append[of l "[]" rest] by (simp add: splitLines_def)

lemma splitLines_last: "newline \<notin> set l \<Longrightarrow> splitLines l = (if l = [] then [] else [l])"
proof -
  have "newline \<notin> set l \<Longrightarrow> split_lines acc l = (if acc = [] \<and> l = [] then [] else [rev acc @ l])" for acc
    by (induction l arbitrary: acc) auto
  then show "newline \<notin> set l \<Longrightarrow> splitLines l = (if l = [] then [] else [l])" by (simp add: splitLines_def)
qed

lemma index_byte_split:
  "index_byte c s = Some i \<Longrightarrow> \<exists>l r. s = l @ c # r \<and> c \<notin> set l \<and> i = length l"
proof (induction s arbitrary: i)
  case (Cons x s)
  show ?case
  proof (cases "x = c")
    case True
    then show ?thesis using Cons.prems by (intro exI[of _ "[]"] exI[of _ s]) simp
  next
    case False
    then obtain j where "index_byte c s = Some j" "i = Suc j" using Cons.prems by auto
    then obtain l r where "s = l @ c # r" "c \<notin> set l" "j = length l" using Cons.IH by blast
    then show ?thesis using False \<open>i = Suc j\<close> by (intro exI[of _ "x # l"] exI[of _ r]) simp
  qed
qed simp

lemma splitLines_yaml_block:
  "splitLines (yaml_block v @ rest) = map (\<lambda>l. ''  '' @ l) (splitLines v) @ splitLines rest"
proof (induction v rule: yaml_block.induct)
  case (1 v)
  have nl: "newline \<noteq> CHR '' ''" by (simp add: newline_def)
  show ?case
  proof (cases "index_byte newline v")
    case None
    then have "newline \<notin> set v" by (simp add: index_byte_None)
    then show ?thesis using None nl splitLines_line[of "''  '' @ v" rest]
      by (subst yaml_block.simps) (auto simp: splitLines_last)
  next
    case (Some i)
    then obtain l r where v: "v = l @ newline # r" "newline \<notin> set l" "i = length l"
      using index_byte_split by blast
    have "splitLines (yaml_block r @ rest) = map (\<lambda>l. ''  '' @ l) (splitLines r) @ splitLines rest"
      using 1[of i] Some v by simp
    then show ?thesis using Some v nl splitLines_line[of "''  '' @ l"]
      by (subst yaml_block.simps) (simp add: splitLines_line)
  qed
qed

lemma splitLines_nonempty: "splitLines s = [] \<longleftrightarrow> s = []"
proof (cases "index_byte newline s")
  case None
  then show ?thesis using splitLines_last[of s] by (simp add: index_byte_None)
next
  case (Some i)
  then obtain l r where "s = l @ newline # r" "newline \<notin> set l" using index_byte_split by blast
  then show ?thesis by (simp add: splitLines_line)
qed

lemma joinLines_splitLines: "joinLines (splitLines s) = strip_newline s"
proof (induction "length s" arbitrary: s rule: less_induct)
  case less
  show ?case
  proof (cases "index_byte newline s")
    case None
    then have "newline \<notin> set s" by (simp add: index_byte_None)
    then show ?thesis by (auto simp: splitLines_last joinLines_def strip_newline_def dest: last_in_set)
  next
    case (Some i)
    then obtain l r where s: "s = l @ newline # r" "newline \<notin> set l" using index_byte_split by blast
    have "joinLines (splitLines r) = strip_newline r" using less s by simp
    then show ?thesis
      using s splitLines_nonempty[of r]
      by (cases "splitLines r") (auto simp: splitLines_line joinLines_def strip_newline_def butlast_append)
  qed
qed

text \<open>The effect of the lines the registry writes.\<close>

lemma scan_key_line:
  "CHR '':'' \<notin> set key \<Longrightarrow> scan_key (key @ '': '' @ val) st =
     (if key = ''program'' then (if val = ''|'' then st\<lparr> sc_block := Some [] \<rparr> else st\<lparr> sc_program := val \<rparr>)
      else if key = ''file'' then st\<lparr> sc_file := val \<rparr> else st)"
proof -
  assume "CHR '':'' \<notin> set key"
  then have "index_byte (CHR '':'') (key @ '': '' @ val) = Some (length key)" by (induction key) auto
  then show ?thesis by (simp add: scan_key_def parseYAMLLine_def)
qed

lemma scan_block:
  "sc_block st = Some ls \<Longrightarrow>
     foldl scan_line st (map (\<lambda>l. ''  '' @ l) xs) = st\<lparr> sc_block := Some (ls @ xs) \<rparr>"
  by (induction xs arbitrary: st ls) (simp_all add: scan_line_def)


definition end_block :: "scan_state \<Rightarrow> scan_state" where
  "end_block st = (case sc_block st of None \<Rightarrow> st
     | Some ls \<Rightarrow> st\<lparr> sc_block := None, sc_program := joinLines ls \<rparr>)"

definition scan_program :: "scan_state \<Rightarrow> string" where
  "scan_program st = sc_program (end_block st)"

lemma scan_program_alt: "(case sc_block st of None \<Rightarrow> sc_program st | Some ls \<Rightarrow> joinLines ls) = scan_program st"
  by (simp add: scan_program_def end_block_def split: option.split)

lemma scan_line_key:
  "take 2 line \<noteq> ''  '' \<Longrightarrow> scan_line st line = scan_key line (end_block st)"
  by (auto simp: scan_line_def end_block_def split: option.split)

lemma splitLines_YAMLStr:
  "newline \<notin> set val \<Longrightarrow> newline \<notin> set key \<Longrightarrow>
     splitLines (key @ '': '' @ val @ newline # rest) = (key @ '': '' @ val) # splitLines rest"
  using splitLines_line[of "key @ '': '' @ val" rest] by (simp add: newline_def)

lemma scan_yaml_str:
  assumes "newline \<notin> set val" "newline \<notin> set key" "CHR '':'' \<notin> set key" "take 2 (key @ '': '') \<noteq> ''  ''"
    "key \<noteq> ''program''"
  shows "foldl scan_line st (splitLines (key @ '': '' @ val @ [newline])) =
    (if key = ''file'' then (end_block st)\<lparr> sc_file := val \<rparr> else end_block st)"
proof -
  have "take 2 (key @ '': '' @ val) = take 2 (key @ '': '')"
    using take_append[of 2 "key @ '': ''" val] by simp
  then have "take 2 (key @ '': '' @ val) \<noteq> ''  ''" using assms(4) by simp
  moreover have "splitLines (key @ '': '' @ val @ [newline]) = [key @ '': '' @ val]"
    using splitLines_YAMLStr[OF assms(1,2), of "[]"] by (simp add: splitLines_def)
  ultimately have "foldl scan_line st (splitLines (key @ '': '' @ val @ [newline])) =
      scan_key (key @ '': '' @ val) (end_block st)"
    using scan_line_key[of "key @ '': '' @ val" st] by simp
  then show ?thesis using scan_key_line[OF assms(3), of val "end_block st"] assms(5) by simp
qed

lemma digits_no_newline: "list_all is_digit s \<Longrightarrow> newline \<notin> set s"
  by (auto simp: list_all_iff is_digit_def newline_def byte_def)

lemma dec_nat_no_newline [simp]: "newline \<notin> set (dec_nat n)"
  using digits_no_newline dec_nat_digits by blast

lemma fmt_frac_no_newline [simp]: "newline \<notin> set (fmt_frac p v)"
  by (auto simp: fmt_frac_def pad_digits_def TrimRight_def newline_def Let_def
      dest!: set_dropWhileD split: if_splits)
     (use dec_nat_no_newline in \<open>simp_all add: newline_def\<close>)

lemma Duration_no_newline [simp]: "newline \<notin> set (Duration_String u)"
  by (simp add: Duration_String_def Let_def) (simp add: newline_def)


lemma splitLines_append:
  "s = [] \<or> last s = newline \<Longrightarrow> splitLines (s @ t) = splitLines s @ splitLines t"
proof (induction "length s" arbitrary: s rule: less_induct)
  case less
  show ?case
  proof (cases "s = []")
    case False
    then have "newline \<in> set s" using less.prems last_in_set by fastforce
    then obtain i where "index_byte newline s = Some i" using index_byte_None[of newline s] by auto
    then obtain l r where s: "s = l @ newline # r" "newline \<notin> set l" using index_byte_split by blast
    then have "length r < length s" "r = [] \<or> last r = newline" using less.prems False by (auto split: if_splits)
    then have "splitLines (r @ t) = splitLines r @ splitLines t" by (rule less.hyps)
    then show ?thesis using s by (simp add: splitLines_line)
  qed (simp add: splitLines_def)
qed

text \<open>The four parts of the text, each complete lines.\<close>

definition type_part :: "MethodConfig \<Rightarrow> string" where
  "type_part cfg = ''type'' @ '': '' @ mc_Type cfg @ [newline]"

definition program_part :: "MethodConfig \<Rightarrow> string" where
  "program_part cfg = (if mc_Program cfg = [] then []
     else ''program'' @ '': '' @ ''|'' @ newline # yaml_block (mc_Program cfg))"

definition file_part :: "MethodConfig \<Rightarrow> string" where
  "file_part cfg = (if mc_File cfg = [] then [] else ''file'' @ '': '' @ mc_File cfg @ [newline])"

definition refresh_part :: "MethodConfig \<Rightarrow> string" where
  "refresh_part cfg = (if mc_Refresh cfg > 0
     then ''refresh'' @ '': '' @ Duration_String (nat (mc_Refresh cfg)) @ [newline] else [])"

lemma methodConfigBytes_parts:
  "methodConfigBytes cfg = type_part cfg @ program_part cfg @ file_part cfg @ refresh_part cfg"
  by (simp add: methodConfigBytes_def appendYAMLStr_def appendYAMLBlock_def type_part_def program_part_def
      file_part_def refresh_part_def Let_def)

lemma yaml_block_last: "v \<noteq> [] \<Longrightarrow> yaml_block v \<noteq> [] \<and> last (yaml_block v) = newline"
proof (induction v rule: yaml_block.induct)
  case (1 v)
  show ?case
  proof (cases "index_byte newline v")
    case None
    then show ?thesis using 1 by (subst (1 2) yaml_block.simps) simp
  next
    case (Some i)
    then obtain l r where v: "v = l @ newline # r" "i = length l" using index_byte_split by blast
    show ?thesis
    proof (cases "r = []")
      case True
      then show ?thesis using Some v by (subst (1 2) yaml_block.simps) (simp add: yaml_block.simps[of "[]"])
    next
      case False
      then show ?thesis using 1 Some v by (subst (1 2) yaml_block.simps) simp
    qed
  qed
qed

lemma parts_end [simp]:
  "type_part cfg = [] \<or> last (type_part cfg) = newline"
  "program_part cfg = [] \<or> last (program_part cfg) = newline"
  "file_part cfg = [] \<or> last (file_part cfg) = newline"
  using yaml_block_last[of "mc_Program cfg"]
  by (auto simp: type_part_def program_part_def file_part_def)

lemma scan_program_part:
  assumes "sc_block st = None"
  shows "foldl scan_line st (splitLines (program_part cfg)) =
    (if mc_Program cfg = [] then st else st\<lparr> sc_block := Some (splitLines (mc_Program cfg)) \<rparr>)"
proof (cases "mc_Program cfg = []")
  case False
  have "splitLines (program_part cfg) =
      (''program'' @ '': '' @ ''|'') # map (\<lambda>l. ''  '' @ l) (splitLines (mc_Program cfg))"
    using False splitLines_YAMLStr[of "''|''" "''program''" "yaml_block (mc_Program cfg)"]
      splitLines_yaml_block[of "mc_Program cfg" "[]"]
    by (simp add: program_part_def newline_def splitLines_def)
  moreover have "scan_line st (''program'' @ '': '' @ ''|'') = st\<lparr> sc_block := Some [] \<rparr>"
    using assms scan_key_line[of "''program''" "''|''" st] by (simp add: scan_line_def)
  ultimately show ?thesis
    using False scan_block[of "st\<lparr> sc_block := Some [] \<rparr>" "[]" "splitLines (mc_Program cfg)"] by simp
qed (simp add: program_part_def splitLines_def)

lemma scan_file_part:
  assumes "newline \<notin> set (mc_File cfg)"
  shows "foldl scan_line st (splitLines (file_part cfg)) =
    (if mc_File cfg = [] then st else (end_block st)\<lparr> sc_file := mc_File cfg \<rparr>)"
  using scan_yaml_str[of "mc_File cfg" "''file''" st] assms
  by (simp add: file_part_def splitLines_def newline_def)

lemma scan_refresh_part:
  "foldl scan_line st (splitLines (refresh_part cfg)) = (if mc_Refresh cfg > 0 then end_block st else st)"
  using scan_yaml_str[of "Duration_String (nat (mc_Refresh cfg))" "''refresh''" st]
    Duration_no_newline[of "nat (mc_Refresh cfg)"]
  by (simp add: refresh_part_def splitLines_def newline_def)

text \<open>
  C27: The configuration text the registry writes is read back by the providers: the inline program up
  to one trailing newline, or else the contents of the file.  A refresh interval after them does not
  disturb it.
\<close>
theorem method_config_round_trip:
  assumes "newline \<notin> set (mc_Type cfg)" and "newline \<notin> set (mc_File cfg)"
  shows "extractSource readFile (methodConfigBytes cfg) =
    (if strip_newline (mc_Program cfg) \<noteq> [] then Inr (strip_newline (mc_Program cfg))
     else if mc_File cfg \<noteq> [] then readFile (mc_File cfg)
     else Inl (Failure ''config must specify program or file''))"
proof -
  let ?init = "\<lparr> sc_program = [], sc_file = [], sc_block = None \<rparr> :: scan_state"
  let ?st = "foldl scan_line ?init (splitLines (methodConfigBytes cfg))"
  have lines: "splitLines (methodConfigBytes cfg) = splitLines (type_part cfg) @ splitLines (program_part cfg) @
      splitLines (file_part cfg) @ splitLines (refresh_part cfg)"
    by (simp add: methodConfigBytes_parts splitLines_append)
  have "foldl scan_line ?init (splitLines (type_part cfg)) = ?init"
    using scan_yaml_str[of "mc_Type cfg" "''type''" ?init] assms(1)
    by (simp add: type_part_def newline_def end_block_def)
  then have "sc_file ?st = mc_File cfg \<and> scan_program ?st = strip_newline (mc_Program cfg)"
    using assms(2)
    by (simp add: lines scan_program_part scan_file_part scan_refresh_part scan_program_def end_block_def
        joinLines_splitLines strip_newline_def)
  then show ?thesis unfolding extractSource_def Let_def scan_program_alt by simp
qed

theorem method_config_round_trip_witness:
  "extractSource (\<lambda>f. Inr f) (methodConfigBytes
     \<lparr> mc_Type = ''expr'', mc_Refresh = 30000000000, mc_Program = ''x: 1'' @ [newline] @ ''  y'' @ [newline],
       mc_File = [] \<rparr>) = Inr (''x: 1'' @ [newline] @ ''  y'')"
  by (subst method_config_round_trip) (simp_all add: newline_def strip_newline_def)

section \<open>What the providers promise\<close>

lemma buildReqValue_same: "buildReqValue i = buildEnv i"
  by (simp add: buildReqValue_def buildEnv_def)

text \<open>A failed load leaves the program in place.\<close>

lemma LoadConfig_keeps: "fst (LoadConfig libs raw m) = Inl e \<Longrightarrow> snd (LoadConfig libs raw m) = m"
  by (cases m) (auto split: sum.splits)

lemma LoadConfig_Type [simp]: "provider_Type (snd (LoadConfig libs raw m)) = provider_Type m"
  by (cases m) (auto split: sum.splits)

lemma Build_Type:
  fixes m :: "('e, 's) provider"
  assumes "Build libs main_registry cfg = Inr m"
  shows "provider_Type m = mc_Type cfg"
proof -
  obtain m0 :: "('e, 's) provider" where m0: "main_registry (mc_Type cfg) = Some m0" "provider_Type m0 = mc_Type cfg"
    using assms by (auto simp: Build_def main_registry_def split: option.splits if_splits)
  then have "m = snd (LoadConfig libs (methodConfigBytes cfg) m0)"
    using assms by (auto simp: Build_def split: prod.splits sum.splits)
  then show ?thesis using m0(2) by simp
qed

text \<open>
  A provider decides only for a non-empty group and never sets headers or errors; a program that
  defers, returns another type or fails leaves the choice to the next method.  A provider that has
  loaded nothing defers.
\<close>
theorem provider_decisions:
  "case provider_Evaluate libs m i of
     Returns d \<Rightarrow> (if de_Decided d then de_RoutingGroup d \<noteq> [] \<and> d = decided (de_RoutingGroup d)
                   else d = no_decision)
   | _ \<Rightarrow> m \<noteq> ExprProvider None \<and> (\<forall>n. m \<noteq> ScriptProvider None n)"
  by (cases m)
     (auto simp: expr_Evaluate_def script_Evaluate_def decided_def no_decision_def
       split: option.splits outcome_of.splits lang_value.splits)

end
