(* ===== verification/Service.thy ===== *)
theory Service
  imports Providers
begin

text \<open>
  The routing service around the engine: its configuration (\<^verbatim>\<open>internal/config/config.go\<close>), the hot
  reload (\<^verbatim>\<open>internal/reload/watcher.go\<close>), the gRPC handlers (\<^verbatim>\<open>internal/server/server.go\<close>, \<^verbatim>\<open>admin.go\<close>), the
  decision log (\<^verbatim>\<open>internal/logging/decision.go\<close>) and the metrics it writes
  (\<^verbatim>\<open>internal/metrics/metrics.go\<close>).  YAML decoding, SHA-256 and the file system are parameters.  The two
  reads of the configuration file by one reload are two arguments, since the file may change between
  them.
\<close>

section \<open>Configuration\<close>

record RsConfig =
  rc_Addr :: string
  rc_MetricsAddr :: string
  rc_AdminAddr :: string
  rc_TracingEndpoint :: string
  rc_DefaultRoutingGroup :: string
  rc_Methods :: "MethodConfig list"
  rc_SQLEnabled :: bool
  rc_MaxBodyBytes :: int

definition defaultMaxBodyBytes :: int where
  "defaultMaxBodyBytes = 256 * 1024"

definition rs_defaultConfig :: RsConfig where
  "rs_defaultConfig = \<lparr> rc_Addr = '':9001'', rc_MetricsAddr = '':9091'', rc_AdminAddr = '':9092'',
     rc_TracingEndpoint = [], rc_DefaultRoutingGroup = [], rc_Methods = [], rc_SQLEnabled = True,
     rc_MaxBodyBytes = defaultMaxBodyBytes \<rparr>"

definition rs_applyDefaults :: "RsConfig \<Rightarrow> RsConfig" where
  "rs_applyDefaults c =
     (let c1 = (if rc_MetricsAddr c = [] then c\<lparr> rc_MetricsAddr := '':9091'' \<rparr> else c);
          c2 = (if rc_AdminAddr c1 = [] then c1\<lparr> rc_AdminAddr := '':9092'' \<rparr> else c1)
      in if rc_MaxBodyBytes c2 = 0 then c2\<lparr> rc_MaxBodyBytes := defaultMaxBodyBytes \<rparr> else c2)"

fun validate_methods :: "MethodConfig list \<Rightarrow> unit result" where
  "validate_methods [] = Inr ()"
| "validate_methods (m # ms) =
     (if mc_Program m \<noteq> [] \<and> mc_File m \<noteq> [] then Inl (Failure ''only one of program or file may be set, not both'')
      else if mc_Program m = [] \<and> mc_File m = [] then Inl (Failure ''exactly one of program or file must be set'')
      else validate_methods ms)"

definition rs_Validate :: "RsConfig \<Rightarrow> unit result" where
  "rs_Validate c =
     (if rc_Addr c = [] then Inl (Failure ''config: validate: addr must be non-empty'')
      else if rc_DefaultRoutingGroup c = [] then
        Inl (Failure ''config: validate: defaultRoutingGroup must be non-empty'')
      else (case validate_methods (rc_Methods c) of
              Inl e \<Rightarrow> Inl e
            | Inr _ \<Rightarrow>
                if rc_MaxBodyBytes c < 0
                then Inl (Failure ''config: validate: sqlParsing.maxBodyBytes must be non-negative'')
                else Inr ()))"

text \<open>\<open>unmarshal data c\<close>: the YAML document decoded over the pre-filled configuration \<open>c\<close>.\<close>

definition rs_Load :: "(string \<Rightarrow> RsConfig \<Rightarrow> RsConfig result) \<Rightarrow> string result \<Rightarrow> RsConfig result" where
  "rs_Load unmarshal file =
     (case file of
        Inl e \<Rightarrow> Inl e
      | Inr data \<Rightarrow>
          (case unmarshal data rs_defaultConfig of
             Inl e \<Rightarrow> Inl e
           | Inr cfg \<Rightarrow>
               (let cfg' = rs_applyDefaults cfg
                in case rs_Validate cfg' of Inl e \<Rightarrow> Inl e | Inr _ \<Rightarrow> Inr cfg')))"

section \<open>Hot reload\<close>

datatype rl_event = AuditEvent bool string string | ReloadSink bool | VersionSink string

record ConfigWatcher =
  cw_success :: nat
  cw_errors :: nat
  cw_count :: nat
  cw_lastHash :: "string option"
  cw_events :: "rl_event list"

definition watcher_New :: ConfigWatcher where
  "watcher_New = \<lparr> cw_success = 0, cw_errors = 0, cw_count = 0, cw_lastHash = None, cw_events = [] \<rparr>"

definition oldHash :: "ConfigWatcher \<Rightarrow> string" where
  "oldHash w = (case cw_lastHash w of None \<Rightarrow> [] | Some h \<Rightarrow> h)"

definition hashBytes :: "(string \<Rightarrow> string) \<Rightarrow> string \<Rightarrow> string" where
  "hashBytes sha256 data = hex_encode (take 4 (sha256 data))"

definition reload_fail :: "string \<Rightarrow> string \<Rightarrow> ConfigWatcher \<Rightarrow> ConfigWatcher" where
  "reload_fail old new w = w\<lparr> cw_errors := cw_errors w + 1,
     cw_events := cw_events w @ [AuditEvent False old new, ReloadSink False] \<rparr>"

fun build_all ::
  "('e, 's) lang_libs \<Rightarrow> ('e, 's) registry \<Rightarrow> MethodConfig list \<Rightarrow> ('e, 's) provider list result" where
  "build_all libs reg [] = Inr []"
| "build_all libs reg (mc # mcs) =
     (case Build libs reg mc of
        Inl e \<Rightarrow> Inl e
      | Inr m \<Rightarrow> (case build_all libs reg mcs of Inl e \<Rightarrow> Inl e | Inr ms \<Rightarrow> Inr (m # ms)))"

record ('e, 's) reload_env =
  re_libs :: "('e, 's) lang_libs"
  re_registry :: "('e, 's) registry"
  re_unmarshal :: "string \<Rightarrow> RsConfig \<Rightarrow> RsConfig result"
  re_sha256 :: "string \<Rightarrow> string"

text \<open>\<open>read1\<close> is hashed, \<open>read2\<close> is what \<^verbatim>\<open>config.Load\<close> reads.\<close>

definition reload ::
  "('e, 's) reload_env \<Rightarrow> string result \<Rightarrow> string result \<Rightarrow> ConfigWatcher \<times> ('e, 's) provider Pipeline
    \<Rightarrow> ConfigWatcher \<times> ('e, 's) provider Pipeline" where
  "reload env read1 read2 st =
     (let (w0, p) = st; w = w0\<lparr> cw_count := cw_count w0 + 1 \<rparr>; old = oldHash w in
      case read1 of
        Inl e \<Rightarrow> (reload_fail old [] w, p)
      | Inr data \<Rightarrow>
          (let new = hashBytes (re_sha256 env) data in
           case rs_Load (re_unmarshal env) read2 of
             Inl e \<Rightarrow> (reload_fail old new w, p)
           | Inr cfg \<Rightarrow>
               (case build_all (re_libs env) (re_registry env) (rc_Methods cfg) of
                  Inl e \<Rightarrow> (reload_fail old new w, p)
                | Inr ms \<Rightarrow>
                    (w\<lparr> cw_lastHash := Some new, cw_success := cw_success w + 1,
                        cw_events := cw_events w @ [AuditEvent True old new, ReloadSink True, VersionSink new] \<rparr>,
                     pipeline_Swap (map Provider ms) p))))"

text \<open>The events the watcher goroutine selects on.  The timer channel is nil until the timer is armed,
  so an expiry counts only then; after the loop has left nothing counts.\<close>

datatype watch_event = FsEvent bool | FsError | TimerExpired "string result" "string result" | LoopEnd

record ('e, 's) watch_state =
  wt_armed :: bool
  wt_running :: bool
  wt_st :: "ConfigWatcher \<times> ('e, 's) provider Pipeline"

definition watch_step :: "('e, 's) reload_env \<Rightarrow> ('e, 's) watch_state \<Rightarrow> watch_event \<Rightarrow> ('e, 's) watch_state" where
  "watch_step env s ev =
     (if \<not> wt_running s then s
      else (case ev of
              FsEvent relevant \<Rightarrow> if relevant then s\<lparr> wt_armed := True \<rparr> else s
            | FsError \<Rightarrow> s
            | TimerExpired read1 read2 \<Rightarrow>
                if wt_armed s then s\<lparr> wt_armed := False, wt_st := reload env read1 read2 (wt_st s) \<rparr> else s
            | LoopEnd \<Rightarrow> s\<lparr> wt_running := False \<rparr>))"

section \<open>Decisions\<close>

datatype rs_outcome = OutcomeDecided | RsFallback | RsError

definition classifyOutcome :: "EvalResult \<Rightarrow> rs_outcome" where
  "classifyOutcome res = (if res_Decided res then OutcomeDecided else if res_HadError res then RsError else RsFallback)"

record DecisionFields =
  df_RuleID :: string
  df_Source :: string
  df_User :: string
  df_BodyHash :: string
  df_RoutingGroup :: string
  df_ConfigVersionHash :: string
  df_Fallback :: bool
  df_SQL :: SQLSummary

definition BodyHash :: "(string \<Rightarrow> string) \<Rightarrow> string \<Rightarrow> string" where
  "BodyHash sha256 body = (if body = [] then [] else take 8 (hex_encode (sha256 body)))"

definition ShouldLog :: "bool \<Rightarrow> bool \<Rightarrow> bool" where
  "ShouldLog sampled isFallback = (if isFallback then True else sampled)"

text \<open>The collectors; of a histogram only the labels observed.\<close>

record rs_metrics =
  rm_requests :: "(string \<times> string \<times> string \<times> rs_outcome) list"
  rm_fallback :: nat
  rm_durations :: "string list"
  rm_version :: "string option"
  rm_disabled :: "string \<Rightarrow> bool option"
  rm_reloads :: "bool \<Rightarrow> nat"
  rm_sqlParse :: "string \<Rightarrow> nat"
  rm_sqlTruncated :: nat

definition RecordDecision :: "string \<Rightarrow> string \<Rightarrow> string \<Rightarrow> rs_outcome \<Rightarrow> rs_metrics \<Rightarrow> rs_metrics" where
  "RecordDecision source grp methodType out m = m\<lparr>
     rm_requests := rm_requests m @ [(source, grp, methodType, out)],
     rm_fallback := rm_fallback m + (if out = RsFallback then 1 else 0),
     rm_durations := rm_durations m @ [if methodType = [] then ''default'' else methodType] \<rparr>"

definition SyncDisabled :: "string list \<Rightarrow> string list \<Rightarrow> rs_metrics \<Rightarrow> rs_metrics" where
  "SyncDisabled allTypes disabled m =
     m\<lparr> rm_disabled := fold (\<lambda>t g. g(t \<mapsto> t \<in> set disabled)) allTypes (rm_disabled m) \<rparr>"

record Server =
  sv_DefaultRoutingGroup :: string
  sv_metrics :: "rs_metrics option"
  sv_confVer :: "string option"
  sv_ready :: bool
  sv_log :: "DecisionFields list"

definition SetReady :: "bool \<Rightarrow> Server \<Rightarrow> Server" where
  "SetReady ready s = s\<lparr> sv_ready := ready \<rparr>"

definition SetConfigVersion :: "string \<Rightarrow> Server \<Rightarrow> Server" where
  "SetConfigVersion hash s =
     s\<lparr> sv_confVer := Some hash, sv_metrics := map_option (\<lambda>m. m\<lparr> rm_version := Some hash \<rparr>) (sv_metrics s) \<rparr>"

definition configVersion :: "Server \<Rightarrow> string" where
  "configVersion s = (case sv_confVer s of None \<Rightarrow> [] | Some h \<Rightarrow> h)"

definition is_new_submission :: "pb_RouteRequest \<Rightarrow> bool" where
  "is_new_submission req =
     (case pr_TrinoQueryProperties req of None \<Rightarrow> False | Some qp \<Rightarrow> pq_IsNewQuerySubmission qp)"

definition empty_response :: pb_RouteResponse where
  "empty_response = \<lparr> ps_RoutingGroup = [], ps_ExternalHeaders = None, ps_Errors = [] \<rparr>"

text \<open>\<open>evalResult\<close> is \<^verbatim>\<open>Evaluator.EvaluateResult\<close>, an interface in the code; \<open>sampled\<close> is the draw of the
  sampler.\<close>

definition server_Route ::
  "(string \<Rightarrow> string) \<Rightarrow> bool \<Rightarrow> (pb_RouteRequest option \<Rightarrow> EvalResult) \<Rightarrow> pb_RouteRequest \<Rightarrow> Server
    \<Rightarrow> pb_RouteResponse \<times> Server" where
  "server_Route sha256 sampled evalResult req s =
     (if \<not> is_new_submission req then (empty_response, s)
      else
        (let res0 = evalResult (Some req);
             res = (if res_RoutingGroup res0 = [] then res0\<lparr> res_RoutingGroup := sv_DefaultRoutingGroup s \<rparr> else res0);
             source = pr_TrinoSource req;
             s1 = s\<lparr> sv_metrics := map_option
                       (RecordDecision source (res_RoutingGroup res) (res_MethodType res) (classifyOutcome res))
                       (sv_metrics s) \<rparr>;
             fields = \<lparr> df_RuleID = res_MethodType res, df_Source = source,
                        df_User = (case pr_User req of None \<Rightarrow> [] | Some u \<Rightarrow> u),
                        df_BodyHash = BodyHash sha256
                          (case pr_TrinoQueryProperties req of None \<Rightarrow> [] | Some qp \<Rightarrow> pq_Body qp),
                        df_RoutingGroup = res_RoutingGroup res, df_ConfigVersionHash = configVersion s,
                        df_Fallback = (\<not> res_Decided res), df_SQL = res_SQL res \<rparr>;
             s2 = (if ShouldLog sampled (df_Fallback fields) then s1\<lparr> sv_log := sv_log s1 @ [fields] \<rparr> else s1)
         in (empty_response\<lparr> ps_RoutingGroup := res_RoutingGroup res \<rparr>, s2)))"

section \<open>Kill-switch service\<close>

record switch_response =
  sw_Ok :: bool
  sw_Message :: string
  sw_Disabled :: "string list"

text \<open>The subset of the pipeline the admin service drives; \<open>changes\<close> are the calls of \<^verbatim>\<open>onChange\<close>.\<close>

record 'k KillSwitch =
  ki_DisableMethod :: "string \<Rightarrow> 'k \<Rightarrow> 'k"
  ki_EnableMethod :: "string \<Rightarrow> 'k \<Rightarrow> 'k"
  ki_DisabledMethods :: "'k \<Rightarrow> string list"

definition admin_DisableMethod :: "'k KillSwitch \<Rightarrow> string \<Rightarrow> 'k \<Rightarrow> switch_response \<times> 'k \<times> string list" where
  "admin_DisableMethod ks t k =
     (let before = t \<in> set (ki_DisabledMethods ks k);
          k' = ki_DisableMethod ks t k;
          disabled = ki_DisabledMethods ks k';
          msg = (if before then ''already disabled''
                 else if t \<notin> set disabled then ''unknown method type'' else ''disabled'')
      in (\<lparr> sw_Ok = True, sw_Message = msg, sw_Disabled = disabled \<rparr>, k', disabled))"

definition admin_EnableMethod :: "'k KillSwitch \<Rightarrow> string \<Rightarrow> 'k \<Rightarrow> switch_response \<times> 'k \<times> string list" where
  "admin_EnableMethod ks t k =
     (let wasDisabled = t \<in> set (ki_DisabledMethods ks k);
          k' = ki_EnableMethod ks t k;
          disabled = ki_DisabledMethods ks k'
      in (\<lparr> sw_Ok = True, sw_Message = (if wasDisabled then ''enabled'' else ''not disabled''),
            sw_Disabled = disabled \<rparr>, k', disabled))"

definition admin_ListDisabled :: "'k KillSwitch \<Rightarrow> 'k \<Rightarrow> string list" where
  "admin_ListDisabled ks k = ki_DisabledMethods ks k"

definition pipeline_switch :: "'p method_ops \<Rightarrow> 'p Pipeline KillSwitch" where
  "pipeline_switch ops = \<lparr> ki_DisableMethod = DisableMethod ops, ki_EnableMethod = EnableMethod ops,
     ki_DisabledMethods = DisabledMethods ops \<rparr>"

section \<open>Reload keeps the last good pipeline\<close>

lemma build_all_list_all2:
  "build_all libs reg mcs = Inr ms \<Longrightarrow> list_all2 (\<lambda>mc m. Build libs reg mc = Inr m) mcs ms"
  by (induction mcs arbitrary: ms) (auto split: sum.splits)

lemma reload_fail_simps [simp]:
  "cw_errors (reload_fail a b w) = cw_errors w + 1" "cw_success (reload_fail a b w) = cw_success w"
  "cw_count (reload_fail a b w) = cw_count w" "cw_lastHash (reload_fail a b w) = cw_lastHash w"
  by (simp_all add: reload_fail_def)

text \<open>
  C28: A reload is all or nothing.  Either the pipeline and the version hash stay as they are and the
  error counter goes up, or the file parsed and validated, every method of it was built, and the
  pipeline runs exactly these methods, in order.  In both cases the default group is untouched.
\<close>
theorem reload_all_or_nothing:
  fixes w :: ConfigWatcher and p :: "('e, 's) provider Pipeline"
  shows "let (w', p') = reload env read1 read2 (w, p) in
     cw_count w' = cw_count w + 1 \<and> pl_defaultGroup p' = pl_defaultGroup p \<and>
     (if cw_success w' = cw_success w
      then cw_errors w' = cw_errors w + 1 \<and> p' = p \<and> cw_lastHash w' = cw_lastHash w
      else cw_success w' = cw_success w + 1 \<and> cw_errors w' = cw_errors w \<and> pl_ready p' \<and>
        (\<exists>cfg ms. rs_Load (re_unmarshal env) read2 = Inr cfg \<and>
           list_all2 (\<lambda>mc m. Build (re_libs env) (re_registry env) mc = Inr m) (rc_Methods cfg) ms \<and>
           pl_methods p' = map Provider ms))"
proof (cases read1)
  case (Inl e)
  then show ?thesis by (simp add: reload_def Let_def)
next
  case (Inr data)
  show ?thesis
  proof (cases "rs_Load (re_unmarshal env) read2")
    case (Inl e)
    then show ?thesis using Inr by (simp add: reload_def Let_def)
  next
    case load: (Inr cfg)
    show ?thesis
    proof (cases "build_all (re_libs env) (re_registry env) (rc_Methods cfg)")
      case (Inl e)
      then show ?thesis using Inr load by (simp add: reload_def Let_def)
    next
      case build: (Inr ms)
      then show ?thesis using Inr load build_all_list_all2[OF build]
        by (simp add: reload_def Let_def pipeline_Swap_def) blast
    qed
  qed
qed

section \<open>Debouncing\<close>

definition quiet :: "watch_event \<Rightarrow> bool" where
  "quiet ev = (case ev of FsEvent _ \<Rightarrow> True | FsError \<Rightarrow> True | _ \<Rightarrow> False)"

lemma watch_quiet:
  "list_all quiet evs \<Longrightarrow> wt_running s \<Longrightarrow>
     foldl (watch_step env) s evs = s\<lparr> wt_armed := wt_armed s \<or> FsEvent True \<in> set evs \<rparr>"
proof (induction evs arbitrary: s)
  case (Cons ev evs)
  then show ?case by (cases ev) (auto simp: quiet_def watch_step_def)
qed simp

lemma watch_stopped: "\<not> wt_running s \<Longrightarrow> foldl (watch_step env) s evs = s"
  by (induction evs) (simp_all add: watch_step_def)

text \<open>
  A burst of file events is one reload.  However many writes, creates and renames arrive, mixed
  with other events, before the timer expires, the expiry reloads once; without one there is no
  reload; further expiries do nothing; and after the watcher is stopped nothing reloads any more.
\<close>
theorem burst_reloads_once:
  assumes "list_all quiet evs" and "wt_running s" and "\<not> wt_armed s"
  shows "foldl (watch_step env) s (evs @ [TimerExpired r1 r2, TimerExpired r3 r4] @ LoopEnd # later) =
    s\<lparr> wt_running := False, wt_st := if FsEvent True \<in> set evs then reload env r1 r2 (wt_st s) else wt_st s \<rparr>"
proof -
  let ?s1 = "s\<lparr> wt_armed := FsEvent True \<in> set evs \<rparr>"
  let ?s2 = "watch_step env (watch_step env ?s1 (TimerExpired r1 r2)) (TimerExpired r3 r4)"
  have "?s2 = s\<lparr> wt_st := if FsEvent True \<in> set evs then reload env r1 r2 (wt_st s) else wt_st s \<rparr>"
    using assms(2,3) by (cases s) (simp add: watch_step_def)
  then have "watch_step env ?s2 LoopEnd =
      s\<lparr> wt_running := False, wt_st := if FsEvent True \<in> set evs then reload env r1 r2 (wt_st s) else wt_st s \<rparr>"
    using assms(2) by (simp add: watch_step_def)
  then show ?thesis
    using watch_quiet[OF assms(1,2), of env] assms(3) by (simp add: watch_stopped)
qed

section \<open>Decisions\<close>

text \<open>
  The service never decides for a request that is not a new submission: the answer is empty and
  nothing is recorded.  For a new submission the answer is the group of the pipeline, or the default
  when that is empty, it is counted once under that group, and a fallback is always logged.
\<close>
theorem server_Route_answer:
  "let (resp, s') = server_Route sha256 sampled
         (\<lambda>r. fst (evaluator_EvaluateResult e ops p r)) req s;
       grp = Evaluate ops p (fst (inputFromProto e (Some req)));
       ans = (if grp = [] then sv_DefaultRoutingGroup s else grp)
   in ps_Errors resp = [] \<and> ps_ExternalHeaders resp = None \<and>
      (if \<not> is_new_submission req then ps_RoutingGroup resp = [] \<and> s' = s
       else ps_RoutingGroup resp = ans \<and>
         (case sv_metrics s of None \<Rightarrow> sv_metrics s' = None
          | Some m \<Rightarrow> \<exists>ty out. map_option rm_requests (sv_metrics s') =
              Some (rm_requests m @ [(pr_TrinoSource req, ans, ty, out)])) \<and>
         length (sv_log s') = length (sv_log s) +
           (if sampled then 1
            else if res_Decided (EvaluateResult ops p (fst (inputFromProto e (Some req)))) then 0 else 1))"
proof -
  obtain i obs where i: "inputFromProto e (Some req) = (i, obs)" by fastforce
  have g: "res_RoutingGroup (EvaluateResult ops p i) = Evaluate ops p i"
    using eval_loops_agree[of ops "pl_defaultGroup p" "pl_methods p" i False]
    by (simp add: Evaluate_def EvaluateResult_def)
  show ?thesis
    by (auto simp: server_Route_def evaluator_EvaluateResult_def i g Let_def empty_response_def ShouldLog_def
        RecordDecision_def split: option.split)
qed

text \<open>The log carries the statement only as a hash prefix: requests that differ in nothing else but a
  body with the same prefix leave the same log.\<close>

lemma log_hides_body:
  assumes "req' = req\<lparr> pr_TrinoQueryProperties := Some (qp\<lparr> pq_Body := body' \<rparr>) \<rparr>"
    and "pr_TrinoQueryProperties req = Some qp" and "BodyHash sha256 body' = BodyHash sha256 (pq_Body qp)"
    and "ev (Some req') = ev (Some req)"
  shows "sv_log (snd (server_Route sha256 b ev req' s)) = sv_log (snd (server_Route sha256 b ev req s))"
  using assms by (simp add: server_Route_def is_new_submission_def Let_def ShouldLog_def)

section \<open>The kill-switch service\<close>

text \<open>What the admin handlers rely on: disabling a known type lists it, an unknown type changes nothing,
  other types keep their status, and only known types are listed.\<close>

locale kill_switch =
  fixes ks :: "'k KillSwitch" and known :: "'k \<Rightarrow> string \<Rightarrow> bool"
  assumes disable_known: "known k t \<Longrightarrow> t \<in> set (ki_DisabledMethods ks (ki_DisableMethod ks t k))"
    and disable_unknown: "\<not> known k t \<Longrightarrow> ki_DisableMethod ks t k = k"
    and disable_other: "u \<noteq> t \<Longrightarrow>
      u \<in> set (ki_DisabledMethods ks (ki_DisableMethod ks t k)) \<longleftrightarrow> u \<in> set (ki_DisabledMethods ks k)"
    and listed_known: "t \<in> set (ki_DisabledMethods ks k) \<Longrightarrow> known k t"
    and known_disable: "known (ki_DisableMethod ks u k) t = known k t"
begin

lemma disable_message:
  "sw_Message (fst (admin_DisableMethod ks t k)) =
     (if t \<in> set (ki_DisabledMethods ks k) then ''already disabled''
      else if known k t then ''disabled'' else ''unknown method type'')"
  using disable_known[of k t] listed_known[of t "ki_DisableMethod ks t k"] known_disable[of t k t]
  by (auto simp: admin_DisableMethod_def Let_def)

lemma disable_listed:
  "set (sw_Disabled (fst (admin_DisableMethod ks t k))) =
     set (ki_DisabledMethods ks k) \<union> (if known k t then {t} else {})"
proof -
  have "u \<in> set (ki_DisabledMethods ks (ki_DisableMethod ks t k)) \<longleftrightarrow>
      u \<in> set (ki_DisabledMethods ks k) \<or> (u = t \<and> known k t)" for u
    using disable_known[of k t] disable_unknown[of k t] disable_other[of u t k] listed_known[of t k] by metis
  then show ?thesis by (auto simp: admin_DisableMethod_def Let_def)
qed

end

definition has_type :: "'p method_ops \<Rightarrow> 'p Pipeline \<Rightarrow> string \<Rightarrow> bool" where
  "has_type ops p t = (t \<in> set (map (method_Type ops) (pl_methods p)))"

lemma update_first_types:
  "update_first ops t disable ms = Some ms' \<Longrightarrow> map (method_Type ops) ms' = map (method_Type ops) ms"
proof (induction ms arbitrary: ms')
  case (Cons m ms)
  then show ?case by (auto split: if_splits)
qed simp

lemma update_first_others:
  "update_first ops t disable ms = Some ms' \<Longrightarrow> u \<noteq> t \<Longrightarrow>
     u \<in> method_Type ops ` {m \<in> set ms'. isDisabled m} \<longleftrightarrow> u \<in> method_Type ops ` {m \<in> set ms. isDisabled m}"
proof (induction ms arbitrary: ms')
  case (Cons m ms)
  show ?case
  proof (cases "method_Type ops m = t")
    case True
    then show ?thesis using Cons.prems by auto
  next
    case False
    then obtain ms2 where "update_first ops t disable ms = Some ms2" "ms' = m # ms2" using Cons.prems by auto
    then show ?thesis using Cons.IH Cons.prems(2) by (simp add: image_iff) blast
  qed
qed simp

interpretation pks: kill_switch "pipeline_switch ops" "has_type ops"
proof
  fix k :: "'a Pipeline" and t u
  show "has_type ops k t \<Longrightarrow>
      t \<in> set (ki_DisabledMethods (pipeline_switch ops) (ki_DisableMethod (pipeline_switch ops) t k))"
    using update_first_None[of ops t disable "pl_methods k"] update_first_disabled(1)[of ops t "pl_methods k"]
    by (auto simp: pipeline_switch_def has_type_def DisableMethod_def updateMethod_def DisabledMethods_def)
  show "\<not> has_type ops k t \<Longrightarrow> ki_DisableMethod (pipeline_switch ops) t k = k"
    using update_first_None[of ops t disable "pl_methods k"]
    by (simp add: pipeline_switch_def has_type_def DisableMethod_def updateMethod_def)
  show "u \<noteq> t \<Longrightarrow> u \<in> set (ki_DisabledMethods (pipeline_switch ops) (ki_DisableMethod (pipeline_switch ops) t k)) \<longleftrightarrow>
      u \<in> set (ki_DisabledMethods (pipeline_switch ops) k)"
    using update_first_others[of ops t "pl_methods k" _ u]
    by (auto simp: pipeline_switch_def DisableMethod_def updateMethod_def DisabledMethods_def split: option.split)
  show "t \<in> set (ki_DisabledMethods (pipeline_switch ops) k) \<Longrightarrow> has_type ops k t"
    by (auto simp: pipeline_switch_def DisabledMethods_def has_type_def)
  show "has_type ops (ki_DisableMethod (pipeline_switch ops) u k) t = has_type ops k t"
    using update_first_types[of ops u "pl_methods k"]
    by (simp add: pipeline_switch_def has_type_def DisableMethod_def updateMethod_def split: option.split)
       (metis list.set_map)
qed

text \<open>
  The answer of the kill-switch service is true of the pipeline: its message tells whether the type
  was already disabled, is now disabled or is not configured, and the returned set is the old one
  with the type added if it is configured.
\<close>
theorem admin_disable_truthful:
  "sw_Message (fst (admin_DisableMethod (pipeline_switch ops) t p)) =
     (if t \<in> set (DisabledMethods ops p) then ''already disabled''
      else if has_type ops p t then ''disabled'' else ''unknown method type'') \<and>
   set (sw_Disabled (fst (admin_DisableMethod (pipeline_switch ops) t p))) =
     set (DisabledMethods ops p) \<union> (if has_type ops p t then {t} else {})"
  using pks.disable_message[of ops t p] pks.disable_listed[of ops t p]
  by (simp add: pipeline_switch_def)

text \<open>Two methods of one type: the second one cannot be switched off.\<close>

definition two_rules :: "string Pipeline" where
  "two_rules = NewPipeline [Provider ''a'', Provider ''b''] ''dflt''"

definition same_type_ops :: "string method_ops" where
  "same_type_ops = \<lparr> rm_Type = (\<lambda>_. ''expr''), rm_Evaluate = (\<lambda>m i. Returns (decided m)) \<rparr>"

text \<open>
  The kill switch reaches only the first method of a type.  With two expression methods configured,
  the first call answers that the type is disabled and the second that it is already disabled, while
  the second method still decides every request.
\<close>
theorem kill_switch_misses_second_method:
  "let (r1, p1, _) = admin_DisableMethod (pipeline_switch same_type_ops) ''expr'' two_rules;
       (r2, p2, _) = admin_DisableMethod (pipeline_switch same_type_ops) ''expr'' p1
   in sw_Message r1 = ''disabled'' \<and> sw_Message r2 = ''already disabled'' \<and>
      Evaluate same_type_ops p2 i = ''b''"
  by (simp add: admin_DisableMethod_def pipeline_switch_def DisableMethod_def updateMethod_def
      DisabledMethods_def two_rules_def NewPipeline_def same_type_ops_def Evaluate_def safeEvaluate_def
      decided_def no_decision_def Let_def del: set_map set_filter)

section \<open>Witnesses\<close>

definition demo_reload_env :: "(string, string) reload_env" where
  "demo_reload_env = \<lparr>
     re_libs = \<lparr> ll_readFile = Inr, ll_expr_Compile = (\<lambda>_. Inr), ll_expr_Run = (\<lambda>p _. Returns (VString p)),
       ll_star_Exec = (\<lambda>_ s. Inr [''route'' \<mapsto> s]), ll_star_callable = (\<lambda>_. True),
       ll_star_Call = (\<lambda>_ f _. Returns (VString f)) \<rparr>,
     re_registry = main_registry,
     re_unmarshal = (\<lambda>d c. Inr (c\<lparr> rc_DefaultRoutingGroup := d \<rparr>)), re_sha256 = (\<lambda>d. d) \<rparr>"

definition demo_watch :: "(string, string) watch_state" where
  "demo_watch = \<lparr> wt_armed = False, wt_running = True, wt_st = (watcher_New, NewPipeline [] ''adhoc'') \<rparr>"

theorem burst_reloads_once_witness:
  "foldl (watch_step demo_reload_env) demo_watch
     ([FsEvent True, FsError, FsEvent True] @
      [TimerExpired (Inr ''x'') (Inr ''x''), TimerExpired (Inr ''y'') (Inr ''y'')] @ LoopEnd # []) =
   demo_watch\<lparr> wt_running := False, wt_st := reload demo_reload_env (Inr ''x'') (Inr ''x'') (wt_st demo_watch) \<rparr>"
  by (subst burst_reloads_once) (simp_all add: quiet_def demo_watch_def)

text \<open>The file changed between the two reads: the version reported is not that of the configuration
  that was applied.\<close>

lemma reload_reports_other_version:
  "cw_lastHash (fst (reload demo_reload_env (Inr ''old'') (Inr ''new'') (watcher_New, NewPipeline [] ''adhoc''))) =
     Some (hashBytes (\<lambda>d. d) ''old'')"
  by (simp add: reload_def demo_reload_env_def rs_Load_def rs_applyDefaults_def rs_defaultConfig_def rs_Validate_def
      defaultMaxBodyBytes_def watcher_New_def Let_def)

text \<open>A reload forgets which methods were switched off.\<close>

lemma reload_forgets_kill_switch:
  "cw_success (fst (reload env r1 r2 (w, p))) \<noteq> cw_success w \<Longrightarrow>
     DisabledMethods ops (snd (reload env r1 r2 (w, p))) = []"
  by (auto simp: reload_def Let_def pipeline_Swap_def DisabledMethods_def split: sum.splits)

end
