(* ===== verification/Service_Main.thy ===== *)
theory Service_Main
  imports Service
begin

text \<open>
  The routing service as a process and the tool that checks its files.  The startup and the end of
  \<^verbatim>\<open>cmd/routing-service/main.go\<close>, the set-up, start and stop of its servers (\<^verbatim>\<open>internal/server/server.go\<close>,
  \<^verbatim>\<open>admin.go\<close>, \<^verbatim>\<open>internal/metrics/metrics.go\<close>), the running service as a sequence of routed requests, kill-switch
  calls and file changes with the callbacks that \<^verbatim>\<open>main\<close> installs, and the dry run of
  \<^verbatim>\<open>internal/validate\<close> with its comparison against a baseline.  The gRPC and HTTP servers, tracing and file
  notification are parameters; one event is handled before the next (their interleaving on the pipeline is
  the subject of theory \<open>Engine\<close>).  The printed table is the list of its rows.
\<close>

section \<open>Server set-up\<close>

text \<open>A panic of a handler becomes an error answer.\<close>

definition panicRecoveryInterceptor :: "'a outcome_of \<Rightarrow> 'a result" where
  "panicRecoveryInterceptor handler = (case handler of
     Returns resp \<Rightarrow> Inr resp | Fails e \<Rightarrow> Inl (Failure e) | Panics _ \<Rightarrow> Inl (Failure ''internal error''))"

definition metrics_New :: rs_metrics where
  "metrics_New = \<lparr> rm_requests = [], rm_fallback = 0, rm_durations = [], rm_version = None, rm_disabled = (\<lambda>_. None),
     rm_reloads = (\<lambda>_. 0), rm_sqlParse = (\<lambda>_. 0), rm_sqlTruncated = 0 \<rparr>"

definition RecordSQLParse :: "string \<Rightarrow> bool \<Rightarrow> rs_metrics \<Rightarrow> rs_metrics" where
  "RecordSQLParse res truncated m = m\<lparr> rm_sqlParse := (rm_sqlParse m)(res := rm_sqlParse m res + 1),
     rm_sqlTruncated := rm_sqlTruncated m + (if truncated then 1 else 0) \<rparr>"

definition RecordReload :: "bool \<Rightarrow> rs_metrics \<Rightarrow> rs_metrics" where
  "RecordReload ok m = m\<lparr> rm_reloads := (rm_reloads m)(ok := rm_reloads m ok + 1) \<rparr>"

text \<open>The health status starts as NOT\_SERVING.\<close>

definition server_New :: "RsConfig \<Rightarrow> rs_metrics option \<Rightarrow> Server" where
  "server_New cfg metrics = \<lparr> sv_DefaultRoutingGroup = rc_DefaultRoutingGroup cfg, sv_metrics = metrics,
     sv_confVer = None, sv_ready = False, sv_log = [] \<rparr>"

text \<open>What the select of a server's start sees first: the context is done, serving failed, or serving
  returned without an error because the server was stopped, which closes the channel.\<close>

datatype serve_event = CtxDone | ServeFailed string | ServeReturned

definition server_Start :: "go_error option \<Rightarrow> serve_event \<Rightarrow> unit result" where
  "server_Start listen ev =
     (case listen of
        Some e \<Rightarrow> Inl (Failure ''server: listen'')
      | None \<Rightarrow>
          (case ev of
             CtxDone \<Rightarrow> Inr ()
           | ServeFailed e \<Rightarrow> Inl (Failure (''server: serve: '' @ e))
           | ServeReturned \<Rightarrow> Inl (Failure ''server: serve: %!w(<nil>)'')))"

definition admin_Start :: "go_error option \<Rightarrow> serve_event \<Rightarrow> unit result" where
  "admin_Start listen ev =
     (case listen of
        Some e \<Rightarrow> Inl (Failure ''admin: listen'')
      | None \<Rightarrow>
          (case ev of
             CtxDone \<Rightarrow> Inr ()
           | ServeFailed e \<Rightarrow> Inl (Failure (''admin: serve: '' @ e))
           | ServeReturned \<Rightarrow> Inl (Failure ''admin: serve: %!w(<nil>)'')))"

definition metrics_Start :: "go_error option \<Rightarrow> serve_event \<Rightarrow> unit result" where
  "metrics_Start listen ev =
     (case listen of
        Some e \<Rightarrow> Inl e
      | None \<Rightarrow> (case ev of CtxDone \<Rightarrow> Inr () | ServeFailed e \<Rightarrow> Inl (Failure e) | ServeReturned \<Rightarrow> Inr ()))"

definition gracefulStopTimeout :: nat where
  "gracefulStopTimeout = 30 * 1000000000"

text \<open>The calls in flight, each with the time it still needs, \<open>None\<close> for one that never ends: the time the
  stop takes, and the calls that are cut off.\<close>

definition gracefulStopWithTimeout :: "nat option list \<Rightarrow> nat \<times> nat option list" where
  "gracefulStopWithTimeout inflight =
     (let late = filter (\<lambda>d. case d of None \<Rightarrow> True | Some n \<Rightarrow> gracefulStopTimeout \<le> n) inflight
      in if late = [] then (fold (\<lambda>d m. max m (the d)) inflight 0, []) else (gracefulStopTimeout, late))"

section \<open>Startup\<close>

definition configHash :: "(string \<Rightarrow> string) \<Rightarrow> string result \<Rightarrow> string" where
  "configHash sha256 read = (case read of Inl _ \<Rightarrow> ''unknown'' | Inr data \<Rightarrow> hex_encode (take 4 (sha256 data)))"

definition main_evaluator :: "RsConfig \<Rightarrow> PipelineEvaluator" where
  "main_evaluator cfg =
     (if rc_SQLEnabled cfg then \<lparr> ev_analyzer = Heuristic (rc_MaxBodyBytes cfg), ev_sqlObs = True \<rparr>
      else \<lparr> ev_analyzer = NoopAnalyzer, ev_sqlObs = False \<rparr>)"

record ('e, 's) routing_service =
  sx_server :: Server
  sx_pipeline :: "('e, 's) provider Pipeline"
  sx_watcher :: ConfigWatcher
  sx_eval :: PipelineEvaluator
  sx_types :: "string list"

text \<open>\<^verbatim>\<open>main\<close> up to the start of the data-plane server.  The file is read twice, for the configuration and for
  its hash; \<open>tracing\<close> and \<open>watch\<close> are the outcomes of the two set-up calls that can fail.\<close>

definition service_startup ::
  "('e, 's) reload_env \<Rightarrow> string result \<Rightarrow> string result \<Rightarrow> unit result \<Rightarrow> unit result
    \<Rightarrow> ('e, 's) routing_service result" where
  "service_startup env file1 file2 tracing watch =
     Result_bind (rs_Load (re_unmarshal env) file1) (\<lambda>cfg.
     Result_bind (build_all (re_libs env) main_registry (rc_Methods cfg)) (\<lambda>ms.
     Result_bind tracing (\<lambda>_.
     Result_bind watch (\<lambda>_.
       let p = NewPipeline (map Provider ms) (rc_DefaultRoutingGroup cfg)
       in Inr \<lparr> sx_server = SetReady (pl_ready p) (SetConfigVersion (configHash (re_sha256 env) file2)
                  (server_New cfg (Some metrics_New))),
                sx_pipeline = p, sx_watcher = watcher_New, sx_eval = main_evaluator cfg,
                sx_types = map mc_Type (rc_Methods cfg) \<rparr>))))"

text \<open>The end of \<^verbatim>\<open>main\<close>: it waits for the data-plane server, then for the two others.\<close>

definition service_main ::
  "('e, 's) reload_env \<Rightarrow> (string \<Rightarrow> string result \<times> string result) \<Rightarrow> string \<Rightarrow> unit result \<Rightarrow> unit result
    \<Rightarrow> unit result \<Rightarrow> unit result \<Rightarrow> unit result \<Rightarrow> nat" where
  "service_main env read configPath tracing watch served admin metrics =
     (if configPath = [] then 1
      else (case service_startup env (fst (read configPath)) (snd (read configPath)) tracing watch of
              Inl _ \<Rightarrow> 1
            | Inr _ \<Rightarrow> if isl served then 1 else if isl admin then 1 else if isl metrics then 1 else 0))"

section \<open>The running service\<close>

datatype service_event =
    RouteCall bool pb_RouteRequest | DisableCall string | EnableCall string | FileChanged "string result" "string result"

definition on_metrics :: "(rs_metrics \<Rightarrow> rs_metrics) \<Rightarrow> Server \<Rightarrow> Server" where
  "on_metrics f s = s\<lparr> sv_metrics := map_option f (sv_metrics s) \<rparr>"

text \<open>A call of \<^verbatim>\<open>Route\<close>; the evaluator reports each SQL analysis to the metrics.\<close>

definition service_Route ::
  "('e, 's) reload_env \<Rightarrow> bool \<Rightarrow> pb_RouteRequest \<Rightarrow> ('e, 's) routing_service
    \<Rightarrow> pb_RouteResponse \<times> ('e, 's) routing_service" where
  "service_Route env sampled req st =
     (let eval = evaluator_EvaluateResult (sx_eval st) (provider_ops (re_libs env)) (sx_pipeline st);
          srv = (if is_new_submission req
                 then on_metrics (fold (\<lambda>(res, truncated). RecordSQLParse res truncated) (snd (eval (Some req)))) (sx_server st)
                 else sx_server st);
          (resp, srv') = server_Route (re_sha256 env) sampled (\<lambda>r. fst (eval r)) req srv
      in (resp, st\<lparr> sx_server := srv' \<rparr>))"

text \<open>The callbacks that \<^verbatim>\<open>main\<close> installs on the watcher and on the admin server.\<close>

definition on_reload_event :: "rl_event \<Rightarrow> Server \<Rightarrow> Server" where
  "on_reload_event ev s = (case ev of
     ReloadSink ok \<Rightarrow> on_metrics (RecordReload ok) s | VersionSink h \<Rightarrow> SetConfigVersion h s | AuditEvent _ _ _ \<Rightarrow> s)"

definition service_step ::
  "('e, 's) reload_env \<Rightarrow> ('e, 's) routing_service \<Rightarrow> service_event \<Rightarrow> ('e, 's) routing_service" where
  "service_step env st ev =
     (let ks = pipeline_switch (provider_ops (re_libs env)) in
      case ev of
        RouteCall sampled req \<Rightarrow> snd (service_Route env sampled req st)
      | DisableCall t \<Rightarrow>
          (let (_, p, disabled) = admin_DisableMethod ks t (sx_pipeline st)
           in st\<lparr> sx_pipeline := p, sx_server := on_metrics (SyncDisabled (sx_types st) disabled) (sx_server st) \<rparr>)
      | EnableCall t \<Rightarrow>
          (let (_, p, disabled) = admin_EnableMethod ks t (sx_pipeline st)
           in st\<lparr> sx_pipeline := p, sx_server := on_metrics (SyncDisabled (sx_types st) disabled) (sx_server st) \<rparr>)
      | FileChanged read1 read2 \<Rightarrow>
          (let (w, p) = reload (env\<lparr> re_registry := main_registry \<rparr>) read1 read2 (sx_watcher st, sx_pipeline st);
               news = drop (length (cw_events (sx_watcher st))) (cw_events w)
           in st\<lparr> sx_watcher := w, sx_pipeline := p, sx_server := fold on_reload_event news (sx_server st) \<rparr>))"

section \<open>Validator\<close>

record sample =
  sa_ID :: string
  sa_Source :: string
  sa_User :: string
  sa_ClientTags :: "string list"
  sa_Catalog :: string
  sa_Schema :: string
  sa_Method :: string
  sa_URI :: string
  sa_RemoteAddr :: string
  sa_Body :: string
  sa_IsNew :: bool
  sa_ParamMap :: "string \<Rightarrow> string option"

definition ToRouteInput :: "sample \<Rightarrow> EngineInput" where
  "ToRouteInput s = empty_input\<lparr> ei_Source := sa_Source s, ei_User := sa_User s, ei_ClientTags := sa_ClientTags s,
     ei_Catalog := sa_Catalog s, ei_Schema := sa_Schema s, ei_Method := sa_Method s, ei_URI := sa_URI s,
     ei_RemoteAddr := sa_RemoteAddr s, ei_Body := sa_Body s, ei_IsNew := sa_IsNew s, ei_ParamMap := sa_ParamMap s \<rparr>"

definition inputSummary :: "string \<Rightarrow> string \<Rightarrow> string" where
  "inputSummary source user =
     (if source \<noteq> [] \<and> user \<noteq> [] then ''source='' @ source @ '' user='' @ user
      else if source \<noteq> [] then ''source='' @ source
      else if user \<noteq> [] then ''user='' @ user else ''(empty)'')"

record row =
  ro_id :: string
  ro_summary :: string
  ro_newGroup :: string
  ro_oldGroup :: string
  ro_changed :: bool

record Options =
  vo_ConfigPath :: string
  vo_SamplesPath :: string
  vo_Diff :: bool
  vo_BaselinePath :: string

definition buildPipeline :: "('e, 's) reload_env \<Rightarrow> string result \<Rightarrow> ('e, 's) provider Pipeline result" where
  "buildPipeline env file =
     Result_bind (rs_Load (re_unmarshal env) file) (\<lambda>cfg.
     Result_bind (build_all (re_libs env) main_registry (rc_Methods cfg)) (\<lambda>ms.
       Inr (NewPipeline (map Provider ms) (rc_DefaultRoutingGroup cfg))))"

definition loadSamples :: "(string \<Rightarrow> sample list result) \<Rightarrow> string result \<Rightarrow> sample list result" where
  "loadSamples unmarshal file = Result_bind file unmarshal"

definition baseline_pipeline ::
  "('e, 's) reload_env \<Rightarrow> (string \<Rightarrow> string result) \<Rightarrow> Options \<Rightarrow> ('e, 's) provider Pipeline option result" where
  "baseline_pipeline env read opts =
     (if \<not> vo_Diff opts then Inr None
      else if vo_BaselinePath opts = [] then Inl (Failure ''--diff requires --baseline'')
      else Result_bind (buildPipeline env (read (vo_BaselinePath opts))) (\<lambda>p. Inr (Some p)))"

definition sample_row ::
  "('e, 's) lang_libs \<Rightarrow> ('e, 's) provider Pipeline \<Rightarrow> ('e, 's) provider Pipeline option \<Rightarrow> sample \<Rightarrow> row" where
  "sample_row libs p baseline s =
     (let i = ToRouteInput s;
          r = \<lparr> ro_id = sa_ID s, ro_summary = inputSummary (sa_Source s) (sa_User s),
                ro_newGroup = Evaluate (provider_ops libs) p i, ro_oldGroup = [], ro_changed = False \<rparr>
      in case baseline of
           None \<Rightarrow> r
         | Some q \<Rightarrow> (let old = Evaluate (provider_ops libs) q i
                      in r\<lparr> ro_oldGroup := old, ro_changed := old \<noteq> ro_newGroup r \<rparr>))"

text \<open>The exit code and the rows of the table; 0 is valid, 1 is invalid, 2 is a changed route.\<close>

definition validate_Run ::
  "('e, 's) reload_env \<Rightarrow> (string \<Rightarrow> string result) \<Rightarrow> (string \<Rightarrow> sample list result) \<Rightarrow> Options
    \<Rightarrow> nat \<times> row list" where
  "validate_Run env read unmarshal opts =
     (if vo_ConfigPath opts = [] then (1, [])
      else (case buildPipeline env (read (vo_ConfigPath opts)) of
              Inl _ \<Rightarrow> (1, [])
            | Inr p \<Rightarrow>
                if vo_SamplesPath opts = [] then (0, [])
                else (case loadSamples unmarshal (read (vo_SamplesPath opts)) of
                        Inl _ \<Rightarrow> (1, [])
                      | Inr samples \<Rightarrow>
                          (case baseline_pipeline env read opts of
                             Inl _ \<Rightarrow> (1, [])
                           | Inr baseline \<Rightarrow>
                               (let rows = map (sample_row (re_libs env) p baseline) samples
                                in (if list_ex ro_changed rows then 2 else 0, rows))))))"

section \<open>What the running service reports\<close>

lemma on_metrics_simps [simp]:
  "sv_metrics (on_metrics f s) = map_option f (sv_metrics s)" "sv_confVer (on_metrics f s) = sv_confVer s"
  "sv_ready (on_metrics f s) = sv_ready s" "sv_DefaultRoutingGroup (on_metrics f s) = sv_DefaultRoutingGroup s"
  by (simp_all add: on_metrics_def)

lemma recorders_keep [simp]:
  "rm_version (RecordSQLParse r t m) = rm_version m" "rm_reloads (RecordSQLParse r t m) = rm_reloads m"
  "rm_version (RecordDecision s g ty out m) = rm_version m" "rm_reloads (RecordDecision s g ty out m) = rm_reloads m"
  "rm_version (SyncDisabled all d m) = rm_version m" "rm_reloads (SyncDisabled all d m) = rm_reloads m"
  "rm_version (RecordReload ok m) = rm_version m"
  "rm_disabled (RecordReload ok m) = rm_disabled m"
  by (simp_all add: RecordSQLParse_def RecordDecision_def SyncDisabled_def RecordReload_def)

lemma fold_RecordSQLParse [simp]:
  "rm_version (fold (\<lambda>(r, t). RecordSQLParse r t) obs m) = rm_version m"
  "rm_reloads (fold (\<lambda>(r, t). RecordSQLParse r t) obs m) = rm_reloads m"
  by (induction obs arbitrary: m) (auto split: prod.splits)

lemma server_Route_keeps:
  "sv_confVer (snd (server_Route sha b ev req s)) = sv_confVer s" "sv_ready (snd (server_Route sha b ev req s)) = sv_ready s"
  "sv_DefaultRoutingGroup (snd (server_Route sha b ev req s)) = sv_DefaultRoutingGroup s"
  "map_option rm_version (sv_metrics (snd (server_Route sha b ev req s))) = map_option rm_version (sv_metrics s)"
  "map_option rm_reloads (sv_metrics (snd (server_Route sha b ev req s))) = map_option rm_reloads (sv_metrics s)"
  by (simp_all add: server_Route_def Let_def option.map_comp comp_def)

lemmas fold_RecordSQLParse_pairs [simp] = fold_RecordSQLParse[unfolded case_prod_unfold]

lemma service_Route_keeps:
  "sv_confVer (sx_server (snd (service_Route env b req st))) = sv_confVer (sx_server st)"
  "sv_ready (sx_server (snd (service_Route env b req st))) = sv_ready (sx_server st)"
  "sv_DefaultRoutingGroup (sx_server (snd (service_Route env b req st))) = sv_DefaultRoutingGroup (sx_server st)"
  "map_option rm_version (sv_metrics (sx_server (snd (service_Route env b req st)))) = map_option rm_version (sv_metrics (sx_server st))"
  "map_option rm_reloads (sv_metrics (sx_server (snd (service_Route env b req st)))) = map_option rm_reloads (sv_metrics (sx_server st))"
  "sx_watcher (snd (service_Route env b req st)) = sx_watcher st" "sx_pipeline (snd (service_Route env b req st)) = sx_pipeline st"
  by (simp_all add: service_Route_def Let_def case_prod_unfold server_Route_keeps option.map_comp comp_def)

definition service_inv :: "string \<Rightarrow> ('e, 's) routing_service \<Rightarrow> bool" where
  "service_inv h0 st =
     (let w = sx_watcher st; s = sx_server st in
      sv_ready s \<and> sv_confVer s = Some (case cw_lastHash w of None \<Rightarrow> h0 | Some h \<Rightarrow> h) \<and>
      map_option rm_version (sv_metrics s) = Some (sv_confVer s) \<and>
      map_option rm_reloads (sv_metrics s) = Some (\<lambda>ok. if ok then cw_success w else cw_errors w) \<and>
      cw_count w = cw_success w + cw_errors w \<and>
      pl_defaultGroup (sx_pipeline st) = sv_DefaultRoutingGroup s \<and> sv_DefaultRoutingGroup s \<noteq> [])"

lemma switch_keeps_default:
  "pl_defaultGroup (fst (snd (admin_DisableMethod (pipeline_switch ops) t p))) = pl_defaultGroup p"
  "pl_defaultGroup (fst (snd (admin_EnableMethod (pipeline_switch ops) t p))) = pl_defaultGroup p"
  by (simp_all add: admin_DisableMethod_def admin_EnableMethod_def pipeline_switch_def DisableMethod_def EnableMethod_def
      updateMethod_def Let_def split: option.split)

lemma reload_cases:
  obtains (failed) old new where "reload env r1 r2 (w, p) = (reload_fail old new (w\<lparr> cw_count := cw_count w + 1 \<rparr>), p)"
  | (ok) ms new where "reload env r1 r2 (w, p) =
      (w\<lparr> cw_count := cw_count w + 1, cw_lastHash := Some new, cw_success := cw_success w + 1,
          cw_events := cw_events w @ [AuditEvent True (oldHash w) new, ReloadSink True, VersionSink new] \<rparr>,
       pipeline_Swap (map Provider ms) p)"
  by (cases r1; cases "rs_Load (re_unmarshal env) r2";
      cases "build_all (re_libs env) (re_registry env) (rc_Methods (projr (rs_Load (re_unmarshal env) r2)))")
     (auto simp: reload_def Let_def oldHash_def)

lemma service_inv_start:
  assumes "service_startup env f1 f2 tracing watch = Inr st"
  shows "service_inv (configHash (re_sha256 env) f2) st"
  using assms
  by (auto simp: service_startup_def Result_bind_iff Let_def service_inv_def server_New_def SetReady_def SetConfigVersion_def
      metrics_New_def watcher_New_def NewPipeline_def rs_Load_def rs_Validate_def fun_eq_iff split: sum.splits if_splits)

lemma service_inv_step:
  assumes inv: "service_inv h0 st"
  shows "service_inv h0 (service_step env st ev)"
proof (cases ev)
  case (RouteCall sampled req)
  then show ?thesis using inv
    by (simp add: service_step_def service_inv_def Let_def service_Route_keeps del: map_option_eq_Some)
next
  case (DisableCall t)
  then show ?thesis using inv
    by (simp add: service_step_def service_inv_def Let_def case_prod_unfold switch_keeps_default option.map_comp comp_def del: map_option_eq_Some)
next
  case (EnableCall t)
  then show ?thesis using inv
    by (simp add: service_step_def service_inv_def Let_def case_prod_unfold switch_keeps_default option.map_comp comp_def del: map_option_eq_Some)
next
  case (FileChanged r1 r2)
  obtain m where m: "sv_metrics (sx_server st) = Some m" using inv by (auto simp: service_inv_def Let_def)
  show ?thesis
  proof (rule reload_cases[of "env\<lparr> re_registry := main_registry \<rparr>" r1 r2 "sx_watcher st" "sx_pipeline st"])
    fix old new
    assume "reload (env\<lparr> re_registry := main_registry \<rparr>) r1 r2 (sx_watcher st, sx_pipeline st) =
      (reload_fail old new ((sx_watcher st)\<lparr> cw_count := cw_count (sx_watcher st) + 1 \<rparr>), sx_pipeline st)"
    then show ?thesis using inv m
      by (auto simp: FileChanged service_step_def service_inv_def Let_def reload_fail_def on_reload_event_def RecordReload_def)
  next
    fix ms new
    assume "reload (env\<lparr> re_registry := main_registry \<rparr>) r1 r2 (sx_watcher st, sx_pipeline st) =
      ((sx_watcher st)\<lparr> cw_count := cw_count (sx_watcher st) + 1, cw_lastHash := Some new, cw_success := cw_success (sx_watcher st) + 1,
          cw_events := cw_events (sx_watcher st) @ [AuditEvent True (oldHash (sx_watcher st)) new, ReloadSink True, VersionSink new] \<rparr>,
       pipeline_Swap (map Provider ms) (sx_pipeline st))"
    then show ?thesis using inv m
      by (auto simp: FileChanged service_step_def service_inv_def Let_def on_reload_event_def RecordReload_def SetConfigVersion_def
          on_metrics_def pipeline_Swap_def)
  qed
qed

lemma service_inv_run: "service_inv h0 st \<Longrightarrow> service_inv h0 (foldl (service_step env) st evs)"
  by (induction evs arbitrary: st) (simp_all add: service_inv_step)

lemma Evaluate_nonempty: "pl_defaultGroup p \<noteq> [] \<Longrightarrow> Evaluate ops p i \<noteq> []"
proof -
  have "dflt \<noteq> [] \<Longrightarrow> eval_group ops dflt ms i \<noteq> []" for dflt ms
    by (induction ms) (auto split: sum.split)
  then show "pl_defaultGroup p \<noteq> [] \<Longrightarrow> Evaluate ops p i \<noteq> []" by (simp add: Evaluate_def)
qed

lemma service_Route_answer:
  "ps_RoutingGroup (fst (service_Route env sampled req st)) =
     (if \<not> is_new_submission req then []
      else let g = Evaluate (provider_ops (re_libs env)) (sx_pipeline st) (fst (inputFromProto (sx_eval st) (Some req)))
           in if g = [] then sv_DefaultRoutingGroup (sx_server st) else g)"
proof -
  have "res_RoutingGroup (EvaluateResult ops p i) = Evaluate ops p i" for ops :: "('a, 'b) provider method_ops" and p i
    using eval_loops_agree[of ops "pl_defaultGroup p" "pl_methods p" i False] by (simp add: Evaluate_def EvaluateResult_def)
  then show ?thesis
    by (simp add: service_Route_def Let_def case_prod_unfold server_Route_def evaluator_EvaluateResult_def empty_response_def)
qed


section \<open>The kill-switch gauge\<close>

lemma SyncDisabled_gauge: "t \<in> set all \<Longrightarrow> rm_disabled (SyncDisabled all disabled m) t = Some (t \<in> set disabled)"
proof -
  have "fold (\<lambda>t g. g(t \<mapsto> t \<in> set disabled)) all g t = (if t \<in> set all then Some (t \<in> set disabled) else g t)" for g
    by (induction all arbitrary: g) auto
  then show "t \<in> set all \<Longrightarrow> ?thesis" by (simp add: SyncDisabled_def)
qed

lemma DisableCall_effect:
  assumes "sv_metrics (sx_server st) = Some m" and "t \<in> set (sx_types st)"
    and "st1 = service_step env st (DisableCall t')"
  shows "\<exists>m'. sv_metrics (sx_server st1) = Some m' \<and>
    rm_disabled m' t = Some (t \<in> set (DisabledMethods (provider_ops (re_libs env)) (sx_pipeline st1)))"
  using assms
  by (auto simp: service_step_def Let_def case_prod_unfold admin_DisableMethod_def pipeline_switch_def SyncDisabled_gauge)

lemma FileChanged_gauge:
  "map_option rm_disabled (sv_metrics (sx_server (service_step env st (FileChanged r1 r2)))) =
     map_option rm_disabled (sv_metrics (sx_server st))"
  by (rule reload_cases[of "env\<lparr> re_registry := main_registry \<rparr>" r1 r2 "sx_watcher st" "sx_pipeline st"])
     (simp_all add: service_step_def Let_def reload_fail_def on_reload_event_def SetConfigVersion_def option.map_comp comp_def)

text \<open>
  A reload leaves the kill-switch gauge wrong.  Once a configured method has been switched off, the gauge shows
  it as disabled and the pipeline skips it; the next successful reload switches it on again, while
  the gauge goes on showing it as disabled.
\<close>
theorem gauge_stale_after_reload:
  assumes "service_startup env file1 file2 tracing watch = Inr st0" and "t \<in> set (sx_types st0)"
    and "st1 = service_step env st0 (DisableCall t)" and "st2 = service_step env st1 (FileChanged r1 r2)"
    and "cw_success (sx_watcher st2) \<noteq> cw_success (sx_watcher st1)"
  shows "t \<in> set (DisabledMethods (provider_ops (re_libs env)) (sx_pipeline st1))
    \<and> DisabledMethods (provider_ops (re_libs env)) (sx_pipeline st2) = []
    \<and> map_option (\<lambda>m. rm_disabled m t) (sv_metrics (sx_server st2)) = Some (Some True)"
proof -
  let ?ops = "provider_ops (re_libs env)"
  obtain cfg where l: "rs_Load (re_unmarshal env) file1 = Inr cfg"
    using assms(1) by (cases "rs_Load (re_unmarshal env) file1") (auto simp: service_startup_def)
  obtain ms where b: "build_all (re_libs env) main_registry (rc_Methods cfg) = Inr ms"
    using assms(1) l by (cases "build_all (re_libs env) main_registry (rc_Methods cfg)") (auto simp: service_startup_def)
  have p: "pl_methods (sx_pipeline st0) = map Provider ms" and ty: "sx_types st0 = map mc_Type (rc_Methods cfg)"
    and m: "sv_metrics (sx_server st0) \<noteq> None"
    using assms(1) l b
    by (auto simp: service_startup_def Result_bind_iff Let_def NewPipeline_def SetReady_def SetConfigVersion_def server_New_def)
  have "list_all2 (\<lambda>mc m. mc_Type mc = provider_Type m) (rc_Methods cfg) ms"
    using build_all_list_all2[OF b] by (rule list_all2_mono) (auto dest!: Build_Type)
  then have "map mc_Type (rc_Methods cfg) = map provider_Type ms"
    by (simp add: list_all2_conv_all_nth list_eq_iff_nth_eq)
  then have "has_type ?ops (sx_pipeline st0) t"
    using assms(2) by (simp add: has_type_def p ty provider_ops_def comp_def)
  then have off: "t \<in> set (DisabledMethods ?ops (sx_pipeline st1))"
    using pks.disable_listed[of ?ops t "sx_pipeline st0"]
    by (simp add: assms(3) service_step_def Let_def case_prod_unfold) (simp add: admin_DisableMethod_def pipeline_switch_def Let_def)
  obtain m' where "sv_metrics (sx_server st1) = Some m'" "rm_disabled m' t = Some True"
    using DisableCall_effect[OF _ assms(2,3)] m off by auto
  then have "map_option (\<lambda>m. rm_disabled m t) (sv_metrics (sx_server st2)) = Some (Some True)"
    using FileChanged_gauge[of env st1 r1 r2] assms(4) by (auto simp: map_option_case fun_eq_iff split: option.splits)
  moreover have "DisabledMethods ?ops (sx_pipeline st2) = []"
    using reload_forgets_kill_switch[of "env\<lparr> re_registry := main_registry \<rparr>" r1 r2 "sx_watcher st1" "sx_pipeline st1" ?ops] assms(5)
    by (simp add: assms(4) service_step_def Let_def case_prod_unfold)
  ultimately show ?thesis using off by blast
qed

section \<open>The validator\<close>

lemma list_ex_changed:
  "list_ex ro_changed (map (sample_row libs p baseline) ss) \<longleftrightarrow>
     (case baseline of None \<Rightarrow> False
      | Some q \<Rightarrow> list_ex (\<lambda>s. Evaluate (provider_ops libs) q (ToRouteInput s) \<noteq> Evaluate (provider_ops libs) p (ToRouteInput s)) ss)"
  by (auto simp: list_ex_iff sample_row_def Let_def split: option.split)

text \<open>
  The exit code of the validator: 2 exactly when a comparison was asked for with samples, both configurations
  build, the samples load, and some sample is routed to another group than before; and without samples 0 exactly
  when the service would start with the file.
\<close>
theorem validate_exit:
  "(fst (validate_Run env read unmarshal opts) = 2 \<longleftrightarrow>
      vo_ConfigPath opts \<noteq> [] \<and> vo_SamplesPath opts \<noteq> [] \<and> vo_Diff opts \<and> vo_BaselinePath opts \<noteq> [] \<and>
      (\<exists>p q ss. buildPipeline env (read (vo_ConfigPath opts)) = Inr p \<and> buildPipeline env (read (vo_BaselinePath opts)) = Inr q \<and>
         loadSamples unmarshal (read (vo_SamplesPath opts)) = Inr ss \<and>
         list_ex (\<lambda>s. Evaluate (provider_ops (re_libs env)) q (ToRouteInput s) \<noteq>
                      Evaluate (provider_ops (re_libs env)) p (ToRouteInput s)) ss)) \<and>
   (fst (validate_Run env read unmarshal (opts\<lparr> vo_SamplesPath := [] \<rparr>)) = 0 \<longleftrightarrow>
      vo_ConfigPath opts \<noteq> [] \<and>
      \<not> isl (service_startup env (read (vo_ConfigPath opts)) hashed (Inr ()) (Inr ())))"
proof
  show "fst (validate_Run env read unmarshal (opts\<lparr> vo_SamplesPath := [] \<rparr>)) = 0 \<longleftrightarrow>
      vo_ConfigPath opts \<noteq> [] \<and> \<not> isl (service_startup env (read (vo_ConfigPath opts)) hashed (Inr ()) (Inr ()))"
    by (cases "rs_Load (re_unmarshal env) (read (vo_ConfigPath opts))";
        cases "build_all (re_libs env) main_registry (rc_Methods (projr (rs_Load (re_unmarshal env) (read (vo_ConfigPath opts)))))")
       (simp_all add: validate_Run_def buildPipeline_def service_startup_def Let_def)
next
  show "fst (validate_Run env read unmarshal opts) = 2 \<longleftrightarrow>
      vo_ConfigPath opts \<noteq> [] \<and> vo_SamplesPath opts \<noteq> [] \<and> vo_Diff opts \<and> vo_BaselinePath opts \<noteq> [] \<and>
      (\<exists>p q ss. buildPipeline env (read (vo_ConfigPath opts)) = Inr p \<and> buildPipeline env (read (vo_BaselinePath opts)) = Inr q \<and>
         loadSamples unmarshal (read (vo_SamplesPath opts)) = Inr ss \<and>
         list_ex (\<lambda>s. Evaluate (provider_ops (re_libs env)) q (ToRouteInput s) \<noteq>
                      Evaluate (provider_ops (re_libs env)) p (ToRouteInput s)) ss)"
    by (cases "buildPipeline env (read (vo_ConfigPath opts))"; cases "loadSamples unmarshal (read (vo_SamplesPath opts))";
        cases "buildPipeline env (read (vo_BaselinePath opts))")
       (simp_all add: validate_Run_def baseline_pipeline_def Let_def list_ex_changed)
qed

text \<open>The request a client of the service would send for a sample.\<close>

definition request_of :: "sample \<Rightarrow> pb_RouteRequest" where
  "request_of s = \<lparr> pr_TrinoQueryProperties = Some \<lparr>
       pq_Body = sa_Body s, pq_QueryType = [], pq_ResourceGroupQueryType = [], pq_DefaultCatalog = sa_Catalog s,
       pq_DefaultSchema = sa_Schema s, pq_Catalogs = [], pq_Schemas = [], pq_CatalogSchemas = [], pq_Tables = [],
       pq_IsNewQuerySubmission = sa_IsNew s, pq_IsQueryParsingSuccessful = False, pq_ErrorMessage = [] \<rparr>,
     pr_User = Some (sa_User s), pr_ContentType = [], pr_RemoteUser = [], pr_Method = sa_Method s, pr_RequestUri = sa_URI s,
     pr_QueryString = [], pr_RemoteAddr = sa_RemoteAddr s, pr_RemoteHost = [], pr_ParameterMap = sa_ParamMap s,
     pr_TrinoSource = sa_Source s, pr_ClientTags = sa_ClientTags s \<rparr>"

definition erase_sql :: "EngineInput \<Rightarrow> EngineInput" where
  "erase_sql i = i\<lparr> ei_QueryType := [], ei_QueryCategory := [], ei_Catalogs := [], ei_Schemas := [],
     ei_CatalogSchemas := [], ei_Tables := [], ei_ParseOK := False \<rparr>"

text \<open>A method whose decision does not depend on the analysis of the statement.\<close>

definition sql_blind :: "'p method_ops \<Rightarrow> 'p RoutingMethod \<Rightarrow> bool" where
  "sql_blind ops m = (\<forall>i. method_Evaluate ops m (erase_sql i) = method_Evaluate ops m i)"

lemma sample_input: "erase_sql (fst (inputFromProto e (Some (request_of s)))) = ToRouteInput s"
  by (simp add: inputFromProto_def fillSQLMeta_def FromProto_def request_of_def erase_sql_def ToRouteInput_def empty_input_def
      Let_def case_prod_unfold HasParsedSQL_def)

lemma eval_group_blind:
  "list_all (sql_blind ops) ms \<Longrightarrow> eval_group ops dflt ms (erase_sql i) = eval_group ops dflt ms i"
proof (induction ms)
  case (Cons m ms)
  then have "safeEvaluate ops m (erase_sql i) = safeEvaluate ops m i"
    by (simp add: safeEvaluate_def sql_blind_def)
  then show ?case using Cons by (simp split: sum.split)
qed simp

text \<open>
  C29: The validator predicts the service, for rules on headers and sources.  If no method of the configuration looks at
  the analysis of the statement, then for every sample that is a new submission the table shows the group which
  a service started with the same file answers for the same request.
\<close>
theorem validator_predicts_service:
  assumes "service_startup env (read (vo_ConfigPath opts)) hashed tracing watch = Inr st"
    and "vo_ConfigPath opts \<noteq> []" and "vo_SamplesPath opts \<noteq> []" and "\<not> vo_Diff opts"
    and "loadSamples unmarshal (read (vo_SamplesPath opts)) = Inr ss" and "s \<in> set ss" and "sa_IsNew s"
    and "list_all (sql_blind (provider_ops (re_libs env))) (pl_methods (sx_pipeline st))"
  shows "\<exists>r. r \<in> set (snd (validate_Run env read unmarshal opts)) \<and> ro_id r = sa_ID s \<and>
    ro_newGroup r = ps_RoutingGroup (fst (service_Route env sampled (request_of s) st))"
proof -
  let ?ops = "provider_ops (re_libs env)"
  have b: "buildPipeline env (read (vo_ConfigPath opts)) = Inr (sx_pipeline st)"
    using assms(1) by (auto simp: buildPipeline_def service_startup_def Result_bind_iff Let_def)
  have e: "Evaluate ?ops (sx_pipeline st) (fst (inputFromProto (sx_eval st) (Some (request_of s)))) =
      Evaluate ?ops (sx_pipeline st) (ToRouteInput s)"
    using eval_group_blind[OF assms(8), of "pl_defaultGroup (sx_pipeline st)" "fst (inputFromProto (sx_eval st) (Some (request_of s)))"]
    unfolding sample_input by (simp add: Evaluate_def)
  have "pl_defaultGroup (sx_pipeline st) \<noteq> []"
    using service_inv_start[OF assms(1)] by (simp add: service_inv_def Let_def)
  then have "ps_RoutingGroup (fst (service_Route env sampled (request_of s) st)) = Evaluate ?ops (sx_pipeline st) (ToRouteInput s)"
    using Evaluate_nonempty[of "sx_pipeline st" ?ops "ToRouteInput s"] assms(7)
    by (simp add: service_Route_answer e) (simp add: is_new_submission_def request_of_def)
  moreover have "sample_row (re_libs env) (sx_pipeline st) None s \<in> set (snd (validate_Run env read unmarshal opts))"
    using assms(2-6) b by (simp add: validate_Run_def baseline_pipeline_def Let_def)
  ultimately show ?thesis by (intro exI[of _ "sample_row (re_libs env) (sx_pipeline st) None s"]) (simp add: sample_row_def)
qed

section \<open>Rules on the statement\<close>

text \<open>A language whose programs name the group for statements that write, and files that hold one such program.\<close>

definition write_rule_env :: "(string, string) reload_env" where
  "write_rule_env = \<lparr>
     re_libs = \<lparr> ll_readFile = Inr, ll_expr_Compile = (\<lambda>_. Inr),
       ll_expr_Run = (\<lambda>prog i. Returns (VString (case map_of i ''query_category'' of
          Some (EStr c) \<Rightarrow> if c = ''WRITE'' then prog else [] | _ \<Rightarrow> []))),
       ll_star_Exec = (\<lambda>_ s. Inr [''route'' \<mapsto> s]), ll_star_callable = (\<lambda>_. True),
       ll_star_Call = (\<lambda>_ f _. Returns (VString f)) \<rparr>,
     re_registry = main_registry,
     re_unmarshal = (\<lambda>d c. Inr (c\<lparr> rc_DefaultRoutingGroup := ''adhoc'', rc_MaxBodyBytes := 100,
       rc_Methods := [\<lparr> mc_Type = ''expr'', mc_Refresh = 0, mc_Program = d, mc_File = [] \<rparr>] \<rparr>)),
     re_sha256 = (\<lambda>d. d) \<rparr>"

definition write_sample :: sample where
  "write_sample = \<lparr> sa_ID = ''load'', sa_Source = [], sa_User = ''u'', sa_ClientTags = [], sa_Catalog = ''c'', sa_Schema = ''s'',
     sa_Method = ''POST'', sa_URI = ''/v1/statement'', sa_RemoteAddr = [], sa_Body = ''INSERT INTO t VALUES 1'', sa_IsNew = True,
     sa_ParamMap = (\<lambda>_. None) \<rparr>"

definition write_options :: Options where
  "write_options = \<lparr> vo_ConfigPath = ''etl'', vo_SamplesPath = ''samples'', vo_Diff = True, vo_BaselinePath = ''batch'' \<rparr>"

definition write_service :: "string \<Rightarrow> (string, string) routing_service result" where
  "write_service file = service_startup write_rule_env (Inr file) (Inr file) (Inr ()) (Inr ())"

definition write_cfg :: "string \<Rightarrow> RsConfig" where
  "write_cfg f = rs_defaultConfig\<lparr> rc_DefaultRoutingGroup := ''adhoc'', rc_MaxBodyBytes := 100,
     rc_Methods := [\<lparr> mc_Type = ''expr'', mc_Refresh = 0, mc_Program = f, mc_File = [] \<rparr>] \<rparr>"

lemma write_cfg_simps [simp]:
  "rc_Methods (write_cfg f) = [\<lparr> mc_Type = ''expr'', mc_Refresh = 0, mc_Program = f, mc_File = [] \<rparr>]"
  "rc_DefaultRoutingGroup (write_cfg f) = ''adhoc''" "rc_SQLEnabled (write_cfg f)" "rc_MaxBodyBytes (write_cfg f) = 100"
  by (simp_all add: write_cfg_def rs_defaultConfig_def)

lemma write_load: "f \<noteq> [] \<Longrightarrow> rs_Load (re_unmarshal write_rule_env) (Inr f) = Inr (write_cfg f)"
  by (simp add: rs_Load_def write_rule_env_def rs_applyDefaults_def rs_defaultConfig_def rs_Validate_def Let_def write_cfg_def)

lemma write_build:
  "build_all (re_libs write_rule_env) main_registry [\<lparr> mc_Type = ''expr'', mc_Refresh = 0, mc_Program = ''etl'', mc_File = [] \<rparr>] =
     Inr [ExprProvider (Some ''etl'')]"
  "build_all (re_libs write_rule_env) main_registry [\<lparr> mc_Type = ''expr'', mc_Refresh = 0, mc_Program = ''batch'', mc_File = [] \<rparr>] =
     Inr [ExprProvider (Some ''batch'')]"
  by code_simp+

lemma write_started:
  assumes "f = ''etl'' \<or> f = ''batch''"
  shows "buildPipeline write_rule_env (Inr f) = Inr (NewPipeline [Provider (ExprProvider (Some f))] ''adhoc'')"
    and "\<exists>st. write_service f = Inr st \<and> sx_pipeline st = NewPipeline [Provider (ExprProvider (Some f))] ''adhoc'' \<and>
      sx_eval st = \<lparr> ev_analyzer = Heuristic 100, ev_sqlObs = True \<rparr> \<and> sx_types st = [''expr''] \<and> sx_watcher st = watcher_New"
proof -
  have b: "build_all (re_libs write_rule_env) main_registry (rc_Methods (write_cfg f)) = Inr [ExprProvider (Some f)]"
    using assms write_build by auto
  have l: "rs_Load (re_unmarshal write_rule_env) (Inr f) = Inr (write_cfg f)" using assms by (intro write_load) auto
  show "buildPipeline write_rule_env (Inr f) = Inr (NewPipeline [Provider (ExprProvider (Some f))] ''adhoc'')"
    unfolding buildPipeline_def l Result_bind_simps b by simp
  show "\<exists>st. write_service f = Inr st \<and> sx_pipeline st = NewPipeline [Provider (ExprProvider (Some f))] ''adhoc'' \<and>
      sx_eval st = \<lparr> ev_analyzer = Heuristic 100, ev_sqlObs = True \<rparr> \<and> sx_types st = [''expr''] \<and> sx_watcher st = watcher_New"
    unfolding write_service_def service_startup_def l Result_bind_simps b by (simp add: Let_def main_evaluator_def)
qed

lemma write_decision:
  "Evaluate (provider_ops (re_libs write_rule_env)) (NewPipeline [Provider (ExprProvider (Some f))] ''adhoc'') i =
     (if ei_QueryCategory i = ''WRITE'' \<and> f \<noteq> [] then f else ''adhoc'')"
  by (simp add: Evaluate_def NewPipeline_def safeEvaluate_def provider_ops_def expr_Evaluate_def write_rule_env_def buildEnv_def
      decided_def no_decision_def)

lemma write_category:
  "ei_QueryCategory (fst (inputFromProto \<lparr> ev_analyzer = Heuristic 100, ev_sqlObs = True \<rparr> (Some (request_of write_sample)))) = ''WRITE''"
  by code_simp


section \<open>Shutdown\<close>

text \<open>
  Stopping is bounded: whatever calls are in flight, the stop returns within thirty seconds, and it cuts off
  exactly the calls that would have needed that long.
\<close>
theorem graceful_stop_bounded:
  "fst (gracefulStopWithTimeout inflight) \<le> gracefulStopTimeout
   \<and> snd (gracefulStopWithTimeout inflight) = filter (\<lambda>d. d = None \<or> gracefulStopTimeout \<le> the d) inflight"
proof -
  have le: "list_all (\<lambda>d. case d of None \<Rightarrow> False | Some k \<Rightarrow> k < n) ds \<Longrightarrow> a \<le> n \<Longrightarrow> fold (\<lambda>d m. max m (the d)) ds a \<le> n"
    for ds and a n :: nat
  proof (induction ds arbitrary: a)
    case (Cons d ds)
    then obtain k where "d = Some k" "k < n" by (cases d) auto
    moreover have "max a k \<le> n" using Cons.prems(2) calculation(2) by simp
    ultimately show ?case using Cons.IH[of "max a k"] Cons.prems(1) by simp
  qed simp
  have f: "(case d of None \<Rightarrow> True | Some n \<Rightarrow> gracefulStopTimeout \<le> n) \<longleftrightarrow> d = None \<or> gracefulStopTimeout \<le> the d" for d
    by (cases d) auto
  show ?thesis
  proof (cases "filter (\<lambda>d. d = None \<or> gracefulStopTimeout \<le> the d) inflight = []")
    case True
    then have "list_all (\<lambda>d. case d of None \<Rightarrow> False | Some k \<Rightarrow> k < gracefulStopTimeout) inflight"
      by (auto simp: filter_empty_conv list_all_iff split: option.split)
    from le[OF this] True show ?thesis unfolding gracefulStopWithTimeout_def f Let_def by simp
  next
    case False
    then show ?thesis unfolding gracefulStopWithTimeout_def f Let_def by simp
  qed
qed

section \<open>Witnesses\<close>


theorem gauge_stale_after_reload_witness:
  "\<exists>st0 st2. write_service ''etl'' = Inr st0 \<and>
     st2 = foldl (service_step write_rule_env) st0 [DisableCall ''expr'', FileChanged (Inr ''batch'') (Inr ''batch'')] \<and>
     DisabledMethods (provider_ops (re_libs write_rule_env)) (sx_pipeline st2) = [] \<and>
     map_option (\<lambda>m. rm_disabled m ''expr'') (sv_metrics (sx_server st2)) = Some (Some True)"
proof -
  obtain st0 where st: "service_startup write_rule_env (Inr ''etl'') (Inr ''etl'') (Inr ()) (Inr ()) = Inr st0"
    and ty: "sx_types st0 = [''expr'']" and w: "sx_watcher st0 = watcher_New"
    using write_started(2)[of "''etl''"] by (auto simp: write_service_def)
  let ?st1 = "service_step write_rule_env st0 (DisableCall ''expr'')"
  let ?st2 = "service_step write_rule_env ?st1 (FileChanged (Inr ''batch'') (Inr ''batch''))"
  have w1: "sx_watcher ?st1 = watcher_New" by (simp add: service_step_def Let_def case_prod_unfold w)
  have "cw_success (sx_watcher ?st2) = 1"
    using write_build(2) write_load[of "''batch''"] w1
    by (simp add: service_step_def[of _ ?st1] Let_def case_prod_unfold reload_def watcher_New_def)
  then have "cw_success (sx_watcher ?st2) \<noteq> cw_success (sx_watcher ?st1)" by (simp add: w1 watcher_New_def)
  from gauge_stale_after_reload[OF st _ refl refl this] ty st show ?thesis by (auto simp: write_service_def)
qed

definition header_options :: Options where
  "header_options = \<lparr> vo_ConfigPath = ''etl'', vo_SamplesPath = ''samples'', vo_Diff = False, vo_BaselinePath = [] \<rparr>"

definition constant_rule_env :: "(string, string) reload_env" where
  "constant_rule_env = write_rule_env\<lparr> re_libs := (re_libs write_rule_env)\<lparr> ll_expr_Run := (\<lambda>prog _. Returns (VString prog)) \<rparr> \<rparr>"

theorem validator_predicts_service_witness:
  "\<exists>st r. service_startup constant_rule_env (Inr ''etl'') (Inr []) (Inr ()) (Inr ()) = Inr st \<and>
     r \<in> set (snd (validate_Run constant_rule_env Inr (\<lambda>_. Inr [write_sample]) header_options)) \<and> ro_id r = ''load'' \<and>
     ro_newGroup r = ps_RoutingGroup (fst (service_Route constant_rule_env True (request_of write_sample) st))"
proof -
  have b: "build_all (re_libs constant_rule_env) main_registry [\<lparr> mc_Type = ''expr'', mc_Refresh = 0, mc_Program = ''etl'', mc_File = [] \<rparr>] =
      Inr [ExprProvider (Some ''etl'')]"
    by code_simp
  have l: "rs_Load (re_unmarshal constant_rule_env) = rs_Load (re_unmarshal write_rule_env)" by (simp add: constant_rule_env_def)
  obtain st where st: "service_startup constant_rule_env (Inr ''etl'') (Inr []) (Inr ()) (Inr ()) = Inr st"
    and p: "pl_methods (sx_pipeline st) = [Provider (ExprProvider (Some ''etl''))]"
    using b by (simp add: service_startup_def l write_load NewPipeline_def Let_def)
  have "list_all (sql_blind (provider_ops (re_libs constant_rule_env))) (pl_methods (sx_pipeline st))"
    by (simp add: p sql_blind_def provider_ops_def expr_Evaluate_def constant_rule_env_def)
  from validator_predicts_service[where read = Inr and opts = header_options and unmarshal = "\<lambda>_. Inr [write_sample]" and ss = "[write_sample]"
      and s = write_sample and sampled = True, OF _ _ _ _ _ _ _ this, of "Inr []" "Inr ()" "Inr ()"]
  show ?thesis using st by (auto simp: header_options_def loadSamples_def write_sample_def)
qed

end
