(* ===== verification/Auth.thy ===== *)
theory Auth
  imports Selectors Base64
begin

text \<open>
  Authentication and roles of the gateway (\<^verbatim>\<open>internal/auth\<close>).  A middleware turns a request into a
  principal or a refusal.  Regular expressions, the LDAP server, the validation of a JWT against a key
  set and the identity provider's HTTP endpoints are parameters.  The web login is the OAuth2
  authorization-code flow: the URL the browser is sent to, and the exchange of the code.
\<close>

section \<open>Principals and roles\<close>

record Principal =
  pn_Name :: string
  pn_MemberOf :: string

record AuthorizationConfig =
  az_AdminRegex :: string
  az_UserRegex :: string
  az_APIRegex :: string
  az_PagePermissions :: "(string \<times> string) list"

definition RoleAdmin :: string where "RoleAdmin = ''ADMIN''"
definition RoleUser :: string where "RoleUser = ''USER''"
definition RoleAPI :: string where "RoleAPI = ''API''"

text \<open>\<open>matches pattern s\<close> is \<^verbatim>\<open>regexp.MatchString\<close>, without a value when the pattern does not compile.\<close>

definition HasRole ::
  "(string \<Rightarrow> string \<Rightarrow> bool option) \<Rightarrow> Principal option \<Rightarrow> string \<Rightarrow> AuthorizationConfig \<Rightarrow> bool" where
  "HasRole matches pr role cfg =
     (case pr of
        None \<Rightarrow> False
      | Some p \<Rightarrow>
          (case (if role = RoleAdmin then Some (az_AdminRegex cfg)
                 else if role = RoleUser then Some (az_UserRegex cfg)
                 else if role = RoleAPI then Some (az_APIRegex cfg) else None) of
             None \<Rightarrow> False
           | Some pattern \<Rightarrow>
               pattern \<noteq> [] \<and> (case matches pattern (pn_MemberOf p) of None \<Rightarrow> False | Some b \<Rightarrow> b)))"

text \<open>The pages of the roles, first seen first; a role without an entry lifts the restriction.\<close>

definition add_page :: "string list \<Rightarrow> string \<Rightarrow> string list" where
  "add_page out page = (if page = [] \<or> page \<in> set out then out else out @ [page])"

definition ResolvePagePermissions :: "string list \<Rightarrow> (string \<times> string) list \<Rightarrow> string list" where
  "ResolvePagePermissions roles pagePermissions =
     (if roles = [] \<or> pagePermissions = [] then []
      else if list_ex (\<lambda>r. map_of pagePermissions r = None) roles then []
      else foldl (\<lambda>out r. foldl add_page out (split_on (CHR ''_'') (the (map_of pagePermissions r)))) [] roles)"

datatype auth_verdict = Allow Principal | Deny string

datatype auth_type = TypeOIDC | TypeLDAP | TypeNoop

text \<open>What the metrics record of a request.\<close>

type_synonym auth_metric = "auth_type \<times> bool"

section \<open>Middlewares\<close>

definition Noop_handler :: "http_request \<Rightarrow> auth_verdict \<times> auth_metric" where
  "Noop_handler r = (Allow \<lparr> pn_Name = ''anonymous'', pn_MemberOf = [] \<rparr>, (TypeNoop, True))"

text \<open>\<^verbatim>\<open>Request.BasicAuth\<close>: the scheme is compared ignoring case; the credentials are standard base64 of
  \<^verbatim>\<open>user:password\<close>.  The standard alphabet has \<^verbatim>\<open>+\<close> and \<^verbatim>\<open>/\<close> where the URL alphabet has \<^verbatim>\<open>-\<close> and \<^verbatim>\<open>_\<close>.\<close>

definition std_to_url :: "char \<Rightarrow> char" where
  "std_to_url c = (if c = CHR ''+'' then CHR ''-'' else if c = CHR ''/'' then CHR ''_'' else c)"

definition std_decode :: "string \<Rightarrow> string option" where
  "std_decode s = (if CHR ''-'' \<in> set s \<or> CHR ''_'' \<in> set s then None else b64_decode True (map std_to_url s))"

definition url_to_std :: "char \<Rightarrow> char" where
  "url_to_std c = (if c = CHR ''-'' then CHR ''+'' else if c = CHR ''_'' then CHR ''/'' else c)"

definition std_encode :: "string \<Rightarrow> string" where
  "std_encode s = map url_to_std (b64_encode True s)"

definition str_cut :: "char \<Rightarrow> string \<Rightarrow> (string \<times> string) option" where
  "str_cut c s = (case index_byte c s of None \<Rightarrow> None | Some i \<Rightarrow> Some (take i s, drop (i + 1) s))"

definition BasicAuth :: "http_request \<Rightarrow> (string \<times> string) option" where
  "BasicAuth r =
     (let auth = hdr_get (rq_Header r) ''Authorization'' in
      if length auth < 6 \<or> \<not> EqualFold (take 6 auth) ''Basic '' then None
      else (case std_decode (drop 6 auth) of None \<Rightarrow> None | Some cs \<Rightarrow> str_cut (CHR '':'') cs))"

record LDAPConfig =
  ld_URL :: string
  ld_BindDN :: string
  ld_BindPass :: string
  ld_UserBase :: string
  ld_UserAttr :: string

record ldap_entry =
  le_DN :: string
  le_memberOf :: "string list"

text \<open>A connection as the code uses it.  \<open>lo_Bind\<close> tells whether the server accepts the pair; a search is
  made under the name last bound, anonymously without one.\<close>

record ldap_ops =
  lo_Dial :: "string \<Rightarrow> bool"
  lo_Bind :: "string \<Rightarrow> string \<Rightarrow> bool"
  lo_Escape :: "string \<Rightarrow> string"
  lo_Search :: "string option \<Rightarrow> string \<Rightarrow> string \<Rightarrow> ldap_entry list result"

definition ldap_filter :: "ldap_ops \<Rightarrow> LDAPConfig \<Rightarrow> string \<Rightarrow> string" where
  "ldap_filter ops cfg username =
     ''('' @ (if ld_UserAttr cfg = [] then ''uid'' else ld_UserAttr cfg) @ ''='' @ lo_Escape ops username @ '')''"

definition authenticate :: "ldap_ops \<Rightarrow> LDAPConfig \<Rightarrow> string \<Rightarrow> string \<Rightarrow> string result" where
  "authenticate ops cfg username password =
     (if \<not> lo_Dial ops (ld_URL cfg) then Inl (Failure ''auth: ldap: dial'')
      else if ld_BindDN cfg \<noteq> [] \<and> \<not> lo_Bind ops (ld_BindDN cfg) (ld_BindPass cfg)
      then Inl (Failure ''auth: ldap: service bind'')
      else (case lo_Search ops (if ld_BindDN cfg \<noteq> [] then Some (ld_BindDN cfg) else None) (ld_UserBase cfg) (ldap_filter ops cfg username) of
              Inl e \<Rightarrow> Inl e
            | Inr [] \<Rightarrow> Inl (Failure ''auth: ldap: user not found'')
            | Inr (entry # _) \<Rightarrow>
                if \<not> lo_Bind ops (le_DN entry) password then Inl (Failure ''auth: ldap: user bind'')
                else Inr (case le_memberOf entry of [] \<Rightarrow> [] | v # _ \<Rightarrow> v)))"

definition LDAP_handler :: "ldap_ops \<Rightarrow> LDAPConfig \<Rightarrow> http_request \<Rightarrow> auth_verdict \<times> auth_metric" where
  "LDAP_handler ops cfg r =
     (case BasicAuth r of
        None \<Rightarrow> (Deny ''Basic auth required'', (TypeLDAP, False))
      | Some (username, password) \<Rightarrow>
          if username = [] \<or> password = [] then (Deny ''Basic auth required'', (TypeLDAP, False))
          else (case authenticate ops cfg username password of
                  Inl _ \<Rightarrow> (Deny ''invalid credentials'', (TypeLDAP, False))
                | Inr memberOf \<Rightarrow> (Allow \<lparr> pn_Name = username, pn_MemberOf = memberOf \<rparr>, (TypeLDAP, True))))"

text \<open>Claims of a token; \<open>CList\<close> is a JSON array, of which only the strings count.\<close>

datatype claim = CString string | CList "claim list" | COther

type_synonym claims = "string \<Rightarrow> claim option"

definition bearerToken :: "http_request \<Rightarrow> string" where
  "bearerToken r =
     (let v = hdr_get (rq_Header r) ''Authorization'' in if prefix ''Bearer '' v then drop 7 v else [])"

fun claim_strings :: "claim list \<Rightarrow> string list" where
  "claim_strings [] = []"
| "claim_strings (CString s # cs) = s # claim_strings cs"
| "claim_strings (_ # cs) = claim_strings cs"

fun groups_from :: "claims \<Rightarrow> string list \<Rightarrow> string" where
  "groups_from cl [] = []"
| "groups_from cl (key # keys) =
     (case cl key of
        Some (CString s) \<Rightarrow> s
      | Some (CList cs) \<Rightarrow> join '','' (claim_strings cs)
      | _ \<Rightarrow> groups_from cl keys)"

definition groupsClaim :: "claims \<Rightarrow> string" where
  "groupsClaim cl = groups_from cl [''groups'', ''memberOf'']"

definition GetSubject :: "claims \<Rightarrow> string" where
  "GetSubject cl = (case cl ''sub'' of Some (CString s) \<Rightarrow> s | _ \<Rightarrow> [])"

text \<open>\<open>parse keys token\<close> is \<^verbatim>\<open>jwt.ParseWithClaims\<close>: the claims of a token whose signature and times
  check out under the keys.\<close>

definition OIDC_handler ::
  "('k \<Rightarrow> string \<Rightarrow> claims result) \<Rightarrow> 'k option \<Rightarrow> http_request \<Rightarrow> auth_verdict \<times> auth_metric" where
  "OIDC_handler parse jwks r =
     (let raw = bearerToken r in
      if raw = [] then (Deny ''missing Bearer token'', (TypeOIDC, False))
      else (case jwks of
              None \<Rightarrow> (Deny ''JWKS not available'', (TypeOIDC, False))
            | Some kf \<Rightarrow>
                (case parse kf raw of
                   Inl _ \<Rightarrow> (Deny ''invalid token'', (TypeOIDC, False))
                 | Inr cl \<Rightarrow>
                     (Allow \<lparr> pn_Name = GetSubject cl, pn_MemberOf = groupsClaim cl \<rparr>, (TypeOIDC, True)))))"

text \<open>A refresh: the fetched key set and how many keys it holds, or an error.  The state is the current
  key set; the result is the number of keys a successful refresh reports to the metrics.\<close>

definition doRefresh :: "('k \<times> nat) result \<Rightarrow> 'k option \<Rightarrow> nat option \<times> 'k option" where
  "doRefresh fetched jwks =
     (case fetched of
        Inl _ \<Rightarrow> (None, jwks)
      | Inr (k, n) \<Rightarrow> if n = 0 then (None, jwks) else (Some n, Some k))"

text \<open>\<^verbatim>\<open>NewOIDC\<close>: without a first key set there is no middleware.\<close>

definition NewOIDC :: "('k \<times> nat) result \<Rightarrow> 'k option" where
  "NewOIDC fetched = snd (doRefresh fetched None)"

section \<open>Web login\<close>

record OIDCConfig =
  oc_IssuerURL :: string
  oc_ClientID :: string
  oc_ClientSecret :: string
  oc_Scopes :: "string list"
  oc_RedirectURL :: string
  oc_AuthorizationEndpoint :: string
  oc_TokenEndpoint :: string

record 'k OIDCWebLogin =
  wl_cfg :: OIDCConfig
  wl_authzURL :: string
  wl_tokenURL :: string
  wl_jwks :: 'k

text \<open>The discovery document: the two endpoints, empty when absent.\<close>

definition discover :: "(string \<Rightarrow> (nat \<times> (string \<times> string) result) result) \<Rightarrow> string \<Rightarrow> (string \<times> string) result" where
  "discover get issuerURL =
     (if issuerURL = [] then Inl (Failure ''auth: oidc weblogin: issuerUrl is required for discovery'')
      else (case get (TrimRight issuerURL (CHR ''/'') @ ''/.well-known/openid-configuration'') of
              Inl e \<Rightarrow> Inl e
            | Inr (status, doc) \<Rightarrow>
                if status \<noteq> 200 then Inl (Failure ''auth: oidc weblogin: discovery returned status'')
                else doc))"

definition resolve_endpoints ::
  "(string \<Rightarrow> (nat \<times> (string \<times> string) result) result) \<Rightarrow> OIDCConfig \<Rightarrow> (string \<times> string) result" where
  "resolve_endpoints get cfg =
     (let a = oc_AuthorizationEndpoint cfg; t = oc_TokenEndpoint cfg in
      if a = [] \<or> t = [] then
        (case discover get (oc_IssuerURL cfg) of
           Inl e \<Rightarrow> Inl e
         | Inr (da, dt) \<Rightarrow> Inr (if a = [] then da else a, if t = [] then dt else t))
      else Inr (a, t))"

definition NewOIDCWebLogin ::
  "(string \<Rightarrow> (nat \<times> (string \<times> string) result) result) \<Rightarrow> 'k result \<Rightarrow> OIDCConfig \<Rightarrow> 'k OIDCWebLogin result" where
  "NewOIDCWebLogin get jwks cfg =
     (if oc_RedirectURL cfg = [] then Inl (Failure ''auth: oidc weblogin: redirectUrl is required'')
      else if oc_ClientID cfg = [] then Inl (Failure ''auth: oidc weblogin: clientId is required'')
      else (case resolve_endpoints get cfg of
              Inl e \<Rightarrow> Inl e
            | Inr (a, t) \<Rightarrow>
                if a = [] \<or> t = []
                then Inl (Failure ''auth: oidc weblogin: could not resolve authorization/token endpoints'')
                else (case jwks of
                        Inl e \<Rightarrow> Inl e
                      | Inr k \<Rightarrow> Inr \<lparr> wl_cfg = cfg, wl_authzURL = a, wl_tokenURL = t, wl_jwks = k \<rparr>)))"

text \<open>\<^verbatim>\<open>url.QueryEscape\<close> and \<^verbatim>\<open>Values.Encode\<close>, which orders by key.\<close>

definition upper_hex :: "nat \<Rightarrow> char" where
  "upper_hex n = (if n < 10 then char_of (48 + n) else char_of (55 + n))"

definition query_safe :: "char \<Rightarrow> bool" where
  "query_safe c = (is_lower c \<or> is_upper c \<or> is_digit c \<or> c \<in> set ''-_.~'')"

definition escape_char :: "char \<Rightarrow> string" where
  "escape_char c = (if query_safe c then [c] else if c = CHR '' '' then ''+''
     else [CHR ''%'', upper_hex (byte c div 16), upper_hex (byte c mod 16)])"

definition QueryEscape :: "string \<Rightarrow> string" where
  "QueryEscape s = concat (map escape_char s)"

definition Values_Encode :: "(string \<times> string) list \<Rightarrow> string" where
  "Values_Encode kvs = join ''&'' (map (\<lambda>(k, v). QueryEscape k @ ''='' @ QueryEscape v) (sort_key fst kvs))"

definition AuthCodeURL :: "'k OIDCWebLogin \<Rightarrow> string \<Rightarrow> string \<Rightarrow> string" where
  "AuthCodeURL w state nonce =
     (let scopes = (if oc_Scopes (wl_cfg w) = [] then [''openid''] else oc_Scopes (wl_cfg w));
          sep = (if CHR ''?'' \<in> set (wl_authzURL w) then ''&'' else ''?'')
      in wl_authzURL w @ sep @ Values_Encode
           [(''response_type'', ''code''), (''client_id'', oc_ClientID (wl_cfg w)),
            (''redirect_uri'', oc_RedirectURL (wl_cfg w)), (''scope'', join '' '' scopes),
            (''state'', state), (''nonce'', nonce)])"

record tokenResponse =
  tr_IDToken :: string
  tr_Error :: string
  tr_ErrorDesc :: string

definition errorMessage :: "tokenResponse \<Rightarrow> string" where
  "errorMessage t = (if tr_ErrorDesc t \<noteq> [] then tr_Error t @ '': '' @ tr_ErrorDesc t else tr_Error t)"

definition validateIDToken ::
  "('k \<Rightarrow> string \<Rightarrow> claims result) \<Rightarrow> 'k OIDCWebLogin \<Rightarrow> string \<Rightarrow> string \<Rightarrow> unit result" where
  "validateIDToken parse w idToken nonce =
     (case parse (wl_jwks w) idToken of
        Inl e \<Rightarrow> Inl e
      | Inr cl \<Rightarrow>
          if nonce \<noteq> [] \<and> (case cl ''nonce'' of Some (CString s) \<Rightarrow> s | _ \<Rightarrow> []) \<noteq> nonce
          then Inl (Failure ''auth: oidc weblogin: id_token nonce mismatch'') else Inr ())"

text \<open>\<open>post url form\<close>: the status and the decoded answer of the token endpoint.\<close>

definition exchange_form :: "OIDCConfig \<Rightarrow> string \<Rightarrow> (string \<times> string) list" where
  "exchange_form cfg code =
     [(''grant_type'', ''authorization_code''), (''code'', code), (''redirect_uri'', oc_RedirectURL cfg),
      (''client_id'', oc_ClientID cfg)]
     @ (if oc_ClientSecret cfg \<noteq> [] then [(''client_secret'', oc_ClientSecret cfg)] else [])"

definition Exchange ::
  "('k \<Rightarrow> string \<Rightarrow> claims result) \<Rightarrow> (string \<Rightarrow> (string \<times> string) list \<Rightarrow> (nat \<times> tokenResponse result) result)
    \<Rightarrow> 'k OIDCWebLogin \<Rightarrow> string \<Rightarrow> string \<Rightarrow> string result" where
  "Exchange parse post w code nonce =
     (case post (wl_tokenURL w) (exchange_form (wl_cfg w) code) of
        Inl e \<Rightarrow> Inl e
      | Inr (status, Inl e) \<Rightarrow> Inl e
      | Inr (status, Inr tr) \<Rightarrow>
          if status \<noteq> 200 \<or> tr_Error tr \<noteq> []
          then Inl (Failure (''auth: oidc weblogin: token endpoint failed: status '' @ dec_nat status @ '': '' @ errorMessage tr))
          else if tr_IDToken tr = [] then Inl (Failure ''auth: oidc weblogin: token response missing id_token'')
          else (case validateIDToken parse w (tr_IDToken tr) nonce of
                  Inl e \<Rightarrow> Inl e | Inr _ \<Rightarrow> Inr (tr_IDToken tr)))"

text \<open>\<open>buf\<close> is the outcome of drawing 32 random bytes.\<close>

definition RandomToken :: "string result \<Rightarrow> string result" where
  "RandomToken buf = (case buf of Inl e \<Rightarrow> Inl e | Inr bytes \<Rightarrow> Inr (b64_encode False bytes))"

section \<open>Properties\<close>

lemma HasRole_None [simp]: "\<not> HasRole matches None role cfg"
  by (simp add: HasRole_def)

lemma str_cut_append: "c \<notin> set a \<Longrightarrow> str_cut c (a @ c # b) = Some (a, b)"
  by (simp add: str_cut_def index_byte_append)

lemma enc6_set: "n < 64 \<Longrightarrow> enc6 n \<notin> set ''+/:''"
  using dec6_enc6[of n] by (auto simp: dec6_def Let_def byte_def split: if_splits)

lemma b64_encode_chars: "c \<in> set (b64_encode pad s) \<Longrightarrow> c \<notin> set ''+/:''"
proof (induction pad s rule: b64_encode.induct)
  case (4 pad a b c rest)
  then show ?case using enc6_set sextets by auto
qed (use enc6_set sextets in \<open>auto split: if_splits\<close>)

lemma std_decode_encode: "std_decode (std_encode s) = Some s"
proof -
  have "std_to_url (url_to_std c) = c" if "c \<in> set (b64_encode True s)" for c
    using b64_encode_chars[OF that] by (auto simp: std_to_url_def url_to_std_def)
  then have "map std_to_url (std_encode s) = b64_encode True s"
    by (simp add: std_encode_def map_idI)
  moreover have "url_to_std c \<noteq> CHR ''-'' \<and> url_to_std c \<noteq> CHR ''_''" for c by (simp add: url_to_std_def)
  then have "CHR ''-'' \<notin> set (std_encode s) \<and> CHR ''_'' \<notin> set (std_encode s)"
    unfolding std_encode_def set_map by (metis image_iff)
  ultimately show ?thesis by (simp add: std_decode_def b64_decode_encode)
qed

lemma BasicAuth_header:
  assumes "EqualFold scheme ''Basic ''" and "CHR '':'' \<notin> set user"
    and "hdr_get (rq_Header r) ''Authorization'' = scheme @ std_encode (user @ '':'' @ password)"
  shows "BasicAuth r = Some (user, password)"
proof -
  have "length scheme = 6"
    using arg_cong[OF assms(1)[unfolded EqualFold_def ToLower_def], of length] by simp
  then show ?thesis
    using assms str_cut_append[OF assms(2), of password] by (simp add: BasicAuth_def std_decode_encode)
qed

text \<open>
  LDAP authentication lets a request through exactly when it carries Basic credentials with a
  non-empty name and a non-empty password (so never by an unauthenticated bind), the service account
  binds if there is one, the search for the escaped name finds an entry, and the server accepts the
  password for that entry.  The principal then has the name given and the first value of \<^verbatim>\<open>memberOf\<close>.
\<close>
theorem LDAP_allow_iff:
  "fst (LDAP_handler ops cfg r) = Allow p \<longleftrightarrow>
     (\<exists>user password entry entries.
        BasicAuth r = Some (user, password) \<and> user \<noteq> [] \<and> password \<noteq> [] \<and> lo_Dial ops (ld_URL cfg) \<and>
        (ld_BindDN cfg = [] \<or> lo_Bind ops (ld_BindDN cfg) (ld_BindPass cfg)) \<and>
        lo_Search ops (if ld_BindDN cfg \<noteq> [] then Some (ld_BindDN cfg) else None) (ld_UserBase cfg)
          (ldap_filter ops cfg user) = Inr (entry # entries) \<and>
        lo_Bind ops (le_DN entry) password \<and>
        p = \<lparr> pn_Name = user, pn_MemberOf = (case le_memberOf entry of [] \<Rightarrow> [] | v # _ \<Rightarrow> v) \<rparr>)"
  by (auto simp: LDAP_handler_def authenticate_def split: option.splits sum.splits list.splits if_splits)

lemma LDAP_metric: "snd (LDAP_handler ops cfg r) = (TypeLDAP, \<exists>p. fst (LDAP_handler ops cfg r) = Allow p)"
  by (auto simp: LDAP_handler_def split: option.splits sum.splits)

text \<open>A user whose second group is the administrators' has not the role: only the first value of
  \<^verbatim>\<open>memberOf\<close> reaches the role check.\<close>

lemma LDAP_second_group_ignored:
  "fst (LDAP_handler \<lparr> lo_Dial = (\<lambda>_. True), lo_Bind = (\<lambda>_ _. True), lo_Escape = id,
          lo_Search = (\<lambda>_ _ _. Inr [\<lparr> le_DN = ''uid=ann'', le_memberOf = [''cn=staff'', ''cn=admins''] \<rparr>]) \<rparr> cfg r)
     = Allow p \<Longrightarrow> pn_MemberOf p = ''cn=staff''"
  by (auto simp: LDAP_handler_def authenticate_def split: option.splits if_splits)

section \<open>Key sets\<close>

fun refreshes :: "('k \<times> nat) result list \<Rightarrow> 'k option \<Rightarrow> 'k option" where
  "refreshes [] jwks = jwks"
| "refreshes (f # fs) jwks = refreshes fs (snd (doRefresh f jwks))"

definition usable :: "('k \<times> nat) result \<Rightarrow> bool" where
  "usable f = (case f of Inl _ \<Rightarrow> False | Inr (_, n) \<Rightarrow> n > 0)"

definition fetched_keys :: "('k \<times> nat) result \<Rightarrow> 'k option" where
  "fetched_keys f = (case f of Inl _ \<Rightarrow> None | Inr (k, _) \<Rightarrow> Some k)"

text \<open>
  However the key endpoint behaves, the keys in use are those of the last fetch that returned any:
  a failed or empty answer never removes the keys, so a middleware that started keeps validating.
\<close>
theorem refreshes_keep_keys:
  "refreshes fs jwks = (case filter usable fs of [] \<Rightarrow> jwks | us \<Rightarrow> fetched_keys (last us))"
proof (induction fs arbitrary: jwks)
  case (Cons f fs)
  have "snd (doRefresh f jwks) = (if usable f then fetched_keys f else jwks)"
    by (auto simp: doRefresh_def usable_def fetched_keys_def split: sum.splits)
  then show ?case using Cons.IH by (auto split: list.splits)
qed simp

section \<open>Web login\<close>

lemma validateIDToken_iff:
  "validateIDToken parse w token nonce = Inr u \<longleftrightarrow>
     (\<exists>cl. parse (wl_jwks w) token = Inr cl \<and> (nonce = [] \<or> cl ''nonce'' = Some (CString nonce)))"
  by (cases "parse (wl_jwks w) token")
     (auto simp: validateIDToken_def split: option.splits claim.splits)

text \<open>
  C35: The exchange hands out an id token exactly when the token endpoint answers 200 with that token and
  no error, the token is valid under the keys of the provider, and, when the login attempt has a
  nonce, the token carries that nonce.  A token of another login attempt is refused.
\<close>
theorem Exchange_iff:
  "Exchange parse post w code nonce = Inr token \<longleftrightarrow>
     (\<exists>tr cl. post (wl_tokenURL w) (exchange_form (wl_cfg w) code) = Inr (200, Inr tr) \<and>
        tr_Error tr = [] \<and> tr_IDToken tr = token \<and> token \<noteq> [] \<and>
        parse (wl_jwks w) token = Inr cl \<and> (nonce = [] \<or> cl ''nonce'' = Some (CString nonce)))"
proof (cases "post (wl_tokenURL w) (exchange_form (wl_cfg w) code)")
  case (Inr p)
  obtain status res where p: "p = (status, res)" by (cases p)
  show ?thesis
  proof (cases res)
    case (Inr tr)
    show ?thesis
      using validateIDToken_iff[of parse w "tr_IDToken tr" nonce "()"] Inr \<open>post _ _ = Inr p\<close> p
      by (cases "validateIDToken parse w (tr_IDToken tr) nonce") (auto simp: Exchange_def)
  qed (simp add: Exchange_def Inr p)
qed (simp add: Exchange_def)

section \<open>Page permissions\<close>

lemma foldl_add_page:
  "distinct out \<Longrightarrow> distinct (foldl add_page out ps) \<and>
     set (foldl add_page out ps) = set out \<union> {p \<in> set ps. p \<noteq> []}"
  by (induction ps arbitrary: out) (auto simp: add_page_def)

lemma foldl_roles:
  "distinct out \<Longrightarrow> (let res = foldl (\<lambda>out r. foldl add_page out (pages r)) out roles in
     distinct res \<and> set res = set out \<union> {p. p \<noteq> [] \<and> (\<exists>r \<in> set roles. p \<in> set (pages r))})"
proof (induction roles arbitrary: out)
  case (Cons r roles)
  show ?case
    using Cons.IH[of "foldl add_page out (pages r)"] foldl_add_page[OF Cons.prems, of "pages r"]
    by (auto simp: Let_def)
qed simp

text \<open>
  When every role of a user has an entry, the pages shown are exactly the non-empty page keys of those
  entries, each once; without roles, without a table, or with an unrestricted role there is no
  restriction, which the empty list stands for.
\<close>
theorem ResolvePagePermissions_spec:
  "distinct (ResolvePagePermissions roles table) \<and>
   (if roles = [] \<or> table = [] \<or> (\<exists>r \<in> set roles. map_of table r = None)
    then ResolvePagePermissions roles table = []
    else set (ResolvePagePermissions roles table) =
      {p. p \<noteq> [] \<and> (\<exists>r \<in> set roles. p \<in> set (split_on (CHR ''_'') (the (map_of table r))))})"
  using foldl_roles[of "[]" "\<lambda>r. split_on (CHR ''_'') (the (map_of table r))" roles]
  by (auto simp: ResolvePagePermissions_def list_ex_iff Let_def)

end
