(* ===== verification/Cluster_Stats.thy ===== *)
theory Cluster_Stats
  imports Monitor Auth
begin

text \<open>
  Live statistics of the backends (\<^verbatim>\<open>internal/clusterstats\<close>): the four collectors, the store the admin
  layer reads, and the retry loop the two HTTP collectors share.  The backends' HTTP servers, JSON
  decoding and 64-bit floating point are parameters; \<open>'w\<close> is the state of the world they act on.  A
  cookie jar is kept per host name, as \<^verbatim>\<open>net/http/cookiejar\<close> keeps it.
\<close>

section \<open>Statistics and the store\<close>

record ClusterStats =
  cs_ClusterID :: string
  cs_RunningQueryCount :: int
  cs_QueuedQueryCount :: int
  cs_NumWorkerNodes :: int
  cs_TrinoStatus :: TrinoStatus
  cs_ProxyTo :: string
  cs_ExternalURL :: string
  cs_RoutingGroup :: string
  cs_UserQueuedCount :: "(string \<Rightarrow> nat) option"

definition zero_stats :: ClusterStats where
  "zero_stats = \<lparr> cs_ClusterID = [], cs_RunningQueryCount = 0, cs_QueuedQueryCount = 0, cs_NumWorkerNodes = 0,
     cs_TrinoStatus = StatusUnknown, cs_ProxyTo = [], cs_ExternalURL = [], cs_RoutingGroup = [],
     cs_UserQueuedCount = None \<rparr>"

definition statsBuilder :: "SimpleBackend \<Rightarrow> ClusterStats" where
  "statsBuilder b = zero_stats\<lparr> cs_ClusterID := sb_Name b, cs_ProxyTo := sb_URL b,
     cs_ExternalURL := sb_ExternalURL b, cs_RoutingGroup := sb_RoutingGroup b \<rparr>"

type_synonym StatsStore = "string \<Rightarrow> ClusterStats option"

definition NewStatsStore :: StatsStore where
  "NewStatsStore = (\<lambda>_. None)"

definition ObserveStats :: "(string \<Rightarrow> ClusterStats option) \<Rightarrow> StatsStore \<Rightarrow> StatsStore" where
  "ObserveStats stats s = stats"

definition store_Stats :: "StatsStore \<Rightarrow> string \<Rightarrow> ClusterStats" where
  "store_Stats s name =
     (case s name of Some cs \<Rightarrow> cs | None \<Rightarrow> zero_stats\<lparr> cs_ClusterID := name \<rparr>)"

section \<open>Retries\<close>

text \<open>One request: it cannot be built, it fails in transport, or it is answered.\<close>

datatype attempt = BadRequest | TransportError | Answer nat string

text \<open>The argument is the number of attempts left.  \<open>cancelled\<close> tells whether the context ends while the
  loop waits for the next attempt.\<close>

fun attempts_loop ::
  "('w \<Rightarrow> attempt \<times> 'w) \<Rightarrow> ('w \<Rightarrow> bool) \<Rightarrow> nat \<Rightarrow> 'w \<Rightarrow> (nat \<times> string) option \<times> 'w" where
  "attempts_loop request cancelled 0 w = (None, w)"
| "attempts_loop request cancelled (Suc n) w =
     (case request w of
        (BadRequest, w') \<Rightarrow> (None, w')
      | (Answer status body, w') \<Rightarrow> (Some (status, body), w')
      | (TransportError, w') \<Rightarrow>
          if n = 0 \<or> cancelled w' then (None, w') else attempts_loop request cancelled n w')"

section \<open>NOOP and INFO_API\<close>

text \<open>The two collectors are the same function of the health verdict.\<close>

definition noop_Collect :: "(string \<Rightarrow> TrinoStatus) option \<Rightarrow> SimpleBackend \<Rightarrow> ClusterStats" where
  "noop_Collect status b =
     (case status of
        None \<Rightarrow> statsBuilder b
      | Some f \<Rightarrow> (statsBuilder b)\<lparr> cs_TrinoStatus := f (sb_URL b) \<rparr>)"

definition infoAPI_Collect :: "(string \<Rightarrow> TrinoStatus) option \<Rightarrow> SimpleBackend \<Rightarrow> ClusterStats" where
  "infoAPI_Collect status b =
     (case status of
        None \<Rightarrow> statsBuilder b
      | Some f \<Rightarrow> (statsBuilder b)\<lparr> cs_TrinoStatus := f (sb_URL b) \<rparr>)"

section \<open>UI_API\<close>

text \<open>The host a URL names, without its port: the text after \<^verbatim>\<open>://\<close> and any user information.\<close>

fun after_scheme :: "string \<Rightarrow> string" where
  "after_scheme [] = []"
| "after_scheme (c # cs) = (if prefix ''://'' (c # cs) then drop 2 cs else after_scheme cs)"

definition url_hostname :: "string \<Rightarrow> string" where
  "url_hostname u =
     (let authority = takeWhile (\<lambda>c. c \<notin> set ''/?#'') (after_scheme u);
          h = (case last_index_byte (CHR ''@'') authority of None \<Rightarrow> authority | Some i \<Rightarrow> drop (i + 1) authority)
      in if prefix ''['' h then takeWhile (\<lambda>c. c \<noteq> CHR '']'') h else takeWhile (\<lambda>c. c \<noteq> CHR '':'') h)"

type_synonym cookie_jar = "string \<Rightarrow> string option"

record uiStatsResponse =
  us_ActiveWorkers :: int
  us_RunningQueries :: int
  us_QueuedQueries :: int

text \<open>\<open>ue_login\<close> posts the form and gives the session cookie the answer sets, if it sets one; \<open>ue_get\<close>
  takes the cookie the jar has for the host and whether \<^verbatim>\<open>X-Forwarded-Proto\<close> is sent.\<close>

record 'w ui_env =
  ue_login :: "string \<Rightarrow> (string \<times> string) list \<Rightarrow> 'w \<Rightarrow> string option result \<times> 'w"
  ue_get :: "string \<Rightarrow> string option \<Rightarrow> bool \<Rightarrow> 'w \<Rightarrow> attempt \<times> 'w"
  ue_cancelled :: "'w \<Rightarrow> bool"
  ue_stats :: "string \<Rightarrow> uiStatsResponse option"
  ue_queries :: "string \<Rightarrow> string list option"

record uiAPICollector =
  ui_username :: string
  ui_password :: string
  ui_xForwarded :: bool
  ui_retries :: int
  ui_jar :: "cookie_jar option"
  ui_loggedIn :: bool

definition ensureLogin ::
  "'w ui_env \<Rightarrow> string \<Rightarrow> uiAPICollector \<Rightarrow> 'w \<Rightarrow> unit result \<times> uiAPICollector \<times> 'w" where
  "ensureLogin env proxyTo c w =
     (if ui_loggedIn c \<and> ui_jar c \<noteq> None then (Inr (), c, w)
      else (case ue_login env (proxyTo @ ''/ui/login'')
                   [(''username'', ui_username c), (''password'', ui_password c)] w of
              (Inl e, w') \<Rightarrow> (Inl e, c, w')
            | (Inr cookie, w') \<Rightarrow>
                (Inr (), c\<lparr> ui_jar := Some (\<lambda>h. if h = url_hostname proxyTo then cookie else None),
                            ui_loggedIn := True \<rparr>, w')))"

definition invalidateSession :: "uiAPICollector \<Rightarrow> uiAPICollector" where
  "invalidateSession c = c\<lparr> ui_loggedIn := False, ui_jar := None \<rparr>"

definition ui_get :: "'w ui_env \<Rightarrow> string \<Rightarrow> uiAPICollector \<Rightarrow> 'w \<Rightarrow> (string \<times> nat) \<times> 'w" where
  "ui_get env target c w =
     (let cookie = (case ui_jar c of None \<Rightarrow> None | Some j \<Rightarrow> j (url_hostname target)) in
      case attempts_loop (ue_get env target cookie (ui_xForwarded c)) (ue_cancelled env) (nat (ui_retries c + 1)) w of
        (None, w') \<Rightarrow> (([], 0), w')
      | (Some (status, body), w') \<Rightarrow> ((body, status), w'))"

definition drop_on_401 :: "nat \<Rightarrow> uiAPICollector \<Rightarrow> uiAPICollector" where
  "drop_on_401 status c = (if status = 401 then invalidateSession c else c)"

definition queued_by_user :: "string list \<Rightarrow> string \<Rightarrow> nat" where
  "queued_by_user users = fold (\<lambda>u m. m(u := m u + 1)) users (\<lambda>_. 0)"

definition with_ui_stats :: "uiStatsResponse \<Rightarrow> ClusterStats \<Rightarrow> ClusterStats" where
  "with_ui_stats st cs = cs\<lparr> cs_NumWorkerNodes := us_ActiveWorkers st, cs_RunningQueryCount := us_RunningQueries st,
     cs_QueuedQueryCount := us_QueuedQueries st,
     cs_TrinoStatus := (if us_ActiveWorkers st > 0 then StatusHealthy else StatusUnhealthy) \<rparr>"

definition ui_Collect ::
  "'w ui_env \<Rightarrow> SimpleBackend \<Rightarrow> uiAPICollector \<Rightarrow> 'w \<Rightarrow> ClusterStats \<times> uiAPICollector \<times> 'w" where
  "ui_Collect env b c w =
     (let cs = statsBuilder b in
      case ensureLogin env (sb_URL b) c w of
        (Inl _, c1, w1) \<Rightarrow> (cs, c1, w1)
      | (Inr _, c1, w1) \<Rightarrow>
          (case ui_get env (sb_URL b @ ''/ui/api/stats'') c1 w1 of
             ((body, status), w2) \<Rightarrow>
               (let c2 = drop_on_401 status c1 in
                if body = [] then (cs, c2, w2)
                else (case ue_stats env body of
                        None \<Rightarrow> (cs, c2, w2)
                      | Some st \<Rightarrow>
                          (let cs2 = with_ui_stats st cs in
                           case ui_get env (sb_URL b @ ''/ui/api/query?state=QUEUED'') c2 w2 of
                             ((qbody, qstatus), w3) \<Rightarrow>
                               (let c3 = drop_on_401 qstatus c2 in
                                if qbody = [] then (cs2, c3, w3)
                                else (case ue_queries env qbody of
                                        None \<Rightarrow> (cs2, c3, w3)
                                      | Some users \<Rightarrow>
                                          (cs2\<lparr> cs_UserQueuedCount := Some (queued_by_user users) \<rparr>, c3, w3))))))))"

section \<open>METRICS\<close>

text \<open>Floating point as the collector uses it: parsing, comparison, conversion to \<^verbatim>\<open>int\<close> and zero.\<close>

record 'f float_ops =
  fo_parse :: "string \<Rightarrow> 'f option"
  fo_less :: "'f \<Rightarrow> 'f \<Rightarrow> bool"
  fo_int :: "'f \<Rightarrow> int"
  fo_zero :: "'f"

record 'f MonitorConfig =
  mn_Interval :: int
  mn_CheckTimeout :: int
  mn_RefreshInterval :: int
  mn_StatsTimeout :: int
  mn_Retries :: int
  mn_MetricsEndpoint :: string
  mn_RunningQueriesMetricName :: string
  mn_QueuedQueriesMetricName :: string
  mn_MetricMinimumValues :: "(string \<times> 'f) list option"
  mn_MetricMaximumValues :: "(string \<times> 'f) list option"

record BackendStateConfig =
  bs_Username :: string
  bs_Password :: string
  bs_SSL :: bool
  bs_XForwardedProtoHeader :: bool

record 'f metricsCollector =
  mx_metricsEndpoint :: string
  mx_running :: string
  mx_queued :: string
  mx_minimum :: "(string \<times> 'f) list"
  mx_maximum :: "(string \<times> 'f) list"
  mx_names :: "string list"
  mx_authHeaderName :: string
  mx_authHeaderValue :: string
  mx_xForwarded :: bool
  mx_retries :: int

definition add_name :: "string list \<Rightarrow> string \<Rightarrow> string list" where
  "add_name names n = (if n = [] \<or> n \<in> set names then names else names @ [n])"

definition nil_map :: "'a list option \<Rightarrow> 'a list" where
  "nil_map m = (case m of None \<Rightarrow> [] | Some xs \<Rightarrow> xs)"

definition newMetricsCollector :: "'f MonitorConfig \<Rightarrow> BackendStateConfig \<Rightarrow> 'f metricsCollector" where
  "newMetricsCollector mon bs =
     (let mins = nil_map (mn_MetricMinimumValues mon); maxs = nil_map (mn_MetricMaximumValues mon) in
      \<lparr> mx_metricsEndpoint = mn_MetricsEndpoint mon, mx_running = mn_RunningQueriesMetricName mon,
        mx_queued = mn_QueuedQueriesMetricName mon, mx_minimum = mins, mx_maximum = maxs,
        mx_names = foldl add_name []
          ([mn_RunningQueriesMetricName mon, mn_QueuedQueriesMetricName mon] @ map fst mins @ map fst maxs),
        mx_authHeaderName = (if bs_Password bs \<noteq> [] then ''Authorization'' else ''X-Trino-User''),
        mx_authHeaderValue = (if bs_Password bs \<noteq> []
          then ''Basic '' @ std_encode (bs_Username bs @ '':'' @ bs_Password bs) else bs_Username bs),
        mx_xForwarded = bs_XForwardedProtoHeader bs, mx_retries = mn_Retries mon \<rparr>)"

text \<open>The samples of a body in order, the later of two samples of a name winning; a line without a space
  has no value.\<close>

definition metric_line :: "'f float_ops \<Rightarrow> string \<Rightarrow> (string \<times> 'f) option" where
  "metric_line fo line =
     (if prefix ''#'' line then None
      else (case str_cut (CHR '' '') line of
              None \<Rightarrow> None
            | Some (name, rest) \<Rightarrow> map_option (Pair name) (fo_parse fo (TrimSpace rest))))"

definition parse_samples :: "'f float_ops \<Rightarrow> string \<Rightarrow> (string \<times> 'f) list" where
  "parse_samples fo body = List.map_filter (metric_line fo) (split_on (CHR 0x0A) body)"

definition sample :: "(string \<times> 'f) list \<Rightarrow> string \<Rightarrow> 'f option" where
  "sample samples name = map_of (rev samples) name"

definition parseMetrics :: "'f float_ops \<Rightarrow> 'f metricsCollector \<Rightarrow> string \<Rightarrow> (string \<times> 'f) list" where
  "parseMetrics fo c body =
     (let out = parse_samples fo body in
      if list_all (\<lambda>name. sample out name \<noteq> None) (mx_names c) then out else [])"

definition metrics_target :: "'f metricsCollector \<Rightarrow> string \<Rightarrow> string" where
  "metrics_target c baseURL =
     (let target = TrimRight baseURL (CHR ''/'') @ mx_metricsEndpoint c;
          enc = Values_Encode (map (Pair ''name[]'') (mx_names c))
      in if enc = [] then target else target @ ''?'' @ enc)"

definition metrics_headers :: "'f metricsCollector \<Rightarrow> header" where
  "metrics_headers c =
     (let h = hdr_set (hdr_set (\<lambda>_. None) (mx_authHeaderName c) (mx_authHeaderValue c))
                ''Content-Type'' ''application/openmetrics-text; version=1.0.0; charset=utf-8''
      in if mx_xForwarded c then hdr_set h ''X-Forwarded-Proto'' ''https'' else h)"

text \<open>\<open>send target headers\<close> is one request.\<close>

definition getMetrics ::
  "'f float_ops \<Rightarrow> (string \<Rightarrow> header \<Rightarrow> 'w \<Rightarrow> attempt \<times> 'w) \<Rightarrow> ('w \<Rightarrow> bool)
    \<Rightarrow> 'f metricsCollector \<Rightarrow> string \<Rightarrow> 'w \<Rightarrow> (string \<times> 'f) list \<times> 'w" where
  "getMetrics fo send cancelled c baseURL w =
     (case attempts_loop (send (metrics_target c baseURL) (metrics_headers c)) cancelled (nat (mx_retries c + 1)) w of
        (None, w') \<Rightarrow> ([], w')
      | (Some (status, body), w') \<Rightarrow> (if status \<noteq> 200 then [] else parseMetrics fo c body, w'))"

definition stats_unhealthy :: "SimpleBackend \<Rightarrow> ClusterStats" where
  "stats_unhealthy b = (statsBuilder b)\<lparr> cs_TrinoStatus := StatusUnhealthy \<rparr>"

definition above_minimum :: "'f float_ops \<Rightarrow> (string \<times> 'f) list \<Rightarrow> string \<times> 'f \<Rightarrow> bool" where
  "above_minimum fo metrics lim =
     (case sample metrics (fst lim) of None \<Rightarrow> False | Some v \<Rightarrow> \<not> fo_less fo v (snd lim))"

definition below_maximum :: "'f float_ops \<Rightarrow> (string \<times> 'f) list \<Rightarrow> string \<times> 'f \<Rightarrow> bool" where
  "below_maximum fo metrics lim =
     (case sample metrics (fst lim) of None \<Rightarrow> False | Some v \<Rightarrow> \<not> fo_less fo (snd lim) v)"

definition int_sample :: "'f float_ops \<Rightarrow> (string \<times> 'f) list \<Rightarrow> string \<Rightarrow> int" where
  "int_sample fo metrics name =
     fo_int fo (case sample metrics name of None \<Rightarrow> fo_zero fo | Some v \<Rightarrow> v)"

definition metrics_Collect ::
  "'f float_ops \<Rightarrow> (string \<Rightarrow> header \<Rightarrow> 'w \<Rightarrow> attempt \<times> 'w) \<Rightarrow> ('w \<Rightarrow> bool)
    \<Rightarrow> SimpleBackend \<Rightarrow> 'f metricsCollector \<Rightarrow> 'w \<Rightarrow> ClusterStats \<times> 'w" where
  "metrics_Collect fo send cancelled b c w =
     (case getMetrics fo send cancelled c (sb_URL b) w of
        (metrics, w') \<Rightarrow>
          (if metrics = [] then stats_unhealthy b
           else if \<not> list_all (above_minimum fo metrics) (mx_minimum c) then stats_unhealthy b
           else if \<not> list_all (below_maximum fo metrics) (mx_maximum c) then stats_unhealthy b
           else (statsBuilder b)\<lparr> cs_TrinoStatus := StatusHealthy,
                  cs_RunningQueryCount := int_sample fo metrics (mx_running c),
                  cs_QueuedQueryCount := int_sample fo metrics (mx_queued c) \<rparr>, w'))"

section \<open>Selection\<close>

datatype 'f collector =
    NoopCollector | InfoAPICollector | UIAPICollector uiAPICollector | MetricsCollector "'f metricsCollector"

definition newUIAPICollector :: "'f MonitorConfig \<Rightarrow> BackendStateConfig \<Rightarrow> uiAPICollector" where
  "newUIAPICollector mon bs = \<lparr> ui_username = bs_Username bs, ui_password = bs_Password bs,
     ui_xForwarded = bs_XForwardedProtoHeader bs, ui_retries = mn_Retries mon, ui_jar = None, ui_loggedIn = False \<rparr>"

definition NewCollector :: "string \<Rightarrow> 'f MonitorConfig \<Rightarrow> BackendStateConfig \<Rightarrow> 'f collector result" where
  "NewCollector monitorType mon bs =
     (if monitorType = ''NOOP'' then Inr NoopCollector
      else if monitorType = [] \<or> monitorType = ''INFO_API'' then Inr InfoAPICollector
      else if monitorType = ''UI_API'' then Inr (UIAPICollector (newUIAPICollector mon bs))
      else if monitorType = ''METRICS'' then Inr (MetricsCollector (newMetricsCollector mon bs))
      else Inl (Failure (''clusterstats: monitor type '' @ monitorType @ '' not supported'')))"

definition Collect ::
  "'f float_ops \<Rightarrow> (string \<Rightarrow> header \<Rightarrow> 'w \<Rightarrow> attempt \<times> 'w) \<Rightarrow> 'w ui_env \<Rightarrow> (string \<Rightarrow> TrinoStatus)
    \<Rightarrow> SimpleBackend \<Rightarrow> 'f collector \<Rightarrow> 'w \<Rightarrow> ClusterStats \<times> 'f collector \<times> 'w" where
  "Collect fo send env status b c w =
     (case c of
        NoopCollector \<Rightarrow> (noop_Collect (Some status) b, c, w)
      | InfoAPICollector \<Rightarrow> (infoAPI_Collect (Some status) b, c, w)
      | UIAPICollector u \<Rightarrow>
          (case ui_Collect env b u w of (cs, u', w') \<Rightarrow> (cs, UIAPICollector u', w'))
      | MetricsCollector m \<Rightarrow>
          (case metrics_Collect fo send (ue_cancelled env) b m w of (cs, w') \<Rightarrow> (cs, c, w')))"

section \<open>Properties\<close>

text \<open>
  Against a server whose i-th answer is given, the retry loop makes requests until the first that is
  not a transport error and returns that answer, and makes no more than the allowed number; it gives
  up with nothing when all of them fail.
\<close>
theorem attempts_loop_spec:
  "attempts_loop (\<lambda>i. (script i, Suc i)) (\<lambda>_. False) n k =
     (case find (\<lambda>i. script i \<noteq> TransportError) [k..<k + n] of
        None \<Rightarrow> (None, k + n)
      | Some i \<Rightarrow> (case script i of Answer status body \<Rightarrow> (Some (status, body), Suc i) | _ \<Rightarrow> (None, Suc i)))"
proof (induction n arbitrary: k)
  case (Suc n)
  have r: "[k..<k + Suc n] = k # [Suc k..<Suc k + n]" by (simp add: upt_rec)
  show ?case
    unfolding r unfolding attempts_loop.simps find.simps add_Suc_shift[symmetric, of k n]
    using Suc.IH[of "Suc k"] by (cases "script k"; cases "n = 0") (simp_all del: upt_Suc)
qed simp

lemma attempts_loop_answer:
  assumes "attempts_loop request cancelled n w = (Some (status, body), w')"
  shows "\<exists>v. request v = (Answer status body, w')"
  using assms
proof (induction n arbitrary: w)
  case (Suc n)
  then show ?case by (fastforce split: prod.splits attempt.splits if_splits)
qed simp

lemma add_name_set: "set (foldl add_name names ns) = set names \<union> {n \<in> set ns. n \<noteq> []}"
  by (induction ns arbitrary: names) (auto simp: add_name_def)

lemma mx_names_set: "set (mx_names (newMetricsCollector mon bs)) =
    {n \<in> set ([mn_RunningQueriesMetricName mon, mn_QueuedQueriesMetricName mon]
               @ map fst (nil_map (mn_MetricMinimumValues mon)) @ map fst (nil_map (mn_MetricMaximumValues mon))). n \<noteq> []}"
  unfolding newMetricsCollector_def Let_def metricsCollector.select_convs add_name_set by simp

text \<open>What the configuration asks of the samples.\<close>

definition metrics_pass :: "'f float_ops \<Rightarrow> 'f MonitorConfig \<Rightarrow> (string \<times> 'f) list \<Rightarrow> bool" where
  "metrics_pass fo mon ms =
     (ms \<noteq> [] \<and>
      list_all (\<lambda>n. n = [] \<or> sample ms n \<noteq> None)
        [mn_RunningQueriesMetricName mon, mn_QueuedQueriesMetricName mon] \<and>
      list_all (\<lambda>l. (fst l = [] \<or> sample ms (fst l) \<noteq> None) \<and> above_minimum fo ms l)
        (nil_map (mn_MetricMinimumValues mon)) \<and>
      list_all (\<lambda>l. (fst l = [] \<or> sample ms (fst l) \<noteq> None) \<and> below_maximum fo ms l)
        (nil_map (mn_MetricMaximumValues mon)))"


text \<open>
  The credentials the METRICS collector sends are the configured ones: a server that reads them with
  \<^verbatim>\<open>BasicAuth\<close> sees the user name and the password, for any password and any user name without a colon.
\<close>
theorem metrics_credentials_round_trip:
  assumes "CHR '':'' \<notin> set (bs_Username bs)" and "bs_Password bs \<noteq> []"
    and "rq_Header r = metrics_headers (newMetricsCollector mon bs)"
  shows "BasicAuth r = Some (bs_Username bs, bs_Password bs)"
proof (rule BasicAuth_header[of "''Basic ''"])
  have k: "CanonicalHeaderKey ''Content-Type'' \<noteq> CanonicalHeaderKey ''Authorization''"
    "CanonicalHeaderKey ''X-Forwarded-Proto'' \<noteq> CanonicalHeaderKey ''Authorization''" by code_simp+
  show "hdr_get (rq_Header r) ''Authorization'' = ''Basic '' @ std_encode (bs_Username bs @ '':'' @ bs_Password bs)"
    using assms(2,3) k by (simp add: metrics_headers_def newMetricsCollector_def Let_def)
qed (simp_all add: EqualFold_def assms)

theorem metrics_credentials_round_trip_witness:
  "BasicAuth \<lparr> rq_Method = ''GET'', rq_RequestURI = ''/metrics'', rq_RawQuery = [], rq_RemoteAddr = [], rq_Host = [],
     rq_TLS = False, rq_Header = metrics_headers (newMetricsCollector
       (\<lparr> mn_Interval = 1, mn_CheckTimeout = 1, mn_RefreshInterval = 1, mn_StatsTimeout = 1, mn_Retries = 0,
          mn_MetricsEndpoint = ''/metrics'', mn_RunningQueriesMetricName = ''r'', mn_QueuedQueriesMetricName = ''q'',
          mn_MetricMinimumValues = None, mn_MetricMaximumValues = None \<rparr> :: int MonitorConfig)
       \<lparr> bs_Username = ''svc'', bs_Password = ''s:t'', bs_SSL = False, bs_XForwardedProtoHeader = True \<rparr>),
     rq_Form = None, rq_Path = ''/metrics'', rq_cookies = [], rq_body = Inr [] \<rparr> = Some (''svc'', ''s:t'')"
  by (rule metrics_credentials_round_trip[of
        "\<lparr> bs_Username = ''svc'', bs_Password = ''s:t'', bs_SSL = False, bs_XForwardedProtoHeader = True \<rparr>", simplified])
     simp_all

section \<open>One session for all backends\<close>

text \<open>
  The collector keeps one login for its lifetime and one jar.  Two backends on different hosts, each
  of which wants its own session: \<open>session_env\<close> is such a pair of servers, both up, with the given
  statistics.
\<close>

definition session_env :: "uiStatsResponse \<Rightarrow> string list \<Rightarrow> unit ui_env" where
  "session_env st users = \<lparr>
     ue_login = (\<lambda>target form w. (Inr (Some (url_hostname target)), w)),
     ue_get = (\<lambda>target cookie xfp w.
        (if cookie = Some (url_hostname target) then Answer 200 ''body'' else Answer 401 [], w)),
     ue_cancelled = (\<lambda>_. False), ue_stats = (\<lambda>_. Some st), ue_queries = (\<lambda>_. Some users) \<rparr>"

fun ui_collect_all ::
  "'w ui_env \<Rightarrow> SimpleBackend list \<Rightarrow> uiAPICollector \<Rightarrow> 'w \<Rightarrow> ClusterStats list \<times> uiAPICollector \<times> 'w" where
  "ui_collect_all env [] c w = ([], c, w)"
| "ui_collect_all env (b # bs) c w =
     (case ui_Collect env b c w of
        (cs, c1, w1) \<Rightarrow> (case ui_collect_all env bs c1 w1 of (css, c2, w2) \<Rightarrow> (cs # css, c2, w2)))"

fun ui_cycles :: "'w ui_env \<Rightarrow> SimpleBackend list \<Rightarrow> nat \<Rightarrow> uiAPICollector \<Rightarrow> 'w \<Rightarrow> ClusterStats list list" where
  "ui_cycles env bs 0 c w = []"
| "ui_cycles env bs (Suc n) c w =
     (case ui_collect_all env bs c w of (css, c', w') \<Rightarrow> css # ui_cycles env bs n c' w')"

lemma after_scheme_long: "after_scheme u \<noteq> [] \<Longrightarrow> 3 < length u"
  by (induction u rule: after_scheme.induct) (auto simp: prefix_def split: if_splits)

lemma after_scheme_append: "after_scheme u \<noteq> [] \<Longrightarrow> after_scheme (u @ p) = after_scheme u @ p"
proof (induction u rule: after_scheme.induct)
  case (2 c cs)
  show ?case
  proof (cases "prefix ''://'' (c # cs)")
    case False
    then have ne: "after_scheme cs \<noteq> []" using 2 by (auto split: if_splits)
    obtain x y zs where "cs = x # y # zs"
      using after_scheme_long[OF ne] by (cases cs; cases "tl cs") auto
    then have "\<not> prefix ''://'' (c # cs @ p)" using False by simp
    then show ?thesis using False 2(1)[OF False ne] by (simp only: append_Cons after_scheme.simps(2) if_False)
  qed (auto simp: prefix_def)
qed simp

lemma takeWhile_sep: "x \<in> A \<Longrightarrow> takeWhile (\<lambda>c. c \<notin> A) (u @ x # p) = takeWhile (\<lambda>c. c \<notin> A) u"
  by (induction u) auto

lemma url_hostname_path:
  assumes "after_scheme u \<noteq> []"
  shows "url_hostname (u @ CHR ''/'' # p) = url_hostname u"
proof -
  have "takeWhile (\<lambda>c. c \<notin> set ''/?#'') (after_scheme u @ CHR ''/'' # p) =
      takeWhile (\<lambda>c. c \<notin> set ''/?#'') (after_scheme u)"
    by (rule takeWhile_sep) simp
  then show ?thesis unfolding url_hostname_def after_scheme_append[OF assms] by (simp only:)
qed

lemma attempts_loop_first:
  "request w = (Answer s b, w') \<Longrightarrow> 0 < n \<Longrightarrow> attempts_loop request cancelled n w = (Some (s, b), w')"
  by (cases n) simp_all

lemma ui_get_session:
  assumes "after_scheme u \<noteq> []" and "0 \<le> ui_retries c"
  shows "ui_get (session_env st users) (u @ CHR ''/'' # p) c w =
    (if (case ui_jar c of None \<Rightarrow> None | Some j \<Rightarrow> j (url_hostname u)) = Some (url_hostname u)
     then (''body'', 200) else ([], 401), w)"
  using assms(2)
  by (simp add: ui_get_def Let_def url_hostname_path[OF assms(1)])
     (simp add: session_env_def attempts_loop_first url_hostname_path[OF assms(1)] split: option.split)

definition session_of :: "SimpleBackend \<Rightarrow> uiAPICollector \<Rightarrow> uiAPICollector" where
  "session_of b c = c\<lparr> ui_jar := Some (\<lambda>h. if h = url_hostname (sb_URL b) then Some (url_hostname (sb_URL b)) else None),
     ui_loggedIn := True \<rparr>"

lemma session_of_simps [simp]:
  "ui_retries (session_of b c) = ui_retries c" "ui_loggedIn (session_of b c)"
  "ui_jar (session_of b c) = Some (\<lambda>h. if h = url_hostname (sb_URL b) then Some (url_hostname (sb_URL b)) else None)"
  "invalidateSession (session_of b c) = invalidateSession c"
  by (simp_all add: session_of_def invalidateSession_def)

definition full_stats :: "uiStatsResponse \<Rightarrow> string list \<Rightarrow> SimpleBackend \<Rightarrow> ClusterStats" where
  "full_stats st users b = (with_ui_stats st (statsBuilder b))\<lparr> cs_UserQueuedCount := Some (queued_by_user users) \<rparr>"

lemma session_env_decode [simp]:
  "ue_stats (session_env st users) body = Some st" "ue_queries (session_env st users) body = Some users"
  by (simp_all add: session_env_def)

lemma ui_Collect_login:
  assumes "after_scheme (sb_URL b) \<noteq> []" and "0 \<le> ui_retries c" and "\<not> (ui_loggedIn c \<and> ui_jar c \<noteq> None)"
  shows "ui_Collect (session_env st users) b c () = (full_stats st users b, session_of b c, ())"
proof -
  have l: "ensureLogin (session_env st users) (sb_URL b) c () = (Inr (), session_of b c, ())"
    using assms(3) url_hostname_path[OF assms(1), of "''ui/login''"]
    by (auto simp: ensureLogin_def session_env_def session_of_def)
  have g: "ui_get (session_env st users) (sb_URL b @ CHR ''/'' # p) (session_of b c) () = ((''body'', 200), ())" for p
    using ui_get_session[OF assms(1), of "session_of b c" st users] assms(2) by simp
  show ?thesis
    by (simp add: ui_Collect_def Let_def l g drop_on_401_def full_stats_def)
qed

lemma ui_Collect_other_session:
  assumes "after_scheme (sb_URL b) \<noteq> []" and "0 \<le> ui_retries c"
    and "url_hostname (sb_URL a) \<noteq> url_hostname (sb_URL b)"
  shows "ui_Collect (session_env st users) b (session_of a c) () = (statsBuilder b, invalidateSession c, ())"
proof -
  have g: "ui_get (session_env st users) (sb_URL b @ CHR ''/'' # p) (session_of a c) () = (([], 401), ())" for p
    using ui_get_session[OF assms(1), of "session_of a c" st users] assms(2,3) by auto
  have l: "ensureLogin (session_env st users) (sb_URL b) (session_of a c) () = (Inr (), session_of a c, ())"
    by (simp add: ensureLogin_def)
  show ?thesis
    by (simp add: ui_Collect_def Let_def l g drop_on_401_def)
qed

text \<open>
  With two backends on different hosts the UI_API collector never collects the second: in every
  cycle that visits them in this order, the login made for the first is taken for the second too, which
  answers 401 and is reported without statistics although it is up, and the session is dropped.
\<close>
theorem second_backend_never_collected:
  assumes "after_scheme (sb_URL a) \<noteq> []" and "after_scheme (sb_URL b) \<noteq> []"
    and "url_hostname (sb_URL a) \<noteq> url_hostname (sb_URL b)" and "0 \<le> mn_Retries mon"
  shows "ui_cycles (session_env st users) [a, b] n (newUIAPICollector mon bs) () =
    replicate n [full_stats st users a, statsBuilder b]"
proof -
  have "ui_cycles (session_env st users) [a, b] n c () = replicate n [full_stats st users a, statsBuilder b]"
    if "0 \<le> ui_retries c" "\<not> ui_loggedIn c" for c
    using that
  proof (induction n arbitrary: c)
    case (Suc n)
    have "0 \<le> ui_retries (invalidateSession c)" "\<not> ui_loggedIn (invalidateSession c)"
      using Suc.prems by (simp_all add: invalidateSession_def)
    then show ?case
      using Suc.IH[of "invalidateSession c"] Suc.prems assms ui_Collect_login[of a c] ui_Collect_other_session[of b c a]
      by simp
  qed simp
  then show ?thesis using assms(4) by (simp add: newUIAPICollector_def)
qed

theorem second_backend_never_collected_witness:
  "ui_cycles (session_env \<lparr> us_ActiveWorkers = 3, us_RunningQueries = 5, us_QueuedQueries = 1 \<rparr> [''ann''])
     [\<lparr> sb_Name = ''a'', sb_URL = ''http://a:8080'', sb_ExternalURL = [], sb_RoutingGroup = ''adhoc'' \<rparr>,
      \<lparr> sb_Name = ''b'', sb_URL = ''http://b:8080'', sb_ExternalURL = [], sb_RoutingGroup = ''adhoc'' \<rparr>] 7
     (newUIAPICollector (\<lparr> mn_Interval = 1, mn_CheckTimeout = 1, mn_RefreshInterval = 1, mn_StatsTimeout = 1, mn_Retries = 0,
          mn_MetricsEndpoint = ''/metrics'', mn_RunningQueriesMetricName = ''r'', mn_QueuedQueriesMetricName = ''q'',
          mn_MetricMinimumValues = None, mn_MetricMaximumValues = None \<rparr> :: int MonitorConfig)
       \<lparr> bs_Username = ''svc'', bs_Password = ''s:t'', bs_SSL = False, bs_XForwardedProtoHeader = True \<rparr>) () =
   replicate 7 [full_stats \<lparr> us_ActiveWorkers = 3, us_RunningQueries = 5, us_QueuedQueries = 1 \<rparr> [''ann'']
       \<lparr> sb_Name = ''a'', sb_URL = ''http://a:8080'', sb_ExternalURL = [], sb_RoutingGroup = ''adhoc'' \<rparr>,
     statsBuilder \<lparr> sb_Name = ''b'', sb_URL = ''http://b:8080'', sb_ExternalURL = [], sb_RoutingGroup = ''adhoc'' \<rparr>]"
  by (rule second_backend_never_collected) (code_simp+)

end
