(* ===== verification/Cookie.thy ===== *)
theory Cookie
  imports Selectors Base64
begin

text \<open>
  The \<^verbatim>\<open>TG.OAUTH2\<close> cookie (\<^verbatim>\<open>internal/proxy/cookie.go\<close>).  HMAC-SHA256, the JSON text of the two
  structs and the floating-point formatting of a duration are parameters, gathered in
  \<open>cookie_codec\<close>; base64, hex and decimals are those of theory \<open>Base64\<close>.  Times and durations are
  nanoseconds; the current time is an argument.
\<close>

section \<open>Types\<close>

record CookieConfig =
  ck_Secret :: string
  ck_TTL :: int
  ck_WireCompat :: bool

record UnsignedGatewayCookie =
  uc_Backend :: "string option"
  uc_DeletePaths :: "string list option"
  uc_Name :: string
  uc_Payload :: "string option"
  uc_Priority :: int
  uc_RoutingPaths :: "string list option"
  uc_Ts :: int
  uc_Ttl :: string

record GatewayCookie =
  gc_Backend :: "string option"
  gc_DeletePaths :: "string list option"
  gc_Name :: string
  gc_Payload :: "string option"
  gc_Priority :: int
  gc_RoutingPaths :: "string list option"
  gc_Signature :: string
  gc_Ts :: int
  gc_Ttl :: string

text \<open>The \<^verbatim>\<open>http.Cookie\<close> fields the gateway sets, and what it has put on a response so far.\<close>

record http_cookie =
  hc_Name :: string
  hc_Value :: string
  hc_Path :: string
  hc_MaxAge :: int
  hc_HttpOnly :: bool
  hc_SameSiteLax :: bool

record response_writer =
  rw_Header :: header
  rw_cookies :: "http_cookie list"

record cookie_codec =
  cc_hmac :: "string \<Rightarrow> string \<Rightarrow> string"
  cc_marshal_unsigned :: "UnsignedGatewayCookie \<Rightarrow> string"
  cc_marshal :: "GatewayCookie \<Rightarrow> string"
  cc_unmarshal :: "string \<Rightarrow> GatewayCookie option"
  cc_fmt2 :: "int \<Rightarrow> int \<Rightarrow> string"
  cc_ParseDuration :: "string \<Rightarrow> int option"
  cc_scan_f_mul :: "string \<Rightarrow> int \<Rightarrow> int option"

section \<open>Durations\<close>

definition airlift_units :: "(int \<times> string) list" where
  "airlift_units = [(86400000000000, ''d''), (3600000000000, ''h''), (60000000000, ''m''),
     (1000000000, ''s''), (1000000, ''ms''), (1000, ''us''), (1, ''ns'')]"

text \<open>The first unit that is at most the duration, two decimals; \<open>cc_fmt2 nanos div\<close> prints the
  quotient.\<close>

definition airliftDurationString :: "cookie_codec \<Rightarrow> int \<Rightarrow> string" where
  "airliftDurationString cc d =
     (case find (\<lambda>(u, _). u \<le> d) airlift_units of
        Some (u, name) \<Rightarrow> cc_fmt2 cc d u @ name
      | None \<Rightarrow> cc_fmt2 cc d 1 @ ''ns'')"

definition formatTTL :: "cookie_codec \<Rightarrow> CookieConfig \<Rightarrow> int \<Rightarrow> string" where
  "formatTTL cc cfg d = (if ck_WireCompat cfg then airliftDurationString cc d else dec_int d)"

definition ttl_suffixes :: "(string \<times> int) list" where
  "ttl_suffixes = [(''d'', 86400000000000), (''h'', 3600000000000), (''ms'', 1000000), (''us'', 1000),
     (''ns'', 1), (''m'', 60000000000), (''s'', 1000000000)]"

fun parse_suffixes :: "cookie_codec \<Rightarrow> string \<Rightarrow> (string \<times> int) list \<Rightarrow> int" where
  "parse_suffixes cc s [] = 0"
| "parse_suffixes cc s ((sfx, unit) # us) =
     (if suffix sfx s then
        (case cc_scan_f_mul cc (TrimSuffix s sfx) unit of
           Some d \<Rightarrow> d | None \<Rightarrow> parse_suffixes cc s us)
      else parse_suffixes cc s us)"

definition parseTTL :: "cookie_codec \<Rightarrow> string \<Rightarrow> int" where
  "parseTTL cc s =
     (case (if list_ex (\<lambda>c. c \<in> set ''dhms'') s then None else Sscanf_d s) of
        Some ns \<Rightarrow> ns
      | None \<Rightarrow>
          (case cc_ParseDuration cc s of
             Some d \<Rightarrow> d
           | None \<Rightarrow> parse_suffixes cc s ttl_suffixes))"

text \<open>\<^verbatim>\<open>time.Time.Sub\<close> saturates at the bounds of a 64-bit duration.\<close>

definition time_Sub :: "int \<Rightarrow> int \<Rightarrow> int" where
  "time_Sub t u = max (- (2 ^ 63)) (min (2 ^ 63 - 1) (t - u))"

section \<open>Signing and encoding\<close>

definition cookieName :: string where
  "cookieName = ''TG.OAUTH2''"

definition sign :: "cookie_codec \<Rightarrow> CookieConfig \<Rightarrow> UnsignedGatewayCookie \<Rightarrow> string" where
  "sign cc cfg u = hex_encode (cc_hmac cc (ck_Secret cfg) (cc_marshal_unsigned cc u))"

definition encodeCookie :: "cookie_codec \<Rightarrow> CookieConfig \<Rightarrow> GatewayCookie \<Rightarrow> string" where
  "encodeCookie cc cfg gc = b64_encode (ck_WireCompat cfg) (cc_marshal cc gc)"

definition decodeCookie :: "CookieConfig \<Rightarrow> string \<Rightarrow> string option" where
  "decodeCookie cfg value = b64_decode (ck_WireCompat cfg) value"

definition unsigned_part :: "GatewayCookie \<Rightarrow> UnsignedGatewayCookie" where
  "unsigned_part gc = \<lparr> uc_Backend = gc_Backend gc, uc_DeletePaths = gc_DeletePaths gc,
     uc_Name = gc_Name gc, uc_Payload = gc_Payload gc, uc_Priority = gc_Priority gc,
     uc_RoutingPaths = gc_RoutingPaths gc, uc_Ts = gc_Ts gc, uc_Ttl = gc_Ttl gc \<rparr>"

definition signed :: "UnsignedGatewayCookie \<Rightarrow> string \<Rightarrow> GatewayCookie" where
  "signed u sig = \<lparr> gc_Backend = uc_Backend u, gc_DeletePaths = uc_DeletePaths u,
     gc_Name = uc_Name u, gc_Payload = uc_Payload u, gc_Priority = uc_Priority u,
     gc_RoutingPaths = uc_RoutingPaths u, gc_Signature = sig, gc_Ts = uc_Ts u, gc_Ttl = uc_Ttl u \<rparr>"

definition fresh_cookie ::
  "cookie_codec \<Rightarrow> CookieConfig \<Rightarrow> int \<Rightarrow> string \<Rightarrow> UnsignedGatewayCookie" where
  "fresh_cookie cc cfg now backendURL = \<lparr> uc_Backend = Some backendURL,
     uc_DeletePaths = Some [''/logout'', ''/oauth2/logout''], uc_Name = cookieName,
     uc_Payload = None, uc_Priority = 0,
     uc_RoutingPaths = Some [''/oauth2'', ''/logout'', ''/oauth2/logout''],
     uc_Ts = now div 1000000, uc_Ttl = formatTTL cc cfg (ck_TTL cfg) \<rparr>"

definition cookie_value :: "cookie_codec \<Rightarrow> CookieConfig \<Rightarrow> int \<Rightarrow> string \<Rightarrow> string" where
  "cookie_value cc cfg now backendURL =
     (let u = fresh_cookie cc cfg now backendURL
      in encodeCookie cc cfg (signed u (sign cc cfg u)))"

definition SetCookie :: "http_cookie \<Rightarrow> response_writer \<Rightarrow> response_writer" where
  "SetCookie c w = w\<lparr> rw_cookies := rw_cookies w @ [c] \<rparr>"

definition issueCookie ::
  "cookie_codec \<Rightarrow> CookieConfig \<Rightarrow> int \<Rightarrow> string \<Rightarrow> response_writer \<Rightarrow> response_writer" where
  "issueCookie cc cfg now backendURL w =
     SetCookie \<lparr> hc_Name = cookieName, hc_Value = cookie_value cc cfg now backendURL, hc_Path = ''/'',
       hc_MaxAge = go_div (go_div (ck_TTL cfg) 1000000) 1000, hc_HttpOnly = True, hc_SameSiteLax = True \<rparr> w"

definition deleteCookie :: "response_writer \<Rightarrow> response_writer" where
  "deleteCookie w = SetCookie \<lparr> hc_Name = cookieName, hc_Value = ''delete'', hc_Path = ''/'',
     hc_MaxAge = - 1, hc_HttpOnly = False, hc_SameSiteLax = False \<rparr> w"

definition matchesAny :: "string \<Rightarrow> string list \<Rightarrow> bool" where
  "matchesAny path paths = list_ex (\<lambda>p. p = path) paths"

text \<open>\<^verbatim>\<open>(valid, deletePaths, tampered)\<close>.\<close>

definition validateCookie ::
  "cookie_codec \<Rightarrow> CookieConfig \<Rightarrow> int \<Rightarrow> string \<Rightarrow> bool \<times> string list option \<times> bool" where
  "validateCookie cc cfg now value =
     (case decodeCookie cfg value of
        None \<Rightarrow> (False, None, True)
      | Some raw \<Rightarrow>
          (case cc_unmarshal cc raw of
             None \<Rightarrow> (False, None, True)
           | Some gc \<Rightarrow>
               if sign cc cfg (unsigned_part gc) \<noteq> gc_Signature gc then (False, None, True)
               else
                 (let ttl = parseTTL cc (gc_Ttl gc)
                  in if ttl > 0 \<and> time_Sub now (gc_Ts gc * 1000000) > ttl then (False, None, False)
                     else (True, gc_DeletePaths gc, False))))"

definition applyCookies ::
  "cookie_codec \<Rightarrow> CookieConfig \<Rightarrow> int \<Rightarrow> http_request \<Rightarrow> string \<Rightarrow> response_writer
     \<Rightarrow> bool \<times> response_writer" where
  "applyCookies cc cfg now r backendURL w =
     (if ck_Secret cfg = [] then (True, w)
      else (case map_of (rq_cookies r) cookieName of
          Some value \<Rightarrow>
            (let (valid, deletePaths, tampered) = validateCookie cc cfg now value
             in if tampered then (False, w)
                else if \<not> valid then (True, deleteCookie w)
                else if matchesAny (rq_Path r) (case deletePaths of None \<Rightarrow> [] | Some ps \<Rightarrow> ps)
                then (True, deleteCookie w)
                else (True, w))
        | None \<Rightarrow>
            if prefix ''/oauth2'' (rq_Path r) then (True, issueCookie cc cfg now backendURL w)
            else (True, w)))"

section \<open>Properties\<close>

lemma unsigned_signed [simp]: "unsigned_part (signed u sig) = u" "gc_Signature (signed u sig) = sig"
    "gc_Ttl (signed u sig) = uc_Ttl u" "gc_Ts (signed u sig) = uc_Ts u"
    "gc_DeletePaths (signed u sig) = uc_DeletePaths u"
  by (simp_all add: unsigned_part_def signed_def)

lemma decode_encode: "decodeCookie cfg (encodeCookie cc cfg gc) = Some (cc_marshal cc gc)"
  by (simp add: decodeCookie_def encodeCookie_def b64_decode_encode)

lemma parseTTL_dec_int:
  assumes "int64 d"
  shows "parseTTL cc (dec_int d) = d"
proof -
  have "\<not> is_digit c" if "c \<in> set ''dhms''" for c using that by (auto simp: is_digit_def byte_def)
  moreover have "CHR ''-'' \<notin> set ''dhms''" by simp
  ultimately have "\<not> list_ex (\<lambda>c. c \<in> set ''dhms'') (dec_int d)"
    unfolding list_ex_iff using dec_int_chars by blast
  then show ?thesis using Sscanf_d_dec_int[OF assms] by (simp add: parseTTL_def)
qed

text \<open>JSON encoding of the cookie struct followed by decoding gives the struct back; \<^verbatim>\<open>encoding/json\<close>
  promises it for a struct of this type whose strings are valid UTF-8.\<close>

definition json_round_trip :: "cookie_codec \<Rightarrow> GatewayCookie \<Rightarrow> bool" where
  "json_round_trip cc gc = (cc_unmarshal cc (cc_marshal cc gc) = Some gc)"

definition issued :: "cookie_codec \<Rightarrow> CookieConfig \<Rightarrow> int \<Rightarrow> string \<Rightarrow> GatewayCookie" where
  "issued cc cfg t backend =
     signed (fresh_cookie cc cfg t backend) (sign cc cfg (fresh_cookie cc cfg t backend))"

lemma validate_fresh:
  assumes "json_round_trip cc (issued cc cfg t backend)" "u = fresh_cookie cc cfg t backend"
  shows "validateCookie cc cfg now (cookie_value cc cfg t backend) =
    (if parseTTL cc (uc_Ttl u) > 0 \<and> time_Sub now (uc_Ts u * 1000000) > parseTTL cc (uc_Ttl u)
     then (False, None, False)
     else (True, Some [''/logout'', ''/oauth2/logout''], False))"
  using assms
  by (simp add: validateCookie_def cookie_value_def decode_encode json_round_trip_def issued_def
      fresh_cookie_def Let_def)

text \<open>
  A cookie the gateway issues is accepted exactly until its lifetime is over.  With nanosecond
  lifetimes (wire compatibility off) the cookie issued at time \<open>t\<close> is valid at \<open>now\<close>, and carries the
  two logout paths, if and only if no more than the configured lifetime has passed since the start of
  the millisecond of \<open>t\<close>; afterwards it is expired, never tampered.
\<close>
theorem cookie_lifetime:
  assumes "json_round_trip cc (issued cc cfg t backend)" and "\<not> ck_WireCompat cfg"
    and "0 < ck_TTL cfg" and "ck_TTL cfg < 2 ^ 63 - 1"
  shows "validateCookie cc cfg now (cookie_value cc cfg t backend) =
    (if now - t div 1000000 * 1000000 \<le> ck_TTL cfg
     then (True, Some [''/logout'', ''/oauth2/logout''], False)
     else (False, None, False))"
proof -
  have "parseTTL cc (uc_Ttl (fresh_cookie cc cfg t backend)) = ck_TTL cfg"
    using assms by (simp add: fresh_cookie_def formatTTL_def parseTTL_dec_int int64_def)
  moreover have "time_Sub now u > ck_TTL cfg \<longleftrightarrow> now - u > ck_TTL cfg" for u
    using assms(3,4) by (auto simp: time_Sub_def)
  ultimately show ?thesis
    using validate_fresh[OF assms(1) refl, of now] assms(3)
    by (auto simp: fresh_cookie_def)
qed

text \<open>
  Only signed cookies are accepted.  A value that is not reported as tampered is the encoding of
  a cookie whose signature is the HMAC of its other fields under the configured secret; every other
  value, an undecodable one included, is reported as tampered.
\<close>
theorem cookie_authentic:
  "\<not> snd (snd (validateCookie cc cfg now value)) \<longleftrightarrow>
   (\<exists>raw gc. decodeCookie cfg value = Some raw \<and> cc_unmarshal cc raw = Some gc \<and>
      gc_Signature gc = hex_encode (cc_hmac cc (ck_Secret cfg) (cc_marshal_unsigned cc (unsigned_part gc))))"
  by (auto simp: validateCookie_def sign_def Let_def split: option.splits)

text \<open>
  A cookie is issued only on the OAuth paths, to a client that has none; a tampered cookie stops
  the request and changes nothing on the response; without a secret cookies are ignored.
\<close>
theorem applyCookies_effect:
  assumes "applyCookies cc cfg now r backend w = (ok, w')"
  shows "(ok \<longleftrightarrow> \<not> (ck_Secret cfg \<noteq> [] \<and> (\<exists>v. map_of (rq_cookies r) cookieName = Some v \<and>
             snd (snd (validateCookie cc cfg now v)))))
    \<and> (\<not> ok \<longrightarrow> w' = w)
    \<and> (w' \<noteq> w \<longrightarrow> w' = deleteCookie w \<or>
        (w' = issueCookie cc cfg now backend w \<and> prefix ''/oauth2'' (rq_Path r) \<and>
         map_of (rq_cookies r) cookieName = None))"
  using assms by (auto simp: applyCookies_def Let_def split: if_splits option.splits prod.splits)

section \<open>A concrete cookie\<close>

text \<open>A text codec for the cookies the gateway issues: four fields between bars.\<close>

definition demo_unmarshal :: "string \<Rightarrow> GatewayCookie option" where
  "demo_unmarshal s = (case split_on (CHR ''|'') s of
     [b, sig, ts, ttl] \<Rightarrow> map_option (\<lambda>n. signed \<lparr> uc_Backend = Some b,
        uc_DeletePaths = Some [''/logout'', ''/oauth2/logout''], uc_Name = cookieName,
        uc_Payload = None, uc_Priority = 0,
        uc_RoutingPaths = Some [''/oauth2'', ''/logout'', ''/oauth2/logout''], uc_Ts = n, uc_Ttl = ttl \<rparr> sig)
        (Sscanf_d ts)
   | _ \<Rightarrow> None)"

definition demo_codec :: cookie_codec where
  "demo_codec = \<lparr> cc_hmac = (\<lambda>k m. take 4 (rev (k @ m))),
     cc_marshal_unsigned = (\<lambda>u. uc_Ttl u @ dec_int (uc_Ts u)),
     cc_marshal = (\<lambda>gc. join ''|'' [case gc_Backend gc of None \<Rightarrow> [] | Some b \<Rightarrow> b, gc_Signature gc,
                                    dec_int (gc_Ts gc), gc_Ttl gc]),
     cc_unmarshal = demo_unmarshal, cc_fmt2 = (\<lambda>n d. dec_int (n div d)),
     cc_ParseDuration = (\<lambda>_. None), cc_scan_f_mul = (\<lambda>_ _. None) \<rparr>"

definition demo_cookie_cfg :: CookieConfig where
  "demo_cookie_cfg = \<lparr> ck_Secret = ''k'', ck_TTL = 5000000, ck_WireCompat = False \<rparr>"

lemma digit_chars:
  "char_of (48 :: nat) = CHR ''0''" "char_of (51 :: nat) = CHR ''3''" "char_of (53 :: nat) = CHR ''5''"
  by (simp_all add: char_of_def bit_0)

lemma demo_codec_round_trip:
  "json_round_trip demo_codec (issued demo_codec demo_cookie_cfg 3000000 ''http://b'')"
  by (simp add: json_round_trip_def issued_def signed_def fresh_cookie_def sign_def demo_codec_def
      demo_cookie_cfg_def demo_unmarshal_def formatTTL_def dec_int_def dec_nat.simps hex_encode_def
      hex_digit_def byte_def Sscanf_d_def Let_def is_space_def is_digit_def digits_val_def int64_def
      cookieName_def digit_chars)

theorem cookie_lifetime_witness:
  "validateCookie demo_codec demo_cookie_cfg 7000000
     (cookie_value demo_codec demo_cookie_cfg 3000000 ''http://b'') =
     (True, Some [''/logout'', ''/oauth2/logout''], False)
   \<and> validateCookie demo_codec demo_cookie_cfg 9000000
     (cookie_value demo_codec demo_cookie_cfg 3000000 ''http://b'') = (False, None, False)"
  using cookie_lifetime[OF demo_codec_round_trip, of 7000000] cookie_lifetime[OF demo_codec_round_trip, of 9000000]
  by (simp add: demo_cookie_cfg_def)

definition demo_http_req :: "string \<Rightarrow> (string \<times> string) list \<Rightarrow> http_request" where
  "demo_http_req path cookies = \<lparr> rq_Method = ''GET'', rq_RequestURI = path, rq_RawQuery = [],
     rq_RemoteAddr = ''10.0.0.1:999'', rq_Host = ''gw:8080'', rq_TLS = False, rq_Header = (\<lambda>_. None),
     rq_Form = None, rq_Path = path, rq_cookies = cookies, rq_body = Inr [] \<rparr>"

definition empty_writer :: response_writer where
  "empty_writer = \<lparr> rw_Header = (\<lambda>_. None), rw_cookies = [] \<rparr>"

theorem applyCookies_effect_witness:
  "\<exists>w. applyCookies demo_codec demo_cookie_cfg 0 (demo_http_req ''/x'' [(''TG.OAUTH2'', ''!'')]) ''http://b''
     empty_writer = (False, w) \<and> w = empty_writer"
proof -
  have e: "fst (applyCookies demo_codec demo_cookie_cfg 0 (demo_http_req ''/x'' [(''TG.OAUTH2'', ''!'')])
     ''http://b'' empty_writer) = False"
    by (simp add: applyCookies_def demo_cookie_cfg_def demo_http_req_def cookieName_def validateCookie_def
        decodeCookie_def b64_decode_def byte_def)
  then obtain w where "applyCookies demo_codec demo_cookie_cfg 0
     (demo_http_req ''/x'' [(''TG.OAUTH2'', ''!'')]) ''http://b'' empty_writer = (False, w)"
    by (metis prod.collapse)
  then show ?thesis using applyCookies_effect by blast
qed

section \<open>Integrity\<close>

text \<open>The cookie a value carries, if it carries one.\<close>

definition carried :: "cookie_codec \<Rightarrow> CookieConfig \<Rightarrow> string \<Rightarrow> GatewayCookie option" where
  "carried cc cfg value = Option.bind (decodeCookie cfg value) (cc_unmarshal cc)"

lemma validate_carried:
  "validateCookie cc cfg now value = (case carried cc cfg value of
     None \<Rightarrow> (False, None, True)
   | Some gc \<Rightarrow> if sign cc cfg (unsigned_part gc) \<noteq> gc_Signature gc then (False, None, True)
       else let ttl = parseTTL cc (gc_Ttl gc) in
         if ttl > 0 \<and> time_Sub now (gc_Ts gc * 1000000) > ttl then (False, None, False) else (True, gc_DeletePaths gc, False))"
  by (cases "decodeCookie cfg value") (simp_all add: validateCookie_def carried_def)



end
