(* ===== verification/Gateway_Config.thy ===== *)
theory Gateway_Config
  imports Cluster_Stats Cookie
begin

text \<open>
  Configuration of the gateway (\<^verbatim>\<open>internal/config/config.go\<close>) and what \<^verbatim>\<open>cmd/trino-goway/main.go\<close> builds
  from it.  YAML decoding is a parameter that merges a document into a configuration.  Durations are
  nanoseconds; thresholds are values of the float type \<open>'f\<close>.
\<close>

section \<open>Data\<close>

record ProxySection =
  gp_Port :: int
  gp_ResponseSize :: int
  gp_RequestTimeout :: int
  gp_PropagateErrors :: bool

record DBConfig =
  gd_Driver :: string
  gd_DSN :: string
  gd_AutoMigrate :: bool

record RoutingSection =
  gr_DefaultGroup :: string
  gr_Type :: string
  gr_URL :: string
  gr_GRPCAddr :: string
  gr_Timeout :: int
  gr_ExcludeHeaders :: "string list"

record AuthConfig =
  ga_Type :: string
  ga_OIDC :: OIDCConfig
  ga_JWKSURL :: string
  ga_JWKSTTLSecs :: int
  ga_LDAP :: LDAPConfig
  ga_Authorization :: AuthorizationConfig

record 'f Config =
  gc_Proxy :: ProxySection
  gc_AdminPort :: int
  gc_Monitor :: "'f MonitorConfig"
  gc_DB :: DBConfig
  gc_Routing :: RoutingSection
  gc_Auth :: AuthConfig
  gc_Cookie :: CookieConfig
  gc_MetricsEnabled :: bool
  gc_MetricsPath :: string
  gc_DisablePages :: "string list"
  gc_MonitorType :: string
  gc_BackendState :: BackendStateConfig

definition second :: int where "second = 1000000000"

section \<open>Sizes\<close>

text \<open>The pattern of a size: digits, an optional fraction, white space, letters.  The result is the text
  of the number and the unit.\<close>

definition is_letter :: "char \<Rightarrow> bool" where
  "is_letter c = (is_lower c \<or> is_upper c)"

definition size_space :: "char \<Rightarrow> bool" where
  "size_space c = (byte c \<in> {9, 10, 12, 13, 32})"

definition match_number :: "string \<Rightarrow> (string \<times> string) option" where
  "match_number s =
     (let ds = takeWhile is_digit s; rest = dropWhile is_digit s in
      if ds = [] then None
      else if rest \<noteq> [] \<and> hd rest = CHR ''.'' \<and> takeWhile is_digit (tl rest) \<noteq> []
      then Some (ds @ ''.'' @ takeWhile is_digit (tl rest), dropWhile is_digit (tl rest))
      else Some (ds, rest))"

definition dataSizePattern :: "string \<Rightarrow> (string \<times> string) option" where
  "dataSizePattern s =
     (case match_number s of
        None \<Rightarrow> None
      | Some (num, rest) \<Rightarrow>
          (let unit = dropWhile size_space rest in if list_all is_letter unit then Some (num, unit) else None))"

definition unit_multiplier :: "string \<Rightarrow> int option" where
  "unit_multiplier u =
     (if u = [] \<or> u = ''B'' then Some 1 else if u = ''KB'' then Some 1000 else if u = ''KiB'' then Some 1024
      else if u = ''MB'' then Some 1000000 else if u = ''MiB'' then Some 1048576
      else if u = ''GB'' then Some 1000000000 else if u = ''GiB'' then Some 1073741824 else None)"

text \<open>\<open>scale num m\<close> is \<^verbatim>\<open>int64(num * float64(m))\<close> for the float that the text denotes, if it parses.\<close>

definition DataSize_Unmarshal :: "(string \<Rightarrow> int \<Rightarrow> int option) \<Rightarrow> string \<Rightarrow> int result" where
  "DataSize_Unmarshal scale s =
     (case dataSizePattern (TrimSpace s) of
        None \<Rightarrow> Inl (Failure ''config: dataSize: invalid format'')
      | Some (num, unit) \<Rightarrow>
          (case scale num 1 of
             None \<Rightarrow> Inl (Failure ''config: dataSize: parse number'')
           | Some _ \<Rightarrow>
               (case unit_multiplier unit of
                  None \<Rightarrow> Inl (Failure ''config: dataSize: unknown unit'')
                | Some m \<Rightarrow> (case scale num m of
                    None \<Rightarrow> Inl (Failure ''config: dataSize: parse number'') | Some b \<Rightarrow> Inr b))))"

section \<open>Defaults\<close>

definition defaultRunningQueriesMetricName :: string where
  "defaultRunningQueriesMetricName = ''trino_execution_name_QueryManager_RunningQueries''"

definition defaultQueuedQueriesMetricName :: string where
  "defaultQueuedQueriesMetricName = ''trino_execution_name_QueryManager_QueuedQueries''"

definition defaultActiveNodeCountMetric :: string where
  "defaultActiveNodeCountMetric = ''trino_metadata_name_DiscoveryNodeManager_ActiveNodeCount''"

definition defaultConfig :: "'f Config" where
  "defaultConfig = \<lparr>
     gc_Proxy = \<lparr> gp_Port = 8080, gp_ResponseSize = 1048576, gp_RequestTimeout = 30 * second, gp_PropagateErrors = False \<rparr>,
     gc_AdminPort = 8090,
     gc_Monitor = \<lparr> mn_Interval = 30 * second, mn_CheckTimeout = 5 * second, mn_RefreshInterval = 15 * second,
       mn_StatsTimeout = 10 * second, mn_Retries = 0, mn_MetricsEndpoint = ''/metrics'',
       mn_RunningQueriesMetricName = defaultRunningQueriesMetricName,
       mn_QueuedQueriesMetricName = defaultQueuedQueriesMetricName,
       mn_MetricMinimumValues = None, mn_MetricMaximumValues = None \<rparr>,
     gc_DB = \<lparr> gd_Driver = [], gd_DSN = [], gd_AutoMigrate = True \<rparr>,
     gc_Routing = \<lparr> gr_DefaultGroup = [], gr_Type = ''EXTERNAL'', gr_URL = [], gr_GRPCAddr = [], gr_Timeout = second,
       gr_ExcludeHeaders = [] \<rparr>,
     gc_Auth = \<lparr> ga_Type = ''NOOP'',
       ga_OIDC = \<lparr> oc_IssuerURL = [], oc_ClientID = [], oc_ClientSecret = [], oc_Scopes = [], oc_RedirectURL = [],
         oc_AuthorizationEndpoint = [], oc_TokenEndpoint = [] \<rparr>,
       ga_JWKSURL = [], ga_JWKSTTLSecs = 300,
       ga_LDAP = \<lparr> ld_URL = [], ld_BindDN = [], ld_BindPass = [], ld_UserBase = [], ld_UserAttr = ''uid'' \<rparr>,
       ga_Authorization = \<lparr> az_AdminRegex = [], az_UserRegex = [], az_APIRegex = [], az_PagePermissions = [] \<rparr> \<rparr>,
     gc_Cookie = \<lparr> ck_Secret = [], ck_TTL = 600 * second, ck_WireCompat = True \<rparr>,
     gc_MetricsEnabled = True, gc_MetricsPath = ''/metrics'', gc_DisablePages = [], gc_MonitorType = ''INFO_API'',
     gc_BackendState = \<lparr> bs_Username = [], bs_Password = [], bs_SSL = False, bs_XForwardedProtoHeader = False \<rparr> \<rparr>"

definition or_int :: "int \<Rightarrow> int \<Rightarrow> int" where
  "or_int d v = (if v = 0 then d else v)"

definition or_str :: "string \<Rightarrow> string \<Rightarrow> string" where
  "or_str d v = (if v = [] then d else v)"

definition default_monitor :: "'f \<Rightarrow> 'f MonitorConfig \<Rightarrow> 'f MonitorConfig" where
  "default_monitor one m = m\<lparr> mn_Interval := or_int (30 * second) (mn_Interval m),
     mn_CheckTimeout := or_int (5 * second) (mn_CheckTimeout m),
     mn_RefreshInterval := or_int (15 * second) (mn_RefreshInterval m),
     mn_StatsTimeout := or_int (10 * second) (mn_StatsTimeout m),
     mn_MetricsEndpoint := or_str ''/metrics'' (mn_MetricsEndpoint m),
     mn_RunningQueriesMetricName := or_str defaultRunningQueriesMetricName (mn_RunningQueriesMetricName m),
     mn_QueuedQueriesMetricName := or_str defaultQueuedQueriesMetricName (mn_QueuedQueriesMetricName m),
     mn_MetricMinimumValues := (case mn_MetricMinimumValues m of
       None \<Rightarrow> Some [(defaultActiveNodeCountMetric, one)] | Some v \<Rightarrow> Some v),
     mn_MetricMaximumValues := (case mn_MetricMaximumValues m of None \<Rightarrow> Some [] | Some v \<Rightarrow> Some v) \<rparr>"

definition applyDefaults :: "'f \<Rightarrow> 'f Config \<Rightarrow> 'f Config" where
  "applyDefaults one c = c\<lparr>
     gc_Proxy := (gc_Proxy c)\<lparr> gp_Port := or_int 8080 (gp_Port (gc_Proxy c)),
       gp_RequestTimeout := or_int (30 * second) (gp_RequestTimeout (gc_Proxy c)),
       gp_ResponseSize := or_int 1048576 (gp_ResponseSize (gc_Proxy c)) \<rparr>,
     gc_AdminPort := or_int 8090 (gc_AdminPort c),
     gc_Monitor := default_monitor one (gc_Monitor c),
     gc_MonitorType := or_str ''INFO_API'' (gc_MonitorType c),
     gc_Routing := (gc_Routing c)\<lparr> gr_Timeout := or_int second (gr_Timeout (gc_Routing c)),
       gr_Type := or_str ''EXTERNAL'' (gr_Type (gc_Routing c)) \<rparr>,
     gc_Cookie := (gc_Cookie c)\<lparr> ck_TTL := or_int (600 * second) (ck_TTL (gc_Cookie c)) \<rparr>,
     gc_Auth := (gc_Auth c)\<lparr> ga_Type := or_str ''NOOP'' (ga_Type (gc_Auth c)),
       ga_JWKSTTLSecs := or_int 300 (ga_JWKSTTLSecs (gc_Auth c)),
       ga_LDAP := (ga_LDAP (gc_Auth c))\<lparr> ld_UserAttr := or_str ''uid'' (ld_UserAttr (ga_LDAP (gc_Auth c))) \<rparr> \<rparr>,
     gc_MetricsPath := or_str ''/metrics'' (gc_MetricsPath c) \<rparr>"

section \<open>Validation\<close>

definition validateClusterStats :: "'f Config \<Rightarrow> unit result" where
  "validateClusterStats c =
     (let t = gc_MonitorType c in
      if t \<in> {''UI_API'', ''METRICS''} \<and> bs_Username (gc_BackendState c) = []
      then Inl (Failure ''config: validate: backendState.username must be non-empty'')
      else if t \<in> {''JDBC'', ''JMX''} then Inl (Failure ''config: validate: clusterStats.monitorType not supported in v1'')
      else if t \<notin> {[], ''NOOP'', ''INFO_API'', ''UI_API'', ''METRICS''}
      then Inl (Failure ''config: validate: clusterStats.monitorType must be one of NOOP, INFO_API, UI_API, METRICS'')
      else if mn_StatsTimeout (gc_Monitor c) < 0 then Inl (Failure ''config: validate: monitor.statsTimeout must be > 0'')
      else if mn_RefreshInterval (gc_Monitor c) < 0 then Inl (Failure ''config: validate: monitor.refreshInterval must be > 0'')
      else if mn_Retries (gc_Monitor c) < 0 then Inl (Failure ''config: validate: monitor.retries must be >= 0'')
      else Inr ())"

definition Config_Validate :: "'f Config \<Rightarrow> unit result" where
  "Config_Validate c =
     (if gp_Port (gc_Proxy c) = gc_AdminPort c
      then Inl (Failure ''config: validate: proxy.port and admin.port must differ'')
      else if gp_ResponseSize (gc_Proxy c) \<le> 0 then Inl (Failure ''config: validate: proxy.responseSize must be > 0'')
      else if gd_Driver (gc_DB c) \<notin> {[], ''postgres'', ''mysql''} then Inl (Failure ''config: validate: db.driver'')
      else if gr_Type (gc_Routing c) \<noteq> ''EXTERNAL'' then Inl (Failure ''config: validate: routing.type must be EXTERNAL'')
      else if ga_Type (gc_Auth c) = ''OIDC'' \<and> ga_JWKSURL (gc_Auth c) = []
      then Inl (Failure ''config: validate: auth.oidc.jwksUrl must be non-empty when auth.type is OIDC'')
      else if gc_MetricsEnabled c \<and> \<not> prefix ''/'' (gc_MetricsPath c)
      then Inl (Failure ''config: validate: metrics.path must start with /'')
      else if ga_Type (gc_Auth c) = ''LDAP'' \<and> ld_URL (ga_LDAP (gc_Auth c)) = []
      then Inl (Failure ''config: validate: auth.ldap.url must be non-empty when auth.type is LDAP'')
      else if ga_Type (gc_Auth c) = ''LDAP'' \<and> ld_UserBase (ga_LDAP (gc_Auth c)) = []
      then Inl (Failure ''config: validate: auth.ldap.userBase must be non-empty when auth.type is LDAP'')
      else validateClusterStats c)"

text \<open>\<open>unmarshal data\<close> merges a document; \<open>one\<close> is the float 1.\<close>

definition Config_Load ::
  "'f \<Rightarrow> (string \<Rightarrow> 'f Config \<Rightarrow> 'f Config result) \<Rightarrow> string result \<Rightarrow> 'f Config result" where
  "Config_Load one unmarshal file =
     (case file of
        Inl e \<Rightarrow> Inl e
      | Inr data \<Rightarrow>
          (case unmarshal data defaultConfig of
             Inl e \<Rightarrow> Inl e
           | Inr cfg \<Rightarrow>
               (let c = applyDefaults one cfg in
                case Config_Validate c of Inl e \<Rightarrow> Inl e | Inr _ \<Rightarrow> Inr c)))"

section \<open>Startup\<close>

datatype 'k auth_mw = OIDCMW 'k | LDAPMW LDAPConfig | NoopMW

text \<open>\<open>fetch url\<close> is the first fetch of the key set.\<close>

definition buildAuthMiddleware :: "(string \<Rightarrow> ('k \<times> nat) result) \<Rightarrow> AuthConfig \<Rightarrow> 'k auth_mw result" where
  "buildAuthMiddleware fetch cfg =
     (if ga_Type cfg = ''OIDC'' then
        (case NewOIDC (fetch (ga_JWKSURL cfg)) of
           None \<Rightarrow> Inl (Failure ''auth: oidc: initial JWKS fetch'') | Some k \<Rightarrow> Inr (OIDCMW k))
      else if ga_Type cfg = ''LDAP'' then Inr (LDAPMW (ga_LDAP cfg))
      else if ga_Type cfg = ''NOOP'' \<or> ga_Type cfg = [] then Inr NoopMW
      else Inl (Failure (''auth: unknown type '' @ ga_Type cfg)))"

text \<open>The middleware as a function of the request.\<close>

definition auth_handler ::
  "('k \<Rightarrow> string \<Rightarrow> claims result) \<Rightarrow> ldap_ops \<Rightarrow> 'k auth_mw \<Rightarrow> http_request \<Rightarrow> auth_verdict" where
  "auth_handler parse ldap mw r = fst
     (case mw of
        OIDCMW k \<Rightarrow> OIDC_handler parse (Some k) r
      | LDAPMW cfg \<Rightarrow> LDAP_handler ldap cfg r
      | NoopMW \<Rightarrow> Noop_handler r)"

text \<open>The refresh loop: one refresh per tick of the database as it is at that moment; a non-positive
  interval is replaced.\<close>

definition refresh_interval :: "int \<Rightarrow> int" where
  "refresh_interval i = (if i \<le> 0 then 15 * second else i)"

fun runBackendRefresh :: "db list \<Rightarrow> 's monitor \<Rightarrow> 's monitor" where
  "runBackendRefresh [] m = m"
| "runBackendRefresh (d # ds) m = runBackendRefresh ds (snd (refreshBackends d m))"

section \<open>Properties\<close>

lemma or_int_simps [simp]: "d \<noteq> 0 \<Longrightarrow> or_int d v \<noteq> 0" "d \<noteq> 0 \<Longrightarrow> or_int d (or_int d v) = or_int d v"
  by (simp_all add: or_int_def)

lemma or_str_simps [simp]: "d \<noteq> [] \<Longrightarrow> or_str d v \<noteq> []" "d \<noteq> [] \<Longrightarrow> or_str d (or_str d v) = or_str d v"
  by (simp_all add: or_str_def)

lemma default_monitor_idem [simp]: "default_monitor one (default_monitor one m) = default_monitor one m"
  by (simp add: default_monitor_def second_def defaultRunningQueriesMetricName_def defaultQueuedQueriesMetricName_def
      split: option.split)

lemma applyDefaults_idem: "applyDefaults one (applyDefaults one c) = applyDefaults one c"
  by (simp add: applyDefaults_def second_def)

lemma Config_Load_cases:
  assumes "Config_Load one unmarshal file = Inr c"
  obtains c' where "c = applyDefaults one c'" and "Config_Validate c = Inr ()"
  using assms by (auto simp: Config_Load_def Let_def split: sum.splits)

lemma Config_Validate_iff:
  "Config_Validate c = Inr u \<longleftrightarrow> gp_Port (gc_Proxy c) \<noteq> gc_AdminPort c \<and> 0 < gp_ResponseSize (gc_Proxy c) \<and>
     gd_Driver (gc_DB c) \<in> {[], ''postgres'', ''mysql''} \<and> gr_Type (gc_Routing c) = ''EXTERNAL'' \<and>
     (ga_Type (gc_Auth c) = ''OIDC'' \<longrightarrow> ga_JWKSURL (gc_Auth c) \<noteq> []) \<and>
     (gc_MetricsEnabled c \<longrightarrow> prefix ''/'' (gc_MetricsPath c)) \<and>
     (ga_Type (gc_Auth c) = ''LDAP'' \<longrightarrow> ld_URL (ga_LDAP (gc_Auth c)) \<noteq> [] \<and> ld_UserBase (ga_LDAP (gc_Auth c)) \<noteq> []) \<and>
     validateClusterStats c = Inr ()"
  by (auto simp: Config_Validate_def split: if_splits)

lemma validateClusterStats_iff:
  "validateClusterStats c = Inr u \<longleftrightarrow> gc_MonitorType c \<in> {[], ''NOOP'', ''INFO_API'', ''UI_API'', ''METRICS''} \<and>
     (gc_MonitorType c \<in> {''UI_API'', ''METRICS''} \<longrightarrow> bs_Username (gc_BackendState c) \<noteq> []) \<and>
     0 \<le> mn_StatsTimeout (gc_Monitor c) \<and> 0 \<le> mn_RefreshInterval (gc_Monitor c) \<and> 0 \<le> mn_Retries (gc_Monitor c)"
  by (auto simp: validateClusterStats_def Let_def split: if_splits)

text \<open>
  A configuration that loads can be started: the two listeners have different ports, the response buffer
  is positive, the statistics collector is built, the refresh and statistics intervals are positive,
  the number of retries is not negative, the monitor's start check passes, and the auth middleware is
  built whenever the type is LDAP or NOOP or the keys can be fetched for OIDC.
\<close>
theorem loaded_config_starts:
  assumes "Config_Load one unmarshal file = Inr c"
  shows "gp_Port (gc_Proxy c) \<noteq> gc_AdminPort c \<and> 0 < gp_ResponseSize (gc_Proxy c)
    \<and> (\<exists>col. NewCollector (gc_MonitorType c) (gc_Monitor c) (gc_BackendState c) = Inr col)
    \<and> 0 < mn_RefreshInterval (gc_Monitor c) \<and> 0 < mn_StatsTimeout (gc_Monitor c) \<and> 0 \<le> mn_Retries (gc_Monitor c)
    \<and> monitor_Start (monitor_New (mn_Interval (gc_Monitor c)) (mn_CheckTimeout (gc_Monitor c)) True True True) = Inr ()
    \<and> (ga_Type (gc_Auth c) \<in> {''LDAP'', ''NOOP''} \<or> (ga_Type (gc_Auth c) = ''OIDC'' \<and> usable (fetch (ga_JWKSURL (gc_Auth c))))
       \<longrightarrow> (\<exists>mw. buildAuthMiddleware fetch (gc_Auth c) = Inr mw))"
proof -
  obtain c' where c: "c = applyDefaults one c'" and v: "Config_Validate c = Inr ()"
    using Config_Load_cases[OF assms] .
  have m: "gc_Monitor c = default_monitor one (gc_Monitor c')" by (simp add: c applyDefaults_def)
  have nz: "mn_Interval (gc_Monitor c) \<noteq> 0" "mn_CheckTimeout (gc_Monitor c) \<noteq> 0"
    "mn_RefreshInterval (gc_Monitor c) \<noteq> 0" "mn_StatsTimeout (gc_Monitor c) \<noteq> 0"
    by (simp_all add: m default_monitor_def second_def)
  have s: "validateClusterStats c = Inr ()" using v unfolding Config_Validate_iff by blast
  have "\<exists>col. NewCollector (gc_MonitorType c) (gc_Monitor c) (gc_BackendState c) = Inr col"
    using s unfolding validateClusterStats_iff by (auto simp: NewCollector_def)
  moreover have "\<exists>mw. buildAuthMiddleware fetch (gc_Auth c) = Inr mw"
    if "ga_Type (gc_Auth c) \<in> {''LDAP'', ''NOOP''} \<or> (ga_Type (gc_Auth c) = ''OIDC'' \<and> usable (fetch (ga_JWKSURL (gc_Auth c))))"
    using that by (auto simp: buildAuthMiddleware_def NewOIDC_def doRefresh_def usable_def split: sum.splits)
  moreover have "monitor_Start (monitor_New (mn_Interval (gc_Monitor c)) (mn_CheckTimeout (gc_Monitor c)) True True True) = Inr ()"
    using nz by (simp add: monitor_Start_def monitor_New_def)
  moreover have "gp_Port (gc_Proxy c) \<noteq> gc_AdminPort c" "0 < gp_ResponseSize (gc_Proxy c)"
    using v unfolding Config_Validate_iff by simp_all
  moreover have "0 \<le> mn_RefreshInterval (gc_Monitor c)" "0 \<le> mn_StatsTimeout (gc_Monitor c)" "0 \<le> mn_Retries (gc_Monitor c)"
    using s unfolding validateClusterStats_iff by simp_all
  ultimately show ?thesis using nz(3,4) by (simp add: less_le)
qed

text \<open>A negative probe interval loads and passes the monitor's check; the ticker made from it panics.\<close>

lemma negative_interval_loads:
  "\<exists>c. Config_Load one (\<lambda>_ c. Inr (c\<lparr> gc_Monitor := (gc_Monitor c)\<lparr> mn_Interval := - 1 \<rparr> \<rparr>)) (Inr []) = Inr c
     \<and> mn_Interval (gc_Monitor c) < 0"
  by (simp add: Config_Load_def Let_def applyDefaults_def defaultConfig_def default_monitor_def or_int_def or_str_def
      Config_Validate_def validateClusterStats_def second_def)

text \<open>An unknown auth type loads, and fails only when the middleware is built.\<close>

lemma unknown_auth_type_loads:
  "\<exists>c. Config_Load one (\<lambda>_ c. Inr (c\<lparr> gc_Auth := (gc_Auth c)\<lparr> ga_Type := ''SAML'' \<rparr> \<rparr>)) (Inr []) = Inr c
     \<and> buildAuthMiddleware fetch (gc_Auth c) = Inl (Failure ''auth: unknown type SAML'')"
  by (simp add: Config_Load_def Let_def applyDefaults_def defaultConfig_def default_monitor_def or_int_def or_str_def
      Config_Validate_def validateClusterStats_def second_def buildAuthMiddleware_def)

theorem loaded_config_starts_witness:
  "\<exists>c. Config_Load (1 :: int) (\<lambda>_ c. Inr c) (Inr []) = Inr c \<and> gp_Port (gc_Proxy c) \<noteq> gc_AdminPort c
     \<and> (\<exists>col. NewCollector (gc_MonitorType c) (gc_Monitor c) (gc_BackendState c) = Inr col)"
proof -
  have "Config_Load (1 :: int) (\<lambda>_ c. Inr c) (Inr []) = Inr (applyDefaults 1 defaultConfig)"
    by (simp add: Config_Load_def Let_def applyDefaults_def defaultConfig_def default_monitor_def or_int_def or_str_def
        Config_Validate_def validateClusterStats_def second_def)
  then show ?thesis using loaded_config_starts[of 1 "\<lambda>_ c. Inr c" "Inr []"] by blast
qed

end
