(* ===== verification/Migrate.thy ===== *)
theory Migrate
  imports Gateway_Config Providers
begin

text \<open>
  The converter from a Java gateway configuration (\<^verbatim>\<open>cmd/goway-migrate-config\<close>): the mapping with its
  warnings (\<^verbatim>\<open>migrate.go\<close>) and the text form of sizes and durations it writes (\<^verbatim>\<open>output.go\<close>).  YAML reading
  and writing are parameters, so the mapping starts from the decoded Java document.
\<close>

section \<open>The Java document\<close>

record javaConfig =
  jc_Port :: int
  jc_Name :: string
  jc_HistorySize :: int
  jc_RequestBufferSize :: int
  jc_LocalPort :: int
  jc_JdbcURL :: string
  jc_User :: string
  jc_Password :: string
  jc_Driver :: string
  jc_HealthCheckPath :: string
  jc_Concurrency :: int
  jc_HealthCheckInterval :: int
  jc_DefaultRoutingGroup :: string
  jc_RulesType :: string
  jc_ExternalURL :: string
  jc_UseAPI :: bool
  jc_DefaultType :: string
  jc_Issuer :: string
  jc_ClientID :: string
  jc_ClientSecret :: string
  jc_RedirectURL :: string
  jc_JwkURL :: string
  jc_Admin :: string
  jc_UserRegex :: string
  jc_API :: string
  jc_Modules :: nat
  jc_ManagedApps :: nat

section \<open>Mapping\<close>

definition stripJDBCPrefix :: "string \<Rightarrow> string" where
  "stripJDBCPrefix url = (if prefix ''jdbc:'' url then drop 5 url else url)"

definition detectDriver :: "string \<Rightarrow> string option" where
  "detectDriver driver =
     (let l = ToLower driver in
      if sublist ''postgresql'' l \<or> sublist ''postgres'' l then Some ''postgres''
      else if sublist ''mysql'' l then Some ''mysql'' else None)"

text \<open>The zero value of the configuration struct, into which the mapping writes.\<close>

definition zero_config :: "'f Config" where
  "zero_config = \<lparr>
     gc_Proxy = \<lparr> gp_Port = 0, gp_ResponseSize = 0, gp_RequestTimeout = 0, gp_PropagateErrors = False \<rparr>,
     gc_AdminPort = 0,
     gc_Monitor = \<lparr> mn_Interval = 0, mn_CheckTimeout = 0, mn_RefreshInterval = 0, mn_StatsTimeout = 0, mn_Retries = 0,
       mn_MetricsEndpoint = [], mn_RunningQueriesMetricName = [], mn_QueuedQueriesMetricName = [],
       mn_MetricMinimumValues = None, mn_MetricMaximumValues = None \<rparr>,
     gc_DB = \<lparr> gd_Driver = [], gd_DSN = [], gd_AutoMigrate = False \<rparr>,
     gc_Routing = \<lparr> gr_DefaultGroup = [], gr_Type = [], gr_URL = [], gr_GRPCAddr = [], gr_Timeout = 0, gr_ExcludeHeaders = [] \<rparr>,
     gc_Auth = \<lparr> ga_Type = [],
       ga_OIDC = \<lparr> oc_IssuerURL = [], oc_ClientID = [], oc_ClientSecret = [], oc_Scopes = [], oc_RedirectURL = [],
         oc_AuthorizationEndpoint = [], oc_TokenEndpoint = [] \<rparr>,
       ga_JWKSURL = [], ga_JWKSTTLSecs = 0,
       ga_LDAP = \<lparr> ld_URL = [], ld_BindDN = [], ld_BindPass = [], ld_UserBase = [], ld_UserAttr = [] \<rparr>,
       ga_Authorization = \<lparr> az_AdminRegex = [], az_UserRegex = [], az_APIRegex = [], az_PagePermissions = [] \<rparr> \<rparr>,
     gc_Cookie = \<lparr> ck_Secret = [], ck_TTL = 0, ck_WireCompat = False \<rparr>,
     gc_MetricsEnabled = False, gc_MetricsPath = [], gc_DisablePages = [], gc_MonitorType = [],
     gc_BackendState = \<lparr> bs_Username = [], bs_Password = [], bs_SSL = False, bs_XForwardedProtoHeader = False \<rparr> \<rparr>"

text \<open>Each warning names the field of the Java document it is about; the wording is not modelled.\<close>

datatype warning =
    WHistorySize int | WName string | WDriver string | WUser string | WPassword | WConcurrency | WHealthCheckPath string
  | WRulesType string | WRedirectURL string | WDefaultType string | WAuthorization | WModules | WManagedApps

definition warn_if :: "bool \<Rightarrow> 'a \<Rightarrow> 'a list" where
  "warn_if b x = (if b then [x] else [])"

definition migrate_warnings :: "javaConfig \<Rightarrow> warning list" where
  "migrate_warnings src =
     warn_if (jc_HistorySize src \<noteq> 0) (WHistorySize (jc_HistorySize src))
     @ warn_if (jc_Name src \<noteq> []) (WName (jc_Name src))
     @ warn_if (jc_Driver src \<noteq> [] \<and> detectDriver (jc_Driver src) = None) (WDriver (jc_Driver src))
     @ warn_if (jc_User src \<noteq> []) (WUser (jc_User src))
     @ warn_if (jc_Password src \<noteq> []) WPassword
     @ warn_if (jc_Concurrency src \<noteq> 0) WConcurrency
     @ warn_if (jc_HealthCheckPath src \<noteq> []) (WHealthCheckPath (jc_HealthCheckPath src))
     @ warn_if (jc_RulesType src \<noteq> [] \<and> jc_RulesType src \<noteq> ''EXTERNAL'') (WRulesType (jc_RulesType src))
     @ (if jc_JwkURL src \<noteq> [] then warn_if (jc_RedirectURL src \<noteq> []) (WRedirectURL (jc_RedirectURL src))
        else warn_if (jc_DefaultType src \<noteq> []) (WDefaultType (jc_DefaultType src)))
     @ warn_if (jc_Admin src \<noteq> [] \<or> jc_UserRegex src \<noteq> [] \<or> jc_API src \<noteq> []) WAuthorization
     @ warn_if (0 < jc_Modules src) WModules
     @ warn_if (0 < jc_ManagedApps src) WManagedApps"

definition health_interval :: "int \<Rightarrow> int" where
  "health_interval ms =
     (if ms = 0 then 0 else (let secs = go_div ms 1000 in (if secs < 1 then 1 else secs) * second))"

definition migrate_fields :: "javaConfig \<Rightarrow> 'f Config" where
  "migrate_fields src =
     (let z = zero_config in
      z\<lparr> gc_Proxy := (gc_Proxy z)\<lparr> gp_Port := jc_Port src, gp_ResponseSize := jc_RequestBufferSize src \<rparr>,
         gc_AdminPort := jc_LocalPort src,
         gc_DB := (gc_DB z)\<lparr> gd_DSN := (if jc_JdbcURL src \<noteq> [] then stripJDBCPrefix (jc_JdbcURL src) else []),
           gd_Driver := (if jc_Driver src \<noteq> [] then (case detectDriver (jc_Driver src) of None \<Rightarrow> [] | Some d \<Rightarrow> d) else []) \<rparr>,
         gc_Monitor := (gc_Monitor z)\<lparr> mn_Interval := health_interval (jc_HealthCheckInterval src) \<rparr>,
         gc_Routing := (gc_Routing z)\<lparr> gr_DefaultGroup := jc_DefaultRoutingGroup src,
           gr_Type := (if jc_RulesType src \<noteq> [] then ''EXTERNAL'' else []), gr_URL := jc_ExternalURL src \<rparr>,
         gc_Auth := (if jc_JwkURL src \<noteq> []
           then (gc_Auth z)\<lparr> ga_Type := ''OIDC'', ga_JWKSURL := jc_JwkURL src,
             ga_OIDC := (ga_OIDC (gc_Auth z))\<lparr> oc_IssuerURL := jc_Issuer src, oc_ClientID := jc_ClientID src,
               oc_ClientSecret := jc_ClientSecret src \<rparr> \<rparr>
           else gc_Auth z) \<rparr>)"

definition MigrateConfig :: "javaConfig result \<Rightarrow> ('f Config \<times> warning list) result" where
  "MigrateConfig doc = (case doc of Inl e \<Rightarrow> Inl e | Inr src \<Rightarrow> Inr (migrate_fields src, migrate_warnings src))"

section \<open>Output\<close>

definition formatBytes :: "int \<Rightarrow> string" where
  "formatBytes b =
     (if 1073741824 \<le> b \<and> b mod 1073741824 = 0 then dec_int (b div 1073741824) @ ''GiB''
      else if 1048576 \<le> b \<and> b mod 1048576 = 0 then dec_int (b div 1048576) @ ''MiB''
      else if 1024 \<le> b \<and> b mod 1024 = 0 then dec_int (b div 1024) @ ''KiB''
      else dec_int b @ ''B'')"

record outputConfig =
  op_ProxyPort :: int
  op_ResponseSize :: string
  op_RequestTimeout :: string
  op_AdminPort :: int
  op_Interval :: string
  op_CheckTimeout :: string
  op_Driver :: string
  op_DSN :: string
  op_DefaultGroup :: string
  op_Type :: string
  op_URL :: string
  op_GRPCAddr :: string
  op_Timeout :: string
  op_AuthType :: string
  op_OIDC :: "string \<times> string \<times> string \<times> string"
  op_LDAP :: LDAPConfig
  op_Secret :: string
  op_TTL :: string

definition format_duration :: "int \<Rightarrow> string" where
  "format_duration d = (if 0 < d then Duration_String (nat d) else [])"

definition toOutput :: "'f Config \<Rightarrow> outputConfig" where
  "toOutput cfg = \<lparr> op_ProxyPort = gp_Port (gc_Proxy cfg),
     op_ResponseSize = (if 0 < gp_ResponseSize (gc_Proxy cfg) then formatBytes (gp_ResponseSize (gc_Proxy cfg)) else []),
     op_RequestTimeout = format_duration (gp_RequestTimeout (gc_Proxy cfg)), op_AdminPort = gc_AdminPort cfg,
     op_Interval = format_duration (mn_Interval (gc_Monitor cfg)),
     op_CheckTimeout = format_duration (mn_CheckTimeout (gc_Monitor cfg)),
     op_Driver = gd_Driver (gc_DB cfg), op_DSN = gd_DSN (gc_DB cfg), op_DefaultGroup = gr_DefaultGroup (gc_Routing cfg),
     op_Type = gr_Type (gc_Routing cfg), op_URL = gr_URL (gc_Routing cfg), op_GRPCAddr = gr_GRPCAddr (gc_Routing cfg),
     op_Timeout = format_duration (gr_Timeout (gc_Routing cfg)), op_AuthType = ga_Type (gc_Auth cfg),
     op_OIDC = (oc_IssuerURL (ga_OIDC (gc_Auth cfg)), oc_ClientID (ga_OIDC (gc_Auth cfg)),
       oc_ClientSecret (ga_OIDC (gc_Auth cfg)), ga_JWKSURL (gc_Auth cfg)),
     op_LDAP = ga_LDAP (gc_Auth cfg), op_Secret = ck_Secret (gc_Cookie cfg), op_TTL = format_duration (ck_TTL (gc_Cookie cfg)) \<rparr>"

section \<open>Properties\<close>

lemma digits_split:
  assumes "list_all is_digit ds" and "u = [] \<or> \<not> is_digit (hd u)"
  shows "takeWhile is_digit (ds @ u) = ds \<and> dropWhile is_digit (ds @ u) = u"
  using assms by (induction ds) (cases u; auto)+

lemma dataSizePattern_unit:
  assumes "list_all is_digit ds" and "ds \<noteq> []" and "list_all is_letter u" and "u \<noteq> []"
  shows "dataSizePattern (ds @ u) = Some (ds, u)"
proof -
  obtain c cs where u: "u = c # cs" using assms(4) by (cases u) auto
  have c: "\<not> is_digit c" "c \<noteq> CHR ''.''" "\<not> size_space c"
    using assms(3) u by (auto simp: is_letter_def is_digit_def is_lower_def is_upper_def size_space_def byte_def)
  then have "match_number (ds @ u) = Some (ds, u)"
    using digits_split[OF assms(1), of u] assms(2) u by (simp add: match_number_def Let_def)
  then show ?thesis using assms(3) c u by (simp add: dataSizePattern_def Let_def)
qed

lemma TrimSpace_word:
  assumes "s \<noteq> []" and "\<not> is_space (hd s)" and "\<not> is_space (last s)"
  shows "TrimSpace s = s"
proof -
  have "dropWhile is_space s = s" using assms(1,2) by (cases s) auto
  moreover have "dropWhile is_space (rev s) = rev s" using assms(1,3) by (cases s rule: rev_cases) auto
  ultimately show ?thesis by (simp add: TrimSpace_def)
qed

text \<open>Parsing and scaling an integer is exact as long as the product is at most 2 to the power 53, as it is in
  64-bit floating point.\<close>

definition exact_scale :: "(string \<Rightarrow> int \<Rightarrow> int option) \<Rightarrow> bool" where
  "exact_scale scale = (\<forall>n k. 0 \<le> n \<and> 0 < k \<and> n * k \<le> 2 ^ 53 \<longrightarrow> scale (dec_int n) k = Some (n * k))"

lemma DataSize_unit:
  assumes "0 \<le> n" and "unit_multiplier u = Some m" and "u \<noteq> []" and "list_all is_letter u"
    and "exact_scale scale" and "0 < m" and "n * m \<le> 2 ^ 53"
  shows "DataSize_Unmarshal scale (dec_int n @ u) = Inr (n * m)"
proof -
  have d: "list_all is_digit (dec_int n)" "dec_int n \<noteq> []" using assms(1) dec_nat_digits[of "nat n"] by (auto simp: dec_int_def)
  have "\<not> is_space (hd (dec_int n @ u))" using d by (cases "dec_int n") (auto dest: digit_not_blank)
  moreover have "is_letter (last u)" using assms(3,4) by (simp add: list_all_iff)
  then have "\<not> is_space (last (dec_int n @ u))" using assms(3) by (auto simp: is_letter_def is_lower_def is_upper_def is_space_def)
  ultimately have "TrimSpace (dec_int n @ u) = dec_int n @ u" using d(2) by (intro TrimSpace_word) simp_all
  moreover have "n * 1 \<le> n * m" using assms(1,6) by (intro mult_left_mono) simp_all
  then have "scale (dec_int n) 1 = Some n" "scale (dec_int n) m = Some (n * m)"
    using assms(1,5-7) by (auto simp: exact_scale_def)
  ultimately show ?thesis using dataSizePattern_unit[OF d assms(4,3)] assms(2) by (simp add: DataSize_Unmarshal_def)
qed

text \<open>
  A size the converter writes is read back as the same number of bytes, whichever unit it chose, for
  sizes up to 2 to the power 53 and exact scaling of integers.
\<close>
theorem formatBytes_round_trip:
  assumes "0 < b" and "b \<le> 2 ^ 53" and "exact_scale scale"
  shows "DataSize_Unmarshal scale (formatBytes b) = Inr b"
proof -
  have l: "list_all is_letter ''GiB''" "list_all is_letter ''MiB''" "list_all is_letter ''KiB''" "list_all is_letter ''B''"
    by code_simp+
  have r: "DataSize_Unmarshal scale (dec_int (b div m) @ u) = Inr b"
    if "b mod m = 0" "unit_multiplier u = Some m" "u \<noteq> []" "list_all is_letter u" "0 < m" for m u
  proof -
    have "b div m * m = b" using div_mult_mod_eq[of b m] that(1) by simp
    then show ?thesis using DataSize_unit[OF _ that(2-4) assms(3) that(5)] assms(1,2) that(5) by (simp add: pos_imp_zdiv_nonneg_iff)
  qed
  show ?thesis
    using r[of 1073741824 "''GiB''"] r[of 1048576 "''MiB''"] r[of 1024 "''KiB''"] r[of 1 "''B''"] l
    by (simp add: formatBytes_def unit_multiplier_def)
qed

lemma digits_val_exact: "exact_scale (\<lambda>s k. Some (int (digits_val s) * k))"
  by (simp add: exact_scale_def dec_int_def digits_val_dec_nat)

theorem formatBytes_round_trip_witness:
  "DataSize_Unmarshal (\<lambda>s k. Some (int (digits_val s) * k)) (formatBytes 1048576) = Inr 1048576"
  using formatBytes_round_trip[of 1048576, OF _ _ digits_val_exact] by simp

text \<open>The statistics switch is dropped without a warning.\<close>

lemma migrate_ignores_useApi: "MigrateConfig (Inr (src\<lparr> jc_UseAPI := b \<rparr>)) = MigrateConfig (Inr src)"
  by (simp add: MigrateConfig_def migrate_fields_def migrate_warnings_def)

text \<open>A migrated document has no role patterns, so no principal has a role under it, whatever the Java
  document granted.\<close>

lemma migrated_grants_no_role:
  assumes "MigrateConfig (Inr src) = Inr (cfg, ws)"
  shows "\<not> HasRole matches p role (ga_Authorization (gc_Auth cfg))"
proof -
  have "cfg = migrate_fields src" using assms by (simp add: MigrateConfig_def)
  then have "ga_Authorization (gc_Auth cfg) =
      \<lparr> az_AdminRegex = [], az_UserRegex = [], az_APIRegex = [], az_PagePermissions = [] \<rparr>"
    by (simp add: migrate_fields_def Let_def zero_config_def)
  then show ?thesis by (simp add: HasRole_def split: option.split)
qed

end
