(* ===== verification/Proxy.thy ===== *)
theory Proxy
  imports Routing Cookie
begin

text \<open>
  The reverse proxy (\<^verbatim>\<open>internal/proxy/headers.go\<close> and \<^verbatim>\<open>forward.go\<close>).  A handler is a function of the
  request and of the state \<open>'w\<close> of what it calls: the router, the history and the upstream client.
  It returns the trace of its observable actions in program order and the next state.  The actions
  are the calls that change state and the writes to the client, so statements on their order are
  statements on the trace.
\<close>

section \<open>Headers\<close>

definition hopByHopHeaders :: "string list" where
  "hopByHopHeaders = [''Connection'', ''Keep-Alive'', ''Proxy-Authenticate'', ''Proxy-Authorization'',
     ''Te'', ''Trailers'', ''Transfer-Encoding'', ''Upgrade'']"

definition isHopByHop :: "string \<Rightarrow> bool" where
  "isHopByHop name = (CanonicalHeaderKey name \<in> set hopByHopHeaders)"

definition copyHeaders :: "header \<Rightarrow> header \<Rightarrow> header" where
  "copyHeaders dst src = (\<lambda>k. case src k of
     None \<Rightarrow> dst k | Some vv \<Rightarrow> if isHopByHop k then dst k else Some vv)"

definition client_ip :: "string \<Rightarrow> string" where
  "client_ip addr = (case last_index_byte (CHR '':'') addr of None \<Rightarrow> addr | Some i \<Rightarrow> take i addr)"

definition hostOnly :: "string \<Rightarrow> string" where
  "hostOnly h =
     (if h = [] then h
      else if hd h = CHR ''['' then
        (case index_byte (CHR '']'') h of Some e \<Rightarrow> take (e + 1) h | None \<Rightarrow> h)
      else (case last_index_byte (CHR '':'') h of Some i \<Rightarrow> take i h | None \<Rightarrow> h))"

definition default_port :: "string \<Rightarrow> string" where
  "default_port proto = (if proto = ''https'' then ''443'' else ''80'')"

definition forwardedPort :: "string \<Rightarrow> string \<Rightarrow> string" where
  "forwardedPort h proto =
     (if h = [] then default_port proto
      else if hd h = CHR ''['' then
        (case index_byte (CHR '']'') h of
           Some e \<Rightarrow> if e + 1 < length h \<and> h ! (e + 1) = CHR '':'' then drop (e + 2) h
                     else default_port proto
         | None \<Rightarrow> default_port proto)
      else (case last_index_byte (CHR '':'') h of
              Some i \<Rightarrow> drop (i + 1) h | None \<Rightarrow> default_port proto))"

definition set_all :: "header \<Rightarrow> (string \<times> string) list \<Rightarrow> header" where
  "set_all h kvs = foldl (\<lambda>acc (k, v). hdr_set acc k v) h kvs"

definition injectHeaders :: "header \<Rightarrow> http_request \<Rightarrow> RouteResult \<Rightarrow> header" where
  "injectHeaders up r result =
     (let clientIP = client_ip (rq_RemoteAddr r);
          existing = hdr_get up ''X-Forwarded-For'';
          h1 = hdr_set up ''X-Forwarded-For''
                 (if existing \<noteq> [] then existing @ '', '' @ clientIP else clientIP);
          proto = (if rq_TLS r then ''https'' else ''http'');
          h2 = hdr_set h1 ''X-Forwarded-Proto'' proto;
          h3 = hdr_set h2 ''X-Forwarded-Host'' (hostOnly (rq_Host r));
          h4 = hdr_set h3 ''X-Forwarded-Port'' (forwardedPort (rq_Host r) proto)
      in set_all h4 (rr_ExternalHeaders result))"

section \<open>Messages\<close>

record upstream_request =
  up_Method :: string
  up_backend :: string
  up_Path :: string
  up_RawQuery :: string
  up_Header :: header
  up_Body :: "string result"

text \<open>The body of an answer is the bytes it delivers and whether an error follows them.\<close>

record upstream_response =
  us_Status :: nat
  us_Header :: header
  us_body :: string
  us_broken :: bool

datatype px_event =
    RequestHandled string string outcome
  | UpstreamDuration string
  | OversizedResponse
  | StatementCacheWrite
  | CacheWritten string string
  | HistoryInserted string string string string
  | Upstream upstream_request
  | Responded nat response_writer
  | Body string
  | Panicked

record ProxyConfig =
  pc_PropagateErrors :: bool
  pc_ResponseSize :: int

record proxy_config =
  px_Proxy :: ProxyConfig
  px_Cookie :: CookieConfig
  px_metrics :: bool

record 'w proxy_ops =
  px_Route :: "RouteInput \<Rightarrow> 'w \<Rightarrow> RouteResult result \<times> 'w"
  px_WriteCache :: "string \<Rightarrow> string \<Rightarrow> 'w \<Rightarrow> 'w"
  px_Insert :: "(string \<Rightarrow> string \<Rightarrow> string \<Rightarrow> string \<Rightarrow> 'w \<Rightarrow> unit result \<times> 'w) option"
  px_Do :: "upstream_request \<Rightarrow> 'w \<Rightarrow> upstream_response result \<times> 'w"
  px_url_ok :: "string \<Rightarrow> bool"
  px_json_id :: "string \<Rightarrow> string option"
  px_codec :: cookie_codec

section \<open>Handlers\<close>

definition recordX :: "proxy_config \<Rightarrow> px_event \<Rightarrow> px_event list" where
  "recordX cfg e = (if px_metrics cfg then [e] else [])"

definition new_writer :: response_writer where
  "new_writer = \<lparr> rw_Header = (\<lambda>_. None), rw_cookies = [] \<rparr>"

text \<open>\<^verbatim>\<open>http.Error\<close>.\<close>

definition http_Error :: "response_writer \<Rightarrow> string \<Rightarrow> nat \<Rightarrow> px_event list" where
  "http_Error w msg code =
     [Responded code (w\<lparr> rw_Header := hdr_set (hdr_set (hdr_del (rw_Header w) ''Content-Length'')
        ''Content-Type'' ''text/plain; charset=utf-8'') ''X-Content-Type-Options'' ''nosniff'' \<rparr>),
      Body (msg @ [CHR 0x0A])]"

definition buildUpstreamRequest ::
  "string \<Rightarrow> http_request \<Rightarrow> string result \<Rightarrow> upstream_request" where
  "buildUpstreamRequest backendURL r body = \<lparr> up_Method = rq_Method r, up_backend = backendURL,
     up_Path = rq_Path r, up_RawQuery = rq_RawQuery r,
     up_Header = copyHeaders (\<lambda>_. None) (rq_Header r), up_Body = body \<rparr>"

text \<open>\<^verbatim>\<open>io.ReadAll(io.LimitReader(body, n))\<close>.\<close>

definition read_limited :: "upstream_response \<Rightarrow> int \<Rightarrow> string option" where
  "read_limited resp n =
     (if n \<le> 0 then Some []
      else if n \<le> int (length (us_body resp)) then Some (take (nat n) (us_body resp))
      else if us_broken resp then None
      else Some (us_body resp))"

definition extractQueryIDFromBody :: "'w proxy_ops \<Rightarrow> string \<Rightarrow> string" where
  "extractQueryIDFromBody ops body = (case px_json_id ops body of None \<Rightarrow> [] | Some q \<Rightarrow> q)"

definition remember_query ::
  "'w proxy_ops \<Rightarrow> proxy_config \<Rightarrow> http_request \<Rightarrow> string \<Rightarrow> string \<Rightarrow> 'w \<Rightarrow> px_event list \<times> 'w" where
  "remember_query ops cfg r backendURL buf w =
     (let queryID = extractQueryIDFromBody ops buf in
      if queryID = [] then ([], w)
      else
        (let w1 = px_WriteCache ops queryID backendURL w;
             ev = CacheWritten queryID backendURL # recordX cfg StatementCacheWrite
         in case px_Insert ops of
              None \<Rightarrow> (ev, w1)
            | Some ins \<Rightarrow>
                (let user = hdr_get (rq_Header r) ''X-Trino-User'';
                     source = hdr_get (rq_Header r) ''X-Trino-Source'';
                     (_, w2) = ins queryID backendURL user source w1
                 in (ev @ [HistoryInserted queryID backendURL user source], w2))))"

definition respond ::
  "'w proxy_ops \<Rightarrow> proxy_config \<Rightarrow> int \<Rightarrow> http_request \<Rightarrow> RouteResult \<Rightarrow> upstream_response \<Rightarrow> string
     \<Rightarrow> px_event list" where
  "respond ops cfg now r result resp body =
     (let w0 = new_writer\<lparr> rw_Header := copyHeaders (rw_Header new_writer) (us_Header resp) \<rparr>;
          (ok, w1) = applyCookies (px_codec ops) (px_Cookie cfg) now r (rr_BackendURL result) w0
      in if \<not> ok then
           recordX cfg (RequestHandled (rr_BackendURL result) (rr_RoutingGroup result) OutcomeError)
           @ http_Error w1 ''invalid gateway cookie'' 500
         else
           recordX cfg (RequestHandled (rr_BackendURL result) (rr_RoutingGroup result) (rr_Outcome result))
           @ [Responded (us_Status resp) w1, Body body])"

definition fail_with ::
  "proxy_config \<Rightarrow> string \<Rightarrow> string \<Rightarrow> string \<Rightarrow> nat \<Rightarrow> px_event list" where
  "fail_with cfg backend grp msg code =
     recordX cfg (RequestHandled backend grp OutcomeError) @ http_Error new_writer msg code"

text \<open>The part of \<^verbatim>\<open>handleStatement\<close> after the upstream has answered.\<close>

definition statement_answer ::
  "'w proxy_ops \<Rightarrow> proxy_config \<Rightarrow> int \<Rightarrow> http_request \<Rightarrow> RouteResult \<Rightarrow> upstream_response \<Rightarrow> 'w
     \<Rightarrow> px_event list \<times> 'w" where
  "statement_answer ops cfg now r result resp w =
     (let backend = rr_BackendURL result; grp = rr_RoutingGroup result;
          limit = pc_ResponseSize (px_Proxy cfg)
      in case read_limited resp (wrap64 (limit + 1)) of
           None \<Rightarrow> (fail_with cfg backend grp ''upstream read error'' 502, w)
         | Some buf \<Rightarrow>
             if int (length buf) > limit then
               (recordX cfg OversizedResponse
                @ fail_with cfg backend grp ''upstream response too large'' 502, w)
             else
               (let (ev, w') = remember_query ops cfg r backend buf w
                in (ev @ respond ops cfg now r result resp buf, w')))"

definition handleStatement ::
  "'w proxy_ops \<Rightarrow> proxy_config \<Rightarrow> int \<Rightarrow> http_request \<Rightarrow> 'w \<Rightarrow> px_event list \<times> 'w" where
  "handleStatement ops cfg now r w =
     (case rq_body r of
        Inl _ \<Rightarrow> (http_Error new_writer ''bad request'' 400, w)
      | Inr reqBody \<Rightarrow>
          (case px_Route ops (NewRouteInput r reqBody) w of
             (Inl _, w1) \<Rightarrow> (fail_with cfg [] [] ''no backend available'' 502, w1)
           | (Inr result, w1) \<Rightarrow>
               if rr_BackendURL result = [] then
                 (fail_with cfg [] [] ''no backend available'' 502, w1)
               else if pc_PropagateErrors (px_Proxy cfg) \<and> rr_Errors result \<noteq> [] then
                 (fail_with cfg (rr_BackendURL result) (rr_RoutingGroup result)
                    (hd (rr_Errors result)) 400, w1)
               else if \<not> px_url_ok ops (rr_BackendURL result) then ([Panicked], w1)
               else
                 (let req0 = buildUpstreamRequest (rr_BackendURL result) r (Inr reqBody);
                      upReq = req0\<lparr> up_Header := injectHeaders (up_Header req0) r result \<rparr>
                  in case px_Do ops upReq w1 of
                       (Inl _, w2) \<Rightarrow>
                         (Upstream upReq # fail_with cfg (rr_BackendURL result) (rr_RoutingGroup result)
                            ''upstream error'' 502, w2)
                     | (Inr resp, w2) \<Rightarrow>
                         (let (ev, w3) = statement_answer ops cfg now r result resp w2
                          in (Upstream upReq # recordX cfg (UpstreamDuration (rr_BackendURL result)) @ ev,
                              w3)))))"

definition handleStream ::
  "'w proxy_ops \<Rightarrow> proxy_config \<Rightarrow> int \<Rightarrow> http_request \<Rightarrow> 'w \<Rightarrow> px_event list \<times> 'w" where
  "handleStream ops cfg now r w =
     (case px_Route ops (NewRouteInput r []) w of
        (Inl _, w1) \<Rightarrow> (fail_with cfg [] [] ''no backend available'' 502, w1)
      | (Inr result, w1) \<Rightarrow>
          if rr_BackendURL result = [] then (fail_with cfg [] [] ''no backend available'' 502, w1)
          else if \<not> px_url_ok ops (rr_BackendURL result) then ([Panicked], w1)
          else
            (let req0 = buildUpstreamRequest (rr_BackendURL result) r (rq_body r);
                 upReq = req0\<lparr> up_Header := injectHeaders (up_Header req0) r result \<rparr>
             in case px_Do ops upReq w1 of
                  (Inl _, w2) \<Rightarrow>
                    (Upstream upReq # fail_with cfg (rr_BackendURL result) (rr_RoutingGroup result)
                       ''upstream error'' 502, w2)
                | (Inr resp, w2) \<Rightarrow>
                    (Upstream upReq # recordX cfg (UpstreamDuration (rr_BackendURL result))
                       @ respond ops cfg now r result resp (us_body resp), w2)))"

section \<open>Facts on the traces\<close>

definition cache_writes :: "px_event list \<Rightarrow> (string \<times> string) list" where
  "cache_writes tr = concat (map (\<lambda>e. case e of CacheWritten q b \<Rightarrow> [(q, b)] | _ \<Rightarrow> []) tr)"

fun is_client_write :: "px_event \<Rightarrow> bool" where
  "is_client_write (Responded _ _) = True"
| "is_client_write (Body _) = True"
| "is_client_write _ = False"

fun is_state_write :: "px_event \<Rightarrow> bool" where
  "is_state_write (CacheWritten _ _) = True"
| "is_state_write (HistoryInserted _ _ _ _) = True"
| "is_state_write _ = False"

text \<open>No state is written after the first write to the client.\<close>

definition state_before_response :: "px_event list \<Rightarrow> bool" where
  "state_before_response tr =
     list_all (\<lambda>e. \<not> is_state_write e) (dropWhile (\<lambda>e. \<not> is_client_write e) tr)"

definition no_state_write :: "px_event list \<Rightarrow> bool" where
  "no_state_write tr = list_all (\<lambda>e. \<not> is_state_write e) tr"

lemma recordX_no_state [simp]:
  "\<not> is_state_write e \<Longrightarrow> no_state_write (recordX cfg e)"
  by (simp add: recordX_def no_state_write_def)

lemma http_Error_no_state [simp]: "no_state_write (http_Error w m c)"
  by (simp add: http_Error_def no_state_write_def)

lemma no_state_append [simp]: "no_state_write (xs @ ys) = (no_state_write xs \<and> no_state_write ys)"
  by (simp add: no_state_write_def)

lemma no_state_Cons [simp]: "no_state_write (x # xs) = (\<not> is_state_write x \<and> no_state_write xs)"
  by (simp add: no_state_write_def)

lemma fail_with_no_state [simp]: "no_state_write (fail_with cfg b g m c)"
  by (simp add: fail_with_def)

lemma respond_no_state [simp]: "no_state_write (respond ops cfg now r res resp body)"
  by (simp add: respond_def no_state_write_def recordX_def http_Error_def split: prod.splits)

lemma no_state_before: "no_state_write tr \<Longrightarrow> state_before_response tr"
  unfolding no_state_write_def state_before_response_def
  by (meson list_all_iff set_dropWhileD)

lemma silent_then_no_state:
  assumes "list_all (\<lambda>e. \<not> is_client_write e) xs" "no_state_write ys"
  shows "state_before_response (xs @ ys)"
  using assms(1)
proof (induction xs)
  case Nil
  then show ?case using no_state_before[OF assms(2)] by simp
next
  case (Cons x xs)
  then show ?case by (simp add: state_before_response_def)
qed

lemma remember_silent:
  "list_all (\<lambda>e. \<not> is_client_write e) (fst (remember_query ops cfg r b buf w))"
  by (simp add: remember_query_def Let_def recordX_def split: option.splits prod.splits)

lemma silent_Upstream:
  "list_all (\<lambda>e. \<not> is_client_write e) (Upstream q # recordX cfg (UpstreamDuration b))"
  by (simp add: recordX_def)

lemma statement_answer_order:
  assumes "statement_answer ops cfg now r result resp w = (ev, w')"
    and "list_all (\<lambda>e. \<not> is_client_write e) pre"
  shows "state_before_response (pre @ ev)"
proof (cases "read_limited resp (wrap64 (pc_ResponseSize (px_Proxy cfg) + 1))")
  case None
  then have "no_state_write ev" using assms(1) by (auto simp: statement_answer_def Let_def)
  then show ?thesis by (rule silent_then_no_state[OF assms(2)])
next
  case (Some buf)
  show ?thesis
  proof (cases "int (length buf) > pc_ResponseSize (px_Proxy cfg)")
    case True
    then have "no_state_write ev" using assms(1) Some by (auto simp: statement_answer_def Let_def)
    then show ?thesis by (rule silent_then_no_state[OF assms(2)])
  next
    case False
    let ?a = "fst (remember_query ops cfg r (rr_BackendURL result) buf w)"
    have "ev = ?a @ respond ops cfg now r result resp buf"
      using assms(1) Some False by (auto simp: statement_answer_def Let_def split: prod.splits)
    moreover have "list_all (\<lambda>e. \<not> is_client_write e) (pre @ ?a)"
      using assms(2) remember_silent by simp
    ultimately show ?thesis using silent_then_no_state respond_no_state by (metis append.assoc)
  qed
qed

text \<open>What \<^verbatim>\<open>handleStatement\<close> does: it fails without touching the state, or it forwards to the selected
  backend and then fails, or it answers.\<close>

lemma handleStatement_cases:
  obtains (early) "no_state_write (fst (handleStatement ops cfg now r w))"
  | (answered) body result w1 upReq resp w2 where
      "rq_body r = Inr body" "px_Route ops (NewRouteInput r body) w = (Inr result, w1)"
      "rr_BackendURL result \<noteq> []"
      "upReq = (buildUpstreamRequest (rr_BackendURL result) r (Inr body))\<lparr> up_Header :=
         injectHeaders (copyHeaders (\<lambda>_. None) (rq_Header r)) r result \<rparr>"
      "px_Do ops upReq w1 = (Inr resp, w2)"
      "handleStatement ops cfg now r w =
        (Upstream upReq # recordX cfg (UpstreamDuration (rr_BackendURL result))
           @ fst (statement_answer ops cfg now r result resp w2),
         snd (statement_answer ops cfg now r result resp w2))"
proof (cases "rq_body r")
  case (Inl e)
  then show thesis using early by (simp add: handleStatement_def)
next
  case (Inr body)
  note b = Inr
  obtain rt w1 where rt: "px_Route ops (NewRouteInput r body) w = (rt, w1)" by fastforce
  show thesis
  proof (cases rt)
    case (Inl e)
    then show thesis using early b rt by (simp add: handleStatement_def)
  next
    case (Inr result)
    note rs = Inr
    let ?u = "(buildUpstreamRequest (rr_BackendURL result) r (Inr body))\<lparr> up_Header :=
         injectHeaders (copyHeaders (\<lambda>_. None) (rq_Header r)) r result \<rparr>"
    obtain an w2 where an: "px_Do ops ?u w1 = (an, w2)" by fastforce
    have h: "up_Header (buildUpstreamRequest bk r body) = copyHeaders (\<lambda>_. None) (rq_Header r)" for bk body
      by (simp add: buildUpstreamRequest_def)
    show thesis
    proof (cases "rr_BackendURL result = [] \<or> (pc_PropagateErrors (px_Proxy cfg) \<and> rr_Errors result \<noteq> [])
        \<or> \<not> px_url_ok ops (rr_BackendURL result)")
      case True
      then show thesis using early b rt rs by (auto simp: handleStatement_def no_state_write_def[of "[]"])
    next
      case False
      show thesis
      proof (cases an)
        case (Inl e)
        then show thesis using early b rt rs an False by (simp add: handleStatement_def h)
      next
        case (Inr resp)
        show thesis
          by (rule answered[OF b _ _ refl, of result w1 resp w2])
             (use b rt rs an False Inr in \<open>auto simp: handleStatement_def h case_prod_beta\<close>)
      qed
    qed
  qed
qed


lemma wrap64_id: "int64 i \<Longrightarrow> wrap64 i = i"
  by (simp add: wrap64_def int64_def)

lemma read_limited_whole:
  assumes "0 \<le> limit" "limit < 2 ^ 63 - 1" "\<not> us_broken resp" "int (length (us_body resp)) \<le> limit"
  shows "read_limited resp (wrap64 (limit + 1)) = Some (us_body resp)"
  using assms by (simp add: read_limited_def wrap64_id int64_def)

lemma read_limited_over:
  assumes "0 \<le> limit" "limit < 2 ^ 63 - 1" "int (length (us_body resp)) > limit"
  shows "\<exists>buf. read_limited resp (wrap64 (limit + 1)) = Some buf \<and> int (length buf) > limit"
  using assms by (simp add: read_limited_def wrap64_id int64_def min_def)

lemma respond_ok:
  assumes "fst (applyCookies (px_codec ops) (px_Cookie cfg) now r (rr_BackendURL result)
      (new_writer\<lparr> rw_Header := copyHeaders (\<lambda>_. None) (us_Header resp) \<rparr>))"
  shows "\<exists>w. respond ops cfg now r result resp body =
      recordX cfg (RequestHandled (rr_BackendURL result) (rr_RoutingGroup result) (rr_Outcome result))
      @ [Responded (us_Status resp) w, Body body] \<and> rw_Header w = copyHeaders (\<lambda>_. None) (us_Header resp)"
proof -
  let ?w0 = "new_writer\<lparr> rw_Header := copyHeaders (\<lambda>_. None) (us_Header resp) \<rparr>"
  obtain w1 where w: "applyCookies (px_codec ops) (px_Cookie cfg) now r (rr_BackendURL result) ?w0 = (True, w1)"
    using assms by (metis prod.collapse)
  have "rw_Header w1 = rw_Header ?w0"
    using w by (auto simp: applyCookies_def deleteCookie_def issueCookie_def SetCookie_def Let_def
        split: if_splits option.splits prod.splits)
  then show ?thesis
    using w by (simp add: respond_def new_writer_def)
qed

text \<open>
  C17: The response is forwarded byte for byte.  Once a backend has answered a statement with a body
  within the configured size, and the client's cookie is not tampered with, the client gets the
  backend's status, the backend's headers without the hop-by-hop ones, and exactly the backend's
  body.
\<close>
theorem statement_response_transparent:
  assumes "limit = pc_ResponseSize (px_Proxy cfg)" and "0 \<le> limit" and "limit < 2 ^ 63 - 1"
    and "\<not> us_broken resp" and "int (length (us_body resp)) \<le> limit"
    and "fst (applyCookies (px_codec ops) (px_Cookie cfg) now r (rr_BackendURL result)
      (new_writer\<lparr> rw_Header := copyHeaders (\<lambda>_. None) (us_Header resp) \<rparr>))"
  shows "\<exists>ev out. fst (statement_answer ops cfg now r result resp w) =
        ev @ [Responded (us_Status resp) out, Body (us_body resp)]
      \<and> list_all (\<lambda>e. \<not> is_client_write e) ev
      \<and> rw_Header out = copyHeaders (\<lambda>_. None) (us_Header resp)"
proof -
  let ?rem = "remember_query ops cfg r (rr_BackendURL result) (us_body resp) w"
  let ?m = "recordX cfg (RequestHandled (rr_BackendURL result) (rr_RoutingGroup result) (rr_Outcome result))"
  obtain out where o: "respond ops cfg now r result resp (us_body resp) =
      ?m @ [Responded (us_Status resp) out, Body (us_body resp)]"
      "rw_Header out = copyHeaders (\<lambda>_. None) (us_Header resp)"
    using respond_ok[OF assms(6)] by blast
  have "fst (statement_answer ops cfg now r result resp w) =
      (fst ?rem @ ?m) @ [Responded (us_Status resp) out, Body (us_body resp)]"
    using read_limited_whole[OF assms(2-5)] assms(1,5) o(1)
    by (simp add: statement_answer_def Let_def case_prod_beta)
  moreover have "list_all (\<lambda>e. \<not> is_client_write e) (fst ?rem @ ?m)"
    using remember_silent by (simp add: recordX_def)
  ultimately show ?thesis using o(2) by blast
qed

text \<open>
  An oversized answer is refused whole: the client gets 502 and the fixed message, nothing of the
  backend's body or headers, and neither the cache nor the history is written.
\<close>
theorem statement_response_oversized:
  assumes "limit = pc_ResponseSize (px_Proxy cfg)" and "0 \<le> limit" and "limit < 2 ^ 63 - 1"
    and "int (length (us_body resp)) > limit"
  shows "statement_answer ops cfg now r result resp w =
    (recordX cfg OversizedResponse
     @ recordX cfg (RequestHandled (rr_BackendURL result) (rr_RoutingGroup result) OutcomeError)
     @ http_Error new_writer ''upstream response too large'' 502, w)"
  using read_limited_over[OF assms(2-4)] assms(1)
  by (auto simp: statement_answer_def fail_with_def)

lemma cache_writes_append [simp]: "cache_writes (xs @ ys) = cache_writes xs @ cache_writes ys"
  by (simp add: cache_writes_def)

lemma no_state_cache_writes: "no_state_write tr \<Longrightarrow> cache_writes tr = []"
  by (induction tr) (auto simp: cache_writes_def split: px_event.splits)

lemma remember_cache_writes:
  "cache_writes (fst (remember_query ops cfg r b buf w)) =
     (if extractQueryIDFromBody ops buf = [] then [] else [(extractQueryIDFromBody ops buf, b)])"
  by (auto simp: remember_query_def cache_writes_def recordX_def Let_def split: option.splits prod.splits)

lemma statement_answer_writes:
  "cache_writes (fst (statement_answer ops cfg now r result resp w)) =
     (case read_limited resp (wrap64 (pc_ResponseSize (px_Proxy cfg) + 1)) of
        None \<Rightarrow> []
      | Some buf \<Rightarrow> if int (length buf) > pc_ResponseSize (px_Proxy cfg) \<or> extractQueryIDFromBody ops buf = []
                    then [] else [(extractQueryIDFromBody ops buf, rr_BackendURL result)])"
  by (simp add: statement_answer_def Let_def case_prod_beta no_state_cache_writes remember_cache_writes
      split: option.splits)

text \<open>
  What is cached is the truth.  The only entry a statement can put into the cache maps the query
  id in the body that the backend returned to that same backend, and a failed statement caches
  nothing.
\<close>
theorem handleStatement_cached_pair:
  assumes "(q, b) \<in> set (cache_writes (fst (handleStatement ops cfg now r w)))"
  shows "\<exists>upReq w1 resp w2 buf. px_Do ops upReq w1 = (Inr resp, w2) \<and> up_backend upReq = b \<and>
    read_limited resp (wrap64 (pc_ResponseSize (px_Proxy cfg) + 1)) = Some buf \<and>
    px_json_id ops buf = Some q \<and> q \<noteq> []"
proof (cases rule: handleStatement_cases[of ops cfg now r w])
  case early
  then show ?thesis using assms no_state_cache_writes by simp
next
  case (answered body result w1 upReq resp w2)
  have pre: "cache_writes (Upstream upReq # recordX cfg (UpstreamDuration b')) = []" for b'
    by (simp add: cache_writes_def recordX_def)
  let ?sa = "fst (statement_answer ops cfg now r result resp w2)"
  have "(q, b) \<in> set (cache_writes ?sa)"
    using assms answered(6) pre[of "rr_BackendURL result"]
      cache_writes_append[of "Upstream upReq # recordX cfg (UpstreamDuration (rr_BackendURL result))" ?sa]
    by simp
  then obtain buf where buf: "read_limited resp (wrap64 (pc_ResponseSize (px_Proxy cfg) + 1)) = Some buf"
    and i: "q = extractQueryIDFromBody ops buf" "q \<noteq> []" "b = rr_BackendURL result"
    by (cases "read_limited resp (wrap64 (pc_ResponseSize (px_Proxy cfg) + 1))")
       (auto simp: statement_answer_writes split: if_splits)
  moreover have "up_backend upReq = b" using answered(4) i(3) by (simp add: buildUpstreamRequest_def)
  moreover have "px_json_id ops buf = Some q"
    using i by (auto simp: extractQueryIDFromBody_def split: option.splits)
  ultimately show ?thesis using answered(5) i(2) by blast
qed

section \<open>Forwarded headers\<close>

lemma set_all_snoc: "set_all h (kvs @ [(k, v)]) = hdr_set (set_all h kvs) k v"
  by (simp add: set_all_def)

lemma set_all_other:
  "CanonicalHeaderKey x \<notin> CanonicalHeaderKey ` fst ` set kvs \<Longrightarrow>
     set_all h kvs (CanonicalHeaderKey x) = h (CanonicalHeaderKey x)"
proof (induction kvs rule: rev_induct)
  case (snoc kv kvs)
  obtain k v where "kv = (k, v)" by fastforce
  then show ?case using snoc by (auto simp: set_all_snoc hdr_set_def)
qed (simp add: set_all_def)

lemma set_all_last:
  assumes "CanonicalHeaderKey k \<notin> CanonicalHeaderKey ` fst ` set post"
  shows "set_all h (pre @ (k, v) # post) (CanonicalHeaderKey k) = Some [v]"
proof -
  have "set_all h (pre @ (k, v) # post) = set_all (hdr_set (set_all h pre) k v) post"
    by (simp add: set_all_def)
  then show ?thesis using set_all_other[OF assms] by (simp add: hdr_set_def)
qed

definition forwarded_keys :: "string list" where
  "forwarded_keys = [''X-Forwarded-For'', ''X-Forwarded-Proto'', ''X-Forwarded-Host'', ''X-Forwarded-Port'']"

lemma injectHeaders_other:
  assumes "CanonicalHeaderKey k = k" "k \<notin> CanonicalHeaderKey ` set forwarded_keys"
    and "k \<notin> CanonicalHeaderKey ` fst ` set (rr_ExternalHeaders result)"
  shows "injectHeaders up r result k = up k"
  using assms set_all_other[of k "rr_ExternalHeaders result"]
  by (auto simp: injectHeaders_def Let_def hdr_set_def forwarded_keys_def)

lemma hop_keys_canonical: "k \<in> set hopByHopHeaders \<Longrightarrow>
    CanonicalHeaderKey k = k \<and> k \<notin> CanonicalHeaderKey ` set forwarded_keys"
proof -
  have "list_all (\<lambda>k. CanonicalHeaderKey k = k \<and>
      \<not> List.member (map CanonicalHeaderKey forwarded_keys) k) hopByHopHeaders" by code_simp
  then show "k \<in> set hopByHopHeaders \<Longrightarrow> ?thesis" by (auto simp: list_all_iff)
qed


text \<open>
  The Host header is split into host and port: \<^verbatim>\<open>host:port\<close> and \<^verbatim>\<open>[v6]:port\<close> give the two parts, a host
  or a bracketed address without a port gives the scheme's default port.
\<close>
theorem host_port_split:
  assumes "CHR '':'' \<notin> set port" and "CHR '':'' \<notin> set host" and "host = [] \<or> hd host \<noteq> CHR ''[''"
    and "CHR '']'' \<notin> set v6"
  shows "hostOnly (host @ '':'' @ port) = host \<and> forwardedPort (host @ '':'' @ port) proto = port
    \<and> hostOnly (''['' @ v6 @ '']:'' @ port) = ''['' @ v6 @ '']''
    \<and> forwardedPort (''['' @ v6 @ '']:'' @ port) proto = port
    \<and> hostOnly host = host \<and> forwardedPort host proto = default_port proto
    \<and> forwardedPort (''['' @ v6 @ '']'') proto = default_port proto"
proof -
  have a: "last_index_byte (CHR '':'') (host @ CHR '':'' # port) = Some (length host)"
    using last_index_byte_append[OF assms(1)] .
  have h: "hd (host @ CHR '':'' # port) \<noteq> CHR ''[''" using assms(3) by (cases host) auto
  have v: "index_byte (CHR '']'') (v6 @ CHR '']'' # t) = Some (length v6)" for t
    using index_byte_append[OF assms(4)] .
  show ?thesis
    using a h v[of "CHR '':'' # port"] v[of "[]"] assms(3) last_index_byte_None[OF assms(2)]
    by (auto simp: hostOnly_def forwardedPort_def nth_append)
qed

section \<open>A concrete statement\<close>

definition demo_answer :: upstream_response where
  "demo_answer = \<lparr> us_Status = 200, us_Header = [''Te'' \<mapsto> [''x''], ''Etag'' \<mapsto> [''e'']],
     us_body = ''q7'', us_broken = False \<rparr>"

definition demo_route :: RouteResult where
  "demo_route = \<lparr> rr_BackendURL = ''http://b'', rr_RoutingGroup = ''etl'',
     rr_ExternalHeaders = [(''x-team'', ''t'')], rr_Errors = [], rr_Outcome = OutcomeOK \<rparr>"

definition demo_proxy_ops :: "(string \<times> string) list proxy_ops" where
  "demo_proxy_ops = \<lparr> px_Route = (\<lambda>_ w. (Inr demo_route, w)), px_WriteCache = (\<lambda>q b w. (q, b) # w),
     px_Insert = None, px_Do = (\<lambda>_ w. (Inr demo_answer, w)), px_url_ok = (\<lambda>_. True),
     px_json_id = Some, px_codec = demo_codec \<rparr>"

definition demo_proxy_cfg :: "int \<Rightarrow> proxy_config" where
  "demo_proxy_cfg n = \<lparr> px_Proxy = \<lparr> pc_PropagateErrors = True, pc_ResponseSize = n \<rparr>,
     px_Cookie = \<lparr> ck_Secret = [], ck_TTL = 1, ck_WireCompat = False \<rparr>, px_metrics = True \<rparr>"

lemmas demo_proxy_defs = demo_answer_def demo_route_def demo_proxy_ops_def demo_proxy_cfg_def

theorem statement_response_transparent_witness:
  "\<exists>ev out. fst (statement_answer demo_proxy_ops (demo_proxy_cfg 10) 0 (demo_http_req ''/v1/statement'' [])
       demo_route demo_answer []) = ev @ [Responded 200 out, Body ''q7'']
     \<and> list_all (\<lambda>e. \<not> is_client_write e) ev
     \<and> rw_Header out = copyHeaders (\<lambda>_. None) (us_Header demo_answer)"
  using statement_response_transparent[of 10 "demo_proxy_cfg 10" demo_answer demo_proxy_ops 0
      "demo_http_req ''/v1/statement'' []" demo_route "[]"]
  by (simp add: demo_proxy_defs applyCookies_def)

theorem statement_response_oversized_witness:
  "fst (statement_answer demo_proxy_ops (demo_proxy_cfg 1) 0 (demo_http_req ''/v1/statement'' [])
       demo_route demo_answer []) =
     [OversizedResponse, RequestHandled ''http://b'' ''etl'' OutcomeError]
     @ http_Error new_writer ''upstream response too large'' 502"
  using statement_response_oversized[of 1 "demo_proxy_cfg 1" demo_answer demo_proxy_ops 0
      "demo_http_req ''/v1/statement'' []" demo_route "[]"]
  by (simp add: demo_proxy_defs recordX_def)

theorem handleStatement_cached_pair_witness:
  "\<exists>upReq w1 resp w2 buf. px_Do demo_proxy_ops upReq w1 = (Inr resp, w2) \<and> up_backend upReq = ''http://b'' \<and>
    read_limited resp (wrap64 11) = Some buf \<and> px_json_id demo_proxy_ops buf = Some ''q7''"
proof -
  have "(''q7'', ''http://b'') \<in> set (cache_writes (fst (handleStatement demo_proxy_ops (demo_proxy_cfg 10) 0
      (demo_http_req ''/v1/statement'' []) [])))"
    by (simp add: handleStatement_def demo_proxy_defs demo_http_req_def statement_answer_def Let_def
        read_limited_def wrap64_def remember_query_def extractQueryIDFromBody_def cache_writes_def case_prod_beta)
  from handleStatement_cached_pair[OF this] show ?thesis by (auto simp: demo_proxy_cfg_def)
qed


theorem host_port_split_witness:
  "hostOnly ''gw:8080'' = ''gw'' \<and> forwardedPort ''[::1]:8443'' ''https'' = ''8443''"
  using host_port_split[of "''8080''" "''gw''" "''::1''"] host_port_split[of "''8443''" "''gw''" "''::1''" "''https''"]
  by simp

end
