(* ===== verification/Admin.thy ===== *)
theory Admin
  imports Cluster_Stats
begin

text \<open>
  The management API (\<^verbatim>\<open>internal/admin\<close>): the route table with its guards, and every handler as a
  function from the request and the state (the database, the health monitor, the readiness flag) to a
  response and the new state.  The chi mux, the compilation of regular expressions and JSON decoding
  are parameters.  Response bodies are the values that are encoded.  Two fields of the dashboard, the
  average query rates, are floating-point quotients and are left out.
\<close>

section \<open>Requests, responses and state\<close>

record ProxyBackend =
  pb_Name :: string
  pb_ProxyTo :: string
  pb_ExternalURL :: string
  pb_Active :: bool
  pb_RoutingGroup :: string

record BackendResponse =
  br_ProxyBackend :: ProxyBackend
  br_Queued :: int
  br_Running :: int
  br_Status :: string

record ClusterStatsResponse =
  cr_ClusterID :: string
  cr_RunningQueryCount :: int
  cr_QueuedQueryCount :: int
  cr_NumWorkerNodes :: int
  cr_TrinoStatus :: string
  cr_ProxyTo :: string
  cr_ExternalURL :: string
  cr_RoutingGroup :: string
  cr_UserQueuedCount :: "(string \<Rightarrow> nat) option"

record QueryDetail =
  qd_QueryID :: string
  qd_QueryText :: string
  qd_User :: string
  qd_Source :: string
  qd_BackendURL :: string
  qd_CaptureTime :: int
  qd_RoutingGroup :: string
  qd_ExternalURL :: string

record ChartPoint =
  cp_BackendURL :: string
  cp_Name :: string
  cp_QueryCount :: nat

record TimePoint =
  tp_EpochMillis :: int
  tp_BackendURL :: string
  tp_Name :: string
  tp_QueryCount :: nat

record DistributionResponse =
  dr_TotalBackendCount :: nat
  dr_OnlineBackendCount :: nat
  dr_OfflineBackendCount :: nat
  dr_HealthyBackendCount :: nat
  dr_UnhealthyBackendCount :: nat
  dr_TotalQueryCount :: nat
  dr_StartTime :: int
  dr_DistributionChart :: "ChartPoint list"
  dr_LineChart :: "string \<Rightarrow> TimePoint list option"

record userinfoResponse =
  ur_UserID :: string
  ur_UserName :: string
  ur_Roles :: "string list"
  ur_Permissions :: "string list"

text \<open>The \<^verbatim>\<open>Data\<close> of a \<^verbatim>\<open>Result\<close> envelope, and the bodies of responses.\<close>

datatype result_data =
    DNull | DString string | DToken string | DBool bool | DUserinfo userinfoResponse
  | DBackend ProxyBackend | DBackends "BackendResponse list" | DTable nat "QueryDetail list"
  | DDistribution DistributionResponse | DUIConfiguration string "string list" | DRoutingRules

datatype payload =
    NoBody | Text string | JString string | JStrings "string list" | JNone
  | JBackend ProxyBackend | JBackends "ProxyBackend list" | JState ClusterStatsResponse
  | JHistory "QueryDetail list" | JCounts "string \<Rightarrow> nat option"
  | Result nat string result_data | Redirect string | Asset string

record set_cookie =
  sc_Name :: string
  sc_Value :: string
  sc_Path :: string
  sc_MaxAge :: int
  sc_HttpOnly :: bool
  sc_Secure :: bool

record response =
  rs_status :: nat
  rs_body :: payload
  rs_cookies :: "set_cookie list"

definition plain :: "nat \<Rightarrow> payload \<Rightarrow> response" where
  "plain status body = \<lparr> rs_status = status, rs_body = body, rs_cookies = [] \<rparr>"

definition resultOK :: "result_data \<Rightarrow> response" where
  "resultOK d = plain 200 (Result 200 ''Successful.'' d)"

definition resultErr :: "string \<Rightarrow> response" where
  "resultErr msg = plain 200 (Result 500 msg DNull)"

definition admin_Error :: "string \<Rightarrow> nat \<Rightarrow> response" where
  "admin_Error msg status = plain status (Text msg)"

definition http_NotFound :: response where
  "http_NotFound = admin_Error ''404 page not found'' 404"

definition internal_error :: response where
  "internal_error = admin_Error ''internal server error'' 500"

record admin_state =
  ad_db :: db
  ad_mon :: "ClusterStats monitor"
  ad_ready :: bool

text \<open>The web login as the handlers see it, and a file of the UI bundle.\<close>

record web_login =
  wo_AuthCodeURL :: "string \<Rightarrow> string \<Rightarrow> string"
  wo_Exchange :: "string \<Rightarrow> string \<Rightarrow> string result"

datatype ui_file = UIFile string | UIDir

record admin_config =
  ac_AuthType :: string
  ac_Authorization :: AuthorizationConfig
  ac_AuthMW :: "(http_request \<Rightarrow> auth_verdict) option"
  ac_StatusMut :: bool
  ac_Stats :: bool
  ac_WebLogin :: "web_login option"
  ac_DisablePages :: "string list"
  ac_StartTime :: int
  ac_UIFS :: "(string \<Rightarrow> ui_file option) option"
  ac_MetricsEnabled :: bool
  ac_MetricsPath :: string
  ac_MetricsHandler :: "string option"

record FindQueryHistoryRequest =
  fq_UserName :: string
  fq_BackendURL :: string
  fq_QueryID :: string
  fq_Source :: string
  fq_Page :: int
  fq_PageSize :: int

text \<open>What a request meets outside the program: regular expressions, the clock, random bytes, JSON.
  \<open>av_hours\<close> is the \<^verbatim>\<open>latestHour\<close> left after decoding, 0 when the body has none.\<close>

record admin_env =
  av_matches :: "string \<Rightarrow> string \<Rightarrow> bool option"
  av_now :: int
  av_random_state :: "string result"
  av_random_nonce :: "string result"
  av_backend :: "string \<Rightarrow> ProxyBackend option"
  av_find :: "string \<Rightarrow> FindQueryHistoryRequest option"
  av_hours :: "string \<Rightarrow> int"
  av_login :: "string \<Rightarrow> (string \<times> string) option"

definition read_body :: "nat \<Rightarrow> http_request \<Rightarrow> string result" where
  "read_body limit r = (case rq_body r of Inl e \<Rightarrow> Inl e | Inr b \<Rightarrow> Inr (take limit b))"

definition decodeJSON :: "(string \<Rightarrow> 'a option) \<Rightarrow> http_request \<Rightarrow> 'a option" where
  "decodeJSON dec r = (case read_body 1048576 r of Inl _ \<Rightarrow> None | Inr b \<Rightarrow> dec b)"

section \<open>Query strings\<close>

text \<open>\<^verbatim>\<open>url.QueryUnescape\<close> and \<^verbatim>\<open>URL.Query().Get\<close>.\<close>

definition unhex :: "char \<Rightarrow> nat option" where
  "unhex c = (let b = byte c in
     if 48 \<le> b \<and> b \<le> 57 then Some (b - 48) else if 97 \<le> b \<and> b \<le> 102 then Some (b - 87)
     else if 65 \<le> b \<and> b \<le> 70 then Some (b - 55) else None)"

fun QueryUnescape :: "string \<Rightarrow> string option" where
  "QueryUnescape [] = Some []"
| "QueryUnescape (c # cs) =
     (if c = CHR ''%'' then
        (case cs of
           a # b # rest \<Rightarrow>
             (case (unhex a, unhex b) of
                (Some x, Some y) \<Rightarrow> map_option (Cons (char_of (16 * x + y))) (QueryUnescape rest)
              | _ \<Rightarrow> None)
         | _ \<Rightarrow> None)
      else map_option (Cons (if c = CHR ''+'' then CHR '' '' else c)) (QueryUnescape cs))"

definition query_pair :: "string \<Rightarrow> (string \<times> string) option" where
  "query_pair s =
     (if s = [] \<or> CHR '';'' \<in> set s then None
      else (let (k, v) = (case str_cut (CHR ''='') s of None \<Rightarrow> (s, []) | Some kv \<Rightarrow> kv) in
            case (QueryUnescape k, QueryUnescape v) of (Some k', Some v') \<Rightarrow> Some (k', v') | _ \<Rightarrow> None))"

definition Query_Get :: "string \<Rightarrow> string \<Rightarrow> string" where
  "Query_Get raw key =
     (case map_of (List.map_filter query_pair (split_on (CHR ''&'') raw)) key of None \<Rightarrow> [] | Some v \<Rightarrow> v)"

section \<open>Backends\<close>

definition externalURLOrProxyTo :: "string \<Rightarrow> string \<Rightarrow> string" where
  "externalURLOrProxyTo externalURL proxyTo = (if externalURL = [] then proxyTo else externalURL)"

definition proxyBackendFromPersistence :: "Backend \<Rightarrow> ProxyBackend" where
  "proxyBackendFromPersistence b = \<lparr> pb_Name = be_Name b, pb_ProxyTo = be_URL b,
     pb_ExternalURL = externalURLOrProxyTo (be_ExternalURL b) (be_URL b), pb_Active = be_Active b,
     pb_RoutingGroup = be_RoutingGroup b \<rparr>"

definition persistenceBackendFromProxy :: "int \<Rightarrow> ProxyBackend \<Rightarrow> Backend" where
  "persistenceBackendFromProxy now pb = \<lparr> be_Name = pb_Name pb, be_URL = pb_ProxyTo pb,
     be_ExternalURL = pb_ExternalURL pb, be_RoutingGroup = pb_RoutingGroup pb, be_Active = pb_Active pb,
     be_CreatedAt = now, be_UpdatedAt = now \<rparr>"

text \<open>The store the monitor's statistics cycles have written.\<close>

definition stats_store :: "admin_state \<Rightarrow> StatsStore" where
  "stats_store s = fold ObserveStats (mo_stats (ad_mon s)) NewStatsStore"

definition clusterStatsResponseFromPersistence :: "admin_state \<Rightarrow> Backend \<Rightarrow> ClusterStats \<Rightarrow> ClusterStatsResponse" where
  "clusterStatsResponseFromPersistence s b cs = \<lparr> cr_ClusterID = be_Name b,
     cr_RunningQueryCount = cs_RunningQueryCount cs, cr_QueuedQueryCount = cs_QueuedQueryCount cs,
     cr_NumWorkerNodes = cs_NumWorkerNodes cs, cr_TrinoStatus = Label (Status (ad_mon s) (be_URL b)),
     cr_ProxyTo = be_URL b, cr_ExternalURL = externalURLOrProxyTo (be_ExternalURL b) (be_URL b),
     cr_RoutingGroup = be_RoutingGroup b, cr_UserQueuedCount = cs_UserQueuedCount cs \<rparr>"

definition backendResponseFromPersistence :: "admin_config \<Rightarrow> admin_state \<Rightarrow> Backend \<Rightarrow> BackendResponse" where
  "backendResponseFromPersistence cfg s b =
     (let cs = store_Stats (stats_store s) (be_Name b) in
      \<lparr> br_ProxyBackend = proxyBackendFromPersistence b,
        br_Queued = (if ac_Stats cfg then cs_QueuedQueryCount cs else 0),
        br_Running = (if ac_Stats cfg then cs_RunningQueryCount cs else 0),
        br_Status = Label (Status (ad_mon s) (be_URL b)) \<rparr>)"

definition list_response :: "Backend list result \<Rightarrow> response" where
  "list_response res =
     (case res of Inl _ \<Rightarrow> internal_error
      | Inr bs \<Rightarrow> plain 200 (JBackends (map proxyBackendFromPersistence bs)))"

definition listPublicBackends :: "admin_state \<Rightarrow> response" where
  "listPublicBackends s = list_response (backend_List (ad_db s))"

definition getPublicBackend :: "string \<Rightarrow> admin_state \<Rightarrow> response" where
  "getPublicBackend name s =
     (case backend_List (ad_db s) of
        Inl _ \<Rightarrow> internal_error
      | Inr bs \<Rightarrow> (case find (\<lambda>b. be_Name b = name) bs of
          None \<Rightarrow> http_NotFound | Some b \<Rightarrow> plain 200 (JBackend (proxyBackendFromPersistence b))))"

definition getPublicBackendState :: "admin_config \<Rightarrow> string \<Rightarrow> admin_state \<Rightarrow> response" where
  "getPublicBackendState cfg name s =
     (case backend_List (ad_db s) of
        Inl _ \<Rightarrow> internal_error
      | Inr bs \<Rightarrow> (case find (\<lambda>b. be_Name b = name) bs of
          None \<Rightarrow> http_NotFound
        | Some b \<Rightarrow> plain 200 (JState (clusterStatsResponseFromPersistence s b
            (if ac_Stats cfg then store_Stats (stats_store s) (be_Name b) else zero_stats)))))"

definition handleGatewayPing :: response where
  "handleGatewayPing = plain 200 (JString ''ok'')"

definition listAllBackends :: "admin_state \<Rightarrow> response" where
  "listAllBackends s = list_response (backend_List (ad_db s))"

definition listActiveBackends :: "admin_state \<Rightarrow> response" where
  "listActiveBackends s = list_response (backend_ListActive (ad_db s))"

text \<open>\<^verbatim>\<open>%q\<close>, for text that needs no escapes.\<close>

definition quoted :: "string \<Rightarrow> string" where
  "quoted s = [CHR 0x22] @ s @ [CHR 0x22]"

definition setActive :: "admin_env \<Rightarrow> string \<Rightarrow> bool \<Rightarrow> admin_state \<Rightarrow> response \<times> admin_state" where
  "setActive env name active s =
     (case backend_SetActive (av_now env) name active (ad_db s) of
        (Inl _, d) \<Rightarrow> (admin_Error (''backend '' @ quoted name @ '' not found or error'') 404, s\<lparr> ad_db := d \<rparr>)
      | (Inr _, d) \<Rightarrow> (plain 200 NoBody, s\<lparr> ad_db := d \<rparr>))"

definition activateBackend :: "admin_env \<Rightarrow> string \<Rightarrow> admin_state \<Rightarrow> response \<times> admin_state" where
  "activateBackend env name s = setActive env name True s"

definition deactivateBackend :: "admin_env \<Rightarrow> string \<Rightarrow> admin_state \<Rightarrow> response \<times> admin_state" where
  "deactivateBackend env name s = setActive env name False s"

definition addBackend :: "admin_env \<Rightarrow> http_request \<Rightarrow> admin_state \<Rightarrow> response \<times> admin_state" where
  "addBackend env r s =
     (case decodeJSON (av_backend env) r of
        None \<Rightarrow> (admin_Error ''bad request'' 400, s)
      | Some pb \<Rightarrow>
          (case backend_Upsert (persistenceBackendFromProxy (av_now env) pb) (ad_db s) of
             (Inl _, d) \<Rightarrow> (internal_error, s\<lparr> ad_db := d \<rparr>)
           | (Inr _, d) \<Rightarrow> (plain 200 (JBackend pb), s\<lparr> ad_db := d \<rparr>)))"

definition updateBackend :: "admin_env \<Rightarrow> http_request \<Rightarrow> admin_state \<Rightarrow> response \<times> admin_state" where
  "updateBackend env r s =
     (case decodeJSON (av_backend env) r of
        None \<Rightarrow> (admin_Error ''bad request'' 400, s)
      | Some pb \<Rightarrow>
          (case backend_Upsert (persistenceBackendFromProxy (av_now env) pb) (ad_db s) of
             (Inl _, d) \<Rightarrow> (internal_error, s\<lparr> ad_db := d \<rparr>)
           | (Inr _, d) \<Rightarrow> (plain 200 (JBackend pb), s\<lparr> ad_db := d \<rparr>)))"

definition deleteBackend :: "http_request \<Rightarrow> admin_state \<Rightarrow> response \<times> admin_state" where
  "deleteBackend r s =
     (case read_body 1024 r of
        Inl _ \<Rightarrow> (admin_Error ''bad request'' 400, s)
      | Inr body \<Rightarrow>
          (let name = TrimSpace body in
           if name = [] then (admin_Error ''bad request: empty name'' 400, s)
           else (case backend_Delete name (ad_db s) of
                   (Inl _, d) \<Rightarrow> (internal_error, s\<lparr> ad_db := d \<rparr>)
                 | (Inr _, d) \<Rightarrow> (plain 200 NoBody, s\<lparr> ad_db := d \<rparr>))))"

definition listEntityTypes :: response where
  "listEntityTypes = plain 200 (JStrings [''GATEWAY_BACKEND''])"

definition upsertEntity :: "admin_config \<Rightarrow> admin_env \<Rightarrow> http_request \<Rightarrow> admin_state \<Rightarrow> response \<times> admin_state" where
  "upsertEntity cfg env r s =
     (if Query_Get (rq_RawQuery r) ''entityType'' \<noteq> ''GATEWAY_BACKEND''
      then (admin_Error (''unknown entity type: '' @ quoted (Query_Get (rq_RawQuery r) ''entityType'')) 500, s)
      else (case decodeJSON (av_backend env) r of
              None \<Rightarrow> (admin_Error ''bad request'' 400, s)
            | Some pb \<Rightarrow>
                (case backend_Upsert (persistenceBackendFromProxy (av_now env) pb) (ad_db s) of
                   (Inl _, d) \<Rightarrow> (internal_error, s\<lparr> ad_db := d \<rparr>)
                 | (Inr _, d) \<Rightarrow>
                     (plain 200 (JBackend pb),
                      s\<lparr> ad_db := d,
                         ad_mon := (if ac_StatusMut cfg
                           then SetBackendStatus (pb_ProxyTo pb)
                                  (if pb_Active pb then StatusPending else StatusUnhealthy) (ad_mon s)
                           else ad_mon s) \<rparr>))))"

definition listEntities :: "string \<Rightarrow> admin_state \<Rightarrow> response" where
  "listEntities entityType s =
     (if entityType \<noteq> ''GATEWAY_BACKEND'' then plain 200 JNone else list_response (backend_List (ad_db s)))"

section \<open>History\<close>

text \<open>Query text and routing group of a record are empty: no column holds them.\<close>

definition queryDetailFromRecord :: "QueryRecord \<Rightarrow> QueryDetail" where
  "queryDetailFromRecord r = \<lparr> qd_QueryID = qr_QueryID r, qd_QueryText = [], qd_User = qr_UserName r,
     qd_Source = qr_Source r, qd_BackendURL = qr_BackendURL r, qd_CaptureTime = qr_CreatedAt r div 1000000,
     qd_RoutingGroup = [],
     qd_ExternalURL = (if qr_ExternalURL r = [] then qr_BackendURL r else qr_ExternalURL r) \<rparr>"

definition isAdmin :: "admin_config \<Rightarrow> admin_env \<Rightarrow> Principal option \<Rightarrow> bool" where
  "isAdmin cfg env p = HasRole (av_matches env) p RoleAdmin (ac_Authorization cfg)"

definition queryHistory :: "admin_config \<Rightarrow> admin_env \<Rightarrow> Principal option \<Rightarrow> admin_state \<Rightarrow> response" where
  "queryHistory cfg env p s =
     (let records = (if isAdmin cfg env p then history_ListRecent 100 (ad_db s)
        else map_sum id fst (history_FindByFilter
               \<lparr> hf_UserName = (case p of None \<Rightarrow> [] | Some q \<Rightarrow> pn_Name q), hf_BackendURL = [],
                 hf_QueryID = [], hf_Source = [], hf_Page = 1, hf_PageSize = 100 \<rparr> (ad_db s)))
      in case records of
           Inl _ \<Rightarrow> internal_error
         | Inr rs \<Rightarrow> plain 200 (JHistory (map queryDetailFromRecord rs)))"

definition legacyActiveBackends :: "admin_state \<Rightarrow> response" where
  "legacyActiveBackends s = list_response (backend_ListActive (ad_db s))"

definition count_by_url :: "QueryRecord list \<Rightarrow> string \<Rightarrow> nat option" where
  "count_by_url rs = fold (\<lambda>r m. m(qr_BackendURL r \<mapsto> (case m (qr_BackendURL r) of None \<Rightarrow> 1 | Some n \<Rightarrow> n + 1)))
     rs (\<lambda>_. None)"

definition queryHistoryDistribution :: "admin_config \<Rightarrow> admin_env \<Rightarrow> Principal option \<Rightarrow> admin_state \<Rightarrow> response" where
  "queryHistoryDistribution cfg env p s =
     (case history_FindByFilter
             \<lparr> hf_UserName = (case p of None \<Rightarrow> [] | Some q \<Rightarrow> if isAdmin cfg env p then [] else pn_Name q),
               hf_BackendURL = [], hf_QueryID = [], hf_Source = [], hf_Page = 1, hf_PageSize = 10000 \<rparr> (ad_db s) of
        Inl _ \<Rightarrow> internal_error
      | Inr (rs, _) \<Rightarrow> plain 200 (JCounts (count_by_url rs)))"

section \<open>Web application\<close>

definition webappGetAllBackends :: "admin_config \<Rightarrow> admin_state \<Rightarrow> response" where
  "webappGetAllBackends cfg s =
     (case backend_List (ad_db s) of
        Inl _ \<Rightarrow> resultErr ''failed to list backends''
      | Inr bs \<Rightarrow> resultOK (DBackends (map (backendResponseFromPersistence cfg s) bs)))"

definition webappFindQueryHistory ::
  "admin_config \<Rightarrow> admin_env \<Rightarrow> Principal option \<Rightarrow> http_request \<Rightarrow> admin_state \<Rightarrow> response" where
  "webappFindQueryHistory cfg env p r s =
     (case decodeJSON (av_find env) r of
        None \<Rightarrow> resultErr ''bad request''
      | Some req \<Rightarrow>
          (let userName = (if isAdmin cfg env p then fq_UserName req
                           else (case p of None \<Rightarrow> fq_UserName req | Some q \<Rightarrow> pn_Name q)) in
           case history_FindByFilter
                  \<lparr> hf_UserName = userName, hf_BackendURL = fq_BackendURL req, hf_QueryID = fq_QueryID req,
                    hf_Source = fq_Source req, hf_Page = fq_Page req, hf_PageSize = fq_PageSize req \<rparr> (ad_db s) of
             Inl _ \<Rightarrow> resultErr ''failed to query history''
           | Inr (rs, n) \<Rightarrow> resultOK (DTable n (map queryDetailFromRecord rs))))"

text \<open>The loop over the backends of \<^verbatim>\<open>webappGetDistribution\<close>, one backend at a time.\<close>

record dist_acc =
  da_total :: nat
  da_online :: nat
  da_offline :: nat
  da_healthy :: nat
  da_unhealthy :: nat
  da_dist :: "string \<Rightarrow> nat option"
  da_chart :: "ChartPoint list"
  da_urlToName :: "string \<Rightarrow> string option"

definition dist_step :: "admin_state \<Rightarrow> Backend \<Rightarrow> dist_acc \<Rightarrow> dist_acc" where
  "dist_step s b a =
     (let st = Status (ad_mon s) (be_URL b) in
      a\<lparr> da_total := da_total a + 1,
         da_online := da_online a + (if be_Active b then 1 else 0),
         da_offline := da_offline a + (if be_Active b then 0 else 1),
         da_healthy := da_healthy a + (if st = StatusHealthy then 1 else 0),
         da_unhealthy := da_unhealthy a + (if st = StatusHealthy then 0 else 1),
         da_dist := (da_dist a)(be_URL b \<mapsto> 0),
         da_urlToName := (da_urlToName a)(be_URL b \<mapsto> be_Name b),
         da_chart := da_chart a @ [\<lparr> cp_BackendURL = be_URL b, cp_Name = be_Name b, cp_QueryCount = 0 \<rparr>] \<rparr>)"

definition dist_init :: dist_acc where
  "dist_init = \<lparr> da_total = 0, da_online = 0, da_offline = 0, da_healthy = 0, da_unhealthy = 0,
     da_dist = (\<lambda>_. None), da_chart = [], da_urlToName = (\<lambda>_. None) \<rparr>"

definition count_known :: "QueryRecord list \<Rightarrow> (string \<Rightarrow> nat option) \<Rightarrow> string \<Rightarrow> nat option" where
  "count_known rs dist = fold (\<lambda>r m. case m (qr_BackendURL r) of None \<Rightarrow> m
     | Some n \<Rightarrow> m(qr_BackendURL r \<mapsto> n + 1)) rs dist"

definition map_total :: "string list \<Rightarrow> (string \<Rightarrow> nat option) \<Rightarrow> nat" where
  "map_total keys m = sum_list (map (\<lambda>k. case m k of None \<Rightarrow> 0 | Some n \<Rightarrow> n) (remdups keys))"

definition line_step ::
  "(string \<Rightarrow> string option) \<Rightarrow> DistributionBucket \<Rightarrow> (string \<Rightarrow> TimePoint list option) \<Rightarrow> string \<Rightarrow> TimePoint list option" where
  "line_step urlToName b chart =
     (case urlToName (bu_BackendURL b) of
        None \<Rightarrow> chart
      | Some name \<Rightarrow> chart(name \<mapsto> (case chart name of None \<Rightarrow> [] | Some ps \<Rightarrow> ps)
          @ [\<lparr> tp_EpochMillis = bu_MinuteStart b div 1000000, tp_BackendURL = bu_BackendURL b, tp_Name = name,
               tp_QueryCount = bu_QueryCount b \<rparr>]))"

definition buildLineChart ::
  "admin_env \<Rightarrow> int \<Rightarrow> (string \<Rightarrow> string option) \<Rightarrow> admin_state \<Rightarrow> string \<Rightarrow> TimePoint list option" where
  "buildLineChart env latestHour urlToName s =
     (case history_FindDistribution (av_now env - wrap64 (latestHour * 3600000000000)) (ad_db s) of
        Inl _ \<Rightarrow> (\<lambda>_. None)
      | Inr buckets \<Rightarrow> fold (line_step urlToName) buckets (\<lambda>_. None))"

definition distribution_response ::
  "admin_config \<Rightarrow> admin_env \<Rightarrow> int \<Rightarrow> Backend list \<Rightarrow> admin_state \<Rightarrow> DistributionResponse" where
  "distribution_response cfg env latestHour bs s =
     (let a = fold (dist_step s) bs dist_init;
          (dist, chart) =
            (case history_FindByFilter \<lparr> hf_UserName = [], hf_BackendURL = [], hf_QueryID = [], hf_Source = [],
                     hf_Page = 1, hf_PageSize = 10000 \<rparr> (ad_db s) of
               Inl _ \<Rightarrow> (da_dist a, da_chart a)
             | Inr (rs, _) \<Rightarrow>
                 (let d = count_known rs (da_dist a)
                  in (d, map (\<lambda>p. p\<lparr> cp_QueryCount := (case d (cp_BackendURL p) of None \<Rightarrow> 0 | Some n \<Rightarrow> n) \<rparr>) (da_chart a))))
      in \<lparr> dr_TotalBackendCount = da_total a, dr_OnlineBackendCount = da_online a,
           dr_OfflineBackendCount = da_offline a, dr_HealthyBackendCount = da_healthy a,
           dr_UnhealthyBackendCount = da_unhealthy a,
           dr_TotalQueryCount = map_total (map be_URL bs) dist,
           dr_StartTime = ac_StartTime cfg, dr_DistributionChart = chart,
           dr_LineChart = buildLineChart env latestHour (da_urlToName a) s \<rparr>)"

definition webappGetDistribution :: "admin_config \<Rightarrow> admin_env \<Rightarrow> http_request \<Rightarrow> admin_state \<Rightarrow> response" where
  "webappGetDistribution cfg env r s =
     (let hour = (case read_body 1048576 r of Inl _ \<Rightarrow> 0 | Inr b \<Rightarrow> av_hours env b);
          latestHour = (if hour \<le> 0 then 1 else hour)
      in case backend_List (ad_db s) of
           Inl _ \<Rightarrow> resultErr ''failed to list backends''
         | Inr bs \<Rightarrow> resultOK (DDistribution (distribution_response cfg env latestHour bs s)))"

definition webappGetUIConfig :: "admin_config \<Rightarrow> response" where
  "webappGetUIConfig cfg = resultOK (DUIConfiguration (ac_AuthType cfg) (ac_DisablePages cfg))"

definition webappGetRoutingRules :: response where
  "webappGetRoutingRules = plain 204 NoBody"

definition webappUpdateRoutingRules :: response where
  "webappUpdateRoutingRules = resultOK DRoutingRules"

definition webappSaveBackend :: "admin_env \<Rightarrow> http_request \<Rightarrow> admin_state \<Rightarrow> response \<times> admin_state" where
  "webappSaveBackend env r s =
     (case decodeJSON (av_backend env) r of
        None \<Rightarrow> (resultErr ''bad request'', s)
      | Some pb \<Rightarrow>
          (case backend_Upsert (persistenceBackendFromProxy (av_now env) pb) (ad_db s) of
             (Inl _, d) \<Rightarrow> (resultErr ''failed to save backend'', s\<lparr> ad_db := d \<rparr>)
           | (Inr _, d) \<Rightarrow> (resultOK (DBackend pb), s\<lparr> ad_db := d \<rparr>)))"

definition webappUpdateBackend :: "admin_env \<Rightarrow> http_request \<Rightarrow> admin_state \<Rightarrow> response \<times> admin_state" where
  "webappUpdateBackend env r s =
     (case decodeJSON (av_backend env) r of
        None \<Rightarrow> (resultErr ''bad request'', s)
      | Some pb \<Rightarrow>
          (case backend_Upsert (persistenceBackendFromProxy (av_now env) pb) (ad_db s) of
             (Inl _, d) \<Rightarrow> (resultErr ''failed to update backend'', s\<lparr> ad_db := d \<rparr>)
           | (Inr _, d) \<Rightarrow> (resultOK (DBackend pb), s\<lparr> ad_db := d \<rparr>)))"

definition webappDeleteBackend :: "admin_env \<Rightarrow> http_request \<Rightarrow> admin_state \<Rightarrow> response \<times> admin_state" where
  "webappDeleteBackend env r s =
     (case decodeJSON (av_backend env) r of
        None \<Rightarrow> (resultErr ''bad request'', s)
      | Some pb \<Rightarrow>
          (case backend_Delete (pb_Name pb) (ad_db s) of
             (Inl _, d) \<Rightarrow> (resultErr ''failed to delete backend'', s\<lparr> ad_db := d \<rparr>)
           | (Inr _, d) \<Rightarrow> (resultOK (DBool True), s\<lparr> ad_db := d \<rparr>)))"

section \<open>Health and login\<close>

definition admin_SetReady :: "admin_state \<Rightarrow> admin_state" where
  "admin_SetReady s = s\<lparr> ad_ready := True \<rparr>"

definition handleLivez :: response where
  "handleLivez = plain 200 (Text ''ok'')"

definition handleReadyz :: "admin_state \<Rightarrow> response" where
  "handleReadyz s = (if ad_ready s then plain 200 (Text ''ok'') else plain 503 (Text ''not ready''))"

definition handleLoginType :: "admin_config \<Rightarrow> response" where
  "handleLoginType cfg = resultOK (DString
     (if ac_AuthType cfg = ''OIDC'' then ''oauth'' else if ac_AuthType cfg = ''LDAP'' then ''form'' else ''none''))"

definition handleLogin :: "admin_config \<Rightarrow> admin_env \<Rightarrow> http_request \<Rightarrow> response" where
  "handleLogin cfg env r =
     (case decodeJSON (av_login env) r of
        None \<Rightarrow> resultErr ''bad request''
      | Some (username, password) \<Rightarrow>
          if ac_AuthType cfg = ''NOOP'' \<or> ac_AuthType cfg = [] then resultOK (DToken username)
          else resultErr (''login not implemented for auth type: '' @ ac_AuthType cfg))"

definition handleLogout :: response where
  "handleLogout = resultOK DNull"

definition oidcStateCookie :: string where "oidcStateCookie = ''trino-gateway-oidc''"
definition tokenCookie :: string where "tokenCookie = ''token''"

definition requestIsHTTPS :: "http_request \<Rightarrow> bool" where
  "requestIsHTTPS r = (rq_TLS r \<or> EqualFold (hdr_get (rq_Header r) ''X-Forwarded-Proto'') ''https'')"

definition handleSSO :: "admin_config \<Rightarrow> admin_env \<Rightarrow> http_request \<Rightarrow> response" where
  "handleSSO cfg env r =
     (case (if ac_AuthType cfg = ''OIDC'' then ac_WebLogin cfg else None) of
        None \<Rightarrow> resultErr ''SSO not configured''
      | Some wl \<Rightarrow>
          (case RandomToken (av_random_state env) of
             Inl _ \<Rightarrow> resultErr ''internal error''
           | Inr state \<Rightarrow>
               (case RandomToken (av_random_nonce env) of
                  Inl _ \<Rightarrow> resultErr ''internal error''
                | Inr nonce \<Rightarrow>
                    (resultOK (DString (wo_AuthCodeURL wl state nonce)))\<lparr> rs_cookies :=
                      [\<lparr> sc_Name = oidcStateCookie, sc_Value = state @ '':'' @ nonce, sc_Path = ''/oidc/callback'',
                         sc_MaxAge = 900, sc_HttpOnly = True, sc_Secure = requestIsHTTPS r \<rparr>] \<rparr>)))"

definition readOIDCStateCookie :: "http_request \<Rightarrow> (string \<times> string) option" where
  "readOIDCStateCookie r =
     (case map_of (rq_cookies r) oidcStateCookie of
        None \<Rightarrow> None
      | Some v \<Rightarrow>
          (case str_cut (CHR '':'') v of
             None \<Rightarrow> None
           | Some (state, nonce) \<Rightarrow> if state = [] \<or> nonce = [] then None else Some (state, nonce)))"

definition handleOIDCCallback :: "admin_config \<Rightarrow> http_request \<Rightarrow> response" where
  "handleOIDCCallback cfg r =
     (case (if ac_AuthType cfg = ''OIDC'' then ac_WebLogin cfg else None) of
        None \<Rightarrow> admin_Error ''OIDC not configured'' 500
      | Some wl \<Rightarrow>
          if Query_Get (rq_RawQuery r) ''code'' = [] then admin_Error ''missing authorization code'' 400
          else (case readOIDCStateCookie r of
                  None \<Rightarrow> admin_Error ''missing or malformed login state'' 400
                | Some (state, nonce) \<Rightarrow>
                    if Query_Get (rq_RawQuery r) ''state'' \<noteq> state then admin_Error ''state mismatch'' 400
                    else (case wo_Exchange wl (Query_Get (rq_RawQuery r) ''code'') nonce of
                            Inl _ \<Rightarrow> admin_Error ''login failed'' 401
                          | Inr idToken \<Rightarrow>
                              \<lparr> rs_status = 303, rs_body = Redirect ''/trino-gateway'', rs_cookies =
                                 [\<lparr> sc_Name = oidcStateCookie, sc_Value = [], sc_Path = ''/oidc/callback'',
                                    sc_MaxAge = -1, sc_HttpOnly = True, sc_Secure = requestIsHTTPS r \<rparr>,
                                  \<lparr> sc_Name = tokenCookie, sc_Value = idToken, sc_Path = ''/'', sc_MaxAge = 86400,
                                    sc_HttpOnly = False, sc_Secure = requestIsHTTPS r \<rparr>] \<rparr>)))"

definition handleUserinfo :: "admin_config \<Rightarrow> admin_env \<Rightarrow> Principal option \<Rightarrow> response" where
  "handleUserinfo cfg env p =
     resultOK (DUserinfo
       (case p of
          None \<Rightarrow> \<lparr> ur_UserID = [], ur_UserName = [], ur_Roles = [], ur_Permissions = [] \<rparr>
        | Some q \<Rightarrow>
            (let roles = filter (\<lambda>role. HasRole (av_matches env) p role (ac_Authorization cfg)) [RoleAdmin, RoleUser, RoleAPI]
             in \<lparr> ur_UserID = pn_Name q, ur_UserName = pn_Name q, ur_Roles = roles,
                  ur_Permissions = ResolvePagePermissions roles (az_PagePermissions (ac_Authorization cfg)) \<rparr>)))"

section \<open>Web UI files\<close>

definition readUIFile :: "admin_config \<Rightarrow> string \<Rightarrow> string option" where
  "readUIFile cfg name =
     (case ac_UIFS cfg of
        None \<Rightarrow> None
      | Some files \<Rightarrow> (case files name of Some (UIFile data) \<Rightarrow> Some data | _ \<Rightarrow> None))"

definition serveIndex :: "admin_config \<Rightarrow> response" where
  "serveIndex cfg = plain 200 (Text (case readUIFile cfg ''index.html'' of
     Some data \<Rightarrow> data | None \<Rightarrow> ''<!DOCTYPE html><html><body>Trino Gateway</body></html>''))"

definition serveLogoSVG :: "admin_config \<Rightarrow> response" where
  "serveLogoSVG cfg = plain 200 (case readUIFile cfg ''logo.svg'' of
     Some data \<Rightarrow> Text data | None \<Rightarrow> Text (''<svg xmlns='' @ quoted ''http://www.w3.org/2000/svg'' @ ''/>''))"

text \<open>\<^verbatim>\<open>path.Clean\<close> of a rooted path keeps the segments that remain after empty and \<^verbatim>\<open>.\<close> segments are
  dropped and \<^verbatim>\<open>..\<close> removes the segment before it; joining with \<^verbatim>\<open>assets\<close> cleans again.\<close>

definition clean_step :: "string list \<Rightarrow> string \<Rightarrow> string list" where
  "clean_step out seg = (if seg = [] \<or> seg = ''.'' then out else if seg = ''..'' then butlast out else out @ [seg])"

definition clean_segments :: "string \<Rightarrow> string list" where
  "clean_segments p = foldl clean_step [] (split_on (CHR ''/'') p)"

definition path_Clean :: "string \<Rightarrow> string" where
  "path_Clean p = ''/'' @ join ''/'' (clean_segments p)"

definition asset_name :: "string \<Rightarrow> string" where
  "asset_name rest =
     TrimPrefix (join ''/'' (clean_segments (''assets'' @ ''/'' @ path_Clean (''/'' @ rest)))) ''/''"

definition serveAssets :: "admin_config \<Rightarrow> string \<Rightarrow> response" where
  "serveAssets cfg rest =
     (case ac_UIFS cfg of
        None \<Rightarrow> http_NotFound
      | Some files \<Rightarrow>
          (case files (asset_name rest) of
             Some (UIFile data) \<Rightarrow> plain 200 (Asset data)
           | _ \<Rightarrow> http_NotFound))"

section \<open>Routes\<close>

datatype endpoint =
    ERoot | ELivez | EReadyz | EMetrics | EIndex | ELogo | EAssets string
  | EPublicBackends | EPublicBackend string | EPublicState string
  | ESSO | ECallback | ELogin | ELogout | ELoginType
  | EPing | EAll | EActive | EActivate string | EDeactivate string | EAdd | EUpdate | EDelete
  | EEntityTypes | EUpsertEntity | EEntities string
  | EUserinfo | EHistory | ELegacyActive | EDistribution
  | EGetAllBackends | EFindHistory | EGetDistribution | EUIConfig
  | EGetRules | EUpdateRules | ESaveBackend | EUpdateWeb | EDeleteWeb

text \<open>A group applies nothing, the auth middleware, or the middleware and then \<^verbatim>\<open>RequireRole\<close>.\<close>

datatype guard = Public | Authenticated | Role string

type_synonym route = "string \<times> string \<times> guard \<times> ((string \<Rightarrow> string) \<Rightarrow> endpoint)"

definition buildRouter :: "admin_config \<Rightarrow> route list" where
  "buildRouter cfg =
     [(''GET'', ''/'', Public, \<lambda>_. ERoot),
      (''GET'', ''/trino-gateway/livez'', Public, \<lambda>_. ELivez),
      (''GET'', ''/trino-gateway/readyz'', Public, \<lambda>_. EReadyz)]
     @ (if ac_MetricsEnabled cfg \<and> ac_MetricsHandler cfg \<noteq> None
        then [(''GET'', ac_MetricsPath cfg, Public, \<lambda>_. EMetrics)] else [])
     @ [(''GET'', ''/trino-gateway'', Public, \<lambda>_. EIndex),
      (''GET'', ''/trino-gateway/logo.svg'', Public, \<lambda>_. ELogo),
      (''GET'', ''/trino-gateway/assets/*'', Public, \<lambda>p. EAssets (p ''*'')),
      (''GET'', ''/api/public/backends'', Public, \<lambda>_. EPublicBackends),
      (''GET'', ''/api/public/backends/{name}'', Public, \<lambda>p. EPublicBackend (p ''name'')),
      (''GET'', ''/api/public/backends/{name}/state'', Public, \<lambda>p. EPublicState (p ''name'')),
      (''POST'', ''/sso'', Authenticated, \<lambda>_. ESSO),
      (''GET'', ''/oidc/callback'', Authenticated, \<lambda>_. ECallback),
      (''POST'', ''/login'', Authenticated, \<lambda>_. ELogin),
      (''POST'', ''/logout'', Authenticated, \<lambda>_. ELogout),
      (''POST'', ''/loginType'', Authenticated, \<lambda>_. ELoginType),
      (''GET'', ''/gateway'', Role RoleAPI, \<lambda>_. EPing),
      (''GET'', ''/gateway/backend/all'', Role RoleAPI, \<lambda>_. EAll),
      (''GET'', ''/gateway/backend/active'', Role RoleAPI, \<lambda>_. EActive),
      (''POST'', ''/gateway/backend/activate/{name}'', Role RoleAPI, \<lambda>p. EActivate (p ''name'')),
      (''POST'', ''/gateway/backend/deactivate/{name}'', Role RoleAPI, \<lambda>p. EDeactivate (p ''name'')),
      (''POST'', ''/gateway/backend/modify/add'', Role RoleAPI, \<lambda>_. EAdd),
      (''POST'', ''/gateway/backend/modify/update'', Role RoleAPI, \<lambda>_. EUpdate),
      (''POST'', ''/gateway/backend/modify/delete'', Role RoleAPI, \<lambda>_. EDelete),
      (''GET'', ''/entity'', Role RoleAdmin, \<lambda>_. EEntityTypes),
      (''POST'', ''/entity'', Role RoleAdmin, \<lambda>_. EUpsertEntity),
      (''GET'', ''/entity/{entityType}'', Role RoleAdmin, \<lambda>p. EEntities (p ''entityType'')),
      (''POST'', ''/userinfo'', Role RoleUser, \<lambda>_. EUserinfo),
      (''GET'', ''/trino-gateway/api/queryHistory'', Role RoleUser, \<lambda>_. EHistory),
      (''GET'', ''/trino-gateway/api/activeBackends'', Role RoleUser, \<lambda>_. ELegacyActive),
      (''GET'', ''/trino-gateway/api/queryHistoryDistribution'', Role RoleUser, \<lambda>_. EDistribution),
      (''POST'', ''/webapp/getAllBackends'', Role RoleUser, \<lambda>_. EGetAllBackends),
      (''POST'', ''/webapp/findQueryHistory'', Role RoleUser, \<lambda>_. EFindHistory),
      (''POST'', ''/webapp/getDistribution'', Role RoleUser, \<lambda>_. EGetDistribution),
      (''POST'', ''/webapp/getUIConfiguration'', Role RoleUser, \<lambda>_. EUIConfig),
      (''POST'', ''/webapp/getRoutingRules'', Role RoleAdmin, \<lambda>_. EGetRules),
      (''POST'', ''/webapp/updateRoutingRules'', Role RoleAdmin, \<lambda>_. EUpdateRules),
      (''POST'', ''/webapp/saveBackend'', Role RoleAdmin, \<lambda>_. ESaveBackend),
      (''POST'', ''/webapp/updateBackend'', Role RoleAdmin, \<lambda>_. EUpdateWeb),
      (''POST'', ''/webapp/deleteBackend'', Role RoleAdmin, \<lambda>_. EDeleteWeb),
      (''GET'', ''/trino-gateway/*'', Public, \<lambda>_. EIndex)]"

text \<open>The auth middleware with the handler it wraps as continuation; without one there is no principal.\<close>

definition run_AuthMW ::
  "admin_config \<Rightarrow> http_request \<Rightarrow> (Principal option \<Rightarrow> response \<times> admin_state) \<Rightarrow> admin_state \<Rightarrow> response \<times> admin_state" where
  "run_AuthMW cfg r next s =
     (case ac_AuthMW cfg of
        None \<Rightarrow> next None
      | Some mw \<Rightarrow>
          (case mw r of
             Deny msg \<Rightarrow> (plain 401 (Text msg), s)
           | Allow p \<Rightarrow> next (Some p)))"

definition RequireRole ::
  "admin_config \<Rightarrow> admin_env \<Rightarrow> string \<Rightarrow> (Principal option \<Rightarrow> response \<times> admin_state) \<Rightarrow> admin_state
    \<Rightarrow> Principal option \<Rightarrow> response \<times> admin_state" where
  "RequireRole cfg env role next s p =
     (if HasRole (av_matches env) p role (ac_Authorization cfg) then next p else (plain 403 (Text ''forbidden''), s))"

definition serve_endpoint ::
  "admin_config \<Rightarrow> admin_env \<Rightarrow> http_request \<Rightarrow> endpoint \<Rightarrow> admin_state \<Rightarrow> Principal option \<Rightarrow> response \<times> admin_state" where
  "serve_endpoint cfg env r e s p =
     (case e of
        ERoot \<Rightarrow> (plain 303 (Redirect ''/trino-gateway''), s)
      | ELivez \<Rightarrow> (handleLivez, s) | EReadyz \<Rightarrow> (handleReadyz s, s)
      | EMetrics \<Rightarrow> (plain 200 (Text (the (ac_MetricsHandler cfg))), s)
      | EIndex \<Rightarrow> (serveIndex cfg, s) | ELogo \<Rightarrow> (serveLogoSVG cfg, s) | EAssets rest \<Rightarrow> (serveAssets cfg rest, s)
      | EPublicBackends \<Rightarrow> (listPublicBackends s, s) | EPublicBackend n \<Rightarrow> (getPublicBackend n s, s)
      | EPublicState n \<Rightarrow> (getPublicBackendState cfg n s, s)
      | ESSO \<Rightarrow> (handleSSO cfg env r, s) | ECallback \<Rightarrow> (handleOIDCCallback cfg r, s)
      | ELogin \<Rightarrow> (handleLogin cfg env r, s) | ELogout \<Rightarrow> (handleLogout, s) | ELoginType \<Rightarrow> (handleLoginType cfg, s)
      | EPing \<Rightarrow> (handleGatewayPing, s) | EAll \<Rightarrow> (listAllBackends s, s) | EActive \<Rightarrow> (listActiveBackends s, s)
      | EActivate n \<Rightarrow> activateBackend env n s | EDeactivate n \<Rightarrow> deactivateBackend env n s
      | EAdd \<Rightarrow> addBackend env r s | EUpdate \<Rightarrow> updateBackend env r s | EDelete \<Rightarrow> deleteBackend r s
      | EEntityTypes \<Rightarrow> (listEntityTypes, s) | EUpsertEntity \<Rightarrow> upsertEntity cfg env r s
      | EEntities t \<Rightarrow> (listEntities t s, s)
      | EUserinfo \<Rightarrow> (handleUserinfo cfg env p, s) | EHistory \<Rightarrow> (queryHistory cfg env p s, s)
      | ELegacyActive \<Rightarrow> (legacyActiveBackends s, s) | EDistribution \<Rightarrow> (queryHistoryDistribution cfg env p s, s)
      | EGetAllBackends \<Rightarrow> (webappGetAllBackends cfg s, s) | EFindHistory \<Rightarrow> (webappFindQueryHistory cfg env p r s, s)
      | EGetDistribution \<Rightarrow> (webappGetDistribution cfg env r s, s) | EUIConfig \<Rightarrow> (webappGetUIConfig cfg, s)
      | EGetRules \<Rightarrow> (webappGetRoutingRules, s) | EUpdateRules \<Rightarrow> (webappUpdateRoutingRules, s)
      | ESaveBackend \<Rightarrow> webappSaveBackend env r s | EUpdateWeb \<Rightarrow> webappUpdateBackend env r s
      | EDeleteWeb \<Rightarrow> webappDeleteBackend env r s)"

text \<open>\<open>mux patterns r\<close> is chi: the position of the registered method and pattern the request matches,
  and the URL parameters.\<close>

definition admin_ServeHTTP ::
  "((string \<times> string) list \<Rightarrow> http_request \<Rightarrow> (nat \<times> (string \<Rightarrow> string)) option) \<Rightarrow> admin_config \<Rightarrow> admin_env
    \<Rightarrow> http_request \<Rightarrow> admin_state \<Rightarrow> response \<times> admin_state" where
  "admin_ServeHTTP mux cfg env r s =
     (let routes = buildRouter cfg in
      case mux (map (\<lambda>(m, p, _). (m, p)) routes) r of
        None \<Rightarrow> (http_NotFound, s)
      | Some (i, params) \<Rightarrow>
          if length routes \<le> i then (http_NotFound, s)
          else (case routes ! i of
                  (_, _, g, handler) \<Rightarrow>
                    (case g of
                       Public \<Rightarrow> serve_endpoint cfg env r (handler params) s None
                     | Authenticated \<Rightarrow> run_AuthMW cfg r (serve_endpoint cfg env r (handler params) s) s
                     | Role role \<Rightarrow>
                         run_AuthMW cfg r (RequireRole cfg env role (serve_endpoint cfg env r (handler params) s) s) s)))"

section \<open>Properties\<close>

lemma FindByFilter_matches:
  assumes "history_FindByFilter f d = Inr (rs, n)"
  shows "list_all (filter_matches f) rs" and "n = length (filter (filter_matches f) (query_history d))"
proof -
  obtain conds args argIdx where b: "build_where (db_driver d) f = (conds, args, argIdx)"
    by (metis prod_cases3)
  have w: "eval_where 0 conds (args @ rest) = filter_matches f" for rest
    using build_where_binds(1)[OF b] by blast
  then have w0: "eval_where 0 conds args = filter_matches f" by (metis append_Nil2)
  obtain l q where "rs = take l (drop q (newest_first (filter (filter_matches f) (query_history d))))"
    and n: "n = length (filter (filter_matches f) (query_history d))"
    using assms by (auto simp: history_FindByFilter_def Let_def b w w0 split: option.splits sql_arg.splits if_splits)
  moreover have "set (newest_first xs) = set xs" for xs by (simp add: newest_first_def)
  ultimately have "set rs \<subseteq> set (filter (filter_matches f) (query_history d))"
    by (metis set_drop_subset set_take_subset subset_trans)
  then show "list_all (filter_matches f) rs" by (auto simp: list_all_iff)
  show "n = length (filter (filter_matches f) (query_history d))" by (rule n)
qed

lemma details_user: "list_all (\<lambda>d. qd_User d = u) (map queryDetailFromRecord rs) \<longleftrightarrow> list_all (\<lambda>r. qr_UserName r = u) rs"
  by (simp add: list_all_iff queryDetailFromRecord_def)

lemma matches_user: "list_all (filter_matches f) rs \<Longrightarrow> hf_UserName f = u \<Longrightarrow> u \<noteq> [] \<Longrightarrow> list_all (\<lambda>r. qr_UserName r = u) rs"
  by (auto simp: list_all_iff filter_matches_def)

text \<open>The users whose queries a response shows.\<close>

fun shown_users :: "payload \<Rightarrow> string list" where
  "shown_users (JHistory ds) = map qd_User ds"
| "shown_users (Result _ _ (DTable _ ds)) = map qd_User ds"
| "shown_users _ = []"

text \<open>
  C33: A user who is not an administrator sees only their own queries, through either history endpoint and
  whatever user name the request asks for.  This rests on the name of the principal being non-empty.
\<close>
theorem history_scoped_to_user:
  assumes "\<not> isAdmin cfg env (Some p)" and "pn_Name p \<noteq> []"
  shows "list_all (\<lambda>u. u = pn_Name p) (shown_users (rs_body (queryHistory cfg env (Some p) s)))
    \<and> list_all (\<lambda>u. u = pn_Name p) (shown_users (rs_body (webappFindQueryHistory cfg env (Some p) r s)))"
proof
  show "list_all (\<lambda>u. u = pn_Name p) (shown_users (rs_body (queryHistory cfg env (Some p) s)))"
  proof -
    let ?f = "\<lparr> hf_UserName = pn_Name p, hf_BackendURL = [], hf_QueryID = [], hf_Source = [], hf_Page = 1, hf_PageSize = 100 \<rparr>"
    show ?thesis
      using assms FindByFilter_matches(1)[of ?f "ad_db s"] details_user[of "pn_Name p"]
        matches_user[of ?f _ "pn_Name p"]
      by (cases "history_FindByFilter ?f (ad_db s)")
         (auto simp: queryHistory_def Let_def internal_error_def admin_Error_def plain_def list_all_iff comp_def queryDetailFromRecord_def)
  qed
next
  show "list_all (\<lambda>u. u = pn_Name p) (shown_users (rs_body (webappFindQueryHistory cfg env (Some p) r s)))"
  proof (cases "decodeJSON (av_find env) r")
    case (Some req)
    let ?f = "\<lparr> hf_UserName = pn_Name p, hf_BackendURL = fq_BackendURL req, hf_QueryID = fq_QueryID req,
       hf_Source = fq_Source req, hf_Page = fq_Page req, hf_PageSize = fq_PageSize req \<rparr>"
    show ?thesis
      using assms FindByFilter_matches(1)[of ?f "ad_db s"] matches_user[of ?f _ "pn_Name p"] Some
      by (cases "history_FindByFilter ?f (ad_db s)")
         (auto simp: webappFindQueryHistory_def Let_def resultErr_def resultOK_def plain_def list_all_iff queryDetailFromRecord_def)
  qed (simp add: webappFindQueryHistory_def resultErr_def plain_def)
qed

definition writes :: "endpoint \<Rightarrow> bool" where
  "writes e = (case e of EActivate _ \<Rightarrow> True | EDeactivate _ \<Rightarrow> True | EAdd \<Rightarrow> True | EUpdate \<Rightarrow> True
     | EDelete \<Rightarrow> True | EUpsertEntity \<Rightarrow> True | ESaveBackend \<Rightarrow> True | EUpdateWeb \<Rightarrow> True | EDeleteWeb \<Rightarrow> True
     | _ \<Rightarrow> False)"

lemma serve_endpoint_state: "snd (serve_endpoint cfg env r e s p) \<noteq> s \<Longrightarrow> writes e"
  by (cases e) (simp_all add: serve_endpoint_def writes_def)

text \<open>Every writing route of the table stands behind \<^verbatim>\<open>API\<close> or \<^verbatim>\<open>ADMIN\<close>.\<close>

lemma routes_guarded:
  "list_all (\<lambda>(_, _, g, h). \<not> writes (h params) \<or> g = Role RoleAPI \<or> g = Role RoleAdmin) (buildRouter cfg)"
  by (simp add: buildRouter_def writes_def)

text \<open>
  C2: A request to the management API changes the database or the monitor only if the auth middleware
  accepted it and its principal has the API or the ADMIN role.  This holds for every request and
  however the mux dispatches it; in particular without an auth middleware nothing can be changed.
\<close>
theorem admin_writes_need_role:
  assumes "snd (admin_ServeHTTP mux cfg env r s) \<noteq> s"
  shows "\<exists>mw p role. ac_AuthMW cfg = Some mw \<and> mw r = Allow p \<and> (role = RoleAPI \<or> role = RoleAdmin) \<and>
    HasRole (av_matches env) (Some p) role (ac_Authorization cfg)"
proof -
  obtain i params where m: "mux (map (\<lambda>(m, p, _). (m, p)) (buildRouter cfg)) r = Some (i, params)"
    and i: "i < length (buildRouter cfg)"
    using assms by (auto simp: admin_ServeHTTP_def Let_def split: option.splits if_splits)
  obtain me pa g h where ri: "buildRouter cfg ! i = (me, pa, g, h)" by (metis prod_cases4)
  let ?k = "serve_endpoint cfg env r (h params) s"
  have a: "admin_ServeHTTP mux cfg env r s = (case g of Public \<Rightarrow> ?k None
     | Authenticated \<Rightarrow> run_AuthMW cfg r ?k s | Role role \<Rightarrow> run_AuthMW cfg r (RequireRole cfg env role ?k s) s)"
    using i by (simp add: admin_ServeHTTP_def Let_def m ri)
  have "\<exists>p. snd (?k p) \<noteq> s"
    using assms by (auto simp: a run_AuthMW_def RequireRole_def split: guard.splits option.splits auth_verdict.splits if_splits)
  then have "writes (h params)" using serve_endpoint_state by blast
  then have g: "g = Role RoleAPI \<or> g = Role RoleAdmin"
    using routes_guarded[of params cfg] i ri by (auto simp: list_all_length)
  show ?thesis
    using assms g by (auto simp: a run_AuthMW_def RequireRole_def split: option.splits auth_verdict.splits if_splits)
qed

section \<open>Dashboard\<close>

lemma dist_fold:
  defines "res \<equiv> \<lambda>s bs a. fold (dist_step s) bs a"
  shows "da_total (res s bs a) = da_total a + length bs"
    and "da_online (res s bs a) = da_online a + length (filter be_Active bs)"
    and "da_offline (res s bs a) = da_offline a + length (filter (\<lambda>b. \<not> be_Active b) bs)"
    and "da_healthy (res s bs a) = da_healthy a + length (filter (\<lambda>b. Status (ad_mon s) (be_URL b) = StatusHealthy) bs)"
    and "da_unhealthy (res s bs a) = da_unhealthy a + length (filter (\<lambda>b. Status (ad_mon s) (be_URL b) \<noteq> StatusHealthy) bs)"
    and "da_chart (res s bs a) = da_chart a @ map (\<lambda>b. \<lparr> cp_BackendURL = be_URL b, cp_Name = be_Name b, cp_QueryCount = 0 \<rparr>) bs"
    and "da_dist (res s bs a) u = (if u \<in> be_URL ` set bs then Some 0 else da_dist a u)"
  unfolding res_def by (induction bs arbitrary: a) (auto simp: dist_step_def Let_def)

lemma count_known_fold:
  "count_known rs m u = (case m u of None \<Rightarrow> None | Some n \<Rightarrow> Some (n + length (filter (\<lambda>r. qr_BackendURL r = u) rs)))"
proof (induction rs arbitrary: m)
  case (Cons r rs)
  show ?case
    using Cons.IH[of "case m (qr_BackendURL r) of None \<Rightarrow> m | Some n \<Rightarrow> m(qr_BackendURL r \<mapsto> n + 1)"]
    by (auto simp: count_known_def split: option.splits)
qed (simp add: count_known_def split: option.splits)

lemma sum_counts:
  assumes "distinct us"
  shows "sum_list (map (\<lambda>u. length (filter (\<lambda>r. qr_BackendURL r = u) rs)) us) = length (filter (\<lambda>r. qr_BackendURL r \<in> set us) rs)"
proof (induction rs)
  case (Cons r rs)
  have "sum_list (map (\<lambda>u. length (filter (\<lambda>r. qr_BackendURL r = u) (r # rs))) us) =
      sum_list (map (\<lambda>u. length (filter (\<lambda>r. qr_BackendURL r = u) rs) + (if qr_BackendURL r = u then 1 else 0)) us)"
    by (intro arg_cong[of _ _ sum_list] map_cong) auto
  moreover have "sum_list (map (\<lambda>u. if x = u then 1 else 0) us) = (if x \<in> set us then 1 else (0::nat))" for x
    using assms by (induction us) auto
  ultimately show ?case using Cons.IH by (simp add: sum_list_addf)
qed simp

text \<open>
  The figures of the dashboard add up: every backend is counted once as online or offline and once as
  healthy or unhealthy, and when the history can be read the total number of queries is the number of
  the rows read that went to a registered backend, each counted once even if backends share a URL.
\<close>
theorem dashboard_adds_up:
  fixes cfg env h bs s
  shows "dr_TotalBackendCount (distribution_response cfg env h bs s) = length bs
    \<and> dr_OnlineBackendCount (distribution_response cfg env h bs s)
       + dr_OfflineBackendCount (distribution_response cfg env h bs s) = length bs
    \<and> dr_HealthyBackendCount (distribution_response cfg env h bs s)
       + dr_UnhealthyBackendCount (distribution_response cfg env h bs s) = length bs
    \<and> dr_TotalQueryCount (distribution_response cfg env h bs s) =
       (case history_FindByFilter \<lparr> hf_UserName = [], hf_BackendURL = [], hf_QueryID = [], hf_Source = [],
               hf_Page = 1, hf_PageSize = 10000 \<rparr> (ad_db s) of
          Inl _ \<Rightarrow> 0
        | Inr (rs, _) \<Rightarrow> length (filter (\<lambda>r. qr_BackendURL r \<in> set (map be_URL bs)) rs))"
proof -
  have p: "length (filter P xs) + length (filter (\<lambda>x. \<not> P x) xs) = length xs" for P and xs :: "Backend list"
    by (rule sum_length_filter_compl)
  have z: "map_total (map be_URL bs) (da_dist (fold (dist_step s) bs dist_init)) = 0"
    by (simp add: map_total_def dist_fold dist_init_def cong: map_cong)
  have t: "map_total (map be_URL bs) (count_known rs (da_dist (fold (dist_step s) bs dist_init))) =
      length (filter (\<lambda>r. qr_BackendURL r \<in> set (map be_URL bs)) rs)" for rs
  proof -
    have "map_total (map be_URL bs) (count_known rs (da_dist (fold (dist_step s) bs dist_init))) =
        sum_list (map (\<lambda>u. length (filter (\<lambda>r. qr_BackendURL r = u) rs)) (remdups (map be_URL bs)))"
      unfolding map_total_def
      by (rule arg_cong[of _ _ sum_list], rule map_cong) (auto simp: count_known_fold dist_fold)
    then show ?thesis using sum_counts[of "remdups (map be_URL bs)" rs] by simp
  qed
  show ?thesis
    using p[of be_Active bs] p[of "\<lambda>b. Status (ad_mon s) (be_URL b) = StatusHealthy" bs] z t
    by (simp add: distribution_response_def Let_def dist_fold dist_init_def split: sum.split prod.split)
qed

section \<open>Query strings\<close>

lemma unhex_upper_hex: "n < 16 \<Longrightarrow> unhex (upper_hex n) = Some n"
  by (cases "n < 10") (auto simp: unhex_def upper_hex_def byte_char_of Let_def)

lemma unescape_char: "QueryUnescape (escape_char c @ t) = map_option (Cons c) (QueryUnescape t)"
proof (cases "query_safe c \<or> c = CHR '' ''")
  case True
  have "\<not> query_safe (CHR ''%'') \<and> \<not> query_safe (CHR ''+'')" by code_simp
  then have "query_safe c \<Longrightarrow> c \<noteq> CHR ''%'' \<and> c \<noteq> CHR ''+''" by auto
  then show ?thesis using True by (auto simp: escape_char_def)
next
  case False
  have "byte c div 16 < 16" using byte_lt[of c] by simp
  moreover have "char_of (16 * (byte c div 16) + byte c mod 16) = c" by (simp add: byte_def)
  ultimately show ?thesis using False by (simp add: escape_char_def unhex_upper_hex)
qed

lemma unescape_escape: "QueryUnescape (QueryEscape s) = Some s"
  by (induction s) (simp_all add: QueryEscape_def unescape_char)

lemma upper_hex_plain: "n < 16 \<Longrightarrow> upper_hex n \<notin> set ''&=;''"
  using unhex_upper_hex[of n] by (auto simp: unhex_def byte_def split: if_splits)

lemma escape_plain: "x \<in> set (QueryEscape s) \<Longrightarrow> x \<notin> set ''&=;''"
proof -
  assume "x \<in> set (QueryEscape s)"
  then obtain c where c: "x \<in> set (escape_char c)" by (auto simp: QueryEscape_def)
  have n: "\<not> query_safe (CHR ''&'')" "\<not> query_safe (CHR ''='')" "\<not> query_safe (CHR '';'')" by code_simp+
  have h: "byte c div 16 < 16" "byte c mod 16 < 16" using byte_lt[of c] by auto
  show ?thesis
    using c n upper_hex_plain[OF h(1)] upper_hex_plain[OF h(2)] by (auto simp: escape_char_def split: if_splits)
qed

lemma query_pair_encoded: "query_pair (QueryEscape k @ ''='' @ QueryEscape v) = Some (k, v)"
proof -
  have "CHR ''='' \<notin> set (QueryEscape k)" using escape_plain by fastforce
  moreover have "CHR '';'' \<notin> set (QueryEscape k @ ''='' @ QueryEscape v)" using escape_plain by fastforce
  ultimately show ?thesis
    using str_cut_append[of "CHR ''=''" "QueryEscape k" "QueryEscape v"]
    by (simp add: query_pair_def unescape_escape Let_def)
qed

lemma map_of_sort: "distinct (map fst kvs) \<Longrightarrow> map_of (sort_key fst kvs) = map_of kvs"
  by (rule map_of_inject_set[THEN iffD2]) (simp_all add: distinct_map inj_on_def)

lemma map_filter_all: "(\<And>x. f (g x) = Some x) \<Longrightarrow> List.map_filter f (map g xs) = xs"
  by (induction xs) (simp_all add: List.map_filter_simps)

lemma Query_Get_encode:
  assumes "distinct (map fst kvs)" and "map_of kvs k = Some v"
  shows "Query_Get (Values_Encode kvs) k = v"
proof -
  let ?enc = "\<lambda>(k, v). QueryEscape k @ ''='' @ QueryEscape v"
  let ?kvs = "sort_key fst kvs"
  have "?kvs \<noteq> []" using assms(2) by (metis map_of.simps(1) map_of_sort[OF assms(1)] option.distinct(1))
  moreover have "CHR ''&'' \<notin> set (?enc p)" for p using escape_plain by (cases p) fastforce
  ultimately have "split_on (CHR ''&'') (Values_Encode kvs) = map ?enc ?kvs"
    by (simp add: Values_Encode_def split_on_join list_all_iff)
  moreover have "query_pair (?enc p) = Some p" for p using query_pair_encoded by (cases p) simp
  ultimately have "Query_Get (Values_Encode kvs) k = (case map_of ?kvs k of None \<Rightarrow> [] | Some v \<Rightarrow> v)"
    using map_filter_all[of query_pair ?enc ?kvs] by (simp add: Query_Get_def)
  then show ?thesis using assms map_of_sort[OF assms(1)] by simp
qed

text \<open>
  The authorization URL carries the login attempt faithfully: read as a query string, what follows the
  configured endpoint gives back the state, the nonce, the client id and the redirect URL exactly,
  whatever bytes they contain.
\<close>
theorem AuthCodeURL_carries_state:
  fixes w :: "'k OIDCWebLogin"
  shows "\<exists>sep query. AuthCodeURL w state nonce = wl_authzURL w @ sep @ query
    \<and> sep = (if CHR ''?'' \<in> set (wl_authzURL w) then ''&'' else ''?'')
    \<and> Query_Get query ''state'' = state \<and> Query_Get query ''nonce'' = nonce
    \<and> Query_Get query ''client_id'' = oc_ClientID (wl_cfg w)
    \<and> Query_Get query ''redirect_uri'' = oc_RedirectURL (wl_cfg w)
    \<and> Query_Get query ''response_type'' = ''code''"
  unfolding AuthCodeURL_def Let_def
  by (intro exI conjI, rule refl, rule refl) (rule Query_Get_encode; simp)+

section \<open>Login flow\<close>

lemma b64_nonempty: "s \<noteq> [] \<Longrightarrow> b64_encode pad s \<noteq> []"
  by (cases "(pad, s)" rule: b64_encode.cases) auto

lemma state_cookie_read:
  assumes "a \<noteq> []" and "b \<noteq> []"
    and "map_of (rq_cookies r) oidcStateCookie = Some (b64_encode False a @ '':'' @ b64_encode False b)"
  shows "readOIDCStateCookie r = Some (b64_encode False a, b64_encode False b)"
proof -
  have "CHR '':'' \<notin> set (b64_encode False a)" using b64_encode_chars[of "CHR '':''" False a] by auto
  then show ?thesis
    using assms str_cut_append[of "CHR '':''" "b64_encode False a" "b64_encode False b"] b64_nonempty
    by (simp add: readOIDCStateCookie_def)
qed

text \<open>
  C32: The two halves of the web login fit together.  A callback that presents the cookie set by \<^verbatim>\<open>/sso\<close> is
  accepted exactly when its \<^verbatim>\<open>state\<close> parameter is the state that was put into the authorization URL, and
  then the code is exchanged under the nonce of that same attempt; with any other state no exchange
  takes place and no token is set.
\<close>
theorem login_flow:
  assumes "ac_AuthType cfg = ''OIDC''" and "ac_WebLogin cfg = Some wl"
    and "av_random_state env = Inr a" and "av_random_nonce env = Inr b" and "a \<noteq> []" and "b \<noteq> []"
    and "rs_cookies (handleSSO cfg env r) = [cookie]"
    and "map_of (rq_cookies r') (sc_Name cookie) = Some (sc_Value cookie)"
    and "Query_Get (rq_RawQuery r') ''code'' \<noteq> []"
  shows "rs_body (handleSSO cfg env r) =
      Result 200 ''Successful.'' (DString (wo_AuthCodeURL wl (b64_encode False a) (b64_encode False b)))
    \<and> map sc_Value (rs_cookies (handleOIDCCallback cfg r')) =
      (if Query_Get (rq_RawQuery r') ''state'' = b64_encode False a
       then (case wo_Exchange wl (Query_Get (rq_RawQuery r') ''code'') (b64_encode False b) of
               Inl _ \<Rightarrow> [] | Inr token \<Rightarrow> [[], token])
       else [])"
proof -
  have c: "cookie = \<lparr> sc_Name = oidcStateCookie, sc_Value = b64_encode False a @ '':'' @ b64_encode False b,
      sc_Path = ''/oidc/callback'', sc_MaxAge = 900, sc_HttpOnly = True, sc_Secure = requestIsHTTPS r \<rparr>"
    using assms(1-4,7) by (simp add: handleSSO_def RandomToken_def)
  have "readOIDCStateCookie r' = Some (b64_encode False a, b64_encode False b)"
    using state_cookie_read[OF assms(5,6)] assms(8) c by simp
  then show ?thesis
    using assms(1-4,9)
    by (simp add: handleSSO_def RandomToken_def handleOIDCCallback_def resultOK_def plain_def admin_Error_def
        split: sum.split)
qed

text \<open>
  The browser receives a token only from a successful login: the callback sets the token cookie exactly
  when OIDC login is configured, the request has a code and a well-formed state cookie whose state
  equals the \<^verbatim>\<open>state\<close> parameter, and the exchange under the cookie's nonce returned that token.
\<close>
theorem callback_token_iff:
  "map sc_Value (filter (\<lambda>c. sc_Name c = tokenCookie) (rs_cookies (handleOIDCCallback cfg r))) = [token] \<longleftrightarrow>
     ac_AuthType cfg = ''OIDC'' \<and> Query_Get (rq_RawQuery r) ''code'' \<noteq> [] \<and>
     (\<exists>wl nonce. ac_WebLogin cfg = Some wl \<and>
        readOIDCStateCookie r = Some (Query_Get (rq_RawQuery r) ''state'', nonce) \<and>
        wo_Exchange wl (Query_Get (rq_RawQuery r) ''code'') nonce = Inr token)"
  by (auto simp: handleOIDCCallback_def admin_Error_def plain_def oidcStateCookie_def tokenCookie_def
      split: option.splits sum.splits if_splits)

section \<open>Assets\<close>

definition clean_seg :: "string \<Rightarrow> bool" where
  "clean_seg x = (x \<noteq> [] \<and> x \<noteq> ''.'' \<and> x \<noteq> ''..'' \<and> CHR ''/'' \<notin> set x)"

lemma clean_step_clean:
  "list_all clean_seg out \<Longrightarrow> CHR ''/'' \<notin> set x \<Longrightarrow> list_all clean_seg (clean_step out x)"
  using in_set_butlastD[of _ out] by (auto simp: clean_step_def clean_seg_def list_all_iff)

lemma clean_segments_clean: "list_all clean_seg (clean_segments p)"
proof -
  have "list_all clean_seg out \<Longrightarrow> list_all (\<lambda>x. CHR ''/'' \<notin> set x) xs \<Longrightarrow>
      list_all clean_seg (foldl clean_step out xs)" for out xs
    by (induction xs arbitrary: out) (simp_all add: clean_step_clean)
  moreover have "list_all (\<lambda>x. CHR ''/'' \<notin> set x) (split_on (CHR ''/'') p)"
    using split_on_no_sep by (auto simp: list_all_iff)
  ultimately show ?thesis by (simp add: clean_segments_def)
qed

lemma foldl_clean: "list_all clean_seg xs \<Longrightarrow> foldl clean_step out xs = out @ xs"
  by (induction xs arbitrary: out) (auto simp: clean_step_def clean_seg_def)

lemma clean_segments_join:
  assumes "list_all clean_seg xs"
  shows "clean_segments (''assets'' @ ''/'' @ ''/'' @ join ''/'' xs) = ''assets'' # xs"
proof (cases "xs = []")
  case False
  have "list_all (\<lambda>x. CHR ''/'' \<notin> set x) xs" using assms by (auto simp: list_all_iff clean_seg_def)
  then have "split_on (CHR ''/'') (join ''/'' xs) = xs" using False by (rule split_on_join)
  then show ?thesis by (simp add: clean_segments_def clean_step_def foldl_clean[OF assms])
qed (simp add: clean_segments_def clean_step_def)

text \<open>
  The asset endpoint cannot leave the \<^verbatim>\<open>assets\<close> directory of the bundle: whatever the rest of the path
  contains, the name opened is \<^verbatim>\<open>assets\<close> followed by segments none of which is empty, \<^verbatim>\<open>.\<close> or \<^verbatim>\<open>..\<close>.
\<close>
theorem asset_name_confined:
  "\<exists>segs. asset_name rest = join ''/'' (''assets'' # segs) \<and> list_all clean_seg segs"
proof -
  let ?segs = "clean_segments (''/'' @ rest)"
  obtain t where "join ''/'' (''assets'' # ?segs) = CHR ''a'' # t" by (cases ?segs) simp_all
  then have "TrimPrefix (join ''/'' (''assets'' # ?segs)) ''/'' = join ''/'' (''assets'' # ?segs)"
    by (simp add: TrimPrefix_def)
  then have "asset_name rest = join ''/'' (''assets'' # ?segs)"
    using clean_segments_join[OF clean_segments_clean, of "''/'' @ rest"]
    by (simp add: asset_name_def path_Clean_def)
  then show ?thesis using clean_segments_clean by blast
qed

section \<open>Registering a backend\<close>

lemma Status_SetBackendStatus: "Status (SetBackendStatus u st m) v = (if v = u then st else Status m v)"
  by (simp add: Status_def SetBackendStatus_def sbs_store_def sbs_load_def notifyObserver_def Let_def)

text \<open>
  A backend registered through \<^verbatim>\<open>/entity\<close> is visible at once: the request answers 200 with the entity, and
  then the public lookup of its name returns it, with the proxy URL standing in for an empty external
  URL, and its health reads PENDING if it is active and UNHEALTHY otherwise; the health of every other
  URL is unchanged.
\<close>
theorem upsertEntity_visible:
  assumes "decodeJSON (av_backend env) r = Some pb"
    and "upsertEntity cfg env r s = (plain 200 (JBackend pb), s')" and "ac_StatusMut cfg"
  shows "getPublicBackend (pb_Name pb) s' =
      plain 200 (JBackend (pb\<lparr> pb_ExternalURL := externalURLOrProxyTo (pb_ExternalURL pb) (pb_ProxyTo pb) \<rparr>))
    \<and> Status (ad_mon s') u = (if u = pb_ProxyTo pb then (if pb_Active pb then StatusPending else StatusUnhealthy)
                              else Status (ad_mon s) u)"
proof -
  let ?b = "persistenceBackendFromProxy (av_now env) pb"
  obtain d where u: "backend_Upsert ?b (ad_db s) = (Inr (), d)"
    using assms(1,2) by (auto simp: upsertEntity_def internal_error_def admin_Error_def plain_def split: if_splits sum.splits prod.splits)
  then have s': "s' = s\<lparr> ad_db := d, ad_mon := SetBackendStatus (pb_ProxyTo pb)
      (if pb_Active pb then StatusPending else StatusUnhealthy) (ad_mon s) \<rparr>"
    using assms by (auto simp: upsertEntity_def admin_Error_def plain_def split: if_splits)
  have d: "db_err d = None" "gateway_backend d = upsert_row ?b (gateway_backend (ad_db s))"
    using u by (auto simp: backend_Upsert_def split: if_splits option.splits)
  obtain x where x: "find (\<lambda>r. be_Name r = pb_Name pb) (gateway_backend d) = Some x"
    and "proxyBackendFromPersistence x = proxyBackendFromPersistence ?b"
    using find_upsert_row[of "pb_Name pb" ?b "gateway_backend (ad_db s)"] d(2)
    by (auto simp: persistenceBackendFromProxy_def proxyBackendFromPersistence_def split: option.splits)
  moreover have "proxyBackendFromPersistence ?b =
      pb\<lparr> pb_ExternalURL := externalURLOrProxyTo (pb_ExternalURL pb) (pb_ProxyTo pb) \<rparr>"
    by (simp add: proxyBackendFromPersistence_def persistenceBackendFromProxy_def)
  ultimately show ?thesis
    by (simp add: s' getPublicBackend_def backend_List_def d(1) Status_SetBackendStatus)
qed

text \<open>Switching a name that is not registered answers 200 and changes nothing, although the handler has
  an answer for it.\<close>

lemma activate_unknown_backend:
  assumes "db_err (ad_db s) = None" and "name \<notin> be_Name ` set (gateway_backend (ad_db s))"
  shows "activateBackend env name s = (plain 200 NoBody, s)"
proof -
  have "map (\<lambda>r. if be_Name r = name then r\<lparr> be_Active := a, be_UpdatedAt := t \<rparr> else r) (gateway_backend (ad_db s))
      = gateway_backend (ad_db s)" for a t
    using assms(2) by (intro map_idI) auto
  then show ?thesis using assms(1) by (simp add: activateBackend_def setActive_def backend_SetActive_def)
qed

text \<open>A token without a subject gives a principal without a name, and the user filter then matches every
  row.\<close>

lemma nameless_principal_sees_all:
  assumes "\<not> isAdmin cfg env (Some p)" and "pn_Name p = []" and "db_err (ad_db s) = None"
    and "length (query_history (ad_db s)) \<le> 100"
  shows "queryHistory cfg env (Some p) s = plain 200 (JHistory (map queryDetailFromRecord (newest_first (query_history (ad_db s)))))"
proof -
  let ?f = "\<lparr> hf_UserName = [], hf_BackendURL = [], hf_QueryID = [], hf_Source = [], hf_Page = 1, hf_PageSize = 100 \<rparr>"
  have "build_where (db_driver (ad_db s)) ?f = ([], [], 1)" by (simp add: build_where_def add_condition_def)
  moreover have "wrap64 0 = 0" by (simp add: wrap64_def)
  moreover have "length (newest_first (query_history (ad_db s))) \<le> 100" using assms(4) by (simp add: newest_first_def)
  ultimately have "history_FindByFilter ?f (ad_db s) = Inr (newest_first (query_history (ad_db s)), length (query_history (ad_db s)))"
    using assms(3) by (simp add: history_FindByFilter_def Let_def bind_arg_def)
  then show ?thesis using assms(1,2) by (simp add: queryHistory_def Let_def)
qed

section \<open>Concrete requests\<close>

definition demo_config :: admin_config where
  "demo_config = \<lparr> ac_AuthType = ''OIDC'',
     ac_Authorization = \<lparr> az_AdminRegex = ''admins'', az_UserRegex = ''staff'', az_APIRegex = ''ops'', az_PagePermissions = [] \<rparr>,
     ac_AuthMW = Some (\<lambda>_. Allow \<lparr> pn_Name = ''ann'', pn_MemberOf = ''ops'' \<rparr>), ac_StatusMut = True, ac_Stats = True,
     ac_WebLogin = Some \<lparr> wo_AuthCodeURL = (\<lambda>st n. ''https://idp?state='' @ st), wo_Exchange = (\<lambda>c n. Inr (c @ n)) \<rparr>,
     ac_DisablePages = [], ac_StartTime = 0, ac_UIFS = None, ac_MetricsEnabled = False, ac_MetricsPath = [],
     ac_MetricsHandler = None \<rparr>"

definition demo_env :: admin_env where
  "demo_env = \<lparr> av_matches = (\<lambda>p s. Some (p = s)), av_now = 9, av_random_state = Inr ''s'', av_random_nonce = Inr ''n'',
     av_backend = (\<lambda>b. Some \<lparr> pb_Name = b, pb_ProxyTo = ''http://'' @ b, pb_ExternalURL = [], pb_Active = True, pb_RoutingGroup = ''etl'' \<rparr>),
     av_find = (\<lambda>_. None), av_hours = (\<lambda>_. 0), av_login = (\<lambda>_. None) \<rparr>"

definition demo_state :: admin_state where
  "demo_state = \<lparr> ad_db = demo_db, ad_mon = monitor_New 1 1 True False False, ad_ready = True \<rparr>"

definition demo_request :: "string \<Rightarrow> (string \<times> string) list \<Rightarrow> string \<Rightarrow> http_request" where
  "demo_request query cookies body = \<lparr> rq_Method = ''POST'', rq_RequestURI = [], rq_RawQuery = query, rq_RemoteAddr = [],
     rq_Host = [], rq_TLS = False, rq_Header = (\<lambda>_. None), rq_Form = None, rq_Path = [], rq_cookies = cookies,
     rq_body = Inr body \<rparr>"

lemmas demo_admin_defs = demo_config_def demo_env_def demo_state_def demo_request_def

theorem admin_writes_need_role_witness:
  "snd (admin_ServeHTTP (\<lambda>_ _. Some (18, \<lambda>_. ''b'')) demo_config demo_env (demo_request [] [] []) demo_state) \<noteq> demo_state
   \<and> (\<exists>mw p role. ac_AuthMW demo_config = Some mw \<and> mw (demo_request [] [] []) = Allow p \<and>
        (role = RoleAPI \<or> role = RoleAdmin) \<and> HasRole (av_matches demo_env) (Some p) role (ac_Authorization demo_config))"
proof -
  have "serve_endpoint demo_config demo_env (demo_request [] [] []) (EDeactivate ''b'') demo_state
      (Some \<lparr> pn_Name = ''ann'', pn_MemberOf = ''ops'' \<rparr>) = deactivateBackend demo_env ''b'' demo_state"
    by (simp add: serve_endpoint_def)
  then have "snd (admin_ServeHTTP (\<lambda>_ _. Some (18, \<lambda>_. ''b'')) demo_config demo_env (demo_request [] [] []) demo_state) =
      snd (deactivateBackend demo_env ''b'' demo_state)"
    by (simp add: admin_ServeHTTP_def Let_def buildRouter_def run_AuthMW_def RequireRole_def HasRole_def RoleAdmin_def
        RoleUser_def RoleAPI_def demo_config_def demo_env_def)
  then have "snd (admin_ServeHTTP (\<lambda>_ _. Some (18, \<lambda>_. ''b'')) demo_config demo_env (demo_request [] [] []) demo_state) \<noteq> demo_state"
    by (simp add: deactivateBackend_def setActive_def backend_SetActive_def demo_env_def demo_state_def demo_db_defs)
  then show ?thesis using admin_writes_need_role by blast
qed

theorem history_scoped_to_user_witness:
  "list_all (\<lambda>u. u = ''ann'') (shown_users (rs_body (queryHistory demo_config demo_env
     (Some \<lparr> pn_Name = ''ann'', pn_MemberOf = ''ops'' \<rparr>) demo_state)))"
  using history_scoped_to_user[of demo_config demo_env "\<lparr> pn_Name = ''ann'', pn_MemberOf = ''ops'' \<rparr>" demo_state]
  by (simp add: isAdmin_def HasRole_def RoleAdmin_def demo_config_def demo_env_def)

theorem login_flow_witness:
  "map sc_Value (rs_cookies (handleOIDCCallback demo_config
     (demo_request (Values_Encode [(''code'', ''c''), (''state'', ''cw'')]) [(''trino-gateway-oidc'', ''cw:bg'')] []))) = [[], ''cbg'']"
proof -
  have q: "Query_Get (Values_Encode [(''code'', ''c''), (''state'', ''cw'')]) k = v"
    if "(k, v) = (''code'', ''c'') \<or> (k, v) = (''state'', ''cw'')" for k v
    using that by (auto intro!: Query_Get_encode)
  have e: "b64_encode False ''s'' = ''cw''" "b64_encode False ''n'' = ''bg''" by code_simp+
  let ?r = "demo_request (Values_Encode [(''code'', ''c''), (''state'', ''cw'')]) [(''trino-gateway-oidc'', ''cw:bg'')] []"
  let ?c = "\<lparr> sc_Name = oidcStateCookie, sc_Value = ''cw:bg'', sc_Path = ''/oidc/callback'', sc_MaxAge = 900,
    sc_HttpOnly = True, sc_Secure = requestIsHTTPS (demo_request [] [] []) \<rparr>"
  have raw: "rq_RawQuery ?r = Values_Encode [(''code'', ''c''), (''state'', ''cw'')]" by (simp add: demo_request_def)
  have s: "rs_cookies (handleSSO demo_config demo_env (demo_request [] [] [])) = [?c]"
    by (simp add: handleSSO_def RandomToken_def demo_config_def demo_env_def e del: b64_encode.simps)
  have m: "map_of (rq_cookies ?r) (sc_Name ?c) = Some (sc_Value ?c)" by (simp add: oidcStateCookie_def demo_request_def)
  have wl: "ac_WebLogin demo_config = Some \<lparr> wo_AuthCodeURL = (\<lambda>st n. ''https://idp?state='' @ st), wo_Exchange = (\<lambda>c n. Inr (c @ n)) \<rparr>"
    by (simp add: demo_config_def)
  show ?thesis
    using login_flow[OF _ wl _ _ _ _ s m, of "''s''" "''n''"] raw q[of "''code''" "''c''"] q[of "''state''" "''cw''"]
    by (simp add: e demo_config_def[THEN arg_cong, of ac_AuthType] demo_env_def del: b64_encode.simps)
qed

theorem upsertEntity_visible_witness:
  "Status (ad_mon (snd (upsertEntity demo_config demo_env (demo_request ''entityType=GATEWAY_BACKEND'' [] ''x'') demo_state)))
     ''http://x'' = StatusPending"
proof -
  let ?r = "demo_request ''entityType=GATEWAY_BACKEND'' [] ''x''"
  let ?pb = "\<lparr> pb_Name = ''x'', pb_ProxyTo = ''http://x'', pb_ExternalURL = [], pb_Active = True, pb_RoutingGroup = ''etl'' \<rparr>"
  have q: "Query_Get ''entityType=GATEWAY_BACKEND'' ''entityType'' = ''GATEWAY_BACKEND''" by code_simp
  have d: "decodeJSON (av_backend demo_env) ?r = Some ?pb"
    by (simp add: decodeJSON_def read_body_def demo_env_def demo_request_def)
  then have "\<exists>s'. upsertEntity demo_config demo_env ?r demo_state = (plain 200 (JBackend ?pb), s')"
    using q by (simp add: upsertEntity_def backend_Upsert_def demo_state_def demo_db_defs) (simp add: demo_request_def)
  then obtain s' where "upsertEntity demo_config demo_env ?r demo_state = (plain 200 (JBackend ?pb), s')" by blast
  then show ?thesis
    using upsertEntity_visible[OF d, of demo_config demo_state s' "''http://x''"] by (simp add: demo_config_def)
qed

end
