(* ===== verification/Db_Migrate.thy ===== *)
theory Db_Migrate
  imports Gateway_Config
begin

text \<open>
  Opening the database (\<^verbatim>\<open>internal/persistence/db.go\<close>): \<^verbatim>\<open>Open\<close> connects and, unless told not to, runs the
  embedded migrations under an advisory lock.  Replicas that boot together run \<^verbatim>\<open>MigrateUp\<close> concurrently
  on one database, so it is a program with a position for each replica and a step relation on the
  shared state.  The lock is the one of the database server: exclusive, bound to a session, and freed
  when the session ends.  \<^verbatim>\<open>goose\<close> reads the version of the schema and applies the next migration,
  recording the new version, until none is pending.  The session that holds the lock is taken to live as
  long as its replica: a connection the server drops while the replica goes on is not modelled.
\<close>

section \<open>Program\<close>

definition gooseDialect :: "string \<Rightarrow> string result" where
  "gooseDialect drv =
     (if drv = ''postgres'' then Inr ''postgres'' else if drv = ''mysql'' then Inr ''mysql''
      else Inl (Failure (''persistence: migrate: unsupported driver '' @ drv)))"

text \<open>What the server answers to the lock statement, once it answers: for MySQL the row of \<^verbatim>\<open>GET_LOCK\<close>,
  which is 1, 0 for a timeout, or NULL.\<close>

datatype lock_answer = LockError | LockRow "int option"

definition acquireMigrateLock :: "string \<Rightarrow> lock_answer \<Rightarrow> unit result" where
  "acquireMigrateLock drv ans =
     (if drv = ''postgres'' then
        (case ans of LockError \<Rightarrow> Inl (Failure ''persistence: migrate: acquire advisory lock'') | LockRow _ \<Rightarrow> Inr ())
      else if drv = ''mysql'' then
        (case ans of
           LockError \<Rightarrow> Inl (Failure ''persistence: migrate: acquire lock'')
         | LockRow v \<Rightarrow> if v = Some 1 then Inr () else Inl (Failure ''persistence: migrate: acquire lock: timed out''))
      else Inl (Failure (''persistence: migrate: unsupported driver '' @ drv)))"

text \<open>The answers with which the server has given the lock to the session, as its documentation says:
  \<^verbatim>\<open>pg_advisory_lock\<close> returns only with the lock, \<^verbatim>\<open>GET_LOCK\<close> gives 1.\<close>

definition lock_granted :: "string \<Rightarrow> lock_answer \<Rightarrow> bool" where
  "lock_granted drv ans = (if drv = ''mysql'' then ans = LockRow (Some 1) else ans \<noteq> LockError)"

text \<open>The position of a replica in \<^verbatim>\<open>MigrateUp\<close>.  \<open>AtApply v\<close>: goose has read version \<open>v\<close> and applies the
  next migration.  \<open>AtRelease\<close>: the deferred release, with the result to return.\<close>

datatype mig_pc =
    AtDialect | AtConn | AtLock | AtProvider | AtVersion | AtApply nat | AtRelease "unit result" | AtDone "unit result"

record mig_state =
  ms_pc :: "nat \<Rightarrow> mig_pc"
  ms_lock :: "nat option"
  ms_version :: nat
  ms_applied :: "nat list"

definition go_to :: "nat \<Rightarrow> mig_pc \<Rightarrow> mig_state \<Rightarrow> mig_state" where
  "go_to i pc s = s\<lparr> ms_pc := (ms_pc s)(i := pc) \<rparr>"

text \<open>One step of replica \<open>i\<close>.  \<open>failed\<close> and \<open>ans\<close> are what the call made in this step met with; \<open>latest\<close> is the
  number of embedded migrations.  The server does not grant a lock that another session holds; a replica
  that gives up closes its connection, which ends the session.\<close>

definition mig_step :: "string \<Rightarrow> nat \<Rightarrow> nat \<Rightarrow> go_error option \<Rightarrow> lock_answer \<Rightarrow> mig_state \<Rightarrow> mig_state option" where
  "mig_step drv latest i failed ans s =
     (case ms_pc s i of
        AtDialect \<Rightarrow>
          (case gooseDialect drv of Inl e \<Rightarrow> Some (go_to i (AtDone (Inl e)) s) | Inr _ \<Rightarrow> Some (go_to i AtConn s))
      | AtConn \<Rightarrow>
          (case failed of Some e \<Rightarrow> Some (go_to i (AtDone (Inl e)) s) | None \<Rightarrow> Some (go_to i AtLock s))
      | AtLock \<Rightarrow>
          if lock_granted drv ans \<and> ms_lock s \<noteq> None then None
          else
            (let s1 = (if lock_granted drv ans then s\<lparr> ms_lock := Some i \<rparr> else s) in
             case acquireMigrateLock drv ans of
               Inl e \<Rightarrow> Some (go_to i (AtDone (Inl e)) (s1\<lparr> ms_lock := ms_lock s \<rparr>))
             | Inr _ \<Rightarrow> Some (go_to i AtProvider s1))
      | AtProvider \<Rightarrow>
          (case failed of Some e \<Rightarrow> Some (go_to i (AtRelease (Inl e)) s) | None \<Rightarrow> Some (go_to i AtVersion s))
      | AtVersion \<Rightarrow>
          (case failed of
             Some e \<Rightarrow> Some (go_to i (AtRelease (Inl e)) s)
           | None \<Rightarrow> if ms_version s < latest then Some (go_to i (AtApply (ms_version s)) s)
                     else Some (go_to i (AtRelease (Inr ())) s))
      | AtApply v \<Rightarrow>
          (case failed of
             Some e \<Rightarrow> Some (go_to i (AtRelease (Inl e)) s)
           | None \<Rightarrow> Some (go_to i AtVersion (s\<lparr> ms_version := Suc v, ms_applied := ms_applied s @ [Suc v] \<rparr>)))
      | AtRelease res \<Rightarrow>
          Some (go_to i (AtDone res) (s\<lparr> ms_lock := (if ms_lock s = Some i then None else ms_lock s) \<rparr>))
      | AtDone _ \<Rightarrow> None)"

definition crash :: go_error where
  "crash = Failure ''process died''"

text \<open>Replicas start at any time; one may die anywhere, which ends its session.\<close>

inductive mig_run :: "string \<Rightarrow> nat \<Rightarrow> mig_state \<Rightarrow> bool" for drv latest where
  start: "mig_run drv latest \<lparr> ms_pc = (\<lambda>_. AtDialect), ms_lock = None, ms_version = v0, ms_applied = [] \<rparr>"
| step: "mig_run drv latest s \<Longrightarrow> mig_step drv latest i failed ans s = Some s' \<Longrightarrow> mig_run drv latest s'"
| died: "mig_run drv latest s \<Longrightarrow>
    mig_run drv latest (go_to i (AtDone (Inl crash)) (s\<lparr> ms_lock := (if ms_lock s = Some i then None else ms_lock s) \<rparr>))"

text \<open>\<^verbatim>\<open>Open\<close>, with the connection and the outcome of the migration as parameters.\<close>

definition db_Open ::
  "(DBConfig \<Rightarrow> 'h result) \<Rightarrow> ('h \<Rightarrow> string \<Rightarrow> unit result) \<Rightarrow> DBConfig \<Rightarrow> 'h result" where
  "db_Open connect migrateUp cfg =
     (if gd_Driver cfg \<noteq> ''postgres'' \<and> gd_Driver cfg \<noteq> ''mysql''
      then Inl (Failure (''persistence: open: unsupported driver '' @ gd_Driver cfg))
      else (case connect cfg of
              Inl e \<Rightarrow> Inl e
            | Inr h \<Rightarrow>
                if gd_AutoMigrate cfg
                then (case migrateUp h (gd_Driver cfg) of Inl e \<Rightarrow> Inl e | Inr _ \<Rightarrow> Inr h)
                else Inr h))"

section \<open>Invariant\<close>

definition in_section :: "mig_pc \<Rightarrow> bool" where
  "in_section pc = (case pc of AtProvider \<Rightarrow> True | AtVersion \<Rightarrow> True | AtApply _ \<Rightarrow> True | AtRelease _ \<Rightarrow> True | _ \<Rightarrow> False)"

text \<open>The versions applied so far, when the schema is at version \<open>v\<close>: consecutive, up to \<open>v\<close>.\<close>

definition applied_upto :: "nat list \<Rightarrow> nat \<Rightarrow> bool" where
  "applied_upto vs v = (\<exists>v0. vs = [Suc v0..<Suc v] \<and> v0 \<le> v)"

definition mig_inv :: "nat \<Rightarrow> mig_state \<Rightarrow> bool" where
  "mig_inv latest s =
     ((\<forall>i. in_section (ms_pc s i) \<longleftrightarrow> ms_lock s = Some i) \<and>
      (\<forall>i v. ms_pc s i = AtApply v \<longrightarrow> v = ms_version s \<and> v < latest) \<and>
      (\<forall>i. ms_pc s i = AtRelease (Inr ()) \<or> ms_pc s i = AtDone (Inr ()) \<longrightarrow> latest \<le> ms_version s) \<and>
      applied_upto (ms_applied s) (ms_version s))"

lemma go_to_simps [simp]:
  "ms_pc (go_to i pc s) j = (if j = i then pc else ms_pc s j)" "ms_lock (go_to i pc s) = ms_lock s"
  "ms_version (go_to i pc s) = ms_version s" "ms_applied (go_to i pc s) = ms_applied s"
  by (simp_all add: go_to_def)

lemma in_section_simps [simp]:
  "\<not> in_section AtDialect" "\<not> in_section AtConn" "\<not> in_section AtLock" "\<not> in_section (AtDone r)"
  "in_section AtProvider" "in_section AtVersion" "in_section (AtApply v)" "in_section (AtRelease r)"
  by (simp_all add: in_section_def)
lemma mig_invD:
  assumes "mig_inv latest s"
  shows "in_section (ms_pc s i) \<longleftrightarrow> ms_lock s = Some i"
    and "ms_pc s i = AtApply v \<Longrightarrow> v = ms_version s \<and> v < latest"
    and "ms_pc s i = AtRelease (Inr ()) \<or> ms_pc s i = AtDone (Inr ()) \<Longrightarrow> latest \<le> ms_version s"
    and "applied_upto (ms_applied s) (ms_version s)"
  using assms unfolding mig_inv_def by blast+

lemma applied_upto_snoc: "applied_upto vs v \<Longrightarrow> applied_upto (vs @ [Suc v]) (Suc v)"
  unfolding applied_upto_def by (elim exE conjE, rule exI) (auto)

lemma lock_cases:
  obtains "acquireMigrateLock drv ans = Inr ()" "lock_granted drv ans"
  | e where "acquireMigrateLock drv ans = Inl e"
proof -
  have "(acquireMigrateLock drv ans = Inr () \<and> lock_granted drv ans) \<or> (\<exists>e. acquireMigrateLock drv ans = Inl e)"
    by (simp add: acquireMigrateLock_def lock_granted_def split: lock_answer.split)
  then show thesis using that by blast
qed

lemma mig_apply_inv:
  assumes "mig_inv latest s" and "ms_pc s i = AtApply v"
  shows "mig_inv latest (go_to i AtVersion (s\<lparr> ms_version := Suc v, ms_applied := ms_applied s @ [Suc v] \<rparr>))"
proof -
  have v: "v = ms_version s" "v < latest" using mig_invD(2)[OF assms] by auto
  have l: "ms_lock s = Some i" using mig_invD(1)[OF assms(1), of i] assms(2) by simp
  have other: "\<not> in_section (ms_pc s j)" if "j \<noteq> i" for j using mig_invD(1)[OF assms(1), of j] l that by simp
  have none: "ms_pc s j \<noteq> AtApply x" if "j \<noteq> i" for j x using other[OF that] by auto
  have fin: "ms_pc s j \<noteq> AtDone (Inr ())" "ms_pc s j \<noteq> AtRelease (Inr ())" for j
    using mig_invD(3)[OF assms(1), of j] v by auto
  have "applied_upto (ms_applied s @ [Suc v]) (Suc v)"
    using mig_invD(4)[OF assms(1)] v(1) applied_upto_snoc by blast
  then show ?thesis unfolding mig_inv_def using other none fin l by simp
qed

lemma mig_fail_inv:
  "mig_inv latest s \<Longrightarrow> in_section (ms_pc s i) \<Longrightarrow> mig_inv latest (go_to i (AtRelease (Inl e)) s)"
  by (auto simp: mig_inv_def split: if_splits)

lemma mig_step_inv:
  assumes "mig_step drv latest i failed ans s = Some s'" and "mig_inv latest s"
  shows "mig_inv latest s'"
proof (cases "ms_pc s i")
  case AtLock
  show ?thesis
    by (rule lock_cases[of drv ans])
       (use assms AtLock mig_invD(1)[OF assms(2), of i] in \<open>auto simp: mig_step_def mig_inv_def Let_def split: if_splits\<close>)
next
  case (AtApply v)
  show ?thesis
  proof (cases failed)
    case None
    then show ?thesis using assms(1) AtApply mig_apply_inv[OF assms(2) AtApply] by (auto simp: mig_step_def)
  next
    case (Some e)
    then show ?thesis using assms(1) AtApply mig_fail_inv[OF assms(2), of i e] by (auto simp: mig_step_def)
  qed
qed (use assms mig_invD(1)[OF assms(2), of i] in \<open>auto simp: mig_step_def mig_inv_def split: option.splits sum.splits if_splits\<close>)

lemma mig_died_inv:
  assumes "mig_inv latest s"
  shows "mig_inv latest (go_to i (AtDone (Inl crash)) (s\<lparr> ms_lock := (if ms_lock s = Some i then None else ms_lock s) \<rparr>))"
  using assms by (auto simp: mig_inv_def)

lemma mig_run_inv: "mig_run drv latest s \<Longrightarrow> mig_inv latest s"
proof (induction rule: mig_run.induct)
  case (start v0)
  have "applied_upto [] v0" unfolding applied_upto_def by (rule exI[of _ v0]) simp
  then show ?case by (simp add: mig_inv_def)
next
  case (step s i failed ans s')
  then show ?case using mig_step_inv by blast
next
  case (died s i)
  then show ?case using mig_died_inv by blast
qed

section \<open>Properties\<close>

text \<open>
  C10: Replicas that boot together migrate the schema once.  Whatever their number and the interleaving of
  their steps, with any calls failing and any of them dying anywhere, no two are inside the migration
  section at the same time, the migrations applied are consecutive versions in order and each is applied
  once, and a replica whose \<^verbatim>\<open>MigrateUp\<close> returned without an error starts on the latest schema.
\<close>
theorem migrations_serialized:
  assumes "mig_run drv latest s"
  shows "(\<forall>i j. in_section (ms_pc s i) \<and> in_section (ms_pc s j) \<longrightarrow> i = j)
    \<and> applied_upto (ms_applied s) (ms_version s)
    \<and> (\<forall>i. ms_pc s i = AtDone (Inr ()) \<longrightarrow> latest \<le> ms_version s)"
  using mig_run_inv[OF assms] unfolding mig_inv_def by (metis option.inject)

text \<open>What is left to do for a replica that meets no failure.\<close>

fun mig_rank :: "nat \<Rightarrow> nat \<Rightarrow> mig_pc \<Rightarrow> nat" where
  "mig_rank latest v AtDialect = 2 * (latest - v) + 6"
| "mig_rank latest v AtConn = 2 * (latest - v) + 5"
| "mig_rank latest v AtLock = 2 * (latest - v) + 4"
| "mig_rank latest v AtProvider = 2 * (latest - v) + 3"
| "mig_rank latest v AtVersion = 2 * (latest - v) + 2"
| "mig_rank latest v (AtApply _) = 2 * (latest - v) + 1"
| "mig_rank latest v (AtRelease _) = 1"
| "mig_rank latest v (AtDone _) = 0"

lemma mig_step_rank:
  assumes "mig_inv latest s" and "mig_step drv latest i failed ans s = Some s'"
  shows "mig_rank latest (ms_version s') (ms_pc s' i) < mig_rank latest (ms_version s) (ms_pc s i)
    \<and> (\<forall>j. j \<noteq> i \<longrightarrow> ms_pc s' j = ms_pc s j)"
proof (cases "ms_pc s i")
  case (AtApply v)
  then have "v = ms_version s" "v < latest" using assms(1) unfolding mig_inv_def by blast+
  then show ?thesis using assms(2) AtApply by (auto simp: mig_step_def split: option.splits)
qed (use assms(2) in \<open>auto simp: mig_step_def Let_def split: option.splits sum.splits if_splits\<close>)

text \<open>
  C19: The lock never wedges the boot.  In every reachable state each replica that has not returned either
  has a step of its own, whatever its calls meet with, or waits for a lock that another live replica
  holds, and that holder has one; every step brings the replica that makes it strictly closer to its end.
\<close>
theorem migration_never_stuck:
  assumes "mig_run drv latest s" and "\<forall>r. ms_pc s i \<noteq> AtDone r"
  shows "\<exists>j s'. (j = i \<or> ms_lock s = Some j) \<and> mig_step drv latest j failed ans s = Some s'
    \<and> mig_rank latest (ms_version s') (ms_pc s' j) < mig_rank latest (ms_version s) (ms_pc s j)"
proof -
  have inv: "mig_inv latest s" by (rule mig_run_inv[OF assms(1)])
  have enabled: "\<exists>s'. mig_step drv latest j failed ans s = Some s'" if "in_section (ms_pc s j)" for j
    using that by (cases "ms_pc s j") (auto simp: mig_step_def split: option.split)
  have "\<exists>j s'. (j = i \<or> ms_lock s = Some j) \<and> mig_step drv latest j failed ans s = Some s'"
  proof (cases "ms_lock s")
    case None
    have "\<exists>s'. mig_step drv latest i failed ans s = Some s'"
      using assms(2) None by (cases "ms_pc s i") (auto simp: mig_step_def Let_def split: option.split sum.split)
    then show ?thesis by blast
  next
    case (Some j)
    then have "in_section (ms_pc s j)" using inv unfolding mig_inv_def by blast
    then show ?thesis using enabled Some by blast
  qed
  then show ?thesis using mig_step_rank[OF inv] by blast
qed

section \<open>Concrete boot\<close>

text \<open>Replica 0 holds the lock with version 1 of 2 applied while replica 1 waits.\<close>

definition demo_boot :: mig_state where
  "demo_boot = \<lparr> ms_pc = (\<lambda>_. AtDialect)(0 := AtApply 1, 1 := AtLock), ms_lock = Some 0, ms_version = 1, ms_applied = [1] \<rparr>"

lemma demo_boot_run: "mig_run ''mysql'' 2 demo_boot"
proof -
  let ?s0 = "\<lparr> ms_pc = (\<lambda>_. AtDialect), ms_lock = None, ms_version = 0, ms_applied = [] \<rparr>"
  define sched :: "nat list" where "sched = [0, 0, 0, 0, 0, 0, 0, 1, 1]"
  have run: "mig_run ''mysql'' 2 s \<Longrightarrow> foldl (\<lambda>st i. Option.bind st (mig_step ''mysql'' 2 i None (LockRow (Some 1)))) (Some s) is = Some s'
      \<Longrightarrow> mig_run ''mysql'' 2 s'" for s s' "is"
  proof (induction "is" arbitrary: s)
    case (Cons i rest)
    obtain s1 where s1: "mig_step ''mysql'' 2 i None (LockRow (Some 1)) s = Some s1"
    proof (cases "mig_step ''mysql'' 2 i None (LockRow (Some 1)) s")
      case None
      have "foldl (\<lambda>st i. Option.bind st (mig_step ''mysql'' 2 i None (LockRow (Some 1)))) None rest = None"
        by (induction rest) simp_all
      then show ?thesis using Cons.prems(2) None by simp
    qed
    then show ?case using Cons.IH[OF mig_run.step[OF Cons.prems(1) s1]] Cons.prems(2) by simp
  qed simp
  have "foldl (\<lambda>st i. Option.bind st (mig_step ''mysql'' 2 i None (LockRow (Some 1)))) (Some ?s0) sched = Some demo_boot"
    by (simp add: sched_def mig_step_def go_to_def gooseDialect_def acquireMigrateLock_def lock_granted_def Let_def
        demo_boot_def fun_upd_twist)
  then show ?thesis by (rule run[OF mig_run.start])
qed

theorem migrations_serialized_witness: "in_section (ms_pc demo_boot 0) \<and> \<not> in_section (ms_pc demo_boot 1)"
  using migrations_serialized[OF demo_boot_run] by (simp add: demo_boot_def)

theorem migration_never_stuck_witness:
  "\<exists>j s'. (j = 1 \<or> ms_lock demo_boot = Some j) \<and> mig_step ''mysql'' 2 j None (LockRow (Some 1)) demo_boot = Some s'"
  using migration_never_stuck[OF demo_boot_run, of 1 None "LockRow (Some 1)"] by (auto simp: demo_boot_def)

end
