(* ===== verification/Lifecycle.thy ===== *)
theory Lifecycle
  imports Goway_Prelude
begin

text \<open>
  Startup and shutdown of the two HTTP servers (\<^verbatim>\<open>internal/lifecycle/server.go\<close>).  Sockets are addresses;
  \<open>ls_open\<close> holds the ones the process has open.  \<^verbatim>\<open>http.Server.Shutdown\<close> closes the listener and then looks
  at the active connections again and again until there are none or its context is done; the
  environment gives the number of active connections at each look.
\<close>

section \<open>Definitions\<close>

record lifecycle_server =
  ls_proxyAddr :: string
  ls_adminAddr :: string
  ls_proxyLn :: bool
  ls_adminLn :: bool
  ls_open :: "string list"

definition lifecycle_New :: "string \<Rightarrow> string \<Rightarrow> lifecycle_server" where
  "lifecycle_New proxyAddr adminAddr = \<lparr> ls_proxyAddr = proxyAddr, ls_adminAddr = adminAddr,
     ls_proxyLn = False, ls_adminLn = False, ls_open = [] \<rparr>"

text \<open>\<open>bind a\<close> is the error of binding address \<open>a\<close>, if it fails.\<close>

definition lifecycle_Listen ::
  "(string \<Rightarrow> go_error option) \<Rightarrow> lifecycle_server \<Rightarrow> unit result \<times> lifecycle_server" where
  "lifecycle_Listen bind s =
     (if ls_proxyLn s \<and> ls_adminLn s then (Inr (), s)
      else (case bind (ls_proxyAddr s) of
              Some e \<Rightarrow> (Inl e, s)
            | None \<Rightarrow>
                (let s1 = s\<lparr> ls_open := ls_proxyAddr s # ls_open s \<rparr> in
                 case bind (ls_adminAddr s) of
                   Some e \<Rightarrow> (Inl e, s1\<lparr> ls_open := remove1 (ls_proxyAddr s) (ls_open s1) \<rparr>)
                 | None \<Rightarrow> (Inr (), s1\<lparr> ls_open := ls_adminAddr s # ls_open s1, ls_proxyLn := True, ls_adminLn := True \<rparr>))))"

definition context_canceled :: go_error where
  "context_canceled = Failure ''context canceled''"

text \<open>\<open>done i\<close>: the context is done at look \<open>i\<close>.  The result tells how often the connections were looked at.\<close>

fun http_Shutdown :: "(nat \<Rightarrow> bool) \<Rightarrow> nat \<Rightarrow> nat list \<Rightarrow> unit result \<times> nat" where
  "http_Shutdown done i [] = (Inr (), Suc i)"
| "http_Shutdown done i (n # ns) =
     (if n = 0 then (Inr (), Suc i)
      else if done i then (Inl context_canceled, Suc i)
      else http_Shutdown done (Suc i) ns)"

text \<open>The group returns the first error of the two shutdowns; both errors are the one of the context.\<close>

definition lifecycle_Stop :: "(nat \<Rightarrow> bool) \<Rightarrow> nat list \<Rightarrow> nat list \<Rightarrow> lifecycle_server \<Rightarrow> unit result \<times> lifecycle_server" where
  "lifecycle_Stop done proxyActive adminActive s =
     (let closed = s\<lparr> ls_open := remove1 (ls_adminAddr s) (remove1 (ls_proxyAddr s) (ls_open s)) \<rparr> in
      case fst (http_Shutdown done 0 proxyActive) of
        Inl e \<Rightarrow> (Inl e, closed)
      | Inr _ \<Rightarrow> (fst (http_Shutdown done 0 adminActive), closed))"

text \<open>What ends the wait of \<^verbatim>\<open>Start\<close>: a server that stops, with its error if it has one, or the context.\<close>

datatype start_event = ServerReturned "go_error option" | ContextDone

text \<open>\<open>done\<close> is the context given to \<^verbatim>\<open>Start\<close>, observed from the event on.\<close>

definition lifecycle_Start ::
  "(string \<Rightarrow> go_error option) \<Rightarrow> start_event \<Rightarrow> (nat \<Rightarrow> bool) \<Rightarrow> nat list \<Rightarrow> nat list \<Rightarrow> lifecycle_server
    \<Rightarrow> unit result \<times> lifecycle_server" where
  "lifecycle_Start bind event done proxyActive adminActive s =
     (case lifecycle_Listen bind s of
        (Inl e, s1) \<Rightarrow> (Inl e, s1)
      | (Inr _, s1) \<Rightarrow>
          (case event of
             ServerReturned err \<Rightarrow>
               (case err of None \<Rightarrow> Inr () | Some e \<Rightarrow> Inl e, snd (lifecycle_Stop done proxyActive adminActive s1))
           | ContextDone \<Rightarrow> lifecycle_Stop (\<lambda>_. True) proxyActive adminActive s1))"

section \<open>Properties\<close>

lemma Listen_fresh:
  "lifecycle_Listen bind (lifecycle_New p a) =
     (case bind p of
        Some e \<Rightarrow> (Inl e, lifecycle_New p a)
      | None \<Rightarrow> (case bind a of
          Some e \<Rightarrow> (Inl e, lifecycle_New p a)
        | None \<Rightarrow> (Inr (), (lifecycle_New p a)\<lparr> ls_open := [a, p], ls_proxyLn := True, ls_adminLn := True \<rparr>)))"
  by (simp add: lifecycle_Listen_def lifecycle_New_def split: option.split)

text \<open>Binding takes both sockets or none, and leaves none open when it fails.\<close>

lemma Listen_all_or_nothing:
  assumes "lifecycle_Listen bind (lifecycle_New p a) = (res, s)"
  shows "(res = Inr () \<and> ls_proxyLn s \<and> ls_adminLn s \<and> ls_open s = [a, p]) \<or> ((\<exists>e. res = Inl e) \<and> ls_open s = [])"
  using assms unfolding Listen_fresh by (auto simp: lifecycle_New_def split: option.splits)

lemma Shutdown_drains:
  "fst (http_Shutdown (\<lambda>_. False) i ns) = Inr () \<and>
   snd (http_Shutdown (\<lambda>_. False) i ns) = Suc (i + length (takeWhile (\<lambda>n. n \<noteq> 0) ns))"
  by (induction ns arbitrary: i) auto

lemma Shutdown_done: "http_Shutdown (\<lambda>_. True) i ns =
    (if ns = [] \<or> hd ns = 0 then (Inr (), Suc i) else (Inl context_canceled, Suc i))"
  by (cases ns) auto

text \<open>
  When the process is told to stop, requests in flight are not drained: \<^verbatim>\<open>Start\<close> hands the context that has
  just been cancelled to \<^verbatim>\<open>Stop\<close>, so each server is looked at once and, if a connection is active on either,
  the shutdown gives up at once with the error of the context.  A context that is not done would have
  been waited on until no connection is active.
\<close>
theorem shutdown_does_not_drain:
  assumes "bind p = None" and "bind a = None" and "0 < n"
  shows "fst (lifecycle_Start bind ContextDone done (n # proxyActive) adminActive (lifecycle_New p a)) = Inl context_canceled
    \<and> http_Shutdown (\<lambda>_. True) 0 (n # proxyActive) = (Inl context_canceled, 1)
    \<and> fst (http_Shutdown (\<lambda>_. False) 0 (n # proxyActive)) = Inr ()"
  using assms Shutdown_drains[of 0 "n # proxyActive"]
  by (simp add: lifecycle_Start_def Listen_fresh lifecycle_Stop_def Let_def Shutdown_done)

theorem shutdown_does_not_drain_witness:
  "fst (lifecycle_Start (\<lambda>_. None) ContextDone (\<lambda>_. True) [2, 1, 0] [0] (lifecycle_New '':8080'' '':8090'')) = Inl context_canceled"
  using shutdown_does_not_drain[of "\<lambda>_. None" "'':8080''" "'':8090''" 2 "\<lambda>_. True" "[1, 0]" "[0]"] by simp

text \<open>Without an active connection the stop is clean and both sockets are closed.\<close>

lemma idle_shutdown_clean:
  assumes "bind p = None" and "bind a = None"
  shows "lifecycle_Start bind ContextDone done (0 # ps) (0 # as) (lifecycle_New p a) =
    (Inr (), (lifecycle_New p a)\<lparr> ls_proxyLn := True, ls_adminLn := True \<rparr>)"
proof -
  have "lifecycle_Listen bind (lifecycle_New p a) =
      (Inr (), (lifecycle_New p a)\<lparr> ls_open := [a, p], ls_proxyLn := True, ls_adminLn := True \<rparr>)"
    using assms by (simp add: Listen_fresh)
  then show ?thesis
    by (simp add: lifecycle_Start_def lifecycle_Stop_def Let_def Shutdown_done) (simp add: lifecycle_New_def)
qed

end
