(* ===== verification/Gateway.thy ===== *)
theory Gateway
  imports Proxy Admin Db_Migrate Service Lifecycle
begin

text \<open>
  The gateway as one program: the wiring of \<^verbatim>\<open>run\<close> in \<^verbatim>\<open>cmd/trino-goway/main.go\<close> between the proxy, the
  router, the database, the monitor and the management API, the proxy's own mux
  (\<^verbatim>\<open>internal/proxy/proxy.go\<close>), and the steps the running process takes.  The models of the parts are
  used as they are; this theory only connects them.  The handling of one request is one step, in which
  its calls happen in program order; the interleavings inside the recovery chain, the monitor and the
  routing engine are the subject of their own theories.
\<close>

section \<open>Wiring\<close>

text \<open>What the process uses from outside the repository: the LRU library on a cache \<open>'c\<close>, and the
  peers on the network, whose state is \<open>'n\<close>.\<close>

record ('c, 'n) outside =
  os_New :: "nat \<Rightarrow> 'c result"
  os_Get :: "'c \<Rightarrow> string \<Rightarrow> string option \<times> 'c"
  os_Add :: "'c \<Rightarrow> string \<Rightarrow> string \<Rightarrow> 'c"
  os_Remove :: "'c \<Rightarrow> string \<Rightarrow> 'c"
  os_dial :: "string \<Rightarrow> unit result"
  os_Head :: "string \<Rightarrow> 'n \<Rightarrow> nat result \<times> 'n"
  os_completion :: "ActiveBackend list \<Rightarrow> 'n \<Rightarrow> ActiveBackend list"
  os_http :: "'n http_selector_ops"
  os_grpc :: "pb_RouteRequest \<Rightarrow> 'n \<Rightarrow> pb_RouteResponse result \<times> 'n"
  os_Do :: "upstream_request \<Rightarrow> 'n \<Rightarrow> upstream_response result \<times> 'n"
  os_url_ok :: "string \<Rightarrow> bool"
  os_json_id :: "string \<Rightarrow> string option"
  os_codec :: cookie_codec

record ('c, 'n) gateway =
  gw_router :: "'c router"
  gw_admin :: admin_state
  gw_net :: 'n

abbreviation gw_db :: "('c, 'n) gateway \<Rightarrow> db" where
  "gw_db g \<equiv> ad_db (gw_admin g)"

definition on_net :: "('n \<Rightarrow> 'a \<times> 'n) \<Rightarrow> db \<times> 'n \<Rightarrow> 'a \<times> db \<times> 'n" where
  "on_net f w = (let (a, n) = f (snd w) in (a, fst w, n))"

text \<open>The router's history is the \<^verbatim>\<open>HistoryDAO\<close> and its backends the \<^verbatim>\<open>activeBackendAdapter\<close>.\<close>

definition router_wiring :: "('c, 'n) outside \<Rightarrow> ('c, db \<times> 'n) router_ops" where
  "router_wiring out = \<lparr>
     lru_New = os_New out, lru_Get = os_Get out, lru_Add = os_Add out, lru_Remove = os_Remove out,
     op_dial = os_dial out,
     op_LookupByQueryID = (\<lambda>q w. (history_LookupByQueryID q (fst w), w)),
     op_ListActive = (\<lambda>w. (activeBackendAdapter_ListActive (fst w), w)),
     op_Head = (\<lambda>url. on_net (os_Head out url)),
     op_completion = (\<lambda>bs w. os_completion out bs (snd w)),
     op_http = \<lparr> hs_Do = (\<lambda>url body h. on_net (hs_Do (os_http out) url body h)),
                 hs_decode = hs_decode (os_http out) \<rparr>,
     op_grpc = (\<lambda>req. on_net (os_grpc out req)) \<rparr>"

definition gateway_Route ::
  "('c, 'n) outside \<Rightarrow> RouteInput \<Rightarrow> ('c, 'n) gateway \<Rightarrow> RouteResult result \<times> ('c, 'n) gateway" where
  "gateway_Route out req g =
     (let (res, r, d, n) = Route (router_wiring out) req (gw_router g) (gw_db g, gw_net g)
      in (Inr res, g\<lparr> gw_router := r, gw_admin := (gw_admin g)\<lparr> ad_db := d \<rparr>, gw_net := n \<rparr>))"

definition gateway_Insert ::
  "string \<Rightarrow> string \<Rightarrow> string \<Rightarrow> string \<Rightarrow> ('c, 'n) gateway \<Rightarrow> unit result \<times> ('c, 'n) gateway" where
  "gateway_Insert queryID backendURL user source g =
     (let (res, d) = historyAdapter_Insert queryID backendURL user source (gw_db g)
      in (res, g\<lparr> gw_admin := (gw_admin g)\<lparr> ad_db := d \<rparr> \<rparr>))"

definition proxy_wiring :: "('c, 'n) outside \<Rightarrow> ('c, 'n) gateway proxy_ops" where
  "proxy_wiring out = \<lparr>
     px_Route = gateway_Route out,
     px_WriteCache = (\<lambda>q u g. g\<lparr> gw_router := WriteCache (router_wiring out) q u (gw_router g) \<rparr>),
     px_Insert = Some gateway_Insert,
     px_Do = (\<lambda>req g. let (res, n) = os_Do out req (gw_net g) in (res, g\<lparr> gw_net := n \<rparr>)),
     px_url_ok = os_url_ok out, px_json_id = os_json_id out, px_codec = os_codec out \<rparr>"

section \<open>The proxy's mux\<close>

datatype proxy_endpoint = PStatement | PStream

definition setupRoutes :: "(string \<times> string \<times> proxy_endpoint) list" where
  "setupRoutes = [(''POST'', ''/v1/statement'', PStatement), (''*'', ''/*'', PStream)]"

definition writeUnauthorized :: "string \<Rightarrow> px_event list" where
  "writeUnauthorized msg =
     [Responded 401 (new_writer\<lparr> rw_Header := hdr_set (hdr_set (rw_Header new_writer)
        ''Content-Type'' ''application/json'') ''WWW-Authenticate'' ''Bearer'' \<rparr>),
      Body ([CHR ''{'', CHR 0x22] @ ''error'' @ [CHR 0x22, CHR '':'', CHR 0x22] @ msg @ [CHR 0x22, CHR ''}''])]"

text \<open>\<open>mux\<close> is the chi router: the index of the entry it picks for a request.\<close>

definition proxy_dispatch ::
  "((string \<times> string) list \<Rightarrow> http_request \<Rightarrow> nat option) \<Rightarrow> 'w proxy_ops \<Rightarrow> proxy_config \<Rightarrow> int
    \<Rightarrow> http_request \<Rightarrow> 'w \<Rightarrow> px_event list \<times> 'w" where
  "proxy_dispatch mux ops cfg now r w =
     (case mux (map (\<lambda>(m, p, _). (m, p)) setupRoutes) r of
        None \<Rightarrow> (http_Error new_writer ''404 page not found'' 404, w)
      | Some i \<Rightarrow>
          if length setupRoutes \<le> i then (http_Error new_writer ''404 page not found'' 404, w)
          else (case snd (snd (setupRoutes ! i)) of
                  PStatement \<Rightarrow> handleStatement ops cfg now r w
                | PStream \<Rightarrow> handleStream ops cfg now r w))"

text \<open>The auth middleware, if there is one, runs before the mux picks a route.\<close>

definition proxy_ServeHTTP ::
  "((string \<times> string) list \<Rightarrow> http_request \<Rightarrow> nat option) \<Rightarrow> (http_request \<Rightarrow> auth_verdict) option
    \<Rightarrow> 'w proxy_ops \<Rightarrow> proxy_config \<Rightarrow> int \<Rightarrow> http_request \<Rightarrow> 'w \<Rightarrow> px_event list \<times> 'w" where
  "proxy_ServeHTTP mux authMW ops cfg now r w =
     (case authMW of
        None \<Rightarrow> proxy_dispatch mux ops cfg now r w
      | Some mw \<Rightarrow>
          (case mw r of
             Deny msg \<Rightarrow> (writeUnauthorized msg, w)
           | Allow _ \<Rightarrow> proxy_dispatch mux ops cfg now r w))"

section \<open>Steps of the process\<close>

text \<open>The settings of a process; the clock, the request decoders and the random source of the management API
  are \<open>admin_env\<close>, given with each request.\<close>

record ('c, 'n) wiring =
  wr_out :: "('c, 'n) outside"
  wr_routing :: RoutingConfig
  wr_proxy :: proxy_config
  wr_authMW :: "(http_request \<Rightarrow> auth_verdict) option"
  wr_mux :: "(string \<times> string) list \<Rightarrow> http_request \<Rightarrow> nat option"
  wr_admin :: admin_config
  wr_admin_mux :: "(string \<times> string) list \<Rightarrow> http_request \<Rightarrow> (nat \<times> (string \<Rightarrow> string)) option"

definition serve_proxy ::
  "('c, 'n) wiring \<Rightarrow> int \<Rightarrow> http_request \<Rightarrow> ('c, 'n) gateway \<Rightarrow> px_event list \<times> ('c, 'n) gateway" where
  "serve_proxy W now r g =
     proxy_ServeHTTP (wr_mux W) (wr_authMW W) (proxy_wiring (wr_out W)) (wr_proxy W) now r g"

definition serve_admin ::
  "('c, 'n) wiring \<Rightarrow> admin_env \<Rightarrow> http_request \<Rightarrow> ('c, 'n) gateway \<Rightarrow> response \<times> ('c, 'n) gateway" where
  "serve_admin W env r g =
     (let (resp, s) = admin_ServeHTTP (wr_admin_mux W) (wr_admin W) env r (gw_admin g)
      in (resp, g\<lparr> gw_admin := s \<rparr>))"

text \<open>A tick of the monitor; the callback of the first tick is \<^verbatim>\<open>SetReady\<close>.\<close>

definition monitor_tick ::
  "(SimpleBackend list \<Rightarrow> (SimpleBackend \<times> info_answer) list)
    \<Rightarrow> (SimpleBackend list \<Rightarrow> (SimpleBackend \<times> ClusterStats) list) \<Rightarrow> admin_state \<Rightarrow> admin_state" where
  "monitor_tick answers collected s =
     (let m = probe answers collected (ad_mon s); s' = s\<lparr> ad_mon := m \<rparr>
      in if mo_firstTicks (ad_mon s) < mo_firstTicks m then admin_SetReady s' else s')"

definition refresh_tick :: "admin_state \<Rightarrow> admin_state" where
  "refresh_tick s = s\<lparr> ad_mon := snd (refreshBackends (ad_db s) (ad_mon s)) \<rparr>"

text \<open>
  The steps: a request to the proxy or to the management API, a tick of the monitor or of the refresh
  loop, a restart of the process with the database kept, a write of another replica to the shared
  database, a fault or recovery of the database, and a change of the peers.
\<close>

inductive gateway_step :: "('c, 'n) wiring \<Rightarrow> ('c, 'n) gateway \<Rightarrow> ('c, 'n) gateway \<Rightarrow> bool"
  for W :: "('c, 'n) wiring" where
  proxied: "gateway_step W g (snd (serve_proxy W now r g))"
| managed: "gateway_step W g (snd (serve_admin W env r g))"
| probed: "gateway_step W g (g\<lparr> gw_admin := monitor_tick answers collected (gw_admin g) \<rparr>)"
| refreshed: "gateway_step W g (g\<lparr> gw_admin := refresh_tick (gw_admin g) \<rparr>)"
| restarted: "New (router_wiring (wr_out W)) (wr_routing W) = Inr r \<Longrightarrow>
    gateway_step W g (g\<lparr> gw_router := r, gw_admin := (gw_admin g)\<lparr>
      ad_mon := monitor_New interval timeout True True True, ad_ready := False \<rparr> \<rparr>)"
| replica: "gateway_step W g (g\<lparr> gw_admin := (gw_admin g)\<lparr> ad_db := db_apply op (gw_db g) \<rparr> \<rparr>)"
| peers: "gateway_step W g (g\<lparr> gw_net := n \<rparr>)"

text \<open>The states of a deployment that began with an empty database.\<close>

inductive reachable :: "('c, 'n) wiring \<Rightarrow> ('c, 'n) gateway \<Rightarrow> bool" for W :: "('c, 'n) wiring" where
  boot: "New (router_wiring (wr_out W)) (wr_routing W) = Inr r \<Longrightarrow>
    reachable W \<lparr> gw_router = r, gw_admin = \<lparr> ad_db = empty_db drv,
      ad_mon = monitor_New interval timeout True True True, ad_ready = False \<rparr>, gw_net = n \<rparr>"
| step: "reachable W g \<Longrightarrow> gateway_step W g g' \<Longrightarrow> reachable W g'"

inductive_cases gateway_stepE: "gateway_step W g g'"

section \<open>What the handlers keep\<close>

text \<open>A property of the world that every call of the router keeps is kept by routing.\<close>

locale router_calls =
  fixes ops :: "('c, 'w) router_ops"
    and P :: "'w \<Rightarrow> bool"
  assumes lookup_keeps: "P w \<Longrightarrow> P (snd (op_LookupByQueryID ops q w))"
    and list_keeps: "P w \<Longrightarrow> P (snd (op_ListActive ops w))"
    and head_keeps: "P w \<Longrightarrow> P (snd (op_Head ops u w))"
    and http_keeps: "P w \<Longrightarrow> P (snd (hs_Do (op_http ops) u b h w))"
    and grpc_keeps: "P w \<Longrightarrow> P (snd (op_grpc ops rq w))"
begin

lemma probeOne_keeps: "P w \<Longrightarrow> P (snd (probeOne ops u q w))"
  using head_keeps[of w "u @ ''/v1/query/'' @ q"] by (auto simp: probeOne_def split: prod.splits sum.splits)

lemma probe_all_keeps: "P w \<Longrightarrow> P (snd (probe_all ops q bs w))"
proof (induction bs arbitrary: w)
  case (Cons b bs)
  then show ?case using probeOne_keeps[OF Cons.prems, of "ab_URL b" q] by (simp add: case_prod_unfold Let_def)
qed simp

lemma recoverBackend_world: "P w \<Longrightarrow> P (snd (snd (recoverBackend ops q r w)))"
  using lookup_keeps[of w q] list_keeps[of "snd (op_LookupByQueryID ops q w)"] probe_all_keeps
  by (auto simp: recoverBackend_def headProbeFanOut_def Let_def case_prod_unfold split: sum.splits list.splits prod.splits)

lemma http_call_world: "P w \<Longrightarrow> P (snd (snd (http_call ops req r w)))"
  using http_keeps by (auto simp: http_call_def http_selectGroup_def Let_def case_prod_unfold split: sum.splits prod.splits)

lemma callExternal_world: "P w \<Longrightarrow> P (snd (snd (callExternal ops req r w)))"
  using grpc_keeps http_call_world
  by (auto simp: callExternal_def grpc_selectGroup_def Let_def case_prod_unfold split: sum.splits prod.splits)

lemma resolveGroup_world: "P w \<Longrightarrow> P (snd (resolveGroup ops grp w))"
  using list_keeps[of w] by (auto simp: resolveGroup_def split: sum.splits prod.splits)

lemma firstActive_world: "P w \<Longrightarrow> P (snd (firstActiveBackend ops w))"
  using list_keeps[of w] by (auto simp: firstActiveBackend_def split: sum.splits prod.splits)

lemma route_by_group_world: "P w \<Longrightarrow> P (snd (snd (route_by_group ops req r w)))"
  by (simp add: route_by_group_def Let_def case_prod_unfold callExternal_world resolveGroup_world
      recoverBackend_world firstActive_world)

lemma Route_world: "P w \<Longrightarrow> P (snd (snd (Route ops req r w)))"
  by (simp add: Route_def route_cached_def Let_def case_prod_unfold route_by_group_world recoverBackend_world
      split: option.split)

end

text \<open>The same for the calls of the proxy.\<close>

locale proxy_calls =
  fixes ops :: "'w proxy_ops"
    and P :: "'w \<Rightarrow> bool"
  assumes Route_keeps: "P w \<Longrightarrow> P (snd (px_Route ops req w))"
    and WriteCache_keeps: "P w \<Longrightarrow> P (px_WriteCache ops q u w)"
    and Insert_keeps: "px_Insert ops = Some ins \<Longrightarrow> P w \<Longrightarrow> P (snd (ins q u user source w))"
    and Do_keeps: "P w \<Longrightarrow> P (snd (px_Do ops up w))"
begin

lemma remember_query_keeps: "P w \<Longrightarrow> P (snd (remember_query ops cfg r u buf w))"
  using WriteCache_keeps Insert_keeps
  by (simp add: remember_query_def Let_def case_prod_unfold split: option.split)

lemma statement_answer_keeps: "P w \<Longrightarrow> P (snd (statement_answer ops cfg now r result resp w))"
  using remember_query_keeps by (simp add: statement_answer_def Let_def case_prod_unfold split: option.split)

lemma handleStatement_keeps: "P w \<Longrightarrow> P (snd (handleStatement ops cfg now r w))"
  using Route_keeps Do_keeps statement_answer_keeps
  by (auto simp: handleStatement_def Let_def case_prod_unfold split: sum.split)

lemma handleStream_keeps: "P w \<Longrightarrow> P (snd (handleStream ops cfg now r w))"
  using Route_keeps Do_keeps by (auto simp: handleStream_def Let_def case_prod_unfold split: sum.split)

lemma ServeHTTP_keeps: "P w \<Longrightarrow> P (snd (proxy_ServeHTTP mux authMW ops cfg now r w))"
  using handleStatement_keeps handleStream_keeps
  by (auto simp: proxy_ServeHTTP_def proxy_dispatch_def split: option.split auth_verdict.split proxy_endpoint.split)

end

text \<open>Routing only reads the database.\<close>

interpretation db_unread: router_calls "router_wiring out" "\<lambda>w. fst w = d" for out :: "('c, 'n) outside" and d
  by unfold_locales (simp_all add: router_wiring_def on_net_def case_prod_unfold Let_def)

lemma gateway_Route_db [simp]: "gw_admin (snd (gateway_Route out req g)) = gw_admin g"
  using db_unread.Route_world[of "(gw_db g, gw_net g)" "gw_db g" out req "gw_router g"]
  by (simp add: gateway_Route_def Let_def case_prod_unfold)

lemma gateway_Insert_db [simp]:
  "gw_db (snd (gateway_Insert q u user source g)) = snd (historyAdapter_Insert q u user source (gw_db g))"
  "gw_router (snd (gateway_Insert q u user source g)) = gw_router g"
  by (simp_all add: gateway_Insert_def case_prod_unfold Let_def)

lemma proxy_wiring_simps [simp]:
  "px_Route (proxy_wiring out) = gateway_Route out"
  "px_WriteCache (proxy_wiring out) q u g = g\<lparr> gw_router := WriteCache (router_wiring out) q u (gw_router g) \<rparr>"
  "px_Insert (proxy_wiring out) = Some gateway_Insert"
  "gw_admin (snd (px_Do (proxy_wiring out) up g)) = gw_admin g"
  "gw_router (snd (px_Do (proxy_wiring out) up g)) = gw_router g"
  "px_url_ok (proxy_wiring out) = os_url_ok out" "px_json_id (proxy_wiring out) = os_json_id out"
  by (simp_all add: proxy_wiring_def case_prod_unfold Let_def)

text \<open>The row of a query in the history.\<close>

definition history_row :: "string \<Rightarrow> db \<Rightarrow> QueryRecord option" where
  "history_row q d = find (\<lambda>r. qr_QueryID r = q) (query_history d)"

lemma find_append_Some: "find P xs = Some x \<Longrightarrow> find P (xs @ ys) = Some x"
  by (induction xs) auto

lemma history_row_Insert: "history_row q d = Some row \<Longrightarrow> history_row q (snd (history_Insert r d)) = Some row"
  by (auto simp: history_row_def history_Insert_def find_append_Some split: option.split)

lemma history_row_adapter:
  "history_row q d = Some row \<Longrightarrow> history_row q (snd (historyAdapter_Insert p u user source d)) = Some row"
  by (simp add: historyAdapter_Insert_def Let_def history_row_Insert)

interpretation keys: proxy_calls "proxy_wiring out" "\<lambda>g. db_wf (gw_db g)" for out :: "('c, 'n) outside"
  by unfold_locales (auto simp: db_wf_adapter)

interpretation rows: proxy_calls "proxy_wiring out" "\<lambda>g. history_row q (gw_db g) = Some row"
  for out :: "('c, 'n) outside" and q row
  by unfold_locales (auto simp: history_row_adapter)

interpretation tables: proxy_calls "proxy_wiring out" "\<lambda>g. gateway_backend (gw_db g) = bs"
  for out :: "('c, 'n) outside" and bs
  by unfold_locales (auto simp: historyAdapter_Insert_def history_Insert_def Let_def split: option.split)

interpretation flags: proxy_calls "proxy_wiring out" "\<lambda>g. ad_mon (gw_admin g) = m \<and> ad_ready (gw_admin g) = b"
  for out :: "('c, 'n) outside" and m b
  by unfold_locales (auto simp: gateway_Insert_def case_prod_unfold Let_def)

section \<open>Invariants of the running gateway\<close>

text \<open>What the management API can do to the database.\<close>

fun backend_op :: "db_op \<Rightarrow> bool" where
  "backend_op (DoUpsert _) = True"
| "backend_op (DoDelete _) = True"
| "backend_op (DoSetActive _ _ _) = True"
| "backend_op _ = False"

definition backend_change :: "db \<Rightarrow> db \<Rightarrow> bool" where
  "backend_change d d' = (d' = d \<or> (\<exists>op. backend_op op \<and> d' = db_apply op d))"

lemma backend_changeI [intro]:
  "backend_change d d" "backend_change d (snd (backend_Upsert b d))"
  "backend_change d (snd (backend_Delete n d))" "backend_change d (snd (backend_SetActive now n a d))"
  unfolding backend_change_def by (metis backend_op.simps db_apply.simps)+

lemma write_handlers_db:
  "backend_change (ad_db s) (ad_db (snd (setActive env n a s)))"
  "backend_change (ad_db s) (ad_db (snd (addBackend env r s)))"
  "backend_change (ad_db s) (ad_db (snd (updateBackend env r s)))"
  "backend_change (ad_db s) (ad_db (snd (deleteBackend r s)))"
  "backend_change (ad_db s) (ad_db (snd (upsertEntity cfg env r s)))"
  "backend_change (ad_db s) (ad_db (snd (webappSaveBackend env r s)))"
  "backend_change (ad_db s) (ad_db (snd (webappUpdateBackend env r s)))"
  "backend_change (ad_db s) (ad_db (snd (webappDeleteBackend env r s)))"
  by (auto simp: setActive_def addBackend_def updateBackend_def deleteBackend_def upsertEntity_def
      webappSaveBackend_def webappUpdateBackend_def webappDeleteBackend_def Let_def case_prod_unfold
      split: option.split sum.split)

lemma serve_endpoint_db: "backend_change (ad_db s) (ad_db (snd (serve_endpoint cfg env r e s p)))"
  by (cases e) (auto simp: serve_endpoint_def write_handlers_db activateBackend_def deactivateBackend_def)

lemma admin_ServeHTTP_cases:
  obtains (same) "snd (admin_ServeHTTP mux cfg env r s) = s"
  | (endpoint) e p where "admin_ServeHTTP mux cfg env r s = serve_endpoint cfg env r e s p"
proof -
  have "snd (admin_ServeHTTP mux cfg env r s) = s \<or> (\<exists>e p. admin_ServeHTTP mux cfg env r s = serve_endpoint cfg env r e s p)"
    by (auto simp: admin_ServeHTTP_def Let_def run_AuthMW_def RequireRole_def
        split: option.split prod.split guard.split auth_verdict.split)
  then show ?thesis using that by blast
qed

lemma admin_ServeHTTP_db: "backend_change (ad_db s) (ad_db (snd (admin_ServeHTTP mux cfg env r s)))"
  by (cases rule: admin_ServeHTTP_cases[of mux cfg env r s]) (auto simp: serve_endpoint_db)

lemma backend_change_wf: "backend_change d d' \<Longrightarrow> db_wf d \<Longrightarrow> db_wf d'"
  by (auto simp: backend_change_def db_wf_apply)

lemma backend_op_history: "backend_op op \<Longrightarrow> query_history (db_apply op d) = query_history d"
  by (cases op) (auto simp: backend_Upsert_def backend_Delete_def backend_SetActive_def split: option.split)

lemma backend_change_row: "backend_change d d' \<Longrightarrow> history_row q d' = history_row q d"
  by (auto simp: backend_change_def history_row_def backend_op_history)

lemma db_apply_row: "history_row q d = Some row \<Longrightarrow> history_row q (db_apply op d) = Some row"
proof (cases op)
  case (DoInsert r)
  then show "history_row q d = Some row \<Longrightarrow> ?thesis" by (simp add: history_row_Insert)
next
  case (DoRecord a b c e)
  then show "history_row q d = Some row \<Longrightarrow> ?thesis" by (simp add: history_row_adapter)
qed (auto simp: history_row_def backend_op_history[of op, simplified] backend_Upsert_def backend_Delete_def
      backend_SetActive_def split: option.split)

text \<open>What the clock driven steps do to the management state.\<close>

lemma tick_db [simp]:
  "ad_db (monitor_tick answers collected s) = ad_db s" "ad_db (refresh_tick s) = ad_db s"
  by (simp_all add: monitor_tick_def refresh_tick_def admin_SetReady_def Let_def)

lemma serve_admin_simps [simp]:
  "gw_admin (snd (serve_admin W env r g)) = snd (admin_ServeHTTP (wr_admin_mux W) (wr_admin W) env r (gw_admin g))"
  "gw_router (snd (serve_admin W env r g)) = gw_router g"
  "gw_net (snd (serve_admin W env r g)) = gw_net g"
  by (simp_all add: serve_admin_def case_prod_unfold Let_def)

lemma step_keys: "gateway_step W g g' \<Longrightarrow> db_wf (gw_db g) \<Longrightarrow> db_wf (gw_db g')"
  by (induction rule: gateway_step.induct)
     (auto simp: serve_proxy_def keys.ServeHTTP_keeps db_wf_apply backend_change_wf[OF admin_ServeHTTP_db])

lemma step_row:
  "gateway_step W g g' \<Longrightarrow> history_row q (gw_db g) = Some row \<Longrightarrow> history_row q (gw_db g') = Some row"
  by (induction rule: gateway_step.induct)
     (auto simp: serve_proxy_def rows.ServeHTTP_keeps db_apply_row backend_change_row[OF admin_ServeHTTP_db])

lemma steps_row:
  "(gateway_step W)\<^sup>*\<^sup>* g g' \<Longrightarrow> history_row q (gw_db g) = Some row \<Longrightarrow> history_row q (gw_db g') = Some row"
  by (induction rule: rtranclp_induct) (auto intro: step_row)

section \<open>Readiness\<close>

text \<open>Ready exactly when the monitor of this process has done its first tick.\<close>

definition ready_inv :: "admin_state \<Rightarrow> bool" where
  "ready_inv s = (mo_onFirstTick (ad_mon s) \<and> ad_ready s = mo_firstTickDone (ad_mon s) \<and>
     mo_firstTicks (ad_mon s) = (if mo_firstTickDone (ad_mon s) then 1 else 0))"

lemma serve_endpoint_tick_fields:
  "ad_ready (snd (serve_endpoint cfg env r e s p)) = ad_ready s"
  "mo_firstTickDone (ad_mon (snd (serve_endpoint cfg env r e s p))) = mo_firstTickDone (ad_mon s)"
  "mo_firstTicks (ad_mon (snd (serve_endpoint cfg env r e s p))) = mo_firstTicks (ad_mon s)"
  "mo_onFirstTick (ad_mon (snd (serve_endpoint cfg env r e s p))) = mo_onFirstTick (ad_mon s)"
  by (cases e; auto simp: serve_endpoint_def setActive_def addBackend_def updateBackend_def deleteBackend_def
      upsertEntity_def webappSaveBackend_def webappUpdateBackend_def webappDeleteBackend_def activateBackend_def
      deactivateBackend_def SetBackendStatus_def sbs_store_def Let_def case_prod_unfold split: option.split sum.split)+

lemma ready_admin: "ready_inv s \<Longrightarrow> ready_inv (snd (admin_ServeHTTP mux cfg env r s))"
  by (cases rule: admin_ServeHTTP_cases[of mux cfg env r s]) (auto simp: ready_inv_def serve_endpoint_tick_fields)

lemma ready_monitor_tick: "ready_inv s \<Longrightarrow> ready_inv (monitor_tick answers collected s) \<and> ad_ready (monitor_tick answers collected s)"
  by (auto simp: ready_inv_def monitor_tick_def admin_SetReady_def probe_def firstTick_def Let_def)

lemma ready_refresh: "ready_inv s \<Longrightarrow> ready_inv (refresh_tick s)"
  by (auto simp: ready_inv_def refresh_tick_def refreshBackends_def SetBackends_def split: sum.split)

lemma ready_new: "ready_inv (s\<lparr> ad_mon := monitor_New i t True True True, ad_ready := False \<rparr>)"
  by (simp add: ready_inv_def monitor_New_def)

lemma serve_proxy_flags:
  "ad_mon (gw_admin (snd (serve_proxy W now r g))) = ad_mon (gw_admin g)"
  "ad_ready (gw_admin (snd (serve_proxy W now r g))) = ad_ready (gw_admin g)"
  using flags.ServeHTTP_keeps[of g "ad_mon (gw_admin g)" "ad_ready (gw_admin g)"] by (simp_all add: serve_proxy_def)

lemma step_ready: "gateway_step W g g' \<Longrightarrow> ready_inv (gw_admin g) \<Longrightarrow> ready_inv (gw_admin g')"
proof (induction rule: gateway_step.induct)
  case (proxied g now r)
  then show ?case by (simp add: ready_inv_def serve_proxy_flags)
next
  case (replica g op)
  then show ?case by (simp add: ready_inv_def)
qed (simp_all add: ready_admin ready_monitor_tick ready_refresh ready_new)
section \<open>Submitting and polling\<close>

text \<open>What a statement that was cached has left behind: the pair in the router, the row in the history.\<close>

lemma handleStatement_written:
  assumes "(q, b) \<in> set (cache_writes (fst (handleStatement (proxy_wiring out) cfg now r g)))"
  obtains req user source where "q \<noteq> []" "b \<noteq> []"
    "gw_router (snd (handleStatement (proxy_wiring out) cfg now r g)) =
       WriteCache (router_wiring out) q b (gw_router (snd (gateway_Route out req g)))"
    "gw_db (snd (handleStatement (proxy_wiring out) cfg now r g)) =
       snd (historyAdapter_Insert q b user source (gw_db g))"
proof (cases rule: handleStatement_cases[of "proxy_wiring out" cfg now r g])
  case early
  then show thesis using assms no_state_cache_writes by simp
next
  case (answered body result w1 upReq resp w2)
  have w2: "gw_router w2 = gw_router (snd (gateway_Route out (NewRouteInput r body) g))" "gw_admin w2 = gw_admin g"
    using answered(2,5) proxy_wiring_simps(4,5)[of out upReq w1] gateway_Route_db[of out "NewRouteInput r body" g]
    by simp_all
  let ?sa = "statement_answer (proxy_wiring out) cfg now r result resp w2"
  have "(q, b) \<in> set (cache_writes (fst ?sa))"
    using assms unfolding answered(6) by (simp add: cache_writes_def recordX_def split: if_splits)
  then obtain buf where buf: "read_limited resp (wrap64 (pc_ResponseSize (px_Proxy cfg) + 1)) = Some buf"
    and n: "\<not> int (length buf) > pc_ResponseSize (px_Proxy cfg)"
    and i: "q = extractQueryIDFromBody (proxy_wiring out) buf" "q \<noteq> []" "b = rr_BackendURL result"
    by (cases "read_limited resp (wrap64 (pc_ResponseSize (px_Proxy cfg) + 1))")
       (auto simp: statement_answer_writes split: if_splits)
  have "snd ?sa = snd (gateway_Insert q b (hdr_get (rq_Header r) ''X-Trino-User'') (hdr_get (rq_Header r) ''X-Trino-Source'')
      (w2\<lparr> gw_router := WriteCache (router_wiring out) q b (gw_router w2) \<rparr>))"
    using buf n i by (simp add: statement_answer_def remember_query_def Let_def case_prod_unfold)
  then show thesis
    using that i(2,3) answered(3,6) w2 by simp
qed

lemma call_cache [simp]:
  "rt_cache (fst (snd (callExternal ops req r w))) = rt_cache r"
  "rt_cache (fst (snd (recoverBackend ops q r w))) = rt_cache r"
  using callExternal_cache[of ops req r w] recoverBackend_keeps(1)[of ops q r w] by (metis prod.collapse)+

lemma route_by_group_cache: "rt_cache (fst (snd (route_by_group ops req r w))) = rt_cache r"
  by (simp add: route_by_group_def Let_def case_prod_unfold)

lemma Route_cache_ok:
  assumes "query_cache ops contents ok" and "ok (rt_cache r)"
  shows "ok (rt_cache (fst (snd (Route ops req r w))))"
proof -
  have "ok (rt_cache (fst (snd (route_cached ops req x v))))" if "rt_cache x = rt_cache r" for x v
    using query_cache.get_ok[OF assms] that assms(2)
    by (auto simp: route_cached_def Let_def case_prod_unfold route_by_group_cache split: option.split)
  then show ?thesis using assms(2) by (auto simp: Route_def Let_def case_prod_unfold)
qed

lemma Route_cache_keeps:
  assumes "query_cache ops contents ok" and "ok (rt_cache r)"
  shows "contents (rt_cache (fst (snd (Route ops req r w)))) = contents (rt_cache r)"
proof -
  have "contents (rt_cache (fst (snd (route_cached ops req x v)))) = contents (rt_cache r)" if "rt_cache x = rt_cache r" for x v
    using query_cache.get_keeps[OF assms] that
    by (auto simp: route_cached_def Let_def case_prod_unfold route_by_group_cache split: option.split)
  then show ?thesis by (auto simp: Route_def Let_def case_prod_unfold)
qed

text \<open>What a step with the actions \<open>ev\<close> may do to the entry of a query: keep it, evict it, or store what
  \<open>ev\<close> shows.\<close>

definition entry_evolves ::
  "('c \<Rightarrow> string \<Rightarrow> string option) \<Rightarrow> ('c \<Rightarrow> bool) \<Rightarrow> string \<Rightarrow> px_event list \<Rightarrow> ('c, 'n) gateway \<Rightarrow> ('c, 'n) gateway \<Rightarrow> bool" where
  "entry_evolves contents ok q ev g g' =
     (let c = rt_cache (gw_router g); c' = rt_cache (gw_router g') in
      ok c' \<and> (contents c' q = contents c q \<or> contents c' q = None \<or> (\<exists>b. (q, b) \<in> set (cache_writes ev) \<and> contents c' q = Some b)))"

context query_cache
begin

lemma WriteCache_entry:
  assumes "ok (rt_cache r)"
  shows "ok (rt_cache (WriteCache ops p u r))"
    and "contents (rt_cache (WriteCache ops p u r)) q =
      (if p = q then Some u else if contents (rt_cache (WriteCache ops p u r)) q = None then None else contents (rt_cache r) q)"
  using set_ok[OF assms] set_same[OF assms] set_other[OF assms, of q p u] by (auto simp: WriteCache_def)

end

lemma gateway_Route_entry:
  assumes "query_cache (router_wiring out) contents ok" and "ok (rt_cache (gw_router g))"
  shows "entry_evolves contents ok q ev g (snd (gateway_Route out req g))"
  using Route_cache_ok[OF assms] Route_cache_keeps[OF assms]
  by (simp add: entry_evolves_def gateway_Route_def Let_def case_prod_unfold)

lemma statement_answer_router:
  "gw_router (snd (statement_answer (proxy_wiring out) cfg now r result resp g)) =
     (case cache_writes (fst (statement_answer (proxy_wiring out) cfg now r result resp g)) of
        [] \<Rightarrow> gw_router g | (q, b) # _ \<Rightarrow> WriteCache (router_wiring out) q b (gw_router g))"
  unfolding statement_answer_writes
  by (simp add: statement_answer_def remember_query_def Let_def case_prod_unfold split: option.split)

lemma statement_answer_entry:
  assumes "query_cache (router_wiring out) contents ok" and "ok (rt_cache (gw_router g))"
  shows "entry_evolves contents ok q (fst (statement_answer (proxy_wiring out) cfg now r result resp g)) g
    (snd (statement_answer (proxy_wiring out) cfg now r result resp g))"
proof (cases "cache_writes (fst (statement_answer (proxy_wiring out) cfg now r result resp g))")
  case Nil
  then show ?thesis using assms(2) by (simp add: entry_evolves_def statement_answer_router)
next
  case (Cons x xs)
  obtain p u where "x = (p, u)" by fastforce
  then show ?thesis
    using query_cache.WriteCache_entry[OF assms, of p u] Cons by (simp add: entry_evolves_def Let_def statement_answer_router) metis
qed

lemma entry_evolves_trans:
  "entry_evolves contents ok q ev g g1 \<Longrightarrow> entry_evolves contents ok q ev g1 g2 \<Longrightarrow> entry_evolves contents ok q ev g g2"
  by (auto simp: entry_evolves_def Let_def)

lemma entry_evolves_router:
  "gw_router g1 = gw_router g2 \<Longrightarrow> entry_evolves contents ok q ev g g1 = entry_evolves contents ok q ev g g2"
  by (simp add: entry_evolves_def)

lemma handleStatement_entry:
  assumes "query_cache (router_wiring out) contents ok" and "ok (rt_cache (gw_router g))"
  shows "entry_evolves contents ok q (fst (handleStatement (proxy_wiring out) cfg now r g)) g (snd (handleStatement (proxy_wiring out) cfg now r g))"
    (is "entry_evolves contents ok q ?ev g ?g'")
proof (cases rule: handleStatement_cases[of "proxy_wiring out" cfg now r g])
  case early
  then have "\<exists>body. ?g' = g \<or> gw_router ?g' = gw_router (snd (gateway_Route out (NewRouteInput r body) g))"
    by (auto simp: handleStatement_def Let_def case_prod_unfold statement_answer_def remember_query_def split: sum.splits option.splits if_splits)
  then show ?thesis using gateway_Route_entry[OF assms] assms(2) entry_evolves_router by (metis (no_types, lifting) entry_evolves_def)
next
  case (answered body result w1 upReq resp w2)
  let ?sa = "statement_answer (proxy_wiring out) cfg now r result resp w2"
  have w2: "gw_router w2 = gw_router (snd (gateway_Route out (NewRouteInput r body) g))"
    using answered(2,5) proxy_wiring_simps(5)[of out upReq w1] by simp
  have ev: "cache_writes ?ev = cache_writes (fst ?sa)"
    unfolding answered(6) by (simp add: cache_writes_def recordX_def)
  have 1: "entry_evolves contents ok q ?ev g w2"
    using gateway_Route_entry[OF assms, of q ?ev "NewRouteInput r body"] entry_evolves_router[OF w2] by blast
  then have "ok (rt_cache (gw_router w2))" by (simp add: entry_evolves_def Let_def)
  from statement_answer_entry[OF assms(1) this, of q cfg now r result resp]
  have "entry_evolves contents ok q ?ev w2 ?g'" by (simp add: entry_evolves_def ev) (simp add: answered(6))
  with 1 show ?thesis by (rule entry_evolves_trans)
qed

lemma handleStream_entry:
  assumes "query_cache (router_wiring out) contents ok" and "ok (rt_cache (gw_router g))"
  shows "entry_evolves contents ok q ev g (snd (handleStream (proxy_wiring out) cfg now r g))"
proof -
  have "gw_router (snd (handleStream (proxy_wiring out) cfg now r g)) = gw_router (snd (gateway_Route out (NewRouteInput r []) g))"
    using proxy_wiring_simps(5)[of out] by (auto simp: handleStream_def Let_def case_prod_unfold split: sum.split)
  then show ?thesis using gateway_Route_entry[OF assms] entry_evolves_router by blast
qed

lemma serve_proxy_entry:
  assumes "query_cache (router_wiring (wr_out W)) contents ok" and "ok (rt_cache (gw_router g))"
  shows "entry_evolves contents ok q (fst (serve_proxy W now r g)) g (snd (serve_proxy W now r g))"
proof -
  have "entry_evolves contents ok q ev g g" for ev using assms(2) by (simp add: entry_evolves_def Let_def)
  then show ?thesis
    using handleStatement_entry[OF assms] handleStream_entry[OF assms]
    by (simp add: serve_proxy_def proxy_ServeHTTP_def proxy_dispatch_def split: option.split auth_verdict.split proxy_endpoint.split)
qed

text \<open>Some request of the traffic was answered by another backend with the same query id.\<close>

fun reissued :: "('c, 'n) wiring \<Rightarrow> string \<Rightarrow> string \<Rightarrow> (int \<times> http_request) list \<Rightarrow> ('c, 'n) gateway \<Rightarrow> bool" where
  "reissued W q b [] g = False"
| "reissued W q b ((now, r) # traffic) g =
     (list_ex (\<lambda>(p, u). p = q \<and> u \<noteq> b) (cache_writes (fst (serve_proxy W now r g))) \<or>
      reissued W q b traffic (snd (serve_proxy W now r g)))"

lemma traffic_entry:
  assumes "query_cache (router_wiring (wr_out W)) contents ok"
  shows "ok (rt_cache (gw_router g)) \<Longrightarrow> contents (rt_cache (gw_router g)) q \<in> {None, Some b} \<Longrightarrow> \<not> reissued W q b traffic g \<Longrightarrow>
    g' = fold (\<lambda>(now, r) g. snd (serve_proxy W now r g)) traffic g \<Longrightarrow>
    ok (rt_cache (gw_router g')) \<and> contents (rt_cache (gw_router g')) q \<in> {None, Some b}"
proof (induction traffic arbitrary: g)
  case (Cons x traffic)
  obtain now r where x: "x = (now, r)" by fastforce
  let ?g1 = "snd (serve_proxy W now r g)"
  have "\<forall>u. (q, u) \<in> set (cache_writes (fst (serve_proxy W now r g))) \<longrightarrow> u = b"
    using Cons.prems(3) by (auto simp: x list_ex_iff)
  then have "ok (rt_cache (gw_router ?g1)) \<and> contents (rt_cache (gw_router ?g1)) q \<in> {None, Some b}"
    using serve_proxy_entry[OF assms Cons.prems(1), of q now r] Cons.prems(2) by (auto simp: entry_evolves_def Let_def)
  then show ?case using Cons.IH[of ?g1] Cons.prems(3,4) by (simp add: x)
qed simp

lemma hit_goes_to_backend:
  assumes "fst (cache_get (router_wiring out) q (rt_cache (gw_router g))) = Some b" and "q \<noteq> []" and "b \<noteq> []"
    and "extractQueryID (NewRouteInput r []) = q" and "os_url_ok out b"
  shows "\<exists>up rest. fst (handleStream (proxy_wiring out) cfg now r g) = Upstream up # rest
    \<and> up_backend up = b \<and> up_Path up = rq_Path r \<and> up_Method up = rq_Method r"
proof -
  have "fst (gateway_Route out (NewRouteInput r []) g) = Inr \<lparr> rr_BackendURL = b, rr_RoutingGroup = [],
      rr_ExternalHeaders = [], rr_Errors = [], rr_Outcome = OutcomeOK \<rparr>"
    using route_cached_hit[of "NewRouteInput r []" "router_wiring out" "gw_router g" b] assms(1,2,4)
    by (simp add: gateway_Route_def Route_def Let_def case_prod_unfold NewRouteInput_def)
  then show ?thesis
    using assms(3,5)
    by (cases "gateway_Route out (NewRouteInput r []) g")
       (auto simp: handleStream_def buildUpstreamRequest_def Let_def split: prod.split sum.split)
qed

text \<open>
  C5: Stickiness end to end.  When the proxy has answered a statement and cached its query id, a later request for
  \<^verbatim>\<open>/v1/query/<id>\<close> is sent to the backend that answered the statement, whatever other traffic the proxy has
  served in between, as long as the cache has not evicted the entry and no other backend has
  answered with the same query id.  It holds for every cache that keeps the contract.
\<close>
theorem submit_then_poll:
  assumes "query_cache (router_wiring (wr_out W)) contents ok" and "ok (rt_cache (gw_router g))"
    and "(q, b) \<in> set (cache_writes (fst (handleStatement (proxy_wiring (wr_out W)) (wr_proxy W) now r g)))"
    and "g1 = snd (handleStatement (proxy_wiring (wr_out W)) (wr_proxy W) now r g)"
    and "\<not> reissued W q b traffic g1" and "g2 = fold (\<lambda>(now, r) g. snd (serve_proxy W now r g)) traffic g1"
    and "contents (rt_cache (gw_router g2)) q \<noteq> None"
    and "extractQueryID (NewRouteInput r' []) = q" and "os_url_ok (wr_out W) b"
  shows "\<exists>up rest. fst (handleStream (proxy_wiring (wr_out W)) (wr_proxy W) now' r' g2) = Upstream up # rest
         \<and> up_backend up = b \<and> up_Path up = rq_Path r' \<and> up_Method up = rq_Method r'"
proof -
  obtain req where ne: "q \<noteq> []" "b \<noteq> []"
    and rt: "gw_router g1 = WriteCache (router_wiring (wr_out W)) q b (gw_router (snd (gateway_Route (wr_out W) req g)))"
    unfolding assms(4) by (rule handleStatement_written[OF assms(3)])
  have "ok (rt_cache (gw_router (snd (gateway_Route (wr_out W) req g))))"
    using Route_cache_ok[OF assms(1,2)] by (simp add: gateway_Route_def Let_def case_prod_unfold)
  then have "ok (rt_cache (gw_router g1)) \<and> contents (rt_cache (gw_router g1)) q \<in> {None, Some b}"
    using query_cache.set_same[OF assms(1)] query_cache.set_ok[OF assms(1)] by (simp add: rt WriteCache_def)
  then have "ok (rt_cache (gw_router g2))" "contents (rt_cache (gw_router g2)) q = Some b"
    using traffic_entry[OF assms(1) _ _ assms(5,6)] assms(7) by auto
  then have "fst (cache_get (router_wiring (wr_out W)) q (rt_cache (gw_router g2))) = Some b"
    using query_cache.get_answer[OF assms(1)] by simp
  from hit_goes_to_backend[OF this ne assms(8,9)] show ?thesis .
qed

section \<open>Killing a query after a restart\<close>

lemma first_insert_row:
  assumes "history_row q d = None" and "db_err d = None" and "db_driver d \<noteq> OtherDriver"
  shows "\<exists>row. history_row q (snd (historyAdapter_Insert q b user source d)) = Some row \<and> qr_BackendURL row = b"
proof -
  have "q \<notin> qr_QueryID ` set (query_history d)"
    using assms(1) by (auto simp: history_row_def find_None_iff)
  then show ?thesis
    using assms by (auto simp: historyAdapter_Insert_def history_Insert_def history_row_def Let_def find_append
        split: option.split)
qed

lemma Route_by_history:
  assumes "history_row q (gw_db g) = Some row" and "db_err (gw_db g) = None" and "qr_BackendURL row \<noteq> []"
    and "extractKillQueryID (ri_Body req) = q" and "q \<noteq> []"
  shows "fst (gateway_Route out req g) = Inr \<lparr> rr_BackendURL = qr_BackendURL row, rr_RoutingGroup = [],
      rr_ExternalHeaders = [], rr_Errors = [], rr_Outcome = OutcomeKillQuery \<rparr>"
proof -
  have "op_LookupByQueryID (router_wiring out) q (gw_db g, gw_net g) = (Inr (qr_BackendURL row), gw_db g, gw_net g)"
    using assms(1,2) by (simp add: router_wiring_def history_LookupByQueryID_def history_row_def)
  then show ?thesis
    using assms(3-5) by (simp add: gateway_Route_def Route_def recoverBackend_def Let_def case_prod_unfold)
qed

text \<open>
  C8: A query can be killed for as long as the deployment lives.  Once a statement has been answered and
  recorded while the database was up, then after any steps of the gateway (other traffic, management
  requests, monitor and refresh ticks, restarts that lose the cache, writes of other replicas, faults
  of the database that have ended) a \<^verbatim>\<open>KILL QUERY\<close> of its id is routed to the backend that answered it.
\<close>
theorem kill_query_finds_owner:
  assumes "(q, b) \<in> set (cache_writes (fst (handleStatement (proxy_wiring out) cfg now r g)))"
    and "history_row q (gw_db g) = None" and "db_err (gw_db g) = None" and "db_driver (gw_db g) \<noteq> OtherDriver"
    and "(gateway_step W)\<^sup>*\<^sup>* (snd (handleStatement (proxy_wiring out) cfg now r g)) g'"
    and "db_err (gw_db g') = None" and "extractKillQueryID (ri_Body req) = q"
  shows "fst (gateway_Route out req g') = Inr \<lparr> rr_BackendURL = b, rr_RoutingGroup = [],
      rr_ExternalHeaders = [], rr_Errors = [], rr_Outcome = OutcomeKillQuery \<rparr>"
proof -
  obtain user source where ne: "q \<noteq> []" "b \<noteq> []"
    and d: "gw_db (snd (handleStatement (proxy_wiring out) cfg now r g)) =
       snd (historyAdapter_Insert q b user source (gw_db g))"
    by (rule handleStatement_written[OF assms(1)])
  obtain row where "history_row q (gw_db (snd (handleStatement (proxy_wiring out) cfg now r g))) = Some row"
    and b: "qr_BackendURL row = b"
    unfolding d using first_insert_row[OF assms(2-4)] by blast
  then have "history_row q (gw_db g') = Some row" using steps_row[OF assms(5)] by blast
  then show ?thesis using Route_by_history assms(6,7) ne b by blast
qed

section \<open>Polling after a cache miss\<close>

lemma find_active_group:
  "find (\<lambda>b. ab_RoutingGroup b = grp)
     (map (\<lambda>b. \<lparr> ab_Name = be_Name b, ab_URL = be_URL b, ab_RoutingGroup = be_RoutingGroup b \<rparr>) bs) =
   map_option (\<lambda>b. \<lparr> ab_Name = be_Name b, ab_URL = be_URL b, ab_RoutingGroup = be_RoutingGroup b \<rparr>)
     (find (\<lambda>b. be_RoutingGroup b = grp) bs)"
  by (induction bs) auto

lemma resolveGroup_db:
  assumes "db_err d = None"
  shows "resolveGroup (router_wiring out) grp (d, n) =
    (Inr (case find (\<lambda>b. be_RoutingGroup b = grp) (filter be_Active (gateway_backend d)) of None \<Rightarrow> [] | Some b \<Rightarrow> be_URL b), d, n)"
  using assms by (simp add: resolveGroup_def router_wiring_def activeBackendAdapter_ListActive_def backend_ListActive_def
      find_active_group split: option.split)

lemma route_by_group_default:
  assumes "ec_URL (rc_External (rt_cfg r)) = []" and "ec_GRPCAddr (rc_External (rt_cfg r)) = []" and "db_err d = None"
    and "find (\<lambda>b. be_RoutingGroup b = rc_DefaultGroup (rt_cfg r)) (filter be_Active (gateway_backend d)) = Some a"
    and "be_URL a \<noteq> []"
  shows "route_by_group (router_wiring out) req r (d, n) =
    (\<lparr> rr_BackendURL = be_URL a, rr_RoutingGroup = rc_DefaultGroup (rt_cfg r), rr_ExternalHeaders = [], rr_Errors = [],
       rr_Outcome = OutcomeFallback \<rparr>, record_metric (RouterCall TransportHTTP RouterOutcomeOK) r, d, n)"
proof -
  have "callExternal (router_wiring out) req r (d, n) =
      (Inr ([], [], []), record_metric (RouterCall TransportHTTP RouterOutcomeOK) r, d, n)"
    using assms(1,2) by (simp add: callExternal_def http_call_def http_selectGroup_def routerOutcome_def filterExcludedHeaders_def Let_def)
  then show ?thesis using assms(4,5) by (simp add: route_by_group_def resolveGroup_db[OF assms(3)])
qed

text \<open>
  A cache miss on a poll is not recovered from the history while the fallback group has an active
  backend: when the external router names no group, the request goes to the first active backend of
  the default group, whatever backend the history records for the query.
\<close>
theorem missed_poll_ignores_history:
  assumes "extractQueryID req = q" and "extractKillQueryID (ri_Body req) = []"
    and "fst (cache_get (router_wiring out) q (rt_cache (gw_router g))) = None"
    and "ec_URL (rc_External (rt_cfg (gw_router g))) = []" and "ec_GRPCAddr (rc_External (rt_cfg (gw_router g))) = []"
    and "db_err (gw_db g) = None"
    and "find (\<lambda>b. be_RoutingGroup b = rc_DefaultGroup (rt_cfg (gw_router g))) (filter be_Active (gateway_backend (gw_db g))) = Some a"
    and "be_URL a \<noteq> []" and "history_row q (gw_db g) = Some row" and "qr_BackendURL row \<noteq> be_URL a"
  shows "\<exists>res. fst (gateway_Route out req g) = Inr res \<and> rr_BackendURL res = be_URL a
    \<and> rr_BackendURL res \<noteq> qr_BackendURL row"
proof -
  have "rr_BackendURL (fst (Route (router_wiring out) req (gw_router g) (gw_db g, gw_net g))) = be_URL a"
    using assms(1-5,7) by (simp add: Route_def route_cached_def Let_def case_prod_unfold route_by_group_default[OF _ _ assms(6) _ assms(8)])
  then show ?thesis using assms(10) by (simp add: gateway_Route_def Let_def case_prod_unfold)
qed

section \<open>Draining a backend\<close>

text \<open>The backends a request without a query id can reach are the active rows.\<close>

lemma new_query_backend:
  assumes "extractKillQueryID (ri_Body req) = []" and "extractQueryID req = []"
    and "fst (gateway_Route out req g) = Inr res"
  shows "rr_BackendURL res = [] \<or> (\<exists>b \<in> set (gateway_backend (gw_db g)). be_Active b \<and> be_URL b = rr_BackendURL res)"
proof -
  let ?ops = "router_wiring out"
  define ok where "ok u = (u = [] \<or> (\<exists>b \<in> set (gateway_backend (gw_db g)). be_Active b \<and> be_URL b = u))" for u
  have list: "\<forall>ab \<in> set bs. ok (ab_URL ab)" if "fst (op_ListActive ?ops (gw_db g, n)) = Inr bs" for n bs
    using that by (auto simp: ok_def router_wiring_def activeBackendAdapter_ListActive_def backend_ListActive_def
        split: option.splits) (metis (no_types))
  have nil: "ok []" by (simp add: ok_def)
  have grp: "ok (case fst (resolveGroup ?ops grp w) of Inl _ \<Rightarrow> [] | Inr u \<Rightarrow> u)" if "fst w = gw_db g" for grp w
    using that list[of "snd w"] nil by (cases w)
      (auto simp: resolveGroup_def find_Some_iff split: prod.splits sum.splits option.splits)
  have act: "ok (case fst (firstActiveBackend ?ops w) of Inl _ \<Rightarrow> [] | Inr u \<Rightarrow> u)" if "fst w = gw_db g" for w
    using that list[of "snd w"] nil by (cases w)
      (auto simp: firstActiveBackend_def split: prod.splits sum.splits list.splits)
  have w1: "fst (snd (snd (callExternal ?ops req r (gw_db g, n)))) = gw_db g" for r n
    using db_unread.callExternal_world[of "(gw_db g, n)" "gw_db g"] by simp
  have w2: "fst (snd (resolveGroup ?ops grp w)) = gw_db g" if "fst w = gw_db g" for grp w
    using db_unread.resolveGroup_world[of w "gw_db g"] that by simp
  have "ok (rr_BackendURL (fst (route_by_group ?ops req (gw_router g) (gw_db g, gw_net g))))"
    using assms(2) grp[OF w1] act[OF w2[OF w1]] by (auto simp: route_by_group_def Let_def case_prod_unfold)
  then show ?thesis
    using assms by (auto simp: ok_def[symmetric] gateway_Route_def Route_def route_cached_def Let_def case_prod_unfold)
qed

lemma deactivated_rows:
  assumes "deactivateBackend env n s = (resp, s')" and "rs_status resp = 200"
    and "\<forall>b \<in> set (gateway_backend (ad_db s)). be_URL b = u \<longrightarrow> be_Name b = n"
  shows "\<forall>b \<in> set (gateway_backend (ad_db s')). be_Active b \<longrightarrow> be_URL b \<noteq> u"
proof (cases "db_err (ad_db s)")
  case None
  then have "gateway_backend (ad_db s') = map (\<lambda>r. if be_Name r = n then r\<lparr> be_Active := False, be_UpdatedAt := av_now env \<rparr> else r)
      (gateway_backend (ad_db s))"
    using arg_cong[OF assms(1), of "\<lambda>x. gateway_backend (ad_db (snd x))"] by (simp add: deactivateBackend_def setActive_def backend_SetActive_def)
  then show ?thesis using assms(3) by auto
next
  case (Some e)
  then have "rs_status resp = 404"
    using arg_cong[OF assms(1), of "\<lambda>x. rs_status (fst x)"]
    by (simp add: deactivateBackend_def setActive_def backend_SetActive_def admin_Error_def plain_def)
  then show ?thesis using assms(2) by simp
qed

lemma traffic_keeps_backends:
  "gateway_backend (gw_db (fold (\<lambda>(now, r) g. snd (serve_proxy W now r g)) traffic g)) = gateway_backend (gw_db g)"
proof (induction traffic arbitrary: g)
  case (Cons x traffic)
  have "gateway_backend (gw_db (snd (serve_proxy W now r g))) = gateway_backend (gw_db g)" for now r
    using tables.ServeHTTP_keeps[of g "gateway_backend (gw_db g)"] by (simp add: serve_proxy_def)
  then show ?case using Cons.IH by (simp add: case_prod_unfold)
qed simp

text \<open>
  C15: Draining.  Once the deactivation of a backend has been answered with 200, then under any further
  proxied traffic no request that belongs to no existing query is routed to its URL, provided no other
  backend has the same URL; the database need not be reachable then.
\<close>
theorem deactivated_gets_no_new_query:
  assumes "deactivateBackend env n (gw_admin g) = (resp, s)" and "rs_status resp = 200"
    and "\<forall>b \<in> set (gateway_backend (gw_db g)). be_URL b = u \<longrightarrow> be_Name b = n" and "u \<noteq> []"
    and "g' = fold (\<lambda>(now, r) g. snd (serve_proxy W now r g)) traffic (g\<lparr> gw_admin := s \<rparr>)"
    and "extractKillQueryID (ri_Body req) = []" and "extractQueryID req = []"
  shows "\<exists>res. fst (gateway_Route out req g') = Inr res \<and> rr_BackendURL res \<noteq> u"
proof -
  obtain res where res: "fst (gateway_Route out req g') = Inr res"
    by (simp add: gateway_Route_def Let_def case_prod_unfold)
  have "gateway_backend (gw_db g') = gateway_backend (ad_db s)"
    using traffic_keeps_backends[of W traffic "g\<lparr> gw_admin := s \<rparr>"] by (simp add: assms(5))
  then have "\<forall>b \<in> set (gateway_backend (gw_db g')). be_Active b \<longrightarrow> be_URL b \<noteq> u"
    using deactivated_rows[OF assms(1,2)] assms(3) by metis
  then have "rr_BackendURL res \<noteq> u" using new_query_backend[OF assms(6,7) res] assms(4) by blast
  then show ?thesis using res by blast
qed

section \<open>Authentication of proxied traffic\<close>

text \<open>The credentials that a middleware accepts.\<close>

definition accepted_by ::
  "('k \<Rightarrow> string \<Rightarrow> claims result) \<Rightarrow> ldap_ops \<Rightarrow> 'k auth_mw \<Rightarrow> http_request \<Rightarrow> bool" where
  "accepted_by parse ldap mw r =
     (case mw of
        OIDCMW k \<Rightarrow> bearerToken r \<noteq> [] \<and> \<not> isl (parse k (bearerToken r))
      | LDAPMW cfg \<Rightarrow> (case BasicAuth r of None \<Rightarrow> False
          | Some (user, pw) \<Rightarrow> user \<noteq> [] \<and> pw \<noteq> [] \<and> \<not> isl (authenticate ldap cfg user pw))
      | NoopMW \<Rightarrow> True)"

lemma auth_handler_accepts: "auth_handler parse ldap mw r = Allow p \<Longrightarrow> accepted_by parse ldap mw r"
  by (auto simp: auth_handler_def accepted_by_def OIDC_handler_def LDAP_handler_def Let_def
      split: auth_mw.splits option.splits sum.splits if_splits prod.splits)


section \<open>The routing service behind the router\<close>

text \<open>The gRPC peer is the server of theory \<open>Service\<close> on an engine pipeline.\<close>

definition service_peer ::
  "(string \<Rightarrow> string) \<Rightarrow> bool \<Rightarrow> (pb_RouteRequest option \<Rightarrow> EvalResult) \<Rightarrow> pb_RouteRequest \<Rightarrow> Server
    \<Rightarrow> pb_RouteResponse result \<times> Server" where
  "service_peer sha256 sampled evalResult req s =
     (let (resp, s') = server_Route sha256 sampled evalResult req s in (Inr resp, s'))"

lemma service_peer_answer:
  assumes "ri_Method req = ''POST''"
  shows "\<exists>s'. service_peer sha256 sampled (\<lambda>r. fst (evaluator_EvaluateResult e ops p r)) (buildProtoRequest req) s =
    (Inr \<lparr> ps_RoutingGroup = (let grp = Evaluate ops p (fst (inputFromProto e (Some (buildProtoRequest req))))
                             in if grp = [] then sv_DefaultRoutingGroup s else grp),
           ps_ExternalHeaders = None, ps_Errors = [] \<rparr>, s')"
proof -
  have n: "is_new_submission (buildProtoRequest req)"
    using assms by (simp add: is_new_submission_def buildProtoRequest_def)
  obtain i obs where i: "inputFromProto e (Some (buildProtoRequest req)) = (i, obs)" by fastforce
  have "res_RoutingGroup (EvaluateResult ops p i) = Evaluate ops p i"
    using eval_loops_agree[of ops "pl_defaultGroup p" "pl_methods p" i False]
    by (simp add: Evaluate_def EvaluateResult_def)
  then show ?thesis
    using n by (simp add: service_peer_def server_Route_def evaluator_EvaluateResult_def i Let_def empty_response_def)
qed

text \<open>
  C9: The gateway and the routing service together.  For a statement of a new query, with the routing
  service behind gRPC, the request reaches the first active backend of the group that the service's
  pipeline decides on the request as the gateway saw it, and of the service's default group when the
  pipeline decides on none.
\<close>
theorem service_decides_backend:
  fixes out :: "('c, Server) outside"
  assumes "os_grpc out = service_peer sha256 sampled (\<lambda>r. fst (evaluator_EvaluateResult e ops p r))"
    and "ec_GRPCAddr (rc_External (rt_cfg (gw_router g))) \<noteq> []" and "ri_Method req = ''POST''"
    and "extractKillQueryID (ri_Body req) = []" and "extractQueryID req = []"
    and "choice = Evaluate ops p (fst (inputFromProto e (Some (buildProtoRequest req))))"
    and "grp = (if choice = [] then sv_DefaultRoutingGroup (gw_net g) else choice)" and "grp \<noteq> []"
    and "db_err (gw_db g) = None"
    and "find (\<lambda>b. be_RoutingGroup b = grp) (filter be_Active (gateway_backend (gw_db g))) = Some b" and "be_URL b \<noteq> []"
  shows "fst (gateway_Route out req g) = Inr \<lparr> rr_BackendURL = be_URL b, rr_RoutingGroup = grp,
    rr_ExternalHeaders = [], rr_Errors = [], rr_Outcome = OutcomeOK \<rparr>"
proof -
  obtain s' where s': "os_grpc out (buildProtoRequest req) (gw_net g) =
      (Inr \<lparr> ps_RoutingGroup = grp, ps_ExternalHeaders = None, ps_Errors = [] \<rparr>, s')"
    using service_peer_answer[OF assms(3)] unfolding assms(1,6,7) Let_def by metis
  have ext: "callExternal (router_wiring out) req (gw_router g) (gw_db g, gw_net g) =
      (Inr (grp, [], []), record_metric (RouterCall TransportGRPC RouterOutcomeOK) (gw_router g), gw_db g, s')"
    using s' assms(2) by (simp add: callExternal_def grpc_selectGroup_def router_wiring_def on_net_def routerOutcome_def
        filterExcludedHeaders_def Let_def)
  show ?thesis
    using assms(4,5,8,10,11)
    by (simp add: gateway_Route_def Route_def route_cached_def route_by_group_def ext resolveGroup_db[OF assms(9)])
qed

section \<open>Readiness of reachable states\<close>

text \<open>
  C16: In every state a deployment can reach, the readiness probe of the process answers 200 exactly when its
  monitor has finished a first probe cycle since the process started, whatever requests came in between,
  and backend names and query ids are unique in the database.
\<close>
theorem reachable_readiness:
  assumes "reachable W g"
  shows "(rs_status (handleReadyz (gw_admin g)) = 200 \<longleftrightarrow> mo_firstTickDone (ad_mon (gw_admin g))) \<and> db_wf (gw_db g)"
proof -
  have "ready_inv (gw_admin g) \<and> db_wf (gw_db g)"
    using assms
  proof (induction rule: reachable.induct)
    case (boot r drv interval timeout n)
    then show ?case by (simp add: ready_inv_def monitor_New_def db_wf_def empty_db_def)
  next
    case (step g g')
    then show ?case using step_ready step_keys by blast
  qed
  then show ?thesis by (auto simp: ready_inv_def handleReadyz_def plain_def)
qed
section \<open>Startup\<close>

text \<open>What \<^verbatim>\<open>run\<close> meets outside the repository: the configuration file and its decoder, the registration of
  the metrics, the database server, the identity provider and the sockets.\<close>

record ('c, 'n, 'k, 'f) run_env =
  rv_one :: 'f
  rv_unmarshal :: "string \<Rightarrow> 'f Config \<Rightarrow> 'f Config result"
  rv_registered :: "unit result"
  rv_connect :: "DBConfig \<Rightarrow> db result"
  rv_migrateUp :: "db \<Rightarrow> string \<Rightarrow> unit result"
  rv_out :: "('c, 'n) outside"
  rv_fetch :: "string \<Rightarrow> ('k \<times> nat) result"
  rv_get :: "string \<Rightarrow> (nat \<times> (string \<times> string) result) result"
  rv_jwks :: "'k result"
  rv_uiFS :: "unit result"
  rv_bind :: "string \<Rightarrow> go_error option"

record ('c, 'n, 'k, 'f) started =
  st_cfg :: "'f Config"
  st_gateway :: "('c, 'n) gateway"
  st_authMW :: "'k auth_mw"
  st_webLogin :: "'k OIDCWebLogin option"
  st_collector :: "'f collector"
  st_lifecycle :: lifecycle_server

definition routing_config :: "'f Config \<Rightarrow> RoutingConfig" where
  "routing_config c = \<lparr> rc_DefaultGroup = gr_DefaultGroup (gc_Routing c),
     rc_External = \<lparr> ec_URL = gr_URL (gc_Routing c), ec_GRPCAddr = gr_GRPCAddr (gc_Routing c),
       ec_ExcludeHeaders = gr_ExcludeHeaders (gc_Routing c) \<rparr> \<rparr>"

definition listen_addr :: "int \<Rightarrow> string" where
  "listen_addr port = '':'' @ dec_int port"

definition build_webLogin ::
  "('c, 'n, 'k, 'f) run_env \<Rightarrow> AuthConfig \<Rightarrow> 'k OIDCWebLogin option result" where
  "build_webLogin env cfg =
     (if ga_Type cfg = ''OIDC'' \<and> oc_RedirectURL (ga_OIDC cfg) \<noteq> [] then
        (case NewOIDCWebLogin (rv_get env) (rv_jwks env) (ga_OIDC cfg) of Inl e \<Rightarrow> Inl e | Inr wl \<Rightarrow> Inr (Some wl))
      else Inr None)"

text \<open>The part of \<^verbatim>\<open>run\<close> up to the start of the servers, in its order; each step returns the first error.\<close>

definition run_startup ::
  "('c, 'n, 'k, 'f) run_env \<Rightarrow> string result \<Rightarrow> 'n \<Rightarrow> ('c, 'n, 'k, 'f) started result" where
  "run_startup env file net =
     Result_bind (Config_Load (rv_one env) (rv_unmarshal env) file) (\<lambda>cfg.
     Result_bind (rv_registered env) (\<lambda>_.
     Result_bind (if gd_Driver (gc_DB cfg) = [] then Inl (Failure ''trino-goway: db.driver must be configured'')
                  else db_Open (rv_connect env) (rv_migrateUp env) (gc_DB cfg)) (\<lambda>d.
     Result_bind (NewCollector (gc_MonitorType cfg) (gc_Monitor cfg) (gc_BackendState cfg)) (\<lambda>collector.
     Result_bind (New (router_wiring (rv_out env)) (routing_config cfg)) (\<lambda>router.
     Result_bind (buildAuthMiddleware (rv_fetch env) (gc_Auth cfg)) (\<lambda>authMW.
     Result_bind (build_webLogin env (gc_Auth cfg)) (\<lambda>webLogin.
     Result_bind (rv_uiFS env) (\<lambda>_.
       let (bound, lc) = lifecycle_Listen (rv_bind env)
             (lifecycle_New (listen_addr (gp_Port (gc_Proxy cfg))) (listen_addr (gc_AdminPort cfg)));
           mon = snd (refreshBackends d
             (monitor_New (mn_Interval (gc_Monitor cfg)) (mn_CheckTimeout (gc_Monitor cfg)) True True True))
       in Result_bind bound (\<lambda>_.
          Result_bind (monitor_Start mon) (\<lambda>_.
            Inr \<lparr> st_cfg = cfg,
                  st_gateway = \<lparr> gw_router = router, gw_admin = \<lparr> ad_db = d, ad_mon = mon, ad_ready = False \<rparr>, gw_net = net \<rparr>,
                  st_authMW = authMW, st_webLogin = webLogin, st_collector = collector, st_lifecycle = lc \<rparr>))))))))))"

text \<open>The end of \<^verbatim>\<open>run\<close>: a cancelled context is a clean exit.\<close>

definition run_result :: "unit result \<Rightarrow> unit result" where
  "run_result startErr = (case startErr of Inr _ \<Rightarrow> Inr () | Inl e \<Rightarrow> if e = context_canceled then Inr () else Inl e)"

text \<open>\<^verbatim>\<open>--migrate-only\<close>.\<close>

definition runMigrate :: "('c, 'n, 'k, 'f) run_env \<Rightarrow> string result \<Rightarrow> unit result" where
  "runMigrate env file =
     Result_bind (Config_Load (rv_one env) (rv_unmarshal env) file) (\<lambda>cfg.
       if gd_Driver (gc_DB cfg) = [] then Inl (Failure ''trino-goway: --migrate-only requires db.driver to be configured'')
       else map_sum id (\<lambda>_. ()) (db_Open (rv_connect env) (rv_migrateUp env) ((gc_DB cfg)\<lparr> gd_AutoMigrate := True \<rparr>)))"

section \<open>A concrete site\<close>

definition site_out :: "(pb_RouteRequest \<Rightarrow> 'n \<Rightarrow> pb_RouteResponse result \<times> 'n) \<Rightarrow> ((string \<times> string) list, 'n) outside" where
  "site_out grpc = \<lparr>
     os_New = (\<lambda>_. Inr []),
     os_Get = (\<lambda>c k. (map_of c k, case map_of c k of None \<Rightarrow> c | Some v \<Rightarrow> lru_touch k v c)),
     os_Add = (\<lambda>c k v. take 4096 (lru_touch k v c)), os_Remove = (\<lambda>c k. filter (\<lambda>p. fst p \<noteq> k) c),
     os_dial = (\<lambda>_. Inr ()), os_Head = (\<lambda>_ n. (Inr 404, n)), os_completion = (\<lambda>bs _. bs),
     os_http = \<lparr> hs_Do = (\<lambda>_ _ _ n. (Inl DeadlineExceeded, n)), hs_decode = (\<lambda>_. Inl (Failure [])) \<rparr>,
     os_grpc = grpc,
     os_Do = (\<lambda>_ n. (Inr \<lparr> us_Status = 200, us_Header = (\<lambda>_. None), us_body = ''20_1_2_ab'', us_broken = False \<rparr>, n)),
     os_url_ok = (\<lambda>_. True), os_json_id = Some, os_codec = demo_codec \<rparr>"

definition no_grpc :: "pb_RouteRequest \<Rightarrow> unit \<Rightarrow> pb_RouteResponse result \<times> unit" where
  "no_grpc req n = (Inl DeadlineExceeded, n)"

definition site_backend :: "string \<Rightarrow> string \<Rightarrow> Backend" where
  "site_backend name grp = \<lparr> be_Name = name, be_URL = ''http://'' @ name, be_ExternalURL = [], be_RoutingGroup = grp,
     be_Active = True, be_CreatedAt = 1, be_UpdatedAt = 1 \<rparr>"

definition site_db :: db where
  "site_db = (empty_db Postgres)\<lparr> gateway_backend := [site_backend ''a'' ''adhoc'', site_backend ''b'' ''etl''] \<rparr>"

definition site_routing :: "string \<Rightarrow> RoutingConfig" where
  "site_routing addr = \<lparr> rc_DefaultGroup = ''adhoc'', rc_External = \<lparr> ec_URL = [], ec_GRPCAddr = addr, ec_ExcludeHeaders = [] \<rparr> \<rparr>"

definition site :: "string \<Rightarrow> db \<Rightarrow> 'n \<Rightarrow> ((string \<times> string) list, 'n) gateway" where
  "site addr d n = \<lparr> gw_router = \<lparr> rt_cfg = site_routing addr, rt_cache = [], rt_metrics = [] \<rparr>,
     gw_admin = \<lparr> ad_db = d, ad_mon = monitor_New 1 1 True True True, ad_ready = False \<rparr>, gw_net = n \<rparr>"

definition post_statement :: "string \<Rightarrow> http_request" where
  "post_statement body = (demo_http_req ''/v1/statement'' [])\<lparr> rq_Method := ''POST'', rq_body := Inr body \<rparr>"

abbreviation "site_ops \<equiv> proxy_wiring (site_out no_grpc)"

definition site_wiring :: "((string \<times> string) list, unit) wiring" where
  "site_wiring = \<lparr> wr_out = site_out no_grpc, wr_routing = site_routing [], wr_proxy = demo_proxy_cfg 10,
     wr_authMW = Some (auth_handler (\<lambda>k t. if t = k then Inr (\<lambda>_. None) else Inl DeadlineExceeded)
        \<lparr> lo_Dial = (\<lambda>_. False), lo_Bind = (\<lambda>_ _. False), lo_Escape = id, lo_Search = (\<lambda>_ _ _. Inr []) \<rparr> (OIDCMW ''key'')),
     wr_mux = (\<lambda>_ r. Some (if rq_Method r = ''POST'' then 0 else 1)), wr_admin = demo_config, wr_admin_mux = (\<lambda>_ _. None) \<rparr>"

lemmas site_defs = site_out_def no_grpc_def site_backend_def site_db_def site_routing_def site_def empty_db_def

interpretation site_lru: query_cache "router_wiring (site_out grpc)" map_of "\<lambda>c. length c \<le> Suc 4095 \<and> distinct (map fst c)"
  for grpc :: "pb_RouteRequest \<Rightarrow> 'n \<Rightarrow> pb_RouteResponse result \<times> 'n"
proof -
  have "router_wiring (site_out grpc) = list_lru_ops 4095 (\<lambda>q w. (history_LookupByQueryID q (fst w), w))
     (\<lambda>w. (activeBackendAdapter_ListActive (fst w), w)) (\<lambda>url. on_net (\<lambda>n. (Inr 404, n)))
     \<lparr> hs_Do = (\<lambda>_ _ _. on_net (\<lambda>n. (Inl DeadlineExceeded, n))), hs_decode = (\<lambda>_. Inl (Failure [])) \<rparr> (\<lambda>req. on_net (grpc req))"
    by (simp add: router_wiring_def site_out_def list_lru_ops_def)
  then show "query_cache (router_wiring (site_out grpc)) map_of (\<lambda>c. length c \<le> Suc 4095 \<and> distinct (map fst c))"
    by (simp only: list_lru.query_cache_axioms)
qed

lemma site_no_query [simp]:
  "extractQueryID (NewRouteInput (post_statement body) b) = []"
  by (simp add: extractQueryID_def NewRouteInput_def post_statement_def demo_http_req_def queryPrefix_def)

lemma site_route_default:
  assumes "extractKillQueryID body = []" and "extractQueryID (NewRouteInput r body) = []"
  shows "gateway_Route (site_out no_grpc) (NewRouteInput r body) (site [] site_db ()) =
    (Inr \<lparr> rr_BackendURL = ''http://a'', rr_RoutingGroup = ''adhoc'', rr_ExternalHeaders = [], rr_Errors = [], rr_Outcome = OutcomeFallback \<rparr>,
     (site [] site_db ())\<lparr> gw_router := record_metric (RouterCall TransportHTTP RouterOutcomeOK) (gw_router (site [] site_db ())) \<rparr>)"
proof -
  have b: "ri_Body (NewRouteInput r body) = body" by (simp add: NewRouteInput_def)
  have "route_by_group (router_wiring (site_out no_grpc)) req (gw_router (site [] site_db ())) (site_db, ()) =
     (\<lparr> rr_BackendURL = ''http://a'', rr_RoutingGroup = ''adhoc'', rr_ExternalHeaders = [], rr_Errors = [], rr_Outcome = OutcomeFallback \<rparr>,
      record_metric (RouterCall TransportHTTP RouterOutcomeOK) (gw_router (site [] site_db ())), site_db, ())" for req
    by (subst route_by_group_default[of _ _ "site_backend ''a'' ''adhoc''"]) (simp_all add: site_defs)
  then have "Route (router_wiring (site_out no_grpc)) (NewRouteInput r body) (gw_router (site [] site_db ())) (site_db, ()) =
     (\<lparr> rr_BackendURL = ''http://a'', rr_RoutingGroup = ''adhoc'', rr_ExternalHeaders = [], rr_Errors = [], rr_Outcome = OutcomeFallback \<rparr>,
      record_metric (RouterCall TransportHTTP RouterOutcomeOK) (gw_router (site [] site_db ())), site_db, ())"
    using assms b by (simp add: Route_def route_cached_def)
  moreover have "gw_db (site [] site_db ()) = site_db" "gw_net (site [] site_db ()) = ()" by (simp_all add: site_def)
  ultimately show ?thesis by (simp add: gateway_Route_def site_def)
qed

lemma site_statement:
  assumes "extractKillQueryID body = []"
  shows "(''20_1_2_ab'', ''http://a'') \<in> set (cache_writes (fst (handleStatement site_ops (demo_proxy_cfg 10) 0
      (post_statement body) (site [] site_db ()))))"
proof -
  have b: "rq_body (post_statement body) = Inr body" by (simp add: post_statement_def)
  show ?thesis
    by (simp add: handleStatement_def b site_route_default[OF assms site_no_query] demo_proxy_cfg_def)
       (simp add: proxy_wiring_def site_out_def statement_answer_def read_limited_def wrap64_def remember_query_def
         extractQueryIDFromBody_def cache_writes_def recordX_def Let_def case_prod_unfold)
qed

definition select_one :: string where
  "select_one = ''SELECT 1''"

lemma select_no_kill [simp]: "extractKillQueryID select_one = []"
  by code_simp

text \<open>Between the statement and the poll another client is turned away.\<close>

theorem submit_then_poll_witness:
  "\<exists>up rest. fst (handleStream site_ops (demo_proxy_cfg 10) 1 (demo_http_req ''/v1/query/20_1_2_ab/1'' [])
      (snd (serve_proxy site_wiring 1 (demo_http_req ''/v1/info'' [])
        (snd (handleStatement site_ops (demo_proxy_cfg 10) 0 (post_statement select_one) (site [] site_db ())))))) = Upstream up # rest
    \<and> up_backend up = ''http://a''"
proof -
  let ?g1 = "snd (handleStatement site_ops (demo_proxy_cfg 10) 0 (post_statement select_one) (site [] site_db ()))"
  let ?other = "demo_http_req ''/v1/info'' []"
  have q: "extractQueryID (NewRouteInput (demo_http_req ''/v1/query/20_1_2_ab/1'' []) []) = ''20_1_2_ab''" by code_simp
  have W: "wr_out site_wiring = site_out no_grpc" "wr_proxy site_wiring = demo_proxy_cfg 10" by (simp_all add: site_wiring_def)
  have denied: "snd (serve_proxy site_wiring 1 ?other ?g1) = ?g1" "cache_writes (fst (serve_proxy site_wiring 1 ?other ?g1)) = []"
    by (simp_all add: serve_proxy_def proxy_ServeHTTP_def site_wiring_def auth_handler_def OIDC_handler_def demo_http_req_def
        bearerToken_def hdr_get_def writeUnauthorized_def cache_writes_def Let_def)
  obtain req where rt: "gw_router ?g1 = WriteCache (router_wiring (site_out no_grpc)) ''20_1_2_ab'' ''http://a''
      (gw_router (snd (gateway_Route (site_out no_grpc) req (site [] site_db ()))))"
    by (rule handleStatement_written[OF site_statement[OF select_no_kill]])
  let ?c = "rt_cache (gw_router (snd (gateway_Route (site_out no_grpc) req (site [] site_db ()))))"
  have "length ?c \<le> Suc 4095 \<and> distinct (map fst ?c)"
    using Route_cache_ok[OF site_lru.query_cache_axioms, of "gw_router (site [] site_db ())" no_grpc req "(site_db, ())"]
    by (simp add: gateway_Route_def Let_def case_prod_unfold site_def)
  from site_lru.set_same[OF this] have c: "map_of (rt_cache (gw_router ?g1)) ''20_1_2_ab'' = Some ''http://a''"
    by (simp add: rt WriteCache_def)
  have u: "os_url_ok (site_out no_grpc) ''http://a''" by (simp add: site_out_def)
  have i: "length (rt_cache (gw_router (site [] site_db ()))) \<le> Suc 4095 \<and> distinct (map fst (rt_cache (gw_router (site [] site_db ()))))"
    by (simp add: site_def)
  have n: "\<not> reissued site_wiring ''20_1_2_ab'' ''http://a'' [(1, ?other)] ?g1" by (simp add: denied)
  have k: "map_of (rt_cache (gw_router (fold (\<lambda>(now, r) g. snd (serve_proxy site_wiring now r g)) [(1, ?other)] ?g1))) ''20_1_2_ab'' \<noteq> None"
    by (simp add: denied c)
  from submit_then_poll[of site_wiring, unfolded W, OF site_lru.query_cache_axioms i site_statement[OF select_no_kill] refl n refl k q u, of 1]
  show ?thesis by auto
qed

text \<open>The statement is answered, the process restarts, and then the query is killed.\<close>

definition after_statement :: "((string \<times> string) list, unit) gateway" where
  "after_statement = snd (handleStatement site_ops (demo_proxy_cfg 10) 0 (post_statement select_one) (site [] site_db ()))"

definition after_restart :: "((string \<times> string) list, unit) gateway" where
  "after_restart = after_statement\<lparr> gw_router := \<lparr> rt_cfg = site_routing [], rt_cache = [], rt_metrics = [] \<rparr>,
     gw_admin := (gw_admin after_statement)\<lparr> ad_mon := monitor_New 1 1 True True True, ad_ready := False \<rparr> \<rparr>"

lemma site_restart: "gateway_step site_wiring after_statement after_restart"
  unfolding after_restart_def
  by (rule gateway_step.restarted) (simp add: site_wiring_def New_def newQueryCache_def router_wiring_def site_out_def site_routing_def)

lemma after_statement_db: "gw_db after_statement = site_db\<lparr> query_history := [\<lparr> qr_QueryID = ''20_1_2_ab'', qr_BackendURL = ''http://a'',
    qr_ExternalURL = ''http://a'', qr_UserName = [], qr_Source = [], qr_CreatedAt = zero_time \<rparr>], history_metrics := [ResultOK] \<rparr>"
proof -
  have b: "rq_body (post_statement select_one) = Inr select_one" "rq_Header (post_statement select_one) = (\<lambda>_. None)"
    by (simp_all add: post_statement_def demo_http_req_def)
  have "gw_db (snd (handleStatement site_ops (demo_proxy_cfg 10) 0 (post_statement select_one) (site [] site_db ()))) =
     snd (historyAdapter_Insert ''20_1_2_ab'' ''http://a'' [] [] site_db)"
    by (simp add: handleStatement_def b site_route_default demo_proxy_cfg_def)
       (simp add: proxy_wiring_def site_out_def statement_answer_def read_limited_def wrap64_def remember_query_def
         extractQueryIDFromBody_def Let_def case_prod_unfold b hdr_get_def site_def)
  then show ?thesis
    by (simp add: after_statement_def historyAdapter_Insert_def history_Insert_def backend_LookupExternalURL_def record_insert_def
        site_db_def empty_db_def site_backend_def Let_def)
qed

theorem kill_query_finds_owner_witness:
  "fst (gateway_Route (site_out no_grpc) (demo_req ''/v1/statement'' demo_kill) after_restart) =
     Inr \<lparr> rr_BackendURL = ''http://a'', rr_RoutingGroup = [], rr_ExternalHeaders = [], rr_Errors = [], rr_Outcome = OutcomeKillQuery \<rparr>"
proof (rule kill_query_finds_owner[OF site_statement[OF select_no_kill], of site_wiring])
  show "(gateway_step site_wiring)\<^sup>*\<^sup>* (snd (handleStatement site_ops (demo_proxy_cfg 10) 0 (post_statement select_one) (site [] site_db ())))
      after_restart"
    using site_restart by (simp add: after_statement_def r_into_rtranclp)
  show "db_err (gw_db after_restart) = None"
    by (simp add: after_restart_def after_statement_db site_db_def empty_db_def)
  show "extractKillQueryID (ri_Body (demo_req ''/v1/statement'' demo_kill)) = ''20_1_2_ab''"
    by (simp add: demo_req_def demo_kill_id)
qed (simp_all add: history_row_def site_def site_db_def empty_db_def)

text \<open>After the restart the history still names the owner, and the poll is sent elsewhere once the owner
  is not first in the default group.\<close>

definition moved_db :: db where
  "moved_db = site_db\<lparr> query_history := [\<lparr> qr_QueryID = ''20_1_2_ab'', qr_BackendURL = ''http://b'', qr_ExternalURL = [],
     qr_UserName = [], qr_Source = [], qr_CreatedAt = zero_time \<rparr>] \<rparr>"

theorem missed_poll_ignores_history_witness:
  "\<exists>res. fst (gateway_Route (site_out no_grpc) (demo_req ''/v1/query/20_1_2_ab/1'' []) (site [] moved_db ())) = Inr res
    \<and> rr_BackendURL res = ''http://a''"
proof -
  have q: "extractQueryID (demo_req ''/v1/query/20_1_2_ab/1'' []) = ''20_1_2_ab''" by code_simp
  have "\<exists>res. fst (gateway_Route (site_out no_grpc) (demo_req ''/v1/query/20_1_2_ab/1'' []) (site [] moved_db ())) = Inr res
      \<and> rr_BackendURL res = be_URL (site_backend ''a'' ''adhoc'') \<and> rr_BackendURL res \<noteq> qr_BackendURL (hd (query_history moved_db))"
    by (rule missed_poll_ignores_history[OF q])
       (simp_all add: demo_req_def cache_get_def router_wiring_def site_out_def site_def site_routing_def moved_db_def
        site_db_def empty_db_def site_backend_def history_row_def)
  then show ?thesis by (auto simp: site_backend_def)
qed

theorem deactivated_gets_no_new_query_witness:
  "\<exists>res. fst (gateway_Route (site_out no_grpc) (demo_req ''/v1/statement'' select_one)
      (fold (\<lambda>(now, r) g. snd (serve_proxy site_wiring now r g)) [(0, post_statement select_one)]
         ((site [] site_db ())\<lparr> gw_admin := snd (deactivateBackend demo_env ''a'' (gw_admin (site [] site_db ()))) \<rparr>))) = Inr res
    \<and> rr_BackendURL res \<noteq> ''http://a''"
proof (rule deactivated_gets_no_new_query[OF prod.collapse[symmetric] _ _ _ refl])
  show "rs_status (fst (deactivateBackend demo_env ''a'' (gw_admin (site [] site_db ())))) = 200"
    by (simp add: deactivateBackend_def setActive_def backend_SetActive_def plain_def site_def site_db_def empty_db_def)
  show "\<forall>b \<in> set (gateway_backend (gw_db (site [] site_db ()))). be_URL b = ''http://a'' \<longrightarrow> be_Name b = ''a''"
    by (simp add: site_def site_db_def site_backend_def)
  show "extractQueryID (demo_req ''/v1/statement'' select_one) = []" by code_simp
qed (simp_all add: demo_req_def)

lemma site_bearer:
  "bearerToken ((post_statement select_one)\<lparr> rq_Header := [''Authorization'' \<mapsto> [''Bearer key'']] \<rparr>) = ''key''"
  by code_simp


definition site_service :: Server where
  "site_service = \<lparr> sv_DefaultRoutingGroup = ''adhoc'', sv_metrics = None, sv_confVer = None, sv_ready = True, sv_log = [] \<rparr>"

definition site_method :: "string method_ops" where
  "site_method = \<lparr> rm_Type = (\<lambda>p. p), rm_Evaluate = (\<lambda>p i. Returns (no_decision\<lparr> de_RoutingGroup := ''etl'', de_Decided := True \<rparr>)) \<rparr>"

definition site_evaluator :: PipelineEvaluator where
  "site_evaluator = \<lparr> ev_analyzer = NoopAnalyzer, ev_sqlObs = False \<rparr>"

theorem service_decides_backend_witness:
  "fst (gateway_Route (site_out (service_peer id True (\<lambda>r. fst (evaluator_EvaluateResult site_evaluator site_method
        (NewPipeline [Provider ''expr''] ''adhoc'') r))))
      (demo_req ''/v1/statement'' select_one) (site ''svc:1'' site_db site_service)) =
    Inr \<lparr> rr_BackendURL = ''http://b'', rr_RoutingGroup = ''etl'', rr_ExternalHeaders = [], rr_Errors = [], rr_Outcome = OutcomeOK \<rparr>"
proof -
  have e: "Evaluate site_method (NewPipeline [Provider ''expr''] ''adhoc'') i = ''etl''" for i
    by (simp add: Evaluate_def NewPipeline_def safeEvaluate_def site_method_def no_decision_def)
  have q: "extractQueryID (demo_req ''/v1/statement'' select_one) = []" by code_simp
  let ?out = "site_out (service_peer id True (\<lambda>r. fst (evaluator_EvaluateResult site_evaluator site_method
        (NewPipeline [Provider ''expr''] ''adhoc'') r)))"
  have "fst (gateway_Route ?out (demo_req ''/v1/statement'' select_one) (site ''svc:1'' site_db site_service)) =
     Inr \<lparr> rr_BackendURL = be_URL (site_backend ''b'' ''etl''), rr_RoutingGroup = ''etl'', rr_ExternalHeaders = [], rr_Errors = [],
       rr_Outcome = OutcomeOK \<rparr>"
    by (rule service_decides_backend[OF _ _ _ _ q refl, of ?out id True site_evaluator site_method "NewPipeline [Provider ''expr''] ''adhoc''"])
       (simp_all add: e site_out_def site_def site_routing_def demo_req_def site_db_def site_backend_def empty_db_def)
  then show ?thesis by (simp add: site_backend_def)
qed

definition booted :: "((string \<times> string) list, unit) gateway" where
  "booted = site [] (empty_db Postgres) ()"

lemma booted_reachable: "reachable site_wiring booted"
proof -
  have "New (router_wiring (wr_out site_wiring)) (wr_routing site_wiring) = Inr \<lparr> rt_cfg = site_routing [], rt_cache = [], rt_metrics = [] \<rparr>"
    by (simp add: site_wiring_def New_def newQueryCache_def router_wiring_def site_out_def site_routing_def)
  from reachable.boot[OF this] show ?thesis unfolding booted_def site_def .
qed

theorem reachable_readiness_witness:
  "rs_status (handleReadyz (monitor_tick (\<lambda>_. []) (\<lambda>_. []) (gw_admin booted))) = 200 \<and> rs_status (handleReadyz (gw_admin booted)) \<noteq> 200"
proof -
  have "reachable site_wiring (booted\<lparr> gw_admin := monitor_tick (\<lambda>_. []) (\<lambda>_. []) (gw_admin booted) \<rparr>)"
    by (rule reachable.step[OF booted_reachable gateway_step.probed])
  from reachable_readiness[OF this] reachable_readiness[OF booted_reachable] show ?thesis
    by (simp add: booted_def site_def monitor_tick_def probe_def firstTick_def admin_SetReady_def monitor_New_def Let_def)
qed

definition site_run :: "((string \<times> string) list, unit, string, int) run_env" where
  "site_run = \<lparr> rv_one = 1, rv_unmarshal = (\<lambda>_ c. Inr (c\<lparr> gc_DB := (gc_DB c)\<lparr> gd_Driver := ''postgres'' \<rparr> \<rparr>)),
     rv_registered = Inr (), rv_connect = (\<lambda>_. Inr site_db), rv_migrateUp = (\<lambda>_ _. Inr ()), rv_out = site_out no_grpc,
     rv_fetch = (\<lambda>_. Inl DeadlineExceeded), rv_get = (\<lambda>_. Inl DeadlineExceeded), rv_jwks = Inl DeadlineExceeded,
     rv_uiFS = Inr (), rv_bind = (\<lambda>_. None) \<rparr>"

definition site_cfg :: "int Config" where
  "site_cfg = applyDefaults 1 (defaultConfig\<lparr> gc_DB := (gc_DB (defaultConfig :: int Config))\<lparr> gd_Driver := ''postgres'' \<rparr> \<rparr>)"

lemma site_cfg_loads: "Config_Load (rv_one site_run) (rv_unmarshal site_run) (Inr []) = Inr site_cfg"
  by (simp add: site_run_def site_cfg_def Config_Load_def applyDefaults_def defaultConfig_def default_monitor_def or_int_def or_str_def
      Config_Validate_def validateClusterStats_def second_def)

lemma site_cfg_simps:
  "gd_Driver (gc_DB site_cfg) = ''postgres''" "gc_MonitorType site_cfg = ''INFO_API''" "ga_Type (gc_Auth site_cfg) = ''NOOP''"
  "gr_GRPCAddr (gc_Routing site_cfg) = []" "mn_Interval (gc_Monitor site_cfg) \<noteq> 0" "mn_CheckTimeout (gc_Monitor site_cfg) \<noteq> 0"
  by (simp_all add: site_cfg_def applyDefaults_def defaultConfig_def default_monitor_def or_int_def or_str_def second_def)

lemma site_starts: "\<exists>st. run_startup site_run (Inr []) () = Inr st \<and> st_authMW st = NoopMW"
proof -
  have d: "db_Open (rv_connect site_run) (rv_migrateUp site_run) (gc_DB site_cfg) = Inr site_db"
    by (simp add: db_Open_def site_cfg_simps site_run_def)
  have c: "NewCollector (gc_MonitorType site_cfg) (gc_Monitor site_cfg) (gc_BackendState site_cfg) = Inr InfoAPICollector"
    by (simp add: NewCollector_def site_cfg_simps)
  have r: "\<exists>r. New (router_wiring (rv_out site_run)) (routing_config site_cfg) = Inr r"
    by (simp add: New_def newQueryCache_def router_wiring_def site_run_def site_out_def routing_config_def site_cfg_simps)
  have a: "buildAuthMiddleware (rv_fetch site_run) (gc_Auth site_cfg) = Inr NoopMW" "build_webLogin site_run (gc_Auth site_cfg) = Inr None"
    by (simp_all add: buildAuthMiddleware_def build_webLogin_def site_cfg_simps)
  have l: "\<exists>s. lifecycle_Listen (rv_bind site_run) (lifecycle_New p q) = (Inr (), s)" for p q
    by (simp add: Listen_fresh site_run_def)
  have m: "monitor_Start (snd (refreshBackends d (monitor_New (mn_Interval (gc_Monitor site_cfg)) (mn_CheckTimeout (gc_Monitor site_cfg)) True True True)))
      = Inr ()" for d
    using site_cfg_simps by (simp add: monitor_Start_def refreshBackends_def SetBackends_def notifyObserver_def monitor_New_def Let_def split: sum.split)
  have z: "rv_registered site_run = Inr ()" "rv_uiFS site_run = Inr ()" by (simp_all add: site_run_def)
  obtain rr where rr: "New (router_wiring (rv_out site_run)) (routing_config site_cfg) = Inr rr" using r by blast
  obtain lc where lc: "lifecycle_Listen (rv_bind site_run) (lifecycle_New (listen_addr (gp_Port (gc_Proxy site_cfg)))
      (listen_addr (gc_AdminPort site_cfg))) = (Inr (), lc)" using l by blast
  show ?thesis
    unfolding run_startup_def site_cfg_loads Result_bind_simps z c rr a lc m
    using site_cfg_simps(1) by (simp add: d m)
qed


end
