(* ===== verification/Diff_Harness.thy ===== *)
theory Diff_Harness
  imports Selectors "HOL-Library.Finite_Map"
begin

text \<open>
  The differential test harness (\<^verbatim>\<open>internal/diffharness\<close>, \<^verbatim>\<open>cmd/goway-diff-harness/main.go\<close>): replay of a
  scenario, normalization of the answers by the scenario's policy, comparison, golden files and the exit
  code of the command.  Headers and JSON objects are finite maps.  JSON parsing and printing, URL
  parsing, the text of a difference and the HTTP client are parameters; a float is a value of \<open>'f\<close>.
\<close>

section \<open>JSON documents\<close>

datatype 'f doc =
    DocNull | DocBool bool | DocNum 'f | DocStr string | DocArr "'f doc list" | DocObj "(string, 'f doc) fmap"

record 'f json_lib =
  jl_Unmarshal :: "string \<Rightarrow> 'f doc option"
  jl_Marshal :: "'f doc \<Rightarrow> string option"
  jl_Valid :: "string \<Rightarrow> bool"
  jl_quote :: "string \<Rightarrow> string"
  jl_reindent :: "string \<Rightarrow> string"
  jl_g :: "'f \<Rightarrow> string"

function deleteJSONPath :: "'f doc \<Rightarrow> string list \<Rightarrow> 'f doc" where
  "deleteJSONPath node [] = node"
| "deleteJSONPath (DocArr xs) (k # ks) = DocArr (map (\<lambda>x. deleteJSONPath x (k # ks)) xs)"
| "deleteJSONPath (DocObj m) [k] = DocObj (fmdrop k m)"
| "deleteJSONPath (DocObj m) (k # k2 # ks) =
     (case fmlookup m k of None \<Rightarrow> DocObj m | Some c \<Rightarrow> DocObj (fmupd k (deleteJSONPath c (k2 # ks)) m))"
| "deleteJSONPath DocNull (k # ks) = DocNull"
| "deleteJSONPath (DocBool b) (k # ks) = DocBool b"
| "deleteJSONPath (DocNum x) (k # ks) = DocNum x"
| "deleteJSONPath (DocStr s) (k # ks) = DocStr s"
  by pat_completeness auto
termination
  by (relation "measures [\<lambda>(_, p). length p, \<lambda>(d, _). size d]") (auto simp: less_Suc_eq_le size_list_estimation')

definition stripJSONFields :: "'f json_lib \<Rightarrow> string \<Rightarrow> string list \<Rightarrow> string" where
  "stripJSONFields lib body names =
     (if body = [] then body
      else (case jl_Unmarshal lib body of
              None \<Rightarrow> body
            | Some doc \<Rightarrow>
                (case jl_Marshal lib (foldl (\<lambda>d f. deleteJSONPath d (split_on (CHR ''.'') f)) doc names) of
                   None \<Rightarrow> body | Some out \<Rightarrow> out)))"

fun walk_path :: "'f doc option \<Rightarrow> string list \<Rightarrow> 'f doc option" where
  "walk_path cur [] = cur"
| "walk_path (Some (DocObj m)) (p # ps) = walk_path (Some (case fmlookup m p of None \<Rightarrow> DocNull | Some c \<Rightarrow> c)) ps"
| "walk_path _ (p # ps) = None"

definition lookupJSONPath :: "'f json_lib \<Rightarrow> 'f doc \<Rightarrow> string \<Rightarrow> string" where
  "lookupJSONPath lib node path =
     (case walk_path (Some node) (split_on (CHR ''.'') path) of
        Some (DocStr s) \<Rightarrow> s
      | Some (DocNum x) \<Rightarrow> jl_g lib x
      | Some (DocBool b) \<Rightarrow> if b then ''true'' else ''false''
      | _ \<Rightarrow> [])"

section \<open>Normalization\<close>

record Response =
  dh_Status :: nat
  dh_Headers :: "(string, string list) fmap"
  dh_Body :: string

record DiffPolicy =
  dp_IgnoreHeaders :: "string list"
  dp_IgnoreBodyFields :: "string list"
  dp_RewriteHostPort :: bool

text \<open>\<^verbatim>\<open>strings.ReplaceAll\<close> with a non-empty pattern: the leftmost matches that do not overlap.\<close>

function ReplaceAll :: "string \<Rightarrow> string \<Rightarrow> string \<Rightarrow> string" where
  "ReplaceAll old new s =
     (if s = [] \<or> old = [] then s
      else if prefix old s then new @ ReplaceAll old new (drop (length old) s)
      else hd s # ReplaceAll old new (tl s))"
  by pat_completeness auto
termination
  by (relation "measure (\<lambda>(_, _, s). length s)") (auto simp: neq_Nil_conv)

declare ReplaceAll.simps [simp del]

definition HostNormalizationToken :: string where
  "HostNormalizationToken = ''<GATEWAY>''"

definition Normalize :: "'f json_lib \<Rightarrow> Response \<Rightarrow> DiffPolicy \<Rightarrow> string \<Rightarrow> Response" where
  "Normalize lib r policy gatewayHost =
     (let h1 = foldl (\<lambda>h name. fmdrop (CanonicalHeaderKey name) h) (dh_Headers r) (dp_IgnoreHeaders policy);
          rewrite = dp_RewriteHostPort policy \<and> gatewayHost \<noteq> [];
          sub = ReplaceAll gatewayHost HostNormalizationToken;
          h2 = (if rewrite then fmmap (map sub) h1 else h1);
          b2 = (if rewrite then sub (dh_Body r) else dh_Body r);
          b3 = (if dp_IgnoreBodyFields policy \<noteq> [] then stripJSONFields lib b2 (dp_IgnoreBodyFields policy) else b2)
      in \<lparr> dh_Status = dh_Status r, dh_Headers = h2, dh_Body = b3 \<rparr>)"

section \<open>Comparison\<close>

datatype diff_reason = JavaOnly | GoOnly | ValueDiffers

record HeaderDiff =
  hd_Name :: string
  hd_Java :: "string list"
  hd_Go :: "string list"
  hd_Reason :: diff_reason

datatype Verdict = VerdictPass | VerdictFail | VerdictSkip | VerdictError

record Result =
  rs_Scenario :: string
  rs_StatusMatch :: bool
  rs_JavaStatus :: nat
  rs_GoStatus :: nat
  rs_HeaderDiffs :: "HeaderDiff list"
  rs_BodyDiff :: string
  rs_Verdict :: Verdict
  rs_Reason :: string

definition slicesEqualUnordered :: "string list \<Rightarrow> string list \<Rightarrow> bool" where
  "slicesEqualUnordered a b =
     (length a = length b \<and> list_all (\<lambda>i. sort a ! i = sort b ! i) [0..<length a])"

text \<open>The entry for a name that is in one of the header sets.\<close>

definition header_diff ::
  "(string, string list) fmap \<Rightarrow> (string, string list) fmap \<Rightarrow> string \<Rightarrow> HeaderDiff list" where
  "header_diff java goH name =
     (case fmlookup java name of
        Some jv \<Rightarrow>
          (case fmlookup goH name of
             None \<Rightarrow> [\<lparr> hd_Name = name, hd_Java = jv, hd_Go = [], hd_Reason = JavaOnly \<rparr>]
           | Some gv \<Rightarrow>
               if slicesEqualUnordered jv gv then []
               else [\<lparr> hd_Name = name, hd_Java = jv, hd_Go = gv, hd_Reason = ValueDiffers \<rparr>])
      | None \<Rightarrow>
          (case fmlookup goH name of
             None \<Rightarrow> []
           | Some gv \<Rightarrow> [\<lparr> hd_Name = name, hd_Java = [], hd_Go = gv, hd_Reason = GoOnly \<rparr>]))"

text \<open>The maps are iterated in any order and the entries sorted by name, which has one entry at most.\<close>

definition diffHeaders ::
  "(string, string list) fmap \<Rightarrow> (string, string list) fmap \<Rightarrow> HeaderDiff list" where
  "diffHeaders java goH = concat (map (header_diff java goH) (sorted_list_of_fset (fmdom java |\<union>| fmdom goH)))"

definition hasMeaningfulHeaderDiff :: "HeaderDiff list \<Rightarrow> bool" where
  "hasMeaningfulHeaderDiff diffs = (0 < length diffs)"

text \<open>\<^verbatim>\<open>cmp.Diff\<close> on strings and on documents.\<close>

record 'f cmp_lib =
  cl_strings :: "string \<Rightarrow> string \<Rightarrow> string"
  cl_docs :: "'f doc \<Rightarrow> 'f doc \<Rightarrow> string"

definition diffBodies :: "'f json_lib \<Rightarrow> 'f cmp_lib \<Rightarrow> string \<Rightarrow> string \<Rightarrow> string" where
  "diffBodies lib cmp java goBody =
     (if java = goBody then []
      else (case (jl_Unmarshal lib java, jl_Unmarshal lib goBody) of
              (Some jDoc, Some gDoc) \<Rightarrow> cl_docs cmp jDoc gDoc
            | _ \<Rightarrow> cl_strings cmp java goBody))"

definition Diff :: "'f json_lib \<Rightarrow> 'f cmp_lib \<Rightarrow> Response \<Rightarrow> Response \<Rightarrow> Result" where
  "Diff lib cmp java goResp =
     (let statusMatch = (dh_Status java = dh_Status goResp);
          headerDiffs = diffHeaders (dh_Headers java) (dh_Headers goResp);
          bodyDiff = diffBodies lib cmp (dh_Body java) (dh_Body goResp)
      in \<lparr> rs_Scenario = [], rs_StatusMatch = statusMatch, rs_JavaStatus = dh_Status java, rs_GoStatus = dh_Status goResp,
           rs_HeaderDiffs = headerDiffs, rs_BodyDiff = bodyDiff,
           rs_Verdict = (if \<not> statusMatch \<or> bodyDiff \<noteq> [] \<or> hasMeaningfulHeaderDiff headerDiffs
                         then VerdictFail else VerdictPass),
           rs_Reason = [] \<rparr>)"

section \<open>Replay\<close>

record RepeatPolicy =
  rp_NoField :: string
  rp_MaxIterations :: int

record Step =
  sp_Method :: string
  sp_Path :: string
  sp_PathFromVar :: string
  sp_Headers :: "(string \<times> string) list"
  sp_Body :: string
  sp_Extract :: "(string \<times> string) list"
  sp_RepeatUntil :: "RepeatPolicy option"

record Scenario =
  sn_Name :: string
  sn_Steps :: "Step list"
  sn_Diff :: DiffPolicy

record parsed_url =
  pu_Scheme :: string
  pu_Host :: string
  pu_rest :: string

record url_lib =
  ul_Parse :: "string \<Rightarrow> parsed_url result"
  ul_String :: "parsed_url \<Rightarrow> string"

type_synonym vars = "string \<Rightarrow> string option"

definition LoadScenario :: "(string \<Rightarrow> Scenario result) \<Rightarrow> string result \<Rightarrow> Scenario result" where
  "LoadScenario unmarshal file =
     Result_bind file (\<lambda>raw. Result_bind (unmarshal raw) (\<lambda>s.
       if sn_Name s = [] then Inl (Failure ''scenario: missing required field name'')
       else if sn_Steps s = [] then Inl (Failure ''scenario: must declare at least one step'')
       else Inr s))"

definition Target_Host :: "url_lib \<Rightarrow> string \<Rightarrow> string" where
  "Target_Host ul baseURL = (case ul_Parse ul baseURL of Inl _ \<Rightarrow> [] | Inr u \<Rightarrow> pu_Host u)"

definition TrimLeft :: "string \<Rightarrow> char \<Rightarrow> string" where
  "TrimLeft s c = dropWhile (\<lambda>x. x = c) s"

definition resolveURL :: "url_lib \<Rightarrow> string \<Rightarrow> Step \<Rightarrow> vars \<Rightarrow> string result" where
  "resolveURL ul baseURL step vars =
     (let base = TrimRight baseURL (CHR ''/'') @ ''/'' in
      if sp_PathFromVar step \<noteq> [] then
        (case vars (sp_PathFromVar step) of
           None \<Rightarrow> Inl (Failure ''pathFromVar not set by any prior extract'')
         | Some v \<Rightarrow>
             (case ul_Parse ul v of
                Inr u \<Rightarrow>
                  if pu_Scheme u \<noteq> [] \<and> pu_Host u \<noteq> [] then
                    (case ul_Parse ul baseURL of
                       Inl e \<Rightarrow> Inl e
                     | Inr tu \<Rightarrow> Inr (ul_String ul (u\<lparr> pu_Scheme := pu_Scheme tu, pu_Host := pu_Host tu \<rparr>)))
                  else Inr (base @ TrimLeft v (CHR ''/''))
              | Inl _ \<Rightarrow> Inr (base @ TrimLeft v (CHR ''/''))))
      else Inr (base @ TrimLeft (sp_Path step) (CHR ''/'')))"

definition applyExtract :: "'f json_lib \<Rightarrow> string \<Rightarrow> (string \<times> string) list \<Rightarrow> vars \<Rightarrow> vars" where
  "applyExtract lib body extract vars =
     (if extract = [] then vars
      else (case jl_Unmarshal lib body of
              None \<Rightarrow> vars
            | Some doc \<Rightarrow>
                foldl (\<lambda>vs (name, path). let v = lookupJSONPath lib doc (TrimPrefix path ''$.'') in
                         if v = [] then vs else vs(name \<mapsto> v)) vars extract))"

fun contains_sub :: "string \<Rightarrow> string \<Rightarrow> bool" where
  "contains_sub [] sub = (sub = [])"
| "contains_sub (c # cs) sub = (prefix sub (c # cs) \<or> contains_sub cs sub)"

definition bodyHasField :: "'f json_lib \<Rightarrow> string \<Rightarrow> string \<Rightarrow> bool" where
  "bodyHasField lib body field =
     (if \<not> contains_sub body ([CHR 0x22] @ field @ [CHR 0x22]) then False
      else (case jl_Unmarshal lib body of None \<Rightarrow> False | Some doc \<Rightarrow> lookupJSONPath lib doc field \<noteq> []))"

text \<open>A request as the client sends it; \<open>client\<close> is its \<^verbatim>\<open>Do\<close> with the body read to the end.\<close>

record dh_request =
  dq_Method :: string
  dq_URL :: string
  dq_Header :: header
  dq_Body :: string

type_synonym 'w http_client = "dh_request \<Rightarrow> 'w \<Rightarrow> Response result \<times> 'w"

definition executeStep ::
  "url_lib \<Rightarrow> 'w http_client \<Rightarrow> string \<Rightarrow> Step \<Rightarrow> vars \<Rightarrow> 'w \<Rightarrow> Response result \<times> 'w" where
  "executeStep ul client baseURL step vars w =
     (case resolveURL ul baseURL step vars of
        Inl e \<Rightarrow> (Inl e, w)
      | Inr url \<Rightarrow>
          client \<lparr> dq_Method = sp_Method step, dq_URL = url,
                   dq_Header = foldl (\<lambda>h (k, v). hdr_set h k v) (\<lambda>_. None) (sp_Headers step),
                   dq_Body = sp_Body step \<rparr> w)"

text \<open>The loop of \<^verbatim>\<open>runRepeat\<close> with the iterations it has left.\<close>

fun repeat_loop ::
  "'f json_lib \<Rightarrow> url_lib \<Rightarrow> 'w http_client \<Rightarrow> string \<Rightarrow> Step \<Rightarrow> string \<Rightarrow> nat \<Rightarrow> vars \<Rightarrow> Response \<Rightarrow> 'w
    \<Rightarrow> Response result \<times> vars \<times> 'w" where
  "repeat_loop lib ul client base step noField 0 vars current w = (Inr current, vars, w)"
| "repeat_loop lib ul client base step noField (Suc n) vars current w =
     (if noField \<noteq> [] \<and> \<not> bodyHasField lib (dh_Body current) noField then (Inr current, vars, w)
      else (case executeStep ul client base step vars w of
              (Inl e, w1) \<Rightarrow> (Inl e, vars, w1)
            | (Inr resp, w1) \<Rightarrow>
                repeat_loop lib ul client base step noField n
                  (applyExtract lib (dh_Body resp) (sp_Extract step) vars) resp w1))"

definition max_iterations :: "RepeatPolicy \<Rightarrow> nat" where
  "max_iterations p = (if rp_MaxIterations p \<le> 0 then 50 else nat (rp_MaxIterations p))"

definition runRepeat ::
  "'f json_lib \<Rightarrow> url_lib \<Rightarrow> 'w http_client \<Rightarrow> string \<Rightarrow> Step \<Rightarrow> RepeatPolicy \<Rightarrow> vars \<Rightarrow> Response \<Rightarrow> 'w
    \<Rightarrow> Response result \<times> vars \<times> 'w" where
  "runRepeat lib ul client base step p vars first w =
     repeat_loop lib ul client base step (rp_NoField p) (max_iterations p) vars first w"

definition run_step ::
  "'f json_lib \<Rightarrow> url_lib \<Rightarrow> 'w http_client \<Rightarrow> string \<Rightarrow> Step \<Rightarrow> vars \<Rightarrow> 'w \<Rightarrow> Response result \<times> vars \<times> 'w" where
  "run_step lib ul client base step vars w =
     (case executeStep ul client base step vars w of
        (Inl e, w1) \<Rightarrow> (Inl e, vars, w1)
      | (Inr resp, w1) \<Rightarrow>
          (let vars1 = applyExtract lib (dh_Body resp) (sp_Extract step) vars in
           case sp_RepeatUntil step of
             None \<Rightarrow> (Inr resp, vars1, w1)
           | Some p \<Rightarrow> runRepeat lib ul client base step p vars1 resp w1))"

fun run_steps ::
  "'f json_lib \<Rightarrow> url_lib \<Rightarrow> 'w http_client \<Rightarrow> string \<Rightarrow> Step list \<Rightarrow> vars \<Rightarrow> Response \<Rightarrow> 'w \<Rightarrow> Response result \<times> 'w" where
  "run_steps lib ul client base [] vars last_resp w = (Inr last_resp, w)"
| "run_steps lib ul client base (s # ss) vars last_resp w =
     (case run_step lib ul client base s vars w of
        (Inl e, _, w1) \<Rightarrow> (Inl e, w1)
      | (Inr resp, vars1, w1) \<Rightarrow> run_steps lib ul client base ss vars1 resp w1)"

definition zero_response :: Response where
  "zero_response = \<lparr> dh_Status = 0, dh_Headers = fmempty, dh_Body = [] \<rparr>"

definition Run ::
  "'f json_lib \<Rightarrow> url_lib \<Rightarrow> 'w http_client \<Rightarrow> string \<Rightarrow> Scenario \<Rightarrow> 'w \<Rightarrow> Response result \<times> 'w" where
  "Run lib ul client base s w = run_steps lib ul client base (sn_Steps s) (\<lambda>_. None) zero_response w"


section \<open>Runner\<close>

record Runner =
  rn_Java :: string
  rn_Go :: string

text \<open>The two gateways are separate peers, each with its own state; the result does not depend on how the
  two goroutines interleave.\<close>

definition RunScenario ::
  "'f json_lib \<Rightarrow> 'f cmp_lib \<Rightarrow> url_lib \<Rightarrow> 'j http_client \<Rightarrow> 'g http_client \<Rightarrow> Runner \<Rightarrow> Scenario \<Rightarrow> 'j \<times> 'g
    \<Rightarrow> Result \<times> 'j \<times> 'g" where
  "RunScenario lib cmp ul clientJ clientG r s w =
     (let (jRes, wj) = Run lib ul clientJ (rn_Java r) s (fst w);
          (gRes, wg) = Run lib ul clientG (rn_Go r) s (snd w);
          errored = (\<lambda>reason. \<lparr> rs_Scenario = sn_Name s, rs_StatusMatch = False, rs_JavaStatus = 0, rs_GoStatus = 0,
                       rs_HeaderDiffs = [], rs_BodyDiff = [], rs_Verdict = VerdictError, rs_Reason = reason \<rparr>)
      in (case (jRes, gRes) of
            (Inl _, Inl _) \<Rightarrow> errored ''both sides errored''
          | (Inl _, Inr _) \<Rightarrow> errored ''java errored''
          | (Inr _, Inl _) \<Rightarrow> errored ''go errored''
          | (Inr j, Inr g) \<Rightarrow>
              (Diff lib cmp (Normalize lib j (sn_Diff s) (Target_Host ul (rn_Java r)))
                 (Normalize lib g (sn_Diff s) (Target_Host ul (rn_Go r))))\<lparr> rs_Scenario := sn_Name s \<rparr>,
          wj, wg))"

fun RunAll ::
  "'f json_lib \<Rightarrow> 'f cmp_lib \<Rightarrow> url_lib \<Rightarrow> 'j http_client \<Rightarrow> 'g http_client \<Rightarrow> Runner \<Rightarrow> Scenario list \<Rightarrow> 'j \<times> 'g
    \<Rightarrow> Result list \<times> 'j \<times> 'g" where
  "RunAll lib cmp ul cj cg r [] w = ([], w)"
| "RunAll lib cmp ul cj cg r (s # ss) w =
     (let (res, w1) = RunScenario lib cmp ul cj cg r s w; (rest, w2) = RunAll lib cmp ul cj cg r ss w1
      in (res # rest, w2))"

section \<open>Golden files\<close>

record Golden =
  go_Version :: int
  go_Scenario :: string
  go_StatusCode :: nat
  go_Headers :: "(string, string list) fmap"
  go_Body :: string

definition goldenFileVersion :: int where
  "goldenFileVersion = 1"

definition toResponse :: "Golden \<Rightarrow> Response" where
  "toResponse g = \<lparr> dh_Status = go_StatusCode g, dh_Headers = go_Headers g,
     dh_Body = (if go_Body g = [] \<or> go_Body g = ''null'' then [] else go_Body g) \<rparr>"

definition newGolden :: "'f json_lib \<Rightarrow> string \<Rightarrow> Response \<Rightarrow> Golden" where
  "newGolden lib scenario r = \<lparr> go_Version = goldenFileVersion, go_Scenario = scenario, go_StatusCode = dh_Status r,
     go_Headers = dh_Headers r,
     go_Body = (if dh_Body r = [] then ''null'' else if jl_Valid lib (dh_Body r) then dh_Body r else jl_quote lib (dh_Body r)) \<rparr>"

text \<open>Writing a golden file and reading it back: the printer lays the raw body out anew.\<close>

definition ReadGolden :: "Golden result \<Rightarrow> Golden result" where
  "ReadGolden parsed = Result_bind parsed (\<lambda>g.
     if go_Version g \<noteq> goldenFileVersion then Inl (Failure ''golden: version'') else Inr g)"

definition golden_file :: "'f json_lib \<Rightarrow> Golden \<Rightarrow> Golden result" where
  "golden_file lib g = ReadGolden (Inr (g\<lparr> go_Body := jl_reindent lib (go_Body g) \<rparr>))"

definition RecordScenario ::
  "'f json_lib \<Rightarrow> url_lib \<Rightarrow> 'j http_client \<Rightarrow> Runner \<Rightarrow> Scenario \<Rightarrow> 'j \<Rightarrow> Golden result \<times> 'j" where
  "RecordScenario lib ul client r s w =
     (case Run lib ul client (rn_Java r) s w of
        (Inl e, w1) \<Rightarrow> (Inl e, w1)
      | (Inr resp, w1) \<Rightarrow>
          (Inr (newGolden lib (sn_Name s) (Normalize lib resp (sn_Diff s) (Target_Host ul (rn_Java r)))), w1))"

definition error_result :: "string \<Rightarrow> string \<Rightarrow> Result" where
  "error_result name reason = \<lparr> rs_Scenario = name, rs_StatusMatch = False, rs_JavaStatus = 0, rs_GoStatus = 0,
     rs_HeaderDiffs = [], rs_BodyDiff = [], rs_Verdict = VerdictError, rs_Reason = reason \<rparr>"

definition ReplayScenario ::
  "'f json_lib \<Rightarrow> 'f cmp_lib \<Rightarrow> url_lib \<Rightarrow> 'g http_client \<Rightarrow> Runner \<Rightarrow> Scenario \<Rightarrow> Golden \<Rightarrow> 'g \<Rightarrow> Result \<times> 'g" where
  "ReplayScenario lib cmp ul client r s golden w =
     (if go_Scenario golden \<noteq> sn_Name s
      then (error_result (sn_Name s) ''golden scenario does not match requested scenario'', w)
      else (case Run lib ul client (rn_Go r) s w of
              (Inl e, w1) \<Rightarrow> (error_result (sn_Name s) ''go errored'', w1)
            | (Inr resp, w1) \<Rightarrow>
                ((Diff lib cmp (toResponse golden) (Normalize lib resp (sn_Diff s) (Target_Host ul (rn_Go r))))
                   \<lparr> rs_Scenario := sn_Name s \<rparr>, w1)))"

section \<open>The command\<close>

record Summary =
  sm_Pass :: nat
  sm_Fail :: nat
  sm_Skip :: nat
  sm_Errored :: nat

fun write_summary :: "Result list \<Rightarrow> Summary" where
  "write_summary [] = \<lparr> sm_Pass = 0, sm_Fail = 0, sm_Skip = 0, sm_Errored = 0 \<rparr>"
| "write_summary (r # rs) =
     (let s = write_summary rs in
      case rs_Verdict r of
        VerdictPass \<Rightarrow> s\<lparr> sm_Pass := sm_Pass s + 1 \<rparr>
      | VerdictFail \<Rightarrow> s\<lparr> sm_Fail := sm_Fail s + 1 \<rparr>
      | VerdictSkip \<Rightarrow> s\<lparr> sm_Skip := sm_Skip s + 1 \<rparr>
      | VerdictError \<Rightarrow> s\<lparr> sm_Errored := sm_Errored s + 1 \<rparr>)"

text \<open>The exit code; \<open>written\<close> tells whether the JSON report could be written.\<close>

definition emit :: "string \<Rightarrow> bool \<Rightarrow> Result list \<Rightarrow> nat" where
  "emit format written results =
     (if format = ''json'' \<and> \<not> written then 1
      else if sm_Fail (write_summary results) > 0 \<or> sm_Errored (write_summary results) > 0 then 1 else 0)"

definition loadAllScenarios :: "(string \<Rightarrow> Scenario result) \<Rightarrow> (string \<times> bool) list result \<Rightarrow> Scenario list result" where
  "loadAllScenarios load entries = Result_bind entries (\<lambda>es.
     foldr (\<lambda>(name, isDir) acc.
       if isDir \<or> \<not> (suffix ''.yaml'' name \<or> suffix ''.yml'' name) then acc
       else Result_bind (load name) (\<lambda>s. Result_bind acc (\<lambda>ss. Inr (s # ss)))) es (Inr []))"

definition with_scenarios :: "Scenario list result \<Rightarrow> (Scenario list \<Rightarrow> nat) \<Rightarrow> nat" where
  "with_scenarios loaded k = (case loaded of Inl _ \<Rightarrow> 1 | Inr ss \<Rightarrow> if ss = [] then 1 else k ss)"

definition runLive ::
  "'f json_lib \<Rightarrow> 'f cmp_lib \<Rightarrow> url_lib \<Rightarrow> 'j http_client \<Rightarrow> 'g http_client \<Rightarrow> Scenario list result \<Rightarrow> string \<Rightarrow> bool
    \<Rightarrow> string \<Rightarrow> string \<Rightarrow> 'j \<times> 'g \<Rightarrow> nat" where
  "runLive lib cmp ul cj cg loaded format written javaURL goURL w =
     (if javaURL = [] \<or> goURL = [] then 2
      else with_scenarios loaded (\<lambda>ss.
        emit format written (fst (RunAll lib cmp ul cj cg \<lparr> rn_Java = javaURL, rn_Go = goURL \<rparr> ss w))))"

text \<open>One scenario of \<^verbatim>\<open>replay\<close> and the loop; \<open>goldens name\<close> is what reading its golden file gives.\<close>

fun replay_all ::
  "'f json_lib \<Rightarrow> 'f cmp_lib \<Rightarrow> url_lib \<Rightarrow> 'g http_client \<Rightarrow> (string \<Rightarrow> Golden result) \<Rightarrow> Runner \<Rightarrow> Scenario list \<Rightarrow> 'g
    \<Rightarrow> Result list \<times> 'g" where
  "replay_all lib cmp ul client goldens r [] w = ([], w)"
| "replay_all lib cmp ul client goldens r (s # ss) w =
     (let (res, w1) = (case goldens (sn_Name s) of
            Inl e \<Rightarrow> (error_result (sn_Name s) ''golden'', w)
          | Inr g \<Rightarrow> ReplayScenario lib cmp ul client r s g w);
          (rest, w2) = replay_all lib cmp ul client goldens r ss w1
      in (res # rest, w2))"

definition runReplay ::
  "'f json_lib \<Rightarrow> 'f cmp_lib \<Rightarrow> url_lib \<Rightarrow> 'g http_client \<Rightarrow> (string \<Rightarrow> Golden result) \<Rightarrow> Scenario list result \<Rightarrow> string
    \<Rightarrow> bool \<Rightarrow> string \<Rightarrow> 'g \<Rightarrow> nat" where
  "runReplay lib cmp ul client goldens loaded format written goURL w =
     (if goURL = [] then 2
      else with_scenarios loaded (\<lambda>ss.
        emit format written (fst (replay_all lib cmp ul client goldens \<lparr> rn_Java = goURL, rn_Go = goURL \<rparr> ss w))))"

text \<open>\<open>write name g\<close> tells whether the golden file could be written; the count is the failed scenarios.\<close>

fun record_all ::
  "'f json_lib \<Rightarrow> url_lib \<Rightarrow> 'j http_client \<Rightarrow> (string \<Rightarrow> Golden \<Rightarrow> bool) \<Rightarrow> Runner \<Rightarrow> Scenario list \<Rightarrow> 'j
    \<Rightarrow> nat \<times> (string \<times> Golden) list \<times> 'j" where
  "record_all lib ul client write r [] w = (0, [], w)"
| "record_all lib ul client write r (s # ss) w =
     (case RecordScenario lib ul client r s w of
        (Inl _, w1) \<Rightarrow> (let (n, gs, w2) = record_all lib ul client write r ss w1 in (Suc n, gs, w2))
      | (Inr g, w1) \<Rightarrow>
          (let (n, gs, w2) = record_all lib ul client write r ss w1
           in if write (sn_Name s) g then (n, (sn_Name s, g) # gs, w2) else (Suc n, gs, w2)))"

definition runRecord ::
  "'f json_lib \<Rightarrow> url_lib \<Rightarrow> 'j http_client \<Rightarrow> (string \<Rightarrow> Golden \<Rightarrow> bool) \<Rightarrow> Scenario list result \<Rightarrow> string \<Rightarrow> 'j \<Rightarrow> nat" where
  "runRecord lib ul client write loaded javaURL w =
     (if javaURL = [] then 2
      else with_scenarios loaded (\<lambda>ss.
        if 0 < fst (record_all lib ul client write \<lparr> rn_Java = javaURL, rn_Go = javaURL \<rparr> ss w) then 1 else 0))"

definition runReport :: "Result list result \<Rightarrow> string \<Rightarrow> bool \<Rightarrow> string \<Rightarrow> nat" where
  "runReport parsed format written input =
     (if input = [] then 2 else (case parsed of Inl _ \<Rightarrow> 1 | Inr results \<Rightarrow> emit format written results))"

section \<open>Deleting fields\<close>

text \<open>The values at a path, every element of an array on the way included.\<close>

function values_at :: "'f doc \<Rightarrow> string list \<Rightarrow> 'f doc list" where
  "values_at d [] = [d]"
| "values_at (DocArr xs) (k # ks) = concat (map (\<lambda>x. values_at x (k # ks)) xs)"
| "values_at (DocObj m) (k # ks) = (case fmlookup m k of None \<Rightarrow> [] | Some c \<Rightarrow> values_at c ks)"
| "values_at DocNull (k # ks) = []"
| "values_at (DocBool b) (k # ks) = []"
| "values_at (DocNum x) (k # ks) = []"
| "values_at (DocStr s) (k # ks) = []"
  by pat_completeness auto
termination
  by (relation "measures [\<lambda>(_, p). length p, \<lambda>(d, _). size d]") (auto simp: less_Suc_eq_le size_list_estimation')

lemma deleted_gone: "p \<noteq> [] \<Longrightarrow> values_at (deleteJSONPath d p) p = []"
proof (induction d p rule: deleteJSONPath.induct)
  case (4 m k k2 ks)
  then show ?case by (cases "fmlookup m k") simp_all
qed (simp_all add: concat_eq_Nil_conv)

lemma deleted_others:
  "\<not> prefix p q \<Longrightarrow> \<not> prefix q p \<Longrightarrow> values_at (deleteJSONPath d p) q = values_at d q"
proof (induction d p arbitrary: q rule: deleteJSONPath.induct)
  case (2 xs k ks)
  then obtain a b where "q = a # b" by (cases q) auto
  then show ?case using 2 by (simp cong: map_cong)
next
  case (3 m k)
  then obtain a b where "q = a # b" by (cases q) auto
  then show ?case using 3 by (simp add: fmlookup_drop)
next
  case (4 m k k2 ks)
  then obtain a b where q: "q = a # b" by (cases q) auto
  show ?case
  proof (cases "fmlookup m k")
    case (Some c)
    then show ?thesis using 4 q by (cases "a = k") simp_all
  qed simp
qed (simp_all)

text \<open>
  Ignoring a body field removes it and nothing else.  After \<^verbatim>\<open>deleteJSONPath\<close> no value is left at the path,
  in no element of any array on the way, and the values at every path that neither extends it nor
  leads to it are the ones they were.
\<close>
theorem ignored_field_removed:
  assumes "p \<noteq> []"
  shows "values_at (deleteJSONPath d p) p = []
    \<and> (\<forall>q. \<not> prefix p q \<and> \<not> prefix q p \<longrightarrow> values_at (deleteJSONPath d p) q = values_at d q)"
  using deleted_gone[OF assms] deleted_others by blast

section \<open>When a comparison passes\<close>

lemma slices_mset: "slicesEqualUnordered a b \<longleftrightarrow> mset a = mset b"
proof
  assume "slicesEqualUnordered a b"
  then have "sort a = sort b"
    unfolding slicesEqualUnordered_def by (auto intro!: nth_equalityI simp: list_all_iff)
  then show "mset a = mset b" by (metis mset_sort)
next
  assume m: "mset a = mset b"
  then have "sort a = sort b" by (metis properties_for_sort sorted_sort mset_sort)
  then show "slicesEqualUnordered a b"
    using mset_eq_length[OF m] by (simp add: slicesEqualUnordered_def list_all_iff)
qed

lemma header_diff_Nil: "header_diff j g name = [] \<longleftrightarrow> rel_option (\<lambda>a b. mset a = mset b) (fmlookup j name) (fmlookup g name)"
  by (cases "fmlookup j name"; cases "fmlookup g name") (simp_all add: header_diff_def slices_mset)

lemma diffHeaders_Nil:
  "diffHeaders j g = [] \<longleftrightarrow> (\<forall>name. rel_option (\<lambda>a b. mset a = mset b) (fmlookup j name) (fmlookup g name))"
proof -
  have "rel_option (\<lambda>a b. mset a = mset b) (fmlookup j name) (fmlookup g name)" if "name |\<notin>| fmdom j |\<union>| fmdom g" for name
    using that by (simp add: fmdom_notD)
  then show ?thesis
    by (auto simp: diffHeaders_def concat_eq_Nil_conv header_diff_Nil)
qed

text \<open>What the harness relies on of \<^verbatim>\<open>cmp.Diff\<close>: it prints nothing exactly on equal values.\<close>

definition cmp_exact :: "'f cmp_lib \<Rightarrow> bool" where
  "cmp_exact cmp = ((\<forall>a b. cl_strings cmp a b = [] \<longleftrightarrow> a = b) \<and> (\<forall>a b. cl_docs cmp a b = [] \<longleftrightarrow> a = b))"

definition same_body :: "'f json_lib \<Rightarrow> string \<Rightarrow> string \<Rightarrow> bool" where
  "same_body lib a b = (a = b \<or> (jl_Unmarshal lib a \<noteq> None \<and> jl_Unmarshal lib a = jl_Unmarshal lib b))"

lemma diffBodies_Nil: "cmp_exact cmp \<Longrightarrow> diffBodies lib cmp a b = [] \<longleftrightarrow> same_body lib a b"
  by (auto simp: diffBodies_def same_body_def cmp_exact_def split: option.split)

text \<open>
  C38: The verdict of a comparison is the equivalence it is meant to be: PASS exactly if the statuses are equal,
  every header is on both sides or on neither and has the same values up to their order, repetitions
  counted, and the bodies are the same bytes or the same JSON document.
\<close>
theorem Diff_pass_iff:
  assumes "cmp_exact cmp"
  shows "rs_Verdict (Diff lib cmp java goResp) = VerdictPass \<longleftrightarrow>
     dh_Status java = dh_Status goResp
   \<and> (\<forall>name. rel_option (\<lambda>a b. mset a = mset b) (fmlookup (dh_Headers java) name) (fmlookup (dh_Headers goResp) name))
   \<and> same_body lib (dh_Body java) (dh_Body goResp)"
  using diffBodies_Nil[OF assms] diffHeaders_Nil
  by (auto simp: Diff_def Let_def hasMeaningfulHeaderDiff_def)

section \<open>Recording and replaying\<close>

text \<open>What the golden files rely on of the JSON library, for the body at hand.\<close>

definition json_laws :: "'f json_lib \<Rightarrow> string \<Rightarrow> bool" where
  "json_laws lib b =
     (jl_Unmarshal lib [] = None \<and> (jl_Valid lib b \<longleftrightarrow> jl_Unmarshal lib b \<noteq> None)
      \<and> (jl_Valid lib b \<longrightarrow> jl_Unmarshal lib (jl_reindent lib b) = jl_Unmarshal lib b \<and> jl_reindent lib b \<noteq> []
           \<and> (jl_reindent lib b = ''null'' \<longleftrightarrow> jl_Unmarshal lib b = Some DocNull))
      \<and> jl_reindent lib ''null'' = ''null'' \<and> jl_reindent lib (jl_quote lib b) = jl_quote lib b
      \<and> jl_quote lib b \<noteq> [] \<and> jl_quote lib b \<noteq> ''null'' \<and> jl_quote lib b \<noteq> b)"

lemma golden_body:
  assumes "golden_file lib (newGolden lib s r) = Inr g"
  shows "dh_Status (toResponse g) = dh_Status r" "dh_Headers (toResponse g) = dh_Headers r" "go_Scenario g = s"
    "dh_Body (toResponse g) = (let b = jl_reindent lib (go_Body (newGolden lib s r)) in if b = [] \<or> b = ''null'' then [] else b)"
  using assms by (auto simp: golden_file_def ReadGolden_def newGolden_def toResponse_def Let_def split: if_splits)

text \<open>
  C34: A recording that is replayed against a gateway which gives the same normalized answer passes if the body
  is empty or a JSON document other than null, and only then: a body that is not JSON is stored as a JSON
  string and never unwrapped, and a null document is read back as an empty body, so both fail against
  the very answer they were recorded from.
\<close>
theorem replay_of_own_recording:
  assumes "cmp_exact cmp" and "json_laws lib (dh_Body r)" and "golden_file lib (newGolden lib s r) = Inr g"
  shows "rs_Verdict (Diff lib cmp (toResponse g) r) = VerdictPass \<longleftrightarrow>
    dh_Body r = [] \<or> (\<exists>d. jl_Unmarshal lib (dh_Body r) = Some d \<and> d \<noteq> DocNull)"
proof -
  note l = assms(2)[unfolded json_laws_def]
  have h: "rel_option (\<lambda>a b. mset a = mset b) x x" for x :: "string list option" by (cases x) simp_all
  have "rs_Verdict (Diff lib cmp (toResponse g) r) = VerdictPass \<longleftrightarrow> same_body lib (dh_Body (toResponse g)) (dh_Body r)"
    using golden_body(1,2)[OF assms(3)] h diffBodies_Nil[OF assms(1)] diffHeaders_Nil
    by (auto simp: Diff_def Let_def hasMeaningfulHeaderDiff_def)
  also have "\<dots> \<longleftrightarrow> dh_Body r = [] \<or> (\<exists>d. jl_Unmarshal lib (dh_Body r) = Some d \<and> d \<noteq> DocNull)"
    unfolding golden_body(4)[OF assms(3)] using l
    by (cases "jl_Unmarshal lib (dh_Body r)") (auto simp: same_body_def newGolden_def Let_def)
  finally show ?thesis .
qed

section \<open>Bounds\<close>

definition step_budget :: "Step \<Rightarrow> nat" where
  "step_budget s = 1 + (case sp_RepeatUntil s of None \<Rightarrow> 0 | Some p \<Rightarrow> max_iterations p)"

text \<open>A client that counts the requests it is given.\<close>

definition counting :: "'w http_client \<Rightarrow> (nat \<times> 'w) http_client" where
  "counting client q w = (let (res, w') = client q (snd w) in (res, Suc (fst w), w'))"

lemma executeStep_count: "fst (snd (executeStep ul (counting c) base s vars w)) \<le> Suc (fst w)"
  by (auto simp: executeStep_def counting_def Let_def case_prod_unfold split: sum.split)

lemma repeat_count: "fst (snd (snd (repeat_loop lib ul (counting c) base s nf n vars cur w))) \<le> fst w + n"
proof (induction n arbitrary: vars cur w)
  case (Suc n)
  obtain res w1 where e: "executeStep ul (counting c) base s vars w = (res, w1)" by (metis prod.collapse)
  have "fst w1 \<le> Suc (fst w)" using executeStep_count[of ul c base s vars w] e by simp
  then show ?case
    using Suc.IH[of "applyExtract lib (dh_Body (projr res)) (sp_Extract s) vars" "projr res" w1] e
    by (cases res) auto
qed simp

lemma run_step_count: "fst (snd (snd (run_step lib ul (counting c) base s vars w))) \<le> fst w + step_budget s"
proof -
  obtain res w1 where e: "executeStep ul (counting c) base s vars w = (res, w1)" by (metis prod.collapse)
  have w1: "fst w1 \<le> Suc (fst w)" using executeStep_count[of ul c base s vars w] e by simp
  show ?thesis
  proof (cases res)
    case (Inr resp)
    have "fst (snd (snd (repeat_loop lib ul (counting c) base s nf n vs resp w1))) \<le> Suc (fst w) + n" for nf n vs
      using repeat_count[of lib ul c base s nf n vs resp w1] w1 by linarith
    then show ?thesis
      using e Inr w1 by (cases "sp_RepeatUntil s") (simp_all add: run_step_def runRepeat_def step_budget_def Let_def)
  qed (use e w1 in \<open>simp add: run_step_def step_budget_def\<close>)
qed

text \<open>
  C39: A scenario is finite whatever the gateway answers: replaying it sends at most one request per step and,
  for a step that repeats, as many more as its policy allows (50 by default); a gateway that hands out
  \<^verbatim>\<open>nextUri\<close> forever cannot hang the harness.
\<close>
theorem replay_bounded: "fst (snd (Run lib ul (counting client) base s (0, w))) \<le> sum_list (map step_budget (sn_Steps s))"
proof -
  have "fst (snd (run_steps lib ul (counting client) base ss vars cur w)) \<le> fst w + sum_list (map step_budget ss)" for ss vars cur w
  proof (induction ss arbitrary: vars cur w)
    case (Cons s ss)
    obtain res vars1 w1 where e: "run_step lib ul (counting client) base s vars w = (res, vars1, w1)" by (metis prod_cases3)
    have "fst w1 \<le> fst w + step_budget s" using run_step_count[of lib ul client base s vars w] e by simp
    then show ?case using Cons.IH[of vars1 "projr res" w1] e by (cases res) auto
  qed simp
  from this[of "sn_Steps s" "\<lambda>_. None" zero_response "(0, w)"] show ?thesis by (simp add: Run_def)
qed

section \<open>Exit codes\<close>

lemma write_summary_counts:
  "sm_Pass (write_summary rs) = length (filter (\<lambda>r. rs_Verdict r = VerdictPass) rs)"
  "sm_Fail (write_summary rs) = length (filter (\<lambda>r. rs_Verdict r = VerdictFail) rs)"
  "sm_Skip (write_summary rs) = length (filter (\<lambda>r. rs_Verdict r = VerdictSkip) rs)"
  "sm_Errored (write_summary rs) = length (filter (\<lambda>r. rs_Verdict r = VerdictError) rs)"
  by (induction rs) (simp_all add: Let_def split: Verdict.split)

lemma emit_zero: "emit format True rs = 0 \<longleftrightarrow> list_all (\<lambda>r. rs_Verdict r \<noteq> VerdictFail \<and> rs_Verdict r \<noteq> VerdictError) rs"
  by (auto simp: emit_def write_summary_counts list_all_iff filter_empty_conv)

lemma RunAll_length: "length (fst (RunAll lib cmp ul cj cg r ss w)) = length ss"
  by (induction ss arbitrary: w) (simp_all add: Let_def case_prod_unfold)

lemma RunScenario_not_skip: "rs_Verdict (fst (RunScenario lib cmp ul cj cg r s w)) \<noteq> VerdictSkip"
  by (simp add: RunScenario_def Diff_def Let_def case_prod_unfold split: sum.split)

lemma RunAll_not_skip: "list_all (\<lambda>x. rs_Verdict x \<noteq> VerdictSkip) (fst (RunAll lib cmp ul cj cg r ss w))"
  by (induction ss arbitrary: w) (simp_all add: Let_def case_prod_unfold RunScenario_not_skip)

text \<open>
  The live run is a gate: it exits with 0 exactly if both URLs are given, the scenarios load and there is
  at least one, the report is written and every single scenario passed; no scenario is left out or skipped.
\<close>
theorem live_exit_zero:
  "runLive lib cmp ul cj cg loaded format written javaURL goURL w = 0 \<longleftrightarrow>
     javaURL \<noteq> [] \<and> goURL \<noteq> [] \<and> (if format = ''json'' then written else True) \<and>
     (\<exists>ss. loaded = Inr ss \<and> ss \<noteq> [] \<and>
        (let rs = fst (RunAll lib cmp ul cj cg \<lparr> rn_Java = javaURL, rn_Go = goURL \<rparr> ss w)
         in length rs = length ss \<and> list_all (\<lambda>r. rs_Verdict r = VerdictPass) rs))"
proof -
  have v: "x \<noteq> VerdictFail \<and> x \<noteq> VerdictError \<and> x \<noteq> VerdictSkip \<longleftrightarrow> x = VerdictPass" for x by (cases x) simp_all
  have "emit format written (fst (RunAll lib cmp ul cj cg r ss w)) = 0 \<longleftrightarrow> (if format = ''json'' then written else True) \<and>
      list_all (\<lambda>r. rs_Verdict r = VerdictPass) (fst (RunAll lib cmp ul cj cg r ss w))" for r ss
    using emit_zero[of format] RunAll_not_skip[of lib cmp ul cj cg r ss w] v
    by (auto simp: emit_def list_all_iff split: if_splits)
  then show ?thesis
    by (auto simp: runLive_def with_scenarios_def RunAll_length Let_def split: sum.split)
qed

section \<open>Concrete answers\<close>

definition demo_json :: "nat json_lib" where
  "demo_json = \<lparr> jl_Unmarshal = (\<lambda>b. if b = ''{}'' then Some (DocObj fmempty) else None), jl_Marshal = (\<lambda>_. Some ''{}''),
     jl_Valid = (\<lambda>b. b = ''{}''), jl_quote = (\<lambda>s. [CHR 0x22] @ s @ [CHR 0x22]), jl_reindent = id, jl_g = (\<lambda>_. []) \<rparr>"

definition demo_cmp :: "nat cmp_lib" where
  "demo_cmp = \<lparr> cl_strings = (\<lambda>a b. if a = b then [] else ''differs''), cl_docs = (\<lambda>a b. if a = b then [] else ''differs'') \<rparr>"

lemma demo_cmp_exact: "cmp_exact demo_cmp"
  by (simp add: cmp_exact_def demo_cmp_def)

definition demo_resp :: "string \<Rightarrow> string list \<Rightarrow> Response" where
  "demo_resp body vs = \<lparr> dh_Status = 200, dh_Headers = fmupd ''Vary'' vs fmempty, dh_Body = body \<rparr>"

theorem Diff_pass_iff_witness:
  "rs_Verdict (Diff demo_json demo_cmp (demo_resp ''{}'' [''a'', ''b'']) (demo_resp ''{}'' [''b'', ''a''])) = VerdictPass
   \<and> rs_Verdict (Diff demo_json demo_cmp (demo_resp ''x'' []) (demo_resp ''y'' [])) \<noteq> VerdictPass"
  unfolding Diff_pass_iff[OF demo_cmp_exact] by (auto simp: demo_resp_def same_body_def demo_json_def)

theorem replay_of_own_recording_witness:
  "\<exists>g. golden_file demo_json (newGolden demo_json ''livez'' (demo_resp ''ok'' [])) = Inr g
    \<and> rs_Verdict (Diff demo_json demo_cmp (toResponse g) (demo_resp ''ok'' [])) \<noteq> VerdictPass"
proof -
  have l: "json_laws demo_json (dh_Body (demo_resp ''ok'' []))" by (simp add: json_laws_def demo_json_def demo_resp_def)
  obtain g where g: "golden_file demo_json (newGolden demo_json ''livez'' (demo_resp ''ok'' [])) = Inr g"
    by (simp add: golden_file_def ReadGolden_def newGolden_def)
  from replay_of_own_recording[OF demo_cmp_exact l g] show ?thesis using g by (auto simp: demo_resp_def demo_json_def)
qed

definition demo_doc :: "nat doc" where
  "demo_doc = DocArr [DocObj (fmupd ''id'' (DocNum 1) (fmupd ''name'' (DocStr ''x'') fmempty))]"

theorem ignored_field_removed_witness:
  "values_at (deleteJSONPath demo_doc [''id'']) [''id''] = [] \<and> values_at (deleteJSONPath demo_doc [''id'']) [''name''] = [DocStr ''x'']"
  using ignored_field_removed[of "[''id'']" demo_doc] by (simp add: demo_doc_def)

end
