(* ===== verification/Metrics.thy ===== *)
theory Metrics
  imports Proxy Monitor Auth
begin

text \<open>
  The metrics of the gateway (\<^verbatim>\<open>internal/metrics\<close>): the registration of the metric families, the recorders
  that the proxy, the router, the middlewares and the composition root call, the gauges that follow the
  monitor's snapshots, and the HTTP middleware.  The Prometheus library is modelled by what its
  documentation says of a registry and of counter, gauge and histogram vectors: a name is registered once,
  a series is made when it is first used, and a deleted series is gone.
\<close>

section \<open>Families\<close>

datatype metric_kind = Counter | Gauge | Histogram

record family =
  fa_Name :: string
  fa_Kind :: metric_kind
  fa_Labels :: "string list"

definition Namespace :: string where
  "Namespace = ''trino_goway''"

text \<open>\<^verbatim>\<open>BuildFQName\<close>: the parts joined by underscores, empty ones left out.\<close>

definition fq_name :: "string \<Rightarrow> string \<Rightarrow> string" where
  "fq_name subsystem name = join ''_'' (filter (\<lambda>p. p \<noteq> []) [Namespace, subsystem, name])"

definition httpFamilies :: "family list" where
  "httpFamilies = [
     \<lparr> fa_Name = fq_name ''http'' ''requests_total'', fa_Kind = Counter, fa_Labels = [''listener'', ''method'', ''pattern'', ''code''] \<rparr>,
     \<lparr> fa_Name = fq_name ''http'' ''request_duration_seconds'', fa_Kind = Histogram, fa_Labels = [''listener'', ''method'', ''pattern''] \<rparr>,
     \<lparr> fa_Name = fq_name ''http'' ''requests_in_flight'', fa_Kind = Gauge, fa_Labels = [''listener''] \<rparr>]"

definition proxyFamilies :: "family list" where
  "proxyFamilies = [
     \<lparr> fa_Name = fq_name ''proxy'' ''requests_total'', fa_Kind = Counter, fa_Labels = [''backend'', ''routing_group'', ''outcome''] \<rparr>,
     \<lparr> fa_Name = fq_name ''proxy'' ''upstream_duration_seconds'', fa_Kind = Histogram, fa_Labels = [''backend''] \<rparr>,
     \<lparr> fa_Name = fq_name ''proxy'' ''oversized_responses_total'', fa_Kind = Counter, fa_Labels = [] \<rparr>,
     \<lparr> fa_Name = fq_name ''proxy'' ''statement_cache_writes_total'', fa_Kind = Counter, fa_Labels = [] \<rparr>]"

definition backendFamilies :: "family list" where
  "backendFamilies = [
     \<lparr> fa_Name = fq_name ''backend'' ''status'', fa_Kind = Gauge, fa_Labels = [''backend'', ''status''] \<rparr>,
     \<lparr> fa_Name = fq_name ''backend'' ''activation_status'', fa_Kind = Gauge, fa_Labels = [''backend''] \<rparr>,
     \<lparr> fa_Name = fq_name [] ''backends'', fa_Kind = Gauge, fa_Labels = [''status''] \<rparr>,
     \<lparr> fa_Name = fq_name [] ''backends_active'', fa_Kind = Gauge, fa_Labels = [] \<rparr>]"

definition routerFamilies :: "family list" where
  "routerFamilies = [
     \<lparr> fa_Name = fq_name ''router'' ''calls_total'', fa_Kind = Counter, fa_Labels = [''transport'', ''outcome''] \<rparr>,
     \<lparr> fa_Name = fq_name ''router'' ''call_duration_seconds'', fa_Kind = Histogram, fa_Labels = [''transport''] \<rparr>,
     \<lparr> fa_Name = fq_name ''routing'' ''cache_events_total'', fa_Kind = Counter, fa_Labels = [''event''] \<rparr>,
     \<lparr> fa_Name = fq_name ''recovery_chain'' ''steps_total'', fa_Kind = Counter, fa_Labels = [''step''] \<rparr>,
     \<lparr> fa_Name = fq_name [] ''kill_query_routes_total'', fa_Kind = Counter, fa_Labels = [] \<rparr>]"

definition authFamilies :: "family list" where
  "authFamilies = [
     \<lparr> fa_Name = fq_name ''auth'' ''requests_total'', fa_Kind = Counter, fa_Labels = [''type'', ''result''] \<rparr>,
     \<lparr> fa_Name = fq_name [] ''jwks_refresh_total'', fa_Kind = Counter, fa_Labels = [''result''] \<rparr>,
     \<lparr> fa_Name = fq_name [] ''jwks_keys'', fa_Kind = Gauge, fa_Labels = [] \<rparr>]"

definition persistenceFamilies :: "family list" where
  "persistenceFamilies = [
     \<lparr> fa_Name = fq_name [] ''db_up'', fa_Kind = Gauge, fa_Labels = [] \<rparr>,
     \<lparr> fa_Name = fq_name [] ''query_history_inserts_total'', fa_Kind = Counter, fa_Labels = [''result''] \<rparr>,
     \<lparr> fa_Name = fq_name [] ''backend_refresh_total'', fa_Kind = Counter, fa_Labels = [''result''] \<rparr>]"

text \<open>The names in a registry; a name that is taken is refused.\<close>

fun register_all :: "string list \<Rightarrow> family list \<Rightarrow> string list result" where
  "register_all reg [] = Inr reg"
| "register_all reg (f # fs) =
     (if fa_Name f \<in> set reg then Inl (Failure ''metrics: register'') else register_all (fa_Name f # reg) fs)"

text \<open>The registrations of \<^verbatim>\<open>run\<close> in its order, after the runtime collectors with the names \<open>runtime\<close>.\<close>

definition register_gateway :: "string list \<Rightarrow> string list result" where
  "register_gateway runtime =
     Result_bind (register_all runtime httpFamilies) (\<lambda>reg1.
     Result_bind (register_all reg1 proxyFamilies) (\<lambda>reg2.
     Result_bind (register_all reg2 backendFamilies) (\<lambda>reg3.
     Result_bind (register_all reg3 routerFamilies) (\<lambda>reg4.
     Result_bind (register_all reg4 authFamilies) (\<lambda>reg5.
       register_all reg5 persistenceFamilies)))))"

section \<open>Series\<close>

record series =
  sr_count :: "string \<Rightarrow> string list \<Rightarrow> nat"
  sr_gauge :: "string \<Rightarrow> string list \<Rightarrow> int option"
  sr_obs :: "string \<Rightarrow> string list \<Rightarrow> nat"

definition inc :: "string \<Rightarrow> string list \<Rightarrow> series \<Rightarrow> series" where
  "inc name labels s = s\<lparr> sr_count := (sr_count s)(name := (sr_count s name)(labels := sr_count s name labels + 1)) \<rparr>"

definition observe :: "string \<Rightarrow> string list \<Rightarrow> series \<Rightarrow> series" where
  "observe name labels s = s\<lparr> sr_obs := (sr_obs s)(name := (sr_obs s name)(labels := sr_obs s name labels + 1)) \<rparr>"

definition set_gauge :: "string \<Rightarrow> string list \<Rightarrow> int \<Rightarrow> series \<Rightarrow> series" where
  "set_gauge name labels v s = s\<lparr> sr_gauge := (sr_gauge s)(name := (sr_gauge s name)(labels \<mapsto> v)) \<rparr>"

definition gauge_value :: "string \<Rightarrow> string list \<Rightarrow> series \<Rightarrow> int" where
  "gauge_value name labels s = (case sr_gauge s name labels of None \<Rightarrow> 0 | Some v \<Rightarrow> v)"

definition add_gauge :: "string \<Rightarrow> string list \<Rightarrow> int \<Rightarrow> series \<Rightarrow> series" where
  "add_gauge name labels d s = set_gauge name labels (gauge_value name labels s + d) s"

definition DeleteLabelValues :: "string \<Rightarrow> string list \<Rightarrow> series \<Rightarrow> series" where
  "DeleteLabelValues name labels s = s\<lparr> sr_gauge := (sr_gauge s)(name := (sr_gauge s name)(labels := None)) \<rparr>"

section \<open>Recorders\<close>

definition outcome_label :: "outcome \<Rightarrow> string" where
  "outcome_label o' = (case o' of OutcomeOK \<Rightarrow> ''ok'' | OutcomeFallback \<Rightarrow> ''fallback'' | OutcomeKillQuery \<Rightarrow> ''kill_query''
     | OutcomeError \<Rightarrow> ''error'')"

text \<open>The recorder calls of the proxy; its other actions record nothing.\<close>

definition proxy_record :: "px_event \<Rightarrow> series \<Rightarrow> series" where
  "proxy_record e s = (case e of
     RequestHandled backend grp o' \<Rightarrow> inc (fq_name ''proxy'' ''requests_total'') [backend, grp, outcome_label o'] s
   | UpstreamDuration backend \<Rightarrow> observe (fq_name ''proxy'' ''upstream_duration_seconds'') [backend] s
   | OversizedResponse \<Rightarrow> inc (fq_name ''proxy'' ''oversized_responses_total'') [] s
   | StatementCacheWrite \<Rightarrow> inc (fq_name ''proxy'' ''statement_cache_writes_total'') [] s
   | _ \<Rightarrow> s)"

definition transport_label :: "transport \<Rightarrow> string" where
  "transport_label t = (case t of TransportHTTP \<Rightarrow> ''http'' | TransportGRPC \<Rightarrow> ''grpc'')"

definition router_outcome_label :: "router_outcome \<Rightarrow> string" where
  "router_outcome_label o' = (case o' of RouterOutcomeOK \<Rightarrow> ''ok'' | RouterOutcomeTimeout \<Rightarrow> ''timeout'' | RouterOutcomeError \<Rightarrow> ''error'')"

definition router_record :: "router_metric \<Rightarrow> series \<Rightarrow> series" where
  "router_record m s = (case m of
     RouterCall t o' \<Rightarrow> observe (fq_name ''router'' ''call_duration_seconds'') [transport_label t]
       (inc (fq_name ''router'' ''calls_total'') [transport_label t, router_outcome_label o'] s)
   | CacheEvent e \<Rightarrow> inc (fq_name ''routing'' ''cache_events_total'') [case e of CacheEventHit \<Rightarrow> ''hit'' | CacheEventMiss \<Rightarrow> ''miss''] s
   | RecoveryStep st \<Rightarrow> inc (fq_name ''recovery_chain'' ''steps_total'')
       [case st of RecoveryStepHistory \<Rightarrow> ''history'' | RecoveryStepProbe \<Rightarrow> ''probe'' | RecoveryStepDefault \<Rightarrow> ''default''] s
   | KillQueryRoute \<Rightarrow> inc (fq_name [] ''kill_query_routes_total'') [] s)"

definition AuthRequest :: "auth_metric \<Rightarrow> series \<Rightarrow> series" where
  "AuthRequest m s = inc (fq_name ''auth'' ''requests_total'')
     [case fst m of TypeOIDC \<Rightarrow> ''oidc'' | TypeLDAP \<Rightarrow> ''ldap'' | TypeNoop \<Rightarrow> ''noop'', if snd m then ''allow'' else ''deny''] s"

text \<open>What a refresh of the key set reports: the number of keys of a successful one.\<close>

definition record_refresh :: "nat option \<Rightarrow> series \<Rightarrow> series" where
  "record_refresh keys s = (case keys of
     None \<Rightarrow> inc (fq_name [] ''jwks_refresh_total'') [''error''] s
   | Some n \<Rightarrow> set_gauge (fq_name [] ''jwks_keys'') [] (int n) (inc (fq_name [] ''jwks_refresh_total'') [''success''] s))"

definition HistoryInsert :: "insert_result \<Rightarrow> series \<Rightarrow> series" where
  "HistoryInsert r s = inc (fq_name [] ''query_history_inserts_total'') [case r of ResultOK \<Rightarrow> ''ok'' | ResultError \<Rightarrow> ''error''] s"

definition SetDBUp :: "bool \<Rightarrow> series \<Rightarrow> series" where
  "SetDBUp up s = set_gauge (fq_name [] ''db_up'') [] (if up then 1 else 0) s"

definition BackendRefresh :: "bool \<Rightarrow> series \<Rightarrow> series" where
  "BackendRefresh ok s = inc (fq_name [] ''backend_refresh_total'') [if ok then ''ok'' else ''error''] s"

text \<open>What \<^verbatim>\<open>refreshBackends\<close> records of its read.\<close>

definition record_backend_refresh :: "db \<Rightarrow> series \<Rightarrow> series" where
  "record_backend_refresh d s = (case backend_ListActive d of
     Inl _ \<Rightarrow> SetDBUp False (BackendRefresh False s) | Inr _ \<Rightarrow> SetDBUp True (BackendRefresh True s))"

section \<open>Backend gauges\<close>

definition backendStatusLabels :: "string list" where
  "backendStatusLabels = [''healthy'', ''unhealthy'', ''pending'']"

definition statusLabel :: "TrinoStatus \<Rightarrow> string" where
  "statusLabel st = (case st of StatusHealthy \<Rightarrow> ''healthy'' | StatusUnhealthy \<Rightarrow> ''unhealthy'' | _ \<Rightarrow> ''pending'')"

record BackendMetrics =
  bm_series :: series
  bm_seen :: "string list"

abbreviation "backend_status \<equiv> fq_name ''backend'' ''status''"
abbreviation "backend_activation \<equiv> fq_name ''backend'' ''activation_status''"

definition prune_backend :: "string \<Rightarrow> series \<Rightarrow> series" where
  "prune_backend url s = DeleteLabelValues backend_activation [url]
     (fold (\<lambda>label. DeleteLabelValues backend_status [url, label]) backendStatusLabels s)"

definition show_backend :: "string \<times> TrinoStatus \<Rightarrow> series \<Rightarrow> series" where
  "show_backend b s = set_gauge backend_activation [fst b] 1
     (fold (\<lambda>label. set_gauge backend_status [fst b, label] (if label = statusLabel (snd b) then 1 else 0))
        backendStatusLabels s)"

definition count_label :: "(string \<times> TrinoStatus) list \<Rightarrow> string \<Rightarrow> int" where
  "count_label statuses label = int (length (filter (\<lambda>b. statusLabel (snd b) = label) statuses))"

text \<open>The snapshot is the entries of the map in the order they are iterated.\<close>

definition ObserveStatuses :: "(string \<times> TrinoStatus) list \<Rightarrow> BackendMetrics \<Rightarrow> BackendMetrics" where
  "ObserveStatuses statuses m =
     (let gone = filter (\<lambda>url. url \<notin> fst ` set statuses) (bm_seen m);
          s1 = fold prune_backend gone (bm_series m);
          s2 = fold show_backend statuses s1;
          s3 = fold (\<lambda>label. set_gauge (fq_name [] ''backends'') [label] (count_label statuses label)) backendStatusLabels s2;
          kept = filter (\<lambda>url. url \<in> fst ` set statuses) (bm_seen m)
      in \<lparr> bm_series = set_gauge (fq_name [] ''backends_active'') [] (int (length statuses)) s3,
           bm_seen = kept @ filter (\<lambda>url. url \<notin> set kept) (map fst statuses) \<rparr>)"

section \<open>HTTP middleware\<close>

record statusWriter =
  sw_status :: nat
  sw_wroteHeader :: bool

datatype writer_call = CallWriteHeader nat | CallWrite

definition statusWriter_call :: "writer_call \<Rightarrow> statusWriter \<Rightarrow> statusWriter" where
  "statusWriter_call c w = (case c of
     CallWriteHeader code \<Rightarrow> if sw_wroteHeader w then w else w\<lparr> sw_status := code, sw_wroteHeader := True \<rparr>
   | CallWrite \<Rightarrow> w\<lparr> sw_wroteHeader := True \<rparr>)"

definition routePattern :: "string option \<Rightarrow> string" where
  "routePattern matched = (case matched of Some p \<Rightarrow> if p = [] then ''unmatched'' else p | None \<Rightarrow> ''unmatched'')"

text \<open>\<open>calls\<close> are what the wrapped handler does with its writer; \<open>panicked\<close> tells that it does not return.  The
  deferred decrement runs in both cases.  \<open>inner\<close> is what the handler itself does to the series.\<close>

definition Middleware ::
  "string \<Rightarrow> string \<Rightarrow> string option \<Rightarrow> writer_call list \<Rightarrow> bool \<Rightarrow> (series \<Rightarrow> series) \<Rightarrow> series \<Rightarrow> series" where
  "Middleware listener method matched calls panicked inner s =
     (let s1 = inner (add_gauge (fq_name ''http'' ''requests_in_flight'') [listener] 1 s);
          sw = fold statusWriter_call calls \<lparr> sw_status = 200, sw_wroteHeader = False \<rparr>;
          pattern = routePattern matched;
          s2 = (if panicked then s1
                else inc (fq_name ''http'' ''requests_total'') [listener, method, pattern, dec_nat (sw_status sw)]
                       (observe (fq_name ''http'' ''request_duration_seconds'') [listener, method, pattern] s1))
      in add_gauge (fq_name ''http'' ''requests_in_flight'') [listener] (- 1) s2)"

section \<open>Registration\<close>

definition all_families :: "family list" where
  "all_families = httpFamilies @ proxyFamilies @ backendFamilies @ routerFamilies @ authFamilies @ persistenceFamilies"

lemma register_all_ok:
  "distinct (map fa_Name fs) \<Longrightarrow> set (map fa_Name fs) \<inter> set reg = {} \<Longrightarrow> register_all reg fs = Inr (rev (map fa_Name fs) @ reg)"
  by (induction fs arbitrary: reg) auto

lemma register_all_append: "register_all reg (fs @ gs) = Result_bind (register_all reg fs) (\<lambda>reg'. register_all reg' gs)"
  by (induction fs arbitrary: reg) simp_all

lemma register_gateway_alt: "register_gateway runtime = register_all runtime all_families"
proof -
  have "Result_bind (Result_bind x f) g = Result_bind x (\<lambda>a. Result_bind (f a) g)" for x :: "string list result" and f g
    by (cases x) simp_all
  then show ?thesis by (simp add: register_gateway_def all_families_def register_all_append)
qed

lemma families_distinct: "distinct (map fa_Name all_families) \<and> list_all (\<lambda>f. prefix Namespace (fa_Name f)) all_families"
  by code_simp

text \<open>
  The metrics can be registered together: whatever the runtime collectors are called, as long as none of
  their names begins with the gateway's namespace, all registrations of the composition root succeed, so
  startup never fails for a duplicate name; and every family registered is in the namespace.
\<close>
theorem registration_succeeds:
  assumes "list_all (\<lambda>n. \<not> prefix Namespace n) runtime"
  shows "register_gateway runtime = Inr (rev (map fa_Name all_families) @ runtime)"
proof -
  have "set (map fa_Name all_families) \<inter> set runtime = {}"
    using assms families_distinct by (auto simp: list_all_iff)
  then show ?thesis using register_all_ok families_distinct by (simp add: register_gateway_alt)
qed

section \<open>Facts on series\<close>

lemma gauge_simps [simp]:
  "sr_gauge (set_gauge n l v s) n' l' = (if n' = n \<and> l' = l then Some v else sr_gauge s n' l')"
  "sr_gauge (DeleteLabelValues n l s) n' l' = (if n' = n \<and> l' = l then None else sr_gauge s n' l')"
  "sr_gauge (inc n l s) = sr_gauge s" "sr_gauge (observe n l s) = sr_gauge s"
  "sr_count (set_gauge n l v s) = sr_count s" "sr_count (observe n l s) = sr_count s"
  "sr_count (inc n l s) n' l' = sr_count s n' l' + (if n' = n \<and> l' = l then 1 else 0)"
  by (auto simp: set_gauge_def DeleteLabelValues_def inc_def observe_def)

lemma backend_names_differ:
  "backend_status \<noteq> backend_activation" "fq_name [] ''backends'' \<noteq> backend_status" "fq_name [] ''backends'' \<noteq> backend_activation"
  "fq_name [] ''backends_active'' \<noteq> backend_status" "fq_name [] ''backends_active'' \<noteq> backend_activation"
  "fq_name [] ''backends_active'' \<noteq> fq_name [] ''backends''"
  by code_simp+

text \<open>The series that belong to a backend, and what they show of it.\<close>

definition owns :: "string \<Rightarrow> string \<Rightarrow> string list \<Rightarrow> bool" where
  "owns u n l = ((n = backend_activation \<and> l = [u]) \<or> (n = backend_status \<and> (\<exists>x \<in> set backendStatusLabels. l = [u, x])))"

definition shown :: "string \<times> TrinoStatus \<Rightarrow> string \<Rightarrow> string list \<Rightarrow> int" where
  "shown b n l = (if n = backend_activation \<or> l = [fst b, statusLabel (snd b)] then 1 else 0)"

lemma owns_inj: "owns u n l \<Longrightarrow> owns v n l \<Longrightarrow> u = v"
  by (auto simp: owns_def)

lemma prune_gauge: "sr_gauge (prune_backend u s) n l = (if owns u n l then None else sr_gauge s n l)"
  by (auto simp: owns_def prune_backend_def backendStatusLabels_def)

lemma show_gauge: "sr_gauge (show_backend b s) n l = (if owns (fst b) n l then Some (shown b n l) else sr_gauge s n l)"
  using backend_names_differ(1) by (auto simp: owns_def shown_def show_backend_def backendStatusLabels_def)

lemma fold_prune: "sr_gauge (fold prune_backend us s) n l = (if \<exists>u \<in> set us. owns u n l then None else sr_gauge s n l)"
  by (induction us arbitrary: s) (simp_all add: prune_gauge)

lemma fold_show_other: "\<forall>b \<in> set bs. \<not> owns (fst b) n l \<Longrightarrow> sr_gauge (fold show_backend bs s) n l = sr_gauge s n l"
  by (induction bs arbitrary: s) (simp_all add: show_gauge)

lemma fold_show:
  assumes "distinct (map fst bs)" and "b \<in> set bs" and "owns (fst b) n l"
  shows "sr_gauge (fold show_backend bs s) n l = Some (shown b n l)"
  using assms(1,2)
proof (induction bs arbitrary: s)
  case (Cons c bs)
  show ?case
  proof (cases "c = b")
    case True
    then have "fst b \<notin> fst ` set bs" using Cons.prems(1) by simp
    then have "\<forall>d \<in> set bs. \<not> owns (fst d) n l" using owns_inj[OF assms(3)] by (metis image_eqI)
    then show ?thesis using fold_show_other assms(3) True by (simp add: show_gauge)
  next
    case False
    then show ?thesis using Cons by simp
  qed
qed simp

section \<open>Backend gauges follow the snapshot\<close>

text \<open>Every series of the two families belongs to a backend in \<open>seen\<close>.\<close>

definition backend_inv :: "BackendMetrics \<Rightarrow> bool" where
  "backend_inv m = (\<forall>n l. (n = backend_status \<or> n = backend_activation) \<and> sr_gauge (bm_series m) n l \<noteq> None
     \<longrightarrow> (\<exists>u \<in> set (bm_seen m). owns u n l))"

lemma observe_series:
  assumes "n = backend_status \<or> n = backend_activation"
  shows "sr_gauge (bm_series (ObserveStatuses statuses m)) n l =
      sr_gauge (fold show_backend statuses (fold prune_backend (filter (\<lambda>url. url \<notin> fst ` set statuses) (bm_seen m)) (bm_series m))) n l"
proof -
  have "n \<noteq> fq_name [] ''backends''" "n \<noteq> fq_name [] ''backends_active''" using assms backend_names_differ by metis+
  then show ?thesis by (simp add: ObserveStatuses_def backendStatusLabels_def Let_def)
qed

lemma observe_totals:
  "x \<in> set backendStatusLabels \<Longrightarrow> sr_gauge (bm_series (ObserveStatuses statuses m)) (fq_name [] ''backends'') [x] = Some (count_label statuses x)"
  "sr_gauge (bm_series (ObserveStatuses statuses m)) (fq_name [] ''backends_active'') [] = Some (int (length statuses))"
proof -
  show "sr_gauge (bm_series (ObserveStatuses statuses m)) (fq_name [] ''backends'') [x] = Some (count_label statuses x)"
    if "x \<in> set backendStatusLabels"
    using that backend_names_differ(6) by (auto simp: ObserveStatuses_def backendStatusLabels_def Let_def)
  show "sr_gauge (bm_series (ObserveStatuses statuses m)) (fq_name [] ''backends_active'') [] = Some (int (length statuses))"
    by (simp add: ObserveStatuses_def Let_def)
qed

lemma observe_seen: "set (bm_seen (ObserveStatuses statuses m)) = fst ` set statuses"
proof -
  have "set (filter (\<lambda>u. u \<in> A) xs @ filter (\<lambda>u. u \<notin> set (filter (\<lambda>u. u \<in> A) xs)) ys) = A" if "set ys = A" for A :: "string set" and xs ys
    using that by auto
  from this[of "map fst statuses" "fst ` set statuses"] show ?thesis by (simp only: ObserveStatuses_def Let_def) simp
qed

lemma statusLabel_in: "statusLabel st \<in> set backendStatusLabels"
  by (simp add: statusLabel_def backendStatusLabels_def split: TrinoStatus.split)

lemma count_labels: "(\<Sum>x\<leftarrow>backendStatusLabels. count_label bs x) = int (length bs)"
proof (induction bs)
  case (Cons b bs)
  have "(if statusLabel (snd b) = ''healthy'' then 1 else 0) + (if statusLabel (snd b) = ''unhealthy'' then 1 else 0)
      + (if statusLabel (snd b) = ''pending'' then 1 else 0) = (1::int)"
    by (simp add: statusLabel_def split: TrinoStatus.split)
  then show ?case using Cons by (auto simp: backendStatusLabels_def count_label_def split: if_splits)
qed (simp add: count_label_def backendStatusLabels_def)

lemma backend_inv_step:
  assumes "backend_inv m"
  shows "backend_inv (ObserveStatuses statuses m)"
  unfolding backend_inv_def
proof (intro allI impI)
  fix n l
  assume a: "(n = backend_status \<or> n = backend_activation) \<and> sr_gauge (bm_series (ObserveStatuses statuses m)) n l \<noteq> None"
  show "\<exists>u \<in> set (bm_seen (ObserveStatuses statuses m)). owns u n l"
  proof (rule ccontr)
    assume "\<not> ?thesis"
    then have no: "\<forall>b \<in> set statuses. \<not> owns (fst b) n l" by (simp add: observe_seen)
    then have "sr_gauge (fold prune_backend (filter (\<lambda>url. url \<notin> fst ` set statuses) (bm_seen m)) (bm_series m)) n l \<noteq> None"
      using a observe_series[of n statuses m l] fold_show_other[OF no] by simp
    then have g: "sr_gauge (bm_series m) n l \<noteq> None" and p: "\<not> (\<exists>u \<in> set (bm_seen m). u \<notin> fst ` set statuses \<and> owns u n l)"
      unfolding fold_prune by (simp_all split: if_splits)
    obtain u where "u \<in> set (bm_seen m)" "owns u n l" using assms a g unfolding backend_inv_def by blast
    then show False using p no by auto
  qed
qed

text \<open>
  C40: The gauges show the monitor's last snapshot and nothing else.  From the start and after any number of
  snapshots, each backend of the last one has the value 1 on the label of its status and 0 on the two
  others, no backend outside it has a series left, its activation is 1, and the aggregate counts add up
  to the number of active backends.
\<close>
theorem gauges_follow_snapshot:
  assumes "list_all (\<lambda>snap. distinct (map fst snap)) (snaps @ [statuses])"
    and "m = fold ObserveStatuses (snaps @ [statuses]) \<lparr> bm_series = \<lparr> sr_count = (\<lambda>_ _. 0), sr_gauge = (\<lambda>_ _. None), sr_obs = (\<lambda>_ _. 0) \<rparr>, bm_seen = [] \<rparr>"
  shows "((u, st) \<in> set statuses \<and> x \<in> set backendStatusLabels \<longrightarrow>
            sr_gauge (bm_series m) backend_status [u, x] = Some (if x = statusLabel st then 1 else 0))
    \<and> (u \<notin> fst ` set statuses \<longrightarrow> sr_gauge (bm_series m) backend_status [u, x] = None \<and> sr_gauge (bm_series m) backend_activation [u] = None)
    \<and> (u \<in> fst ` set statuses \<longrightarrow> sr_gauge (bm_series m) backend_activation [u] = Some 1)
    \<and> (\<Sum>y\<leftarrow>backendStatusLabels. the (sr_gauge (bm_series m) (fq_name [] ''backends'') [y])) =
        the (sr_gauge (bm_series m) (fq_name [] ''backends_active'') [])"
proof -
  define m0 where "m0 = \<lparr> bm_series = \<lparr> sr_count = (\<lambda>_ _. 0), sr_gauge = (\<lambda>_ _. None), sr_obs = (\<lambda>_ _. 0) \<rparr>, bm_seen = [] \<rparr>"
  define m1 where "m1 = fold ObserveStatuses snaps m0"
  have d: "distinct (map fst statuses)" using assms(1) by simp
  have "backend_inv m0" by (simp add: backend_inv_def m0_def)
  then have "backend_inv m1"
    unfolding m1_def by (induction snaps arbitrary: m0) (simp_all add: backend_inv_step)
  then have inv: "backend_inv m" and m: "m = ObserveStatuses statuses m1"
    using backend_inv_step assms(2) by (simp_all add: m1_def m0_def)
  have cur: "sr_gauge (bm_series m) n l = Some (shown b n l)"
    if "b \<in> set statuses" "owns (fst b) n l" "n = backend_status \<or> n = backend_activation" for b n l
    using that fold_show[OF d] by (simp add: m observe_series)
  have "sr_gauge (bm_series m) backend_status [u, x] = Some (if x = statusLabel st then 1 else 0)"
    if "(u, st) \<in> set statuses" "x \<in> set backendStatusLabels"
    using cur[OF that(1), of backend_status "[u, x]"] that(2) backend_names_differ(1) by (auto simp: owns_def shown_def)
  moreover have none: "sr_gauge (bm_series m) n l = None"
    if u1: "u \<notin> fst ` set statuses" and u2: "owns u n l \<or> \<not> (\<exists>v. owns v n l)" and u3: "n = backend_status \<or> n = backend_activation" for n l
  proof (rule ccontr)
    assume "sr_gauge (bm_series m) n l \<noteq> None"
    then obtain v where "v \<in> fst ` set statuses" "owns v n l"
      using inv u3 unfolding backend_inv_def using observe_seen[of statuses m1] m by metis
    then show False using u1 u2 owns_inj by blast
  qed
  have "owns u backend_status [u, x] \<or> \<not> (\<exists>v. owns v backend_status [u, x])" "owns u backend_activation [u]"
    using backend_names_differ(1) by (auto simp: owns_def)
  then have "sr_gauge (bm_series m) backend_status [u, x] = None" "sr_gauge (bm_series m) backend_activation [u] = None"
    if "u \<notin> fst ` set statuses" using none[OF that] by blast+
  moreover have "sr_gauge (bm_series m) backend_activation [u] = Some 1" if cur_u: "u \<in> fst ` set statuses"
  proof -
    obtain st' where "(u, st') \<in> set statuses" using cur_u by auto
    then show ?thesis using cur[of "(u, st')" backend_activation "[u]"] by (simp add: owns_def shown_def)
  qed
  moreover have "(\<Sum>y\<leftarrow>backendStatusLabels. the (sr_gauge (bm_series m) (fq_name [] ''backends'') [y])) = int (length statuses)"
    using observe_totals(1)[of _ statuses m1] count_labels[of statuses] by (simp add: m backendStatusLabels_def)
  ultimately show ?thesis using observe_totals(2)[of statuses m1] by (simp add: m)
qed

section \<open>HTTP requests\<close>

lemma http_names_differ:
  "fq_name ''http'' ''requests_total'' \<noteq> fq_name ''http'' ''requests_in_flight''"
  by code_simp

lemma statusWriter_done: "sw_wroteHeader w \<Longrightarrow> fold statusWriter_call calls w = w"
proof (induction calls arbitrary: w)
  case (Cons c cs)
  then have "statusWriter_call c w = w" by (simp add: statusWriter_call_def split: writer_call.split)
  then show ?case using Cons by simp
qed simp

text \<open>The status a client sees: the one of the first header call, 200 if a body is written before any.\<close>

definition response_status :: "writer_call list \<Rightarrow> nat" where
  "response_status calls = (case calls of CallWriteHeader code # _ \<Rightarrow> code | _ \<Rightarrow> 200)"

lemma statusWriter_status:
  "sw_status (fold statusWriter_call calls \<lparr> sw_status = 200, sw_wroteHeader = False \<rparr>) = response_status calls"
  by (cases calls) (auto simp: statusWriter_call_def response_status_def statusWriter_done split: writer_call.split)

text \<open>
  The middleware counts each request once, under the listener, the method, the pattern of the route and the
  status the client saw, and leaves the number of requests in flight as it was, also when the handler
  panics; a handler that panics is not counted.
\<close>
theorem Middleware_counts:
  assumes "\<forall>s. sr_gauge (inner s) (fq_name ''http'' ''requests_in_flight'') = sr_gauge s (fq_name ''http'' ''requests_in_flight'')"
    and "\<forall>s. sr_count (inner s) (fq_name ''http'' ''requests_total'') = sr_count s (fq_name ''http'' ''requests_total'')"
    and "s' = Middleware listener method matched calls panicked inner s"
  shows "gauge_value (fq_name ''http'' ''requests_in_flight'') [listener] s' = gauge_value (fq_name ''http'' ''requests_in_flight'') [listener] s
    \<and> (\<forall>labels. sr_count s' (fq_name ''http'' ''requests_total'') labels = sr_count s (fq_name ''http'' ''requests_total'') labels +
         (if \<not> panicked \<and> labels = [listener, method, routePattern matched, dec_nat (response_status calls)] then 1 else 0))"
  using assms(1,2) http_names_differ unfolding assms(3) Middleware_def Let_def statusWriter_status
  by (auto simp: add_gauge_def gauge_value_def split: option.split)

section \<open>Proxied requests\<close>

definition handled :: "px_event list \<Rightarrow> nat" where
  "handled tr = length (filter (\<lambda>e. case e of RequestHandled _ _ _ \<Rightarrow> True | _ \<Rightarrow> False) tr)"

lemma handled_simps [simp]:
  "handled [] = 0" "handled (xs @ ys) = handled xs + handled ys"
  "handled (RequestHandled b g o' # tr) = Suc (handled tr)"
  "handled (Upstream u # tr) = handled tr" "handled (Responded c w # tr) = handled tr" "handled (Body x # tr) = handled tr"
  "handled (CacheWritten q b # tr) = handled tr" "handled (HistoryInserted q b usr src # tr) = handled tr"
  by (simp_all add: handled_def)

lemma handled_record [simp]:
  "px_metrics cfg \<Longrightarrow> handled (recordX cfg (RequestHandled b g o')) = 1"
  "handled (recordX cfg (UpstreamDuration b)) = 0" "handled (recordX cfg OversizedResponse) = 0"
  "handled (recordX cfg StatementCacheWrite) = 0"
  by (simp_all add: recordX_def handled_def)

lemma handled_pieces:
  "handled (http_Error rw m c) = 0"
  "px_metrics cfg \<Longrightarrow> handled (fail_with cfg b g m c) = 1"
  "px_metrics cfg \<Longrightarrow> handled (respond ops cfg now r res resp body) = 1"
  "handled (fst (remember_query ops cfg r u buf w)) = 0"
  by (auto simp: http_Error_def fail_with_def respond_def remember_query_def Let_def case_prod_unfold split: option.split)

lemma handled_answer: "px_metrics cfg \<Longrightarrow> handled (fst (statement_answer ops cfg now r res resp w)) = 1"
  by (simp add: statement_answer_def Let_def case_prod_unfold handled_pieces split: option.split)

text \<open>
  Every proxied request is counted in \<^verbatim>\<open>proxy_requests_total\<close> exactly once, under the outcome it had, on every
  path of both handlers; the exceptions are a statement whose body cannot be read and a backend URL
  that does not parse, which are not counted at all.
\<close>
theorem proxied_counted_once:
  assumes "px_metrics cfg"
  shows "handled (fst (handleStatement ops cfg now r w)) = (if isl (rq_body r) \<or> Panicked \<in> set (fst (handleStatement ops cfg now r w)) then 0 else 1)
    \<and> handled (fst (handleStream ops cfg now r w)) = (if Panicked \<in> set (fst (handleStream ops cfg now r w)) then 0 else 1)"
proof -
  have p: "Panicked \<notin> set (http_Error wr m c)" "Panicked \<notin> set (fail_with cfg b g m c)" "Panicked \<notin> set (respond ops cfg now r res resp body)"
    "Panicked \<notin> set (fst (remember_query ops cfg r u buf w'))" "e \<noteq> Panicked \<Longrightarrow> Panicked \<notin> set (recordX cfg e)"
    for wr m c b g res resp body u buf w' e
    by (auto simp: http_Error_def fail_with_def respond_def remember_query_def recordX_def Let_def case_prod_unfold split: option.split)
  have a: "Panicked \<notin> set (fst (statement_answer ops cfg now r res resp w'))" for res resp w'
    by (simp add: statement_answer_def Let_def case_prod_unfold p split: option.split)
  have h: "handled [Panicked] = 0" by (simp add: handled_def)
  have "handled (fst (handleStatement ops cfg now r w)) = (if isl (rq_body r) \<or> Panicked \<in> set (fst (handleStatement ops cfg now r w)) then 0 else 1)"
    using assms by (cases "rq_body r") (simp_all add: handleStatement_def Let_def case_prod_unfold handled_pieces handled_answer p a h split: sum.split)
  moreover have "handled (fst (handleStream ops cfg now r w)) = (if Panicked \<in> set (fst (handleStream ops cfg now r w)) then 0 else 1)"
    using assms by (simp add: handleStream_def Let_def case_prod_unfold handled_pieces p h split: sum.split)
  ultimately show ?thesis by simp
qed

section \<open>Witnesses\<close>

theorem registration_succeeds_witness:
  "register_gateway [''go_goroutines'', ''process_open_fds''] = Inr (rev (map fa_Name all_families) @ [''go_goroutines'', ''process_open_fds''])"
  using registration_succeeds[of "[''go_goroutines'', ''process_open_fds'']"] by (simp add: Namespace_def)

definition demo_gauges :: BackendMetrics where
  "demo_gauges = fold ObserveStatuses ([[(''http://a'', StatusHealthy), (''http://b'', StatusPending)]] @ [[(''http://a'', StatusUnhealthy)]])
     \<lparr> bm_series = \<lparr> sr_count = (\<lambda>_ _. 0), sr_gauge = (\<lambda>_ _. None), sr_obs = (\<lambda>_ _. 0) \<rparr>, bm_seen = [] \<rparr>"

theorem gauges_follow_snapshot_witness:
  "sr_gauge (bm_series demo_gauges) backend_status [''http://a'', ''unhealthy''] = Some 1
   \<and> sr_gauge (bm_series demo_gauges) backend_status [''http://b'', ''pending''] = None"
proof -
  have d: "list_all (\<lambda>snap. distinct (map fst snap)) ([[(''http://a'', StatusHealthy), (''http://b'', StatusPending)]] @ [[(''http://a'', StatusUnhealthy)]])"
    by simp
  show ?thesis
    using gauges_follow_snapshot[OF d demo_gauges_def, of "''http://a''" StatusUnhealthy "''unhealthy''"]
      gauges_follow_snapshot[OF d demo_gauges_def, of "''http://b''" StatusPending "''pending''"]
    by (simp add: backendStatusLabels_def statusLabel_def)
qed

theorem Middleware_counts_witness:
  "sr_count (Middleware ''proxy'' ''GET'' (Some ''/v1/info'') [CallWrite, CallWriteHeader 500] False (\<lambda>s. s)
       \<lparr> sr_count = (\<lambda>_ _. 0), sr_gauge = (\<lambda>_ _. None), sr_obs = (\<lambda>_ _. 0) \<rparr>)
     (fq_name ''http'' ''requests_total'') [''proxy'', ''GET'', ''/v1/info'', dec_nat 200] = 1"
  using Middleware_counts[of "\<lambda>s. s", OF _ _ refl, of "''proxy''" "''GET''" "Some ''/v1/info''" "[CallWrite, CallWriteHeader 500]" False
      "\<lparr> sr_count = (\<lambda>_ _. 0), sr_gauge = (\<lambda>_ _. None), sr_obs = (\<lambda>_ _. 0) \<rparr>"]
  by (simp add: routePattern_def response_status_def)

theorem proxied_counted_once_witness:
  "handled (fst (handleStatement demo_proxy_ops (demo_proxy_cfg 10) 0 (demo_http_req ''/v1/statement'' []) [])) = 1"
proof -
  have "Panicked \<notin> set (fst (handleStatement demo_proxy_ops (demo_proxy_cfg 10) 0 (demo_http_req ''/v1/statement'' []) []))"
    by (simp add: handleStatement_def demo_proxy_defs demo_http_req_def statement_answer_def Let_def recordX_def
        fail_with_def http_Error_def read_limited_def remember_query_def respond_def applyCookies_def case_prod_unfold split: option.split)
  moreover have "px_metrics (demo_proxy_cfg 10)" "\<not> isl (rq_body (demo_http_req ''/v1/statement'' []))"
    by (simp_all add: demo_proxy_cfg_def demo_http_req_def)
  ultimately show ?thesis
    using proxied_counted_once[of "demo_proxy_cfg 10" demo_proxy_ops 0 "demo_http_req ''/v1/statement'' []" "[]"] by simp
qed

end
