(* ===== verification/Spec2Isabelle.thy ===== *)
theory Spec2Isabelle
  imports Singleflight Monitor Service_Main Migrate Gateway Diff_Harness Metrics
begin

text \<open>
  Verification of \<open>trino-goway\<close>: a gateway in front of a fleet of Trino clusters, and the routing service
  that may choose the cluster for it.  All paths below are relative to the root of the repository.

  \<^bold>\<open>The program.\<close>  A client sends \<^verbatim>\<open>POST /v1/statement\<close> and follow-up requests to the gateway.  The proxy
  (\<^verbatim>\<open>internal/proxy\<close>) authenticates the request (\<^verbatim>\<open>internal/auth\<close>), asks the router (\<^verbatim>\<open>internal/routing\<close>) for
  a backend, forwards, and, for a new statement, reads the query id out of the answer and stores the
  owner of the query in the cache and in the history table (\<^verbatim>\<open>internal/persistence\<close>) before it answers.
  The router looks the owner of an existing query up in the cache; for a new query it asks an external
  service over HTTP or gRPC for a routing group and takes an active backend of that group; when all of
  this yields nothing, a recovery chain tries the history, the backends themselves and the first active
  backend, at most one chain per query at a time.  A monitor (\<^verbatim>\<open>internal/monitor\<close>) probes the
  backends with a collector of \<^verbatim>\<open>internal/clusterstats\<close>.  The management API (\<^verbatim>\<open>internal/admin\<close>) edits the
  backends, shows the history and reports readiness.  \<^verbatim>\<open>cmd/trino-goway/main.go\<close> reads the configuration,
  migrates the database, wires the parts and runs two servers (\<^verbatim>\<open>internal/lifecycle\<close>).  The routing
  service (\<^verbatim>\<open>routing-service\<close>) analyses the SQL text, runs a pipeline of rules over the request, and can
  switch rules off and reload its file while it serves.

  \<^bold>\<open>Conventions.\<close>  A struct is a \<^verbatim>\<open>record\<close>, an enumeration a \<^verbatim>\<open>datatype\<close>, a Go string a list of bytes.  An
  error is the left value of \<^verbatim>\<open>'a result\<close>, and an early return is a branch of \<^const>\<open>Result_bind\<close> or of a
  case distinction.  Code outside the repository (the LRU library, HTTP, gRPC and LDAP peers, JSON and
  YAML decoding, HMAC, compilers of rules, regular expressions) is an argument of the definitions that
  call it: a field of a record of operations on a state of the world, which each call may change.  What
  a theorem needs of such code is a hypothesis of the theorem, and its witness instantiates it.
  Handlers that write a response yield the list of their observable actions in order.  Code that runs
  concurrently and shares state is a step relation over all interleavings of its atomic actions.

  \<^bold>\<open>The theories, bottom up.\<close>

  \<^item> \<open>Goway_Prelude\<close>: results, header maps, the functions of \<^verbatim>\<open>strings\<close>, \<^verbatim>\<open>strconv\<close> and \<^verbatim>\<open>path\<close> the code uses,
    association lists, words, and the collections of simplification rules.
  \<^item> \<open>Base64\<close>: base64, hex and duration text, byte for byte, with their round trips and injectivity.
  \<^item> \<open>Selectors\<close>: the request a router sees and the two transports (\<^verbatim>\<open>external_http.go\<close>, \<^verbatim>\<open>external_grpc.go\<close>).
  \<^item> \<open>Routing\<close>: \<^verbatim>\<open>cache.go\<close>, \<^verbatim>\<open>recovery.go\<close> and \<^verbatim>\<open>router.go\<close>, \<^verbatim>\<open>Route\<close> with its whole decision sequence.  The
    locale \<open>query_cache\<close> is the contract of the cache; it is interpreted on a list LRU.  Shown: stickiness
    after a write, where a selected URL can come from, availability.
  \<^item> \<open>Singleflight\<close>: the function \<^verbatim>\<open>do\<close> of \<^verbatim>\<open>recovery.go\<close> as a step relation of any list of callers.  Shown: one
    leader per key, and that every schedule ends with all callers returned.
  \<^item> \<open>Cookie\<close>: \<^verbatim>\<open>cookie.go\<close>.  Shown: a signed cookie round-trips, and no altered field is accepted under an
    old signature.
  \<^item> \<open>Proxy\<close>: \<^verbatim>\<open>headers.go\<close>, \<^verbatim>\<open>forward.go\<close> and the handlers of \<^verbatim>\<open>proxy.go\<close> as traces.  Shown: the header rewriting,
    transparency of the response, and the order of cache, history and response.
  \<^item> \<open>Persistence\<close>: \<^verbatim>\<open>backend.go\<close>, \<^verbatim>\<open>history.go\<close> and the adapters of \<^verbatim>\<open>main.go\<close>; a table is the list of its rows
    and each SQL statement a function on it.  Shown: unique keys, filtering and paging for both drivers.
  \<^item> \<open>Db_Migrate\<close>: \<^verbatim>\<open>db.go\<close>; replicas that boot together contend for the migration lock and may die at any
    step.  Shown: mutual exclusion, each migration once and in order, and progress.
  \<^item> \<open>Cluster_Stats\<close>: the collectors, their retry loop and the store.  Shown: the exact condition under which a
    collector reports a backend healthy.
  \<^item> \<open>Monitor\<close>: \<^verbatim>\<open>monitor.go\<close>; the probes of one cycle finish in any order.  Shown: a cycle replaces the
    statuses; interference of a cycle with \<^verbatim>\<open>SetBackendStatus\<close>.
  \<^item> \<open>Sql_Meta\<close>: the SQL analyzer (\<^verbatim>\<open>sqlmeta/heuristic.go\<close>, \<^verbatim>\<open>analyzer.go\<close>).  Shown: totality and the shape of its
    results.
  \<^item> \<open>Engine\<close>: pipeline, methods, hash and input (\<^verbatim>\<open>engine\<close>).  Shown: the three evaluation loops agree; the
    compare-and-swap updates linearize and end.
  \<^item> \<open>Providers\<close>: registry and the two rule providers.  Shown: configuration text is read back as written.
  \<^item> \<open>Service\<close>: configuration, hot reload, handlers, metrics and log records of the routing service.  The
    locale \<open>kill_switch\<close> is the contract of the admin handlers with the pipeline.
  \<^item> \<open>Service_Main\<close>: \<^verbatim>\<open>cmd/routing-service/main.go\<close>, set-up and stop of its servers, and the validator
    (\<^verbatim>\<open>internal/validate\<close>).  Shown: what the running service reports is the configuration it serves; what the
    validator predicts, and what it cannot see.
  \<^item> \<open>Auth\<close>: the three middlewares, roles, permissions and the web login of \<^verbatim>\<open>internal/auth\<close>.
  \<^item> \<open>Admin\<close>: the route table with its guards and every handler of \<^verbatim>\<open>internal/admin\<close>.  Shown: writes need a
    role, the history is scoped to the user, the login attempt is bound to its cookie.
  \<^item> \<open>Gateway_Config\<close>, \<open>Lifecycle\<close>: \<^verbatim>\<open>internal/config/config.go\<close> and \<^verbatim>\<open>internal/lifecycle/server.go\<close>.
  \<^item> \<open>Gateway\<close>: the wiring of \<^verbatim>\<open>main.go\<close>, start-up, the mux of the proxy, and a deployment as a step relation
    with requests, management calls, monitor ticks, restarts, other replicas and changing peers.  The locales
    \<open>router_calls\<close> and \<open>proxy_calls\<close> say which calls a part may make and so which facts it keeps; they are
    interpreted on the wiring.  Shown: properties of the whole process, such as that a poll reaches
    the backend that answered the submission, that proxied requests are authenticated, that a killed query is
    found after restarts, and that the routing service's decision is the one carried out.
  \<^item> \<open>Migrate\<close>: the converter of Java configurations (\<^verbatim>\<open>cmd/goway-migrate-config\<close>).
  \<^item> \<open>Diff_Harness\<close>: normalisation, comparison, recording and replay (\<^verbatim>\<open>internal/diffharness\<close>).
  \<^item> \<open>Metrics\<close>: families, registration, recorders and the middleware of \<^verbatim>\<open>internal/metrics\<close>.

  \<^bold>\<open>Bounds and termination.\<close>  No definition uses fuel.  Recursion that is not structural has a measure: the
  rest of the input for the scanners and text functions, the path or document for JSON paths.  The
  compare-and-swap loops and the single-flight group are step relations over any finite number of callers
  and any schedule; that they end is proved with a rank that every step lowers (for the updates this gives
  at most \<^verbatim>\<open>3 * (n + 1) ^ 2\<close> steps).  A retry or repeat loop recurses on the number of attempts the
  configuration allows.  Loops that serve until an event (the file watcher, the servers, the monitor) run
  over a list of events of any length; the polling of a shutdown runs over the list of looks that fit
  into its time limit.  Witnesses use caches and limits of a few entries, since the lemmas hold for all sizes.

  \<^bold>\<open>Idealisations.\<close>  Time enters as a value the caller reads.  Numbers that the code never lets near the
  limits of 64 bits are \<open>int\<close> or \<open>nat\<close>; the hash of the pipeline is a 64-bit word, and the wrap-around or
  saturation of limits, offsets and time differences is written out.  Floats are values of a type parameter.  The text of log lines and of error messages is kept
  only where it reaches a client.  Case mapping is that of ASCII.

  \<^bold>\<open>Not modelled.\<close>  The generated protocol code (its messages are records here); \<^verbatim>\<open>internal/testutil\<close> and the
  mock routers, which stand in for other systems in tests; the end-to-end harness and \<^verbatim>\<open>bootstrap.go\<close>,
  which start containers; the tracing set-up, on which no decision depends; the collectors of the Go
  runtime in \<^verbatim>\<open>metrics/runtime.go\<close>; the web application, which only renders answers of the management API;
  the interactive rule testers, wrappers around the providers; command-line flags, log set-up and the
  layout of printed tables.
\<close>

end
